(* ===== verification/Prelude.thy ===== *)
theory Prelude
  imports Main "HOL-Library.Word"
begin

text \<open>
  The vocabulary shared by every component: results with an error side, Rust's checked integer
  operations at their widths, ordered maps, and a locale for fallible state machines.

  \<^item> An unsigned Rust integer (\<open>u64\<close>, \<open>u128\<close>, \<open>usize\<close>, \<open>U256\<close>) is a \<open>nat\<close> and a signed one
    (\<open>I256\<close>) an \<open>int\<close>. The crate denies \<open>clippy::arithmetic_side_effects\<close>, so every sum,
    difference, product and quotient of the source is a \<open>checked_\<close> or \<open>saturating_\<close> call; the
    bound of the type appears in the model where the call tests it. A theorem over all naturals
    covers all values of the Rust type.
  \<^item> Identifiers (addresses, hashes) are words of their width: only equality, order and their
    bytes matter.
  \<^item> \<open>Result<T, E>\<close> is \<open>'e + 'a\<close> with \<open>Inl\<close> for the error; \<open>m?\<close> is \<open>try_let m\<close>.
  \<^item> \<open>BTreeMap\<close> is an association list strictly sorted by key, so that iteration visits keys in
    the order of the source.
\<close>

named_theorems result_simps "success of a fallible computation, as equations"
named_theorems arith_simps "success of a checked integer operation, as arithmetic"

subsection \<open>Results\<close>

definition try_let :: "'e + 'a \<Rightarrow> ('a \<Rightarrow> 'e + 'b) \<Rightarrow> 'e + 'b" where
  "try_let m f = (case m of Inl e \<Rightarrow> Inl e | Inr x \<Rightarrow> f x)"

definition ok_or :: "'a option \<Rightarrow> 'e \<Rightarrow> 'e + 'a" where
  "ok_or v e = (case v of None \<Rightarrow> Inl e | Some x \<Rightarrow> Inr x)"

definition map_err :: "('e \<Rightarrow> 'f) \<Rightarrow> 'e + 'a \<Rightarrow> 'f + 'a" where
  "map_err g m = (case m of Inl e \<Rightarrow> Inl (g e) | Inr x \<Rightarrow> Inr x)"

definition to_option :: "'e + 'a \<Rightarrow> 'a option" where
  "to_option m = (case m of Inl _ \<Rightarrow> None | Inr x \<Rightarrow> Some x)"

definition is_ok :: "'e + 'a \<Rightarrow> bool" where
  "is_ok m = (case m of Inl _ \<Rightarrow> False | Inr _ \<Rightarrow> True)"

primrec try_fold :: "('s \<Rightarrow> 'a \<Rightarrow> 'e + 's) \<Rightarrow> 's \<Rightarrow> 'a list \<Rightarrow> 'e + 's" where
  "try_fold f s [] = Inr s"
| "try_fold f s (x # xs) = try_let (f s x) (\<lambda>s'. try_fold f s' xs)"

primrec collect_options :: "'a option list \<Rightarrow> 'a list option" where
  "collect_options [] = Some []"
| "collect_options (v # vs) = Option.bind v (\<lambda>x. map_option ((#) x) (collect_options vs))"

lemma try_let_simps [simp]:
  "try_let (Inl e) f = Inl e" "try_let (Inr x) f = f x"
  by (simp_all add: try_let_def)

lemma ok_or_simps [simp]:
  "ok_or None e = Inl e" "ok_or (Some x) e = Inr x"
  by (simp_all add: ok_or_def)

lemma map_err_simps [simp]:
  "map_err g (Inl e) = Inl (g e)" "map_err g (Inr x) = Inr x"
  by (simp_all add: map_err_def)

lemma to_option_simps [simp]:
  "to_option (Inl e) = None" "to_option (Inr x) = Some x"
  by (simp_all add: to_option_def)

lemma is_ok_simps [simp]:
  "\<not> is_ok (Inl e)" "is_ok (Inr x)"
  by (simp_all add: is_ok_def)

lemma is_ok_iff: "is_ok m \<longleftrightarrow> (\<exists>x. m = Inr x)"
  by (cases m) auto

lemma try_let_cong [fundef_cong]:
  "m = n \<Longrightarrow> (\<And>x. n = Inr x \<Longrightarrow> f x = g x) \<Longrightarrow> try_let m f = try_let n g"
  by (cases n) auto

text \<open>The simplifier evaluates a bound computation before it looks at the continuation.\<close>

lemma try_let_weak_cong [cong]: "m = n \<Longrightarrow> try_let m f = try_let n f"
  by simp

lemma try_let_eq_Inr [result_simps]:
  "try_let m f = Inr y \<longleftrightarrow> (\<exists>x. m = Inr x \<and> f x = Inr y)"
  by (cases m) auto

lemma try_let_eq_Inl:
  "try_let m f = Inl e \<longleftrightarrow> m = Inl e \<or> (\<exists>x. m = Inr x \<and> f x = Inl e)"
  by (cases m) auto

lemma ok_or_eq_Inr [result_simps]: "ok_or v e = Inr x \<longleftrightarrow> v = Some x"
  by (cases v) auto

lemma ok_or_eq_Inl: "ok_or v e = Inl d \<longleftrightarrow> v = None \<and> d = e"
  by (cases v) auto

lemma map_err_eq_Inr [result_simps]: "map_err g m = Inr x \<longleftrightarrow> m = Inr x"
  by (cases m) auto

lemma to_option_eq_Some [result_simps]: "to_option m = Some x \<longleftrightarrow> m = Inr x"
  by (cases m) auto

lemma if_Inl_eq_Inr [result_simps]:
  "((if b then Inl e else m) = Inr x) \<longleftrightarrow> \<not> b \<and> m = Inr x"
  by simp

lemma try_fold_append:
  "try_fold f s (xs @ ys) = try_let (try_fold f s xs) (\<lambda>s'. try_fold f s' ys)"
  by (induction xs arbitrary: s) (auto simp: try_let_def split: sum.splits)

text \<open>What one step of a fold keeps, the whole fold keeps.\<close>

lemma try_fold_invariant:
  assumes "try_fold f s xs = Inr t" and "P s"
    and "\<And>s x s'. x \<in> set xs \<Longrightarrow> P s \<Longrightarrow> f s x = Inr s' \<Longrightarrow> P s'"
  shows "P t"
  using assms by (induction xs arbitrary: s) (auto simp: result_simps)

lemma try_fold_prefix_induct [consumes 1, case_names Nil snoc]:
  assumes "try_fold f s xs = Inr t" and "P [] s"
    and "\<And>ys y u v. P ys u \<Longrightarrow> f u y = Inr v \<Longrightarrow> P (ys @ [y]) v"
  shows "P xs t"
  using assms(1)
proof (induction xs arbitrary: t rule: rev_induct)
  case (snoc x xs)
  then obtain u where "try_fold f s xs = Inr u" "f u x = Inr t"
    by (auto simp: try_fold_append result_simps)
  then show ?case using snoc.IH assms(3) by blast
qed (use assms(2) in simp)

lemma try_fold_measure:
  fixes g :: "'s \<Rightarrow> 'n::comm_monoid_add"
  assumes "try_fold f s xs = Inr t"
    and "\<And>s x s'. x \<in> set xs \<Longrightarrow> f s x = Inr s' \<Longrightarrow> g s' = g s + h x"
  shows "g t = g s + sum_list (map h xs)"
  using assms
proof (induction xs arbitrary: s)
  case (Cons x xs)
  from Cons.prems(1) obtain s' where s': "f s x = Inr s'" "try_fold f s' xs = Inr t"
    by (auto simp: result_simps)
  have "g t = g s' + sum_list (map h xs)"
    by (rule Cons.IH [OF s'(2)]) (use Cons.prems(2) in auto)
  also have "g s' = g s + h x"
    by (rule Cons.prems(2) [OF _ s'(1)]) simp
  finally show ?case by (simp add: add.assoc)
qed simp

lemma collect_options_eq_Some:
  "collect_options vs = Some xs \<longleftrightarrow> vs = map Some xs"
  by (induction vs arbitrary: xs) (auto simp: bind_eq_Some_conv)

subsection \<open>Machines whose commands may fail\<close>

text \<open>
  A single-writer owner applies a command to a copy of its state and keeps the copy only when the
  command succeeds; a rejected command leaves the state as it was.
\<close>

definition commit_step :: "('s \<Rightarrow> 'c \<Rightarrow> 'e + 's) \<Rightarrow> 's \<Rightarrow> 'c \<Rightarrow> 's" where
  "commit_step step s c = (case step s c of Inl _ \<Rightarrow> s | Inr s' \<Rightarrow> s')"

definition commit_run :: "('s \<Rightarrow> 'c \<Rightarrow> 'e + 's) \<Rightarrow> 's \<Rightarrow> 'c list \<Rightarrow> 's" where
  "commit_run step s cs = foldl (commit_step step) s cs"

lemma commit_run_simps [simp]:
  "commit_run step s [] = s"
  "commit_run step s (c # cs) = commit_run step (commit_step step s c) cs"
  by (simp_all add: commit_run_def)

text \<open>
  The contract of such a machine is an invariant that every accepted admissible command keeps. Both
  ways of running it, stopping at the first error and carrying on after it, then keep the invariant.
\<close>

locale fallible_machine =
  fixes step :: "'s \<Rightarrow> 'c \<Rightarrow> 'e + 's"
    and admissible :: "'c \<Rightarrow> bool"
    and inv :: "'s \<Rightarrow> bool"
  assumes step_inv: "inv s \<Longrightarrow> admissible c \<Longrightarrow> step s c = Inr s' \<Longrightarrow> inv s'"
begin

lemma fold_inv: "inv s \<Longrightarrow> list_all admissible cs \<Longrightarrow> try_fold step s cs = Inr t \<Longrightarrow> inv t"
  by (rule try_fold_invariant [of step s cs t inv]) (auto intro: step_inv simp: list_all_iff)

lemma commit_step_inv: "inv s \<Longrightarrow> admissible c \<Longrightarrow> inv (commit_step step s c)"
  by (auto simp: commit_step_def intro: step_inv split: sum.splits)

lemma commit_run_inv: "inv s \<Longrightarrow> list_all admissible cs \<Longrightarrow> inv (commit_run step s cs)"
  by (induction cs arbitrary: s) (auto intro: commit_step_inv)

end

text \<open>
  Refinement of such a machine: seen through an abstraction, it accepts exactly the commands the
  specification accepts, with the specification's effect. Runs then agree as well.
\<close>

definition spec_run :: "('a \<Rightarrow> 'c \<Rightarrow> 'a option) \<Rightarrow> 'a \<Rightarrow> 'c list \<Rightarrow> 'a" where
  "spec_run spec = foldl (\<lambda>a c. case spec a c of None \<Rightarrow> a | Some b \<Rightarrow> b)"

locale machine_refinement = fallible_machine step admissible inv
  for step :: "'s \<Rightarrow> 'c \<Rightarrow> 'e + 's" and admissible :: "'c \<Rightarrow> bool" and inv :: "'s \<Rightarrow> bool" +
  fixes view :: "'s \<Rightarrow> 'a"
    and spec :: "'a \<Rightarrow> 'c \<Rightarrow> 'a option"
  assumes simulates:
    "inv s \<Longrightarrow> admissible c \<Longrightarrow> map_option view (to_option (step s c)) = spec (view s) c"
begin

lemma commit_step_simulates:
  assumes "inv s" "admissible c"
  shows "view (commit_step step s c) = (case spec (view s) c of None \<Rightarrow> view s | Some b \<Rightarrow> b)"
  using simulates [OF assms] by (cases "step s c") (auto simp: commit_step_def split: option.splits)

lemma run_simulates:
  "inv s \<Longrightarrow> list_all admissible cs \<Longrightarrow> view (commit_run step s cs) = spec_run spec (view s) cs"
  by (induction cs arbitrary: s)
    (simp_all add: spec_run_def commit_step_simulates [symmetric] commit_step_inv)

end

subsection \<open>Unsigned integers\<close>

type_synonym u64 = nat
type_synonym u128 = nat
type_synonym u256 = nat
type_synonym i256 = int

definition two64 :: nat where "two64 = 2 ^ 64"
definition two128 :: nat where "two128 = 2 ^ 128"
definition two256 :: nat where "two256 = 2 ^ 256"

lemmas two_powers = two64_def two128_def two256_def

definition checked_add_bound :: "nat \<Rightarrow> nat \<Rightarrow> nat \<Rightarrow> nat option" where
  "checked_add_bound b x y = (if x + y < b then Some (x + y) else None)"

definition saturating_add_bound :: "nat \<Rightarrow> nat \<Rightarrow> nat \<Rightarrow> nat" where
  "saturating_add_bound b x y = (if x + y < b then x + y else b - 1)"

definition checked_sub :: "nat \<Rightarrow> nat \<Rightarrow> nat option" where
  "checked_sub x y = (if y \<le> x then Some (x - y) else None)"

definition saturating_sub :: "nat \<Rightarrow> nat \<Rightarrow> nat" where
  "saturating_sub x y = (if y \<le> x then x - y else 0)"

definition checked_mul :: "u256 \<Rightarrow> u256 \<Rightarrow> u256 option" where
  "checked_mul x y = (if x * y < two256 then Some (x * y) else None)"

definition checked_div :: "nat \<Rightarrow> nat \<Rightarrow> nat option" where
  "checked_div x y = (if y = 0 then None else Some (x div y))"

abbreviation checked_add :: "u256 \<Rightarrow> u256 \<Rightarrow> u256 option" where
  "checked_add \<equiv> checked_add_bound two256"

abbreviation checked_add64 :: "u64 \<Rightarrow> u64 \<Rightarrow> u64 option" where
  "checked_add64 \<equiv> checked_add_bound two64"

abbreviation saturating_add64 :: "u64 \<Rightarrow> u64 \<Rightarrow> u64" where
  "saturating_add64 \<equiv> saturating_add_bound two64"

lemma checked_add_bound_eq_Some [arith_simps]:
  "checked_add_bound b x y = Some z \<longleftrightarrow> z = x + y \<and> x + y < b"
  by (auto simp: checked_add_bound_def)

lemma checked_add_bound_eq_None [arith_simps]:
  "checked_add_bound b x y = None \<longleftrightarrow> b \<le> x + y"
  by (auto simp: checked_add_bound_def)

lemma checked_sub_eq_Some [arith_simps]:
  "checked_sub x y = Some z \<longleftrightarrow> y \<le> x \<and> z = x - y"
  by (auto simp: checked_sub_def)

lemma checked_sub_eq_None [arith_simps]: "checked_sub x y = None \<longleftrightarrow> x < y"
  by (auto simp: checked_sub_def)

lemma checked_mul_eq_Some [arith_simps]:
  "checked_mul x y = Some z \<longleftrightarrow> z = x * y \<and> x * y < two256"
  by (auto simp: checked_mul_def)

lemma checked_mul_eq_None [arith_simps]: "checked_mul x y = None \<longleftrightarrow> two256 \<le> x * y"
  by (auto simp: checked_mul_def)

lemma checked_div_eq_Some [arith_simps]:
  "checked_div x y = Some z \<longleftrightarrow> 0 < y \<and> z = x div y"
  by (auto simp: checked_div_def)

lemma checked_div_eq_None [arith_simps]: "checked_div x y = None \<longleftrightarrow> y = 0"
  by (auto simp: checked_div_def)

lemmas checked_ops =
  checked_add_bound_eq_Some checked_sub_eq_Some checked_mul_eq_Some checked_div_eq_Some

lemma saturating_sub_eq [simp]: "saturating_sub x y = x - y"
  by (simp add: saturating_sub_def)

lemma saturating_add_bound_le: "0 < b \<Longrightarrow> saturating_add_bound b x y < b"
  by (auto simp: saturating_add_bound_def)

lemma two64_pos [simp]: "0 < two64" and two128_pos [simp]: "0 < two128"
  and two256_pos [simp]: "0 < two256"
  by (simp_all add: two_powers)

lemma two128_less_two256 [simp]: "two128 < two256"
  by (simp add: two_powers)

lemmas evaluate_arith =
  checked_add_bound_def saturating_add_bound_def checked_sub_def checked_mul_def checked_div_def
  two_powers

subsection \<open>Signed integers\<close>

definition i256_range :: "int \<Rightarrow> bool" where
  "i256_range x \<longleftrightarrow> - (2 ^ 255) \<le> x \<and> x < 2 ^ 255"

definition checked_i256 :: "int \<Rightarrow> i256 option" where
  "checked_i256 x = (if i256_range x then Some x else None)"

text \<open>\<open>I256\<close> division truncates towards zero; \<open>I256::MIN / -1\<close> overflows.\<close>

definition quot_to_zero :: "int \<Rightarrow> int \<Rightarrow> int" where
  "quot_to_zero x y = sgn x * sgn y * (\<bar>x\<bar> div \<bar>y\<bar>)"

definition checked_sadd :: "i256 \<Rightarrow> i256 \<Rightarrow> i256 option" where
  "checked_sadd x y = checked_i256 (x + y)"

definition checked_ssub :: "i256 \<Rightarrow> i256 \<Rightarrow> i256 option" where
  "checked_ssub x y = checked_i256 (x - y)"

definition checked_smul :: "i256 \<Rightarrow> i256 \<Rightarrow> i256 option" where
  "checked_smul x y = checked_i256 (x * y)"

definition checked_sdiv :: "i256 \<Rightarrow> i256 \<Rightarrow> i256 option" where
  "checked_sdiv x y = (if y = 0 then None else checked_i256 (quot_to_zero x y))"

definition checked_sneg :: "i256 \<Rightarrow> i256 option" where
  "checked_sneg x = checked_i256 (- x)"

text \<open>\<open>I256::try_from(U256)\<close> and \<open>U256::try_from(I256)\<close>.\<close>

definition i256_of_u256 :: "u256 \<Rightarrow> i256 option" where
  "i256_of_u256 x = checked_i256 (int x)"

definition u256_of_i256 :: "i256 \<Rightarrow> u256 option" where
  "u256_of_i256 x = (if 0 \<le> x then Some (nat x) else None)"

lemma checked_i256_eq_Some [arith_simps]:
  "checked_i256 x = Some y \<longleftrightarrow> y = x \<and> i256_range x"
  by (auto simp: checked_i256_def)

lemma checked_i256_eq_None [arith_simps]: "checked_i256 x = None \<longleftrightarrow> \<not> i256_range x"
  by (auto simp: checked_i256_def)

lemma i256_of_u256_eq_Some [arith_simps]:
  "i256_of_u256 x = Some y \<longleftrightarrow> y = int x \<and> x < 2 ^ 255"
proof -
  have "int x < 2 ^ 255 \<longleftrightarrow> x < 2 ^ 255"
    by (metis of_nat_less_iff of_nat_numeral of_nat_power)
  moreover have "- (2 ^ 255) \<le> int x"
    by (rule order_trans [of _ 0]) simp_all
  ultimately show ?thesis
    by (auto simp: i256_of_u256_def checked_i256_def i256_range_def)
qed

lemma u256_of_i256_eq_Some [arith_simps]:
  "u256_of_i256 x = Some y \<longleftrightarrow> x = int y"
  by (auto simp: u256_of_i256_def)

lemma quot_to_zero_pos: "0 \<le> x \<Longrightarrow> 0 < y \<Longrightarrow> quot_to_zero x y = x div y"
  by (auto simp: quot_to_zero_def sgn_if)

lemma quot_to_zero_neg: "x \<le> 0 \<Longrightarrow> 0 < y \<Longrightarrow> quot_to_zero x y = - ((- x) div y)"
  by (auto simp: quot_to_zero_def sgn_if)

lemmas evaluate_signed =
  checked_sadd_def checked_ssub_def checked_smul_def checked_sdiv_def checked_sneg_def
  checked_i256_def i256_range_def i256_of_u256_def u256_of_i256_def quot_to_zero_def

subsection \<open>Bytes\<close>

type_synonym bytes = "8 word list"

text \<open>\<open>to_be_bytes\<close>: the \<open>n\<close> low bytes of a value, most significant first.\<close>

definition be_bytes :: "nat \<Rightarrow> nat \<Rightarrow> bytes" where
  "be_bytes n x = map (\<lambda>i. word_of_nat (x div 256 ^ (n - 1 - i))) [0..<n]"

lemma length_be_bytes [simp]: "length (be_bytes n x) = n"
  by (simp add: be_bytes_def)

end
