(* ===== verification/OrderedMap.thy ===== *)
theory OrderedMap
  imports Prelude
begin

text \<open>
  \<open>BTreeMap\<close>: the interface the components rely on, as a locale, and its model by association
  lists strictly sorted by key. Iteration of a \<open>BTreeMap\<close> follows the key order, which the entry
  list makes explicit.
\<close>

subsection \<open>The interface\<close>

locale ordered_map =
  fixes empty :: "'m"
    and insert :: "'k::linorder \<Rightarrow> 'v \<Rightarrow> 'm \<Rightarrow> 'm"
    and lookup :: "'m \<Rightarrow> 'k \<Rightarrow> 'v option"
    and entries :: "'m \<Rightarrow> ('k \<times> 'v) list"
    and wf :: "'m \<Rightarrow> bool"
  assumes wf_empty: "wf empty"
    and entries_empty: "entries empty = []"
    and wf_insert: "wf m \<Longrightarrow> wf (insert k v m)"
    and lookup_insert: "wf m \<Longrightarrow> lookup (insert k v m) = (lookup m)(k \<mapsto> v)"
    and lookup_entries: "wf m \<Longrightarrow> lookup m = map_of (entries m)"
    and entries_sorted: "wf m \<Longrightarrow> sorted_wrt (<) (map fst (entries m))"
begin

lemma distinct_keys: "wf m \<Longrightarrow> distinct (map fst (entries m))"
  using entries_sorted [of m] by (simp add: strict_sorted_iff)

lemma set_entries: "wf m \<Longrightarrow> set (entries m) = {(k, v). lookup m k = Some v}"
  using distinct_keys [of m] by (auto simp: lookup_entries map_of_is_SomeI dest: map_of_SomeD)

lemma entries_as_sum:
  fixes g :: "'v \<Rightarrow> nat"
  assumes "wf m"
  shows "sum_list (map (g \<circ> snd) (entries m)) = (\<Sum>k \<in> dom (lookup m). g (the (lookup m k)))"
proof -
  have d: "distinct (map fst (entries m))" by (rule distinct_keys [OF assms])
  have "sum_list (map (g \<circ> snd) (entries m))
      = sum_list (map (\<lambda>k. g (the (lookup m k))) (map fst (entries m)))"
    unfolding map_map lookup_entries [OF assms]
    by (rule arg_cong [of _ _ sum_list], rule map_cong) (auto simp: map_of_is_SomeI [OF d])
  also have "\<dots> = (\<Sum>k \<in> set (map fst (entries m)). g (the (lookup m k)))"
    by (rule sum_list_distinct_conv_sum_set [OF d])
  also have "set (map fst (entries m)) = dom (lookup m)"
    by (simp add: lookup_entries [OF assms] dom_map_of_conv_image_fst)
  finally show ?thesis .
qed

text \<open>Replacing one value changes a total by the difference of that value.\<close>

lemma total_insert:
  fixes g :: "'v \<Rightarrow> nat"
  assumes "wf m"
  shows "sum_list (map (g \<circ> snd) (entries (insert k v m)))
      + (case lookup m k of None \<Rightarrow> 0 | Some u \<Rightarrow> g u)
    = sum_list (map (g \<circ> snd) (entries m)) + g v"
proof -
  let ?D = "dom (lookup m)"
  have fin: "finite ?D"
    by (simp add: lookup_entries [OF assms] finite_dom_map_of)
  have new: "sum_list (map (g \<circ> snd) (entries (insert k v m)))
      = g v + (\<Sum>j \<in> ?D - {k}. g (the (lookup m j)))"
  proof -
    have "sum_list (map (g \<circ> snd) (entries (insert k v m)))
        = (\<Sum>j \<in> Set.insert k ?D. g (the (((lookup m)(k \<mapsto> v)) j)))"
      using entries_as_sum [OF wf_insert [OF assms], of g k v] lookup_insert [OF assms] by simp
    also have "\<dots> = g v + (\<Sum>j \<in> ?D - {k}. g (the (((lookup m)(k \<mapsto> v)) j)))"
      using fin by (subst sum.insert_remove) auto
    also have "(\<Sum>j \<in> ?D - {k}. g (the (((lookup m)(k \<mapsto> v)) j)))
        = (\<Sum>j \<in> ?D - {k}. g (the (lookup m j)))"
      by (rule sum.cong) auto
    finally show ?thesis .
  qed
  show ?thesis
  proof (cases "lookup m k")
    case None
    then have "?D - {k} = ?D" by auto
    with None new entries_as_sum [OF assms, of g] show ?thesis by simp
  next
    case (Some u)
    then have "k \<in> ?D" by auto
    then have "(\<Sum>j \<in> ?D. g (the (lookup m j))) = g u + (\<Sum>j \<in> ?D - {k}. g (the (lookup m j)))"
      using fin Some by (simp add: sum.remove)
    with Some new entries_as_sum [OF assms, of g] show ?thesis by simp
  qed
qed

end

subsection \<open>Sorted association lists\<close>

type_synonym ('k, 'v) btree_map = "('k \<times> 'v) list"

primrec bt_insert :: "'k::linorder \<Rightarrow> 'v \<Rightarrow> ('k, 'v) btree_map \<Rightarrow> ('k, 'v) btree_map" where
  "bt_insert k v [] = [(k, v)]"
| "bt_insert k v (e # m) =
     (if k < fst e then (k, v) # e # m
      else if k = fst e then (k, v) # m
      else e # bt_insert k v m)"

definition bt_wf :: "('k::linorder, 'v) btree_map \<Rightarrow> bool" where
  "bt_wf m \<longleftrightarrow> sorted_wrt (<) (map fst m)"

definition bt_values :: "('k, 'v) btree_map \<Rightarrow> 'v list" where
  "bt_values m = map snd m"

text \<open>The value an \<open>entry(k).or_insert(d)\<close> reference reads.\<close>

definition or_insert :: "('k, 'v) btree_map \<Rightarrow> 'k \<Rightarrow> 'v \<Rightarrow> 'v" where
  "or_insert m k d = (case map_of m k of None \<Rightarrow> d | Some v \<Rightarrow> v)"

text \<open>\<open>BTreeSet::insert\<close> on the sorted list of members.\<close>

primrec bs_insert :: "'k::linorder \<Rightarrow> 'k list \<Rightarrow> 'k list" where
  "bs_insert k [] = [k]"
| "bs_insert k (x # xs) =
     (if k < x then k # x # xs else if k = x then x # xs else x # bs_insert k xs)"

lemma set_bs_insert [simp]: "set (bs_insert k xs) = Set.insert k (set xs)"
  by (induction xs) auto

lemma sorted_bs_insert: "sorted_wrt (<) xs \<Longrightarrow> sorted_wrt (<) (bs_insert k xs)"
  by (induction xs) auto

lemma map_of_bt_insert [simp]: "map_of (bt_insert k v m) = (map_of m)(k \<mapsto> v)"
  by (induction m) (auto simp: fun_eq_iff)

lemma keys_bt_insert [simp]: "fst ` set (bt_insert k v m) = Set.insert k (fst ` set m)"
  by (induction m) auto

lemma in_set_bt_insert: "e \<in> set (bt_insert k v m) \<Longrightarrow> e = (k, v) \<or> e \<in> set m"
  by (induction m) (auto split: if_splits)

lemma bt_wf_insert: "bt_wf m \<Longrightarrow> bt_wf (bt_insert k v m)"
proof (induction m)
  case (Cons e m)
  then have "bt_wf (bt_insert k v m)" and e: "\<forall>x \<in> fst ` set m. fst e < x"
    by (auto simp: bt_wf_def)
  moreover have "\<forall>x \<in> fst ` set (bt_insert k v m). k > fst e \<longrightarrow> fst e < x"
    using e by simp
  ultimately show ?case
    using Cons.prems by (auto simp: bt_wf_def)
qed (simp add: bt_wf_def)

lemma bt_wf_Nil [simp]: "bt_wf []"
  by (simp add: bt_wf_def)

lemma bt_wf_distinct: "bt_wf m \<Longrightarrow> distinct (map fst m)"
  by (simp add: bt_wf_def strict_sorted_iff)

interpretation bt: ordered_map "[]" bt_insert map_of "\<lambda>m. m" bt_wf
  by unfold_locales (simp_all add: bt_wf_insert, simp add: bt_wf_def)

lemma bt_total_insert:
  fixes m :: "('k::linorder, nat) btree_map"
  assumes "bt_wf m"
  shows "sum_list (bt_values (bt_insert k v m)) + or_insert m k 0 = sum_list (bt_values m) + v"
  using bt.total_insert [OF assms, of "\<lambda>x. x" k v]
  by (simp add: bt_values_def or_insert_def comp_def)

end
