(* ===== verification/Domain.thy ===== *)
theory Domain
  imports OrderedMap
begin

text \<open>
  Identifiers, quantities, snapshots and plans (\<open>src/domain.rs\<close>). Addresses and hashes are words;
  the semantic newtypes are synonyms. Field names carry a prefix per structure. Keccak and the ABI
  codec come from the Alloy crates and are fields of the record \<open>evm_lib\<close>, the first argument of
  every definition that uses them.
\<close>

subsection \<open>Identifiers\<close>

type_synonym address = "160 word"
type_synonym b256 = "256 word"
type_synonym vault_address = address
type_synonym adapter_address = address
type_synonym market_id = b256
type_synonym position_key = b256
type_synonym rate_group_id = b256
type_synonym cap_id = b256
type_synonym plan_id = b256
type_synonym transaction_id = b256
type_synonym episode_id = b256

text \<open>\<open>CapRef\<close> derives \<open>Ord\<close>: vault first, then cap identifier.\<close>

datatype cap_ref = CapRef (cr_vault: vault_address) (cr_id: cap_id)

instantiation cap_ref :: linorder
begin

definition less_eq_cap_ref :: "cap_ref \<Rightarrow> cap_ref \<Rightarrow> bool" where
  "less_eq_cap_ref a b \<longleftrightarrow> cr_vault a < cr_vault b \<or> cr_vault a = cr_vault b \<and> cr_id a \<le> cr_id b"

definition less_cap_ref :: "cap_ref \<Rightarrow> cap_ref \<Rightarrow> bool" where
  "less_cap_ref a b \<longleftrightarrow> cr_vault a < cr_vault b \<or> cr_vault a = cr_vault b \<and> cr_id a < cr_id b"

instance
  by standard (auto simp: less_eq_cap_ref_def less_cap_ref_def cap_ref.expand)

end

subsection \<open>Checked quantities\<close>

datatype arithmetic_error = Overflow | Underflow | DivisionByZero

definition assets_checked_add :: "u256 \<Rightarrow> u256 \<Rightarrow> arithmetic_error + u256" where
  "assets_checked_add x y = ok_or (checked_add x y) Overflow"

definition assets_checked_sub :: "u256 \<Rightarrow> u256 \<Rightarrow> arithmetic_error + u256" where
  "assets_checked_sub x y = ok_or (checked_sub x y) Underflow"

definition shares_checked_add :: "u256 \<Rightarrow> u256 \<Rightarrow> arithmetic_error + u256" where
  "shares_checked_add x y = ok_or (checked_add x y) Overflow"

definition shares_checked_sub :: "u256 \<Rightarrow> u256 \<Rightarrow> arithmetic_error + u256" where
  "shares_checked_sub x y = ok_or (checked_sub x y) Underflow"

subsection \<open>Blocks\<close>

record block_ref =
  br_number :: u64
  br_hash :: b256
  br_parent_hash :: b256
  br_timestamp :: u64
  br_gas_limit :: u64

datatype block_hash_binding = Proven | Unproven

record state_context =
  sc_chain_id :: u64
  sc_block :: block_ref
  sc_evm_timestamp :: u64
  sc_block_hash_binding :: block_hash_binding
  sc_static_config_revision :: b256
  sc_dynamic_topology_revision :: b256

subsection \<open>Market parameters and their encodings\<close>

record market_params =
  mp_loan_token :: address
  mp_collateral_token :: address
  mp_oracle :: address
  mp_irm :: address
  mp_lltv :: u256

text \<open>
  The library functions the program calls: \<open>keccak256\<close>, the ABI encoder and decoder of the Solidity
  \<open>MarketParams\<close> struct, the parameter encodings of the cap identifiers, and the call codecs of the
  three routine Vault V2 functions with their selectors.
\<close>

record evm_lib =
  keccak256 :: "bytes \<Rightarrow> b256"
  market_params_abi_encode :: "market_params \<Rightarrow> bytes"
  market_params_abi_decode :: "bytes \<Rightarrow> market_params option"
  abi_encode_text_address :: "string \<Rightarrow> address \<Rightarrow> bytes"
  abi_encode_text_address_market :: "string \<Rightarrow> address \<Rightarrow> market_params \<Rightarrow> bytes"
  ALLOCATE :: bytes
  DEALLOCATE :: bytes
  MULTICALL :: bytes
  allocate_call_encode :: "address \<times> bytes \<times> u256 \<Rightarrow> bytes"
  allocate_call_decode :: "bytes \<Rightarrow> (address \<times> bytes \<times> u256) option"
  deallocate_call_encode :: "address \<times> bytes \<times> u256 \<Rightarrow> bytes"
  deallocate_call_decode :: "bytes \<Rightarrow> (address \<times> bytes \<times> u256) option"
  multicall_call_encode :: "bytes list \<Rightarrow> bytes"
  multicall_call_decode :: "bytes \<Rightarrow> bytes list option"

definition address_bytes :: "address \<Rightarrow> bytes" where
  "address_bytes a = be_bytes 20 (unat a)"

definition derive_market_id :: "evm_lib \<Rightarrow> market_params \<Rightarrow> market_id" where
  "derive_market_id lib params = keccak256 lib (market_params_abi_encode lib params)"

definition derive_position_key :: "evm_lib \<Rightarrow> adapter_address \<Rightarrow> market_params \<Rightarrow> position_key" where
  "derive_position_key lib adapter params =
     keccak256 lib (address_bytes adapter @ market_params_abi_encode lib params)"

definition ascii_bytes :: "string \<Rightarrow> bytes" where
  "ascii_bytes s = map (\<lambda>c. word_of_nat (of_char c)) s"

definition derive_liquidity_position_key :: "evm_lib \<Rightarrow> adapter_address \<Rightarrow> position_key" where
  "derive_liquidity_position_key lib adapter =
     keccak256 lib (ascii_bytes ''morpho-vault-v1-liquidity-adapter'' @ address_bytes adapter)"

datatype adapter_data_error =
    AdapterDecode | NonCanonical | MarketIdMismatch | LoanTokenMismatch | IrmMismatch

definition encode_adapter_data :: "evm_lib \<Rightarrow> market_params \<Rightarrow> bytes" where
  "encode_adapter_data lib params = market_params_abi_encode lib params"

definition decode_adapter_data ::
  "evm_lib \<Rightarrow> bytes \<Rightarrow> market_id \<Rightarrow> address \<Rightarrow> address \<Rightarrow> adapter_data_error + market_params" where
  "decode_adapter_data lib data configured_market_id vault_asset adaptive_curve_irm =
     try_let (ok_or (market_params_abi_decode lib data) AdapterDecode) (\<lambda>params.
     if market_params_abi_encode lib params \<noteq> data then Inl NonCanonical
     else if derive_market_id lib params \<noteq> configured_market_id then Inl MarketIdMismatch
     else if mp_loan_token params \<noteq> vault_asset then Inl LoanTokenMismatch
     else if mp_irm params \<noteq> adaptive_curve_irm then Inl IrmMismatch
     else Inr params)"

subsection \<open>Policies\<close>

datatype market_mode = Active | Fixed | SourceOnly | Disabled | SyncRequired

datatype reward_policy =
    NoMaterialRewards (rp_checked_at_block: u64) (rp_evidence_until: u64) (rp_evidence_hash: b256)
  | IgnoreRewardsByCuratorMandate (rp_policy_revision: b256)
  | FixedUntilModeled
  | Modeled (rp_model_revision: b256) (rp_model_until: u64)

subsection \<open>Administration\<close>

datatype cap_kind = Absolute | Relative

datatype gate_kind = ReceiveShares | SendShares | ReceiveAssets | SendAssets

datatype fee_kind = Performance | Management

datatype admin_effect =
    CapChange cap_kind bool bytes u256
  | AdapterMembership address bool
  | AllocatorMembership address bool
  | SentinelMembership address bool
  | GateChange gate_kind address
  | AdapterRegistryChange address
  | LiquidityAdapterChange address bytes
  | MaxRateChange u256
  | FeeChange fee_kind u256
  | FeeRecipientChange fee_kind address
  | ForceDeallocationPenaltyChange address u256
  | AdapterBurnShares market_id
  | AdapterSkimRecipientChange address
  | TimelockChange bytes u256 bool
  | Abdicate bytes
  | CuratorChange address
  | UnknownEffect

record pending_admin_operation =
  pa_target :: address
  pa_selector :: bytes
  pa_calldata_hash :: b256
  pa_calldata :: bytes
  pa_executable_at :: u64
  pa_effect :: admin_effect
  pa_submitted_block :: u64
  pa_submitted_transaction :: b256

subsection \<open>Exact state\<close>

record parent_vault_state =
  pv_vault :: address
  pv_asset :: address
  pv_idle_assets :: u256
  pv_stored_total_assets :: u256
  pv_last_update :: u64
  pv_max_rate :: u256
  pv_total_supply :: u256
  pv_virtual_shares :: u256
  pv_performance_fee :: u256
  pv_performance_fee_recipient :: address
  pv_performance_fee_recipient_allowed :: bool
  pv_management_fee :: u256
  pv_management_fee_recipient :: address
  pv_management_fee_recipient_allowed :: bool
  pv_receive_shares_gate :: address
  pv_send_shares_gate :: address
  pv_receive_assets_gate :: address
  pv_send_assets_gate :: address
  pv_adapter_registry :: address
  pv_liquidity_adapter :: address
  pv_liquidity_data :: bytes
  pv_force_deallocate_penalties :: "(adapter_address, u256) btree_map"
  pv_approved_allocators :: "address list"
  pv_approved_sentinels :: "address list"
  pv_dead_address :: address
  pv_dead_share_balance :: u256
  pv_required_dead_shares :: u256

record direct_adapter_state =
  da_adapter :: adapter_address
  da_parent_vault :: address
  da_asset :: address
  da_morpho :: address
  da_adaptive_curve_irm :: address
  da_adapter_id :: cap_id
  da_current_market_ids :: "market_id list"
  da_historical_market_ids :: "market_id list"
  da_runtime_code_hash :: b256
  da_real_assets :: u256
  da_skim_recipient :: address
  da_pending_operations :: "pending_admin_operation list"

record vault_v1_liquidity_adapter_state =
  lq_adapter :: adapter_address
  lq_parent_vault :: address
  lq_morpho_vault_v1 :: address
  lq_adapter_id :: cap_id
  lq_runtime_code_hash :: b256
  lq_morpho_vault_v1_runtime_code_hash :: b256
  lq_real_assets :: u256
  lq_recorded_allocation :: u256
  lq_share_balance :: u256
  lq_vault_total_assets :: u256
  lq_vault_total_supply :: u256
  lq_decimals_offset :: nat
  lq_max_deposit :: u256
  lq_max_withdraw :: u256
  lq_idle_market_id :: market_id
  lq_idle_market_total_supply_assets :: u256
  lq_idle_market_total_supply_shares :: u256
  lq_idle_market_supply_shares :: u256
  lq_skim_recipient :: address

record direct_market_position_state =
  dp_position_key :: position_key
  dp_adapter :: adapter_address
  dp_market_params :: market_params
  dp_market_id :: market_id
  dp_internal_supply_shares :: u256
  dp_actual_morpho_supply_shares :: u256
  dp_ignored_donation_shares :: u256
  dp_market_dead_supply_shares :: u256
  dp_expected_assets :: u256
  dp_parent_recorded_market_allocation :: u256
  dp_affected_caps :: "cap_ref list"
  dp_mode :: market_mode
  dp_reward_policy :: reward_policy

record stored_market_state =
  sm_market_id :: market_id
  sm_params :: market_params
  sm_total_supply_assets :: u256
  sm_total_supply_shares :: u256
  sm_total_borrow_assets :: u256
  sm_total_borrow_shares :: u256
  sm_last_update :: u64
  sm_fee :: u256
  sm_irm :: address
  sm_stored_rate_at_target :: u256
  sm_morpho_loan_token_balance :: u256

record cap_state =
  cs_reference :: cap_ref
  cs_id_data_hash :: b256
  cs_absolute_cap :: u256
  cs_relative_cap :: u256
  cs_recorded_allocation :: u256

record vault_capabilities =
  vc_can_observe :: bool
  vc_can_project :: bool
  vc_can_allocate :: bool
  vc_can_deallocate_supported_position :: bool
  vc_can_model_user_deposit :: bool
  vc_can_model_user_withdrawal :: bool
  vc_lock_ledger_verified :: bool
  vc_seed_requirements_verified :: bool
  vc_reward_policy_ready :: bool
  vc_rate_episode_state_verified :: bool

record idle_lock_snapshot =
  ls_lock_id :: b256
  ls_remaining_assets :: u256
  ls_created_block :: u64
  ls_release_timestamp :: "u64 option"

record idle_lock_ledger_snapshot =
  ll_locks :: "idle_lock_snapshot list"
  ll_unattributed_idle_assets :: u256
  ll_verified :: bool

record exact_vault_snapshot =
  sn_context :: state_context
  sn_parent :: parent_vault_state
  sn_adapters :: "(adapter_address, direct_adapter_state) btree_map"
  sn_enabled_adapters :: "adapter_address list"
  sn_liquidity_adapter :: "vault_v1_liquidity_adapter_state option"
  sn_positions :: "(position_key, direct_market_position_state) btree_map"
  sn_markets :: "(market_id, stored_market_state) btree_map"
  sn_caps :: "(cap_ref, cap_state) btree_map"
  sn_pending_admin :: "pending_admin_operation list"
  sn_capabilities :: vault_capabilities
  sn_idle_locks :: idle_lock_ledger_snapshot
  sn_snapshot_hash :: b256

subsection \<open>Projected state\<close>

record projected_market_state =
  pm_market_id :: market_id
  pm_timestamp :: u64
  pm_total_supply_assets :: u256
  pm_total_supply_shares :: u256
  pm_total_borrow_assets :: u256
  pm_total_borrow_shares :: u256
  pm_average_accrual_borrow_rate :: u256
  pm_ending_rate_at_target :: u256
  pm_spot_borrow_rate :: u256
  pm_spot_supply_rate :: u256
  pm_utilization :: u256
  pm_accounting_liquidity :: u256

record fee_share_projection =
  fs_performance_fee_shares :: u256
  fs_management_fee_shares :: u256

record projected_vault_state =
  pj_timestamp :: u64
  pj_parent_total_assets :: u256
  pj_projected_total_supply :: u256
  pj_fee_shares :: fee_share_projection
  pj_position_expected_assets :: "(position_key, u256) btree_map"
  pj_cap_catch_up :: "(cap_ref, i256) btree_map"
  pj_max_executable_deposit_assets :: u256
  pj_atomic_exit_coverage_assets :: u256

subsection \<open>Plans\<close>

datatype plan_reason =
    LiquidityMaintenance | CapitalDeployment | RateRebalance | TopKApyRebalance
  | PositionSyncRequired

datatype v2_action =
    Deallocate (act_position: position_key) (act_adapter: adapter_address) (act_data: bytes)
      (act_requested_assets: u256)
  | Allocate (act_position: position_key) (act_adapter: adapter_address) (act_data: bytes)
      (act_requested_assets: u256)

datatype rate_objective_branch = Portfolio | Controllable

definition stable_code :: "rate_objective_branch \<Rightarrow> nat" where
  "stable_code b = (case b of Portfolio \<Rightarrow> 0 | Controllable \<Rightarrow> 1)"

record solver_certificate =
  ce_candidate_lattice_hash :: b256
  ce_nodes_evaluated :: u64
  ce_node_limit :: u64
  ce_search_complete_for_lattice :: bool
  ce_rate_episode_id :: "b256 option"
  ce_objective_branch :: "rate_objective_branch option"
  ce_target_reachable :: bool
  ce_target_reached :: bool

record plan_projection =
  pp_movement_assets :: u256
  pp_before_spread :: u256
  pp_after_spread :: u256
  pp_immediate_loss_assets :: u256
  pp_terminal_value_delta_assets :: i256
  pp_expected_gain_assets :: u256

record v2_plan =
  pl_plan_id :: plan_id
  pl_reason :: plan_reason
  pl_vault :: vault_address
  pl_snapshot :: state_context
  pl_config_revision :: b256
  pl_topology_revision :: b256
  pl_read_set_revision :: u64
  pl_latest_relevant_event_block :: u64
  pl_planner_generation :: u64
  pl_actions :: "v2_action list"
  pl_projection :: plan_projection
  pl_solver_certificate :: solver_certificate
  pl_episode_id :: "episode_id option"
  pl_plan_hash :: b256

subsection \<open>Adapter data\<close>

text \<open>
  The bytes of an accepted adapter payload are those the encoder produces for the accepted
  parameters, whatever the decoder of the library does: acceptance re-encodes.
\<close>

lemma decode_adapter_data_Inr:
  "decode_adapter_data lib data mid asset irm = Inr params \<longleftrightarrow>
     market_params_abi_decode lib data = Some params \<and> data = encode_adapter_data lib params \<and>
     derive_market_id lib params = mid \<and> mp_loan_token params = asset \<and> mp_irm params = irm"
  by (auto simp: decode_adapter_data_def encode_adapter_data_def result_simps)

subsection \<open>Action lists\<close>

definition is_allocation :: "v2_action \<Rightarrow> bool" where
  "is_allocation action = (case action of Allocate _ _ _ _ \<Rightarrow> True | Deallocate _ _ _ _ \<Rightarrow> False)"

definition allocated_assets :: "v2_action list \<Rightarrow> nat" where
  "allocated_assets as = sum_list (map act_requested_assets (filter is_allocation as))"

definition deallocated_assets :: "v2_action list \<Rightarrow> nat" where
  "deallocated_assets as = sum_list (map act_requested_assets (filter (Not \<circ> is_allocation) as))"

text \<open>
  The grammar of a plan: deallocations before allocations, every position at most once, no empty
  movement.
\<close>

definition action_grammar :: "v2_action list \<Rightarrow> bool" where
  "action_grammar as \<longleftrightarrow>
     sorted_wrt (\<lambda>a b. is_allocation a \<longrightarrow> is_allocation b) as \<and> distinct (map act_position as) \<and>
     (\<forall>a \<in> set as. act_requested_assets a \<noteq> 0)"

lemma moved_assets_simps [simp]:
  "allocated_assets [] = 0" "deallocated_assets [] = 0"
  "allocated_assets (as @ [a]) = allocated_assets as + (if is_allocation a then act_requested_assets a else 0)"
  "deallocated_assets (as @ [a]) = deallocated_assets as + (if is_allocation a then 0 else act_requested_assets a)"
  by (simp_all add: allocated_assets_def deallocated_assets_def)

subsection \<open>A concrete library\<close>

text \<open>An instance of \<open>evm_lib\<close> on which the witnesses evaluate.\<close>

definition witness_lib :: evm_lib where
  "witness_lib =
     \<lparr> keccak256 = (\<lambda>b. word_of_nat (length b)),
       market_params_abi_encode = (\<lambda>p. be_bytes 20 (unat (mp_loan_token p))
         @ be_bytes 20 (unat (mp_collateral_token p)) @ be_bytes 20 (unat (mp_oracle p))
         @ be_bytes 20 (unat (mp_irm p)) @ be_bytes 32 (mp_lltv p)),
       market_params_abi_decode = (\<lambda>_. None),
       abi_encode_text_address = (\<lambda>_ a. be_bytes 20 (unat a)),
       abi_encode_text_address_market = (\<lambda>_ a _. be_bytes 20 (unat a)),
       ALLOCATE = [1, 0, 0, 0], DEALLOCATE = [2, 0, 0, 0], MULTICALL = [3, 0, 0, 0],
       allocate_call_encode = (\<lambda>_. [1, 0, 0, 0]), allocate_call_decode = (\<lambda>_. None),
       deallocate_call_encode = (\<lambda>_. [2, 0, 0, 0]), deallocate_call_decode = (\<lambda>_. None),
       multicall_call_encode = (\<lambda>_. [3, 0, 0, 0]), multicall_call_decode = (\<lambda>_. None) \<rparr>"

end
