(* ===== verification/Config.thy ===== *)
theory Config
  imports Domain
begin

text \<open>
  The validated configuration structures the planner, the simulator and the firewall read
  (\<open>src/config.rs\<close>). Loading and validating files is not modelled.
\<close>

datatype runtime_mode = Observe | Shadow | Execute

datatype block_opportunity_policy = EveryCanonicalBlock | HyperEvmFastBlocks (fast_gas_limit: u64)

definition required_gas_limit :: "block_opportunity_policy \<Rightarrow> u64 option" where
  "required_gas_limit p =
     (case p of EveryCanonicalBlock \<Rightarrow> None | HyperEvmFastBlocks gas_limit \<Rightarrow> Some gas_limit)"

definition requires_hyper_evm_signer_lane_check :: "block_opportunity_policy \<Rightarrow> bool" where
  "requires_hyper_evm_signer_lane_check p =
     (case p of EveryCanonicalBlock \<Rightarrow> False | HyperEvmFastBlocks _ \<Rightarrow> True)"

datatype strategy_objective = SpotBorrowRateSpread | UtilizationSpread

datatype vault_strategy = SpreadEqualization | TopKApyDiversified

record validated_execution_config =
  ec_expected_inclusion_opportunities :: u64
  ec_maximum_inclusion_opportunities :: u64
  ec_maximum_rate_rebalance_pending_opportunities :: u64
  ec_maximum_capital_deployment_pending_opportunities :: u64
  ec_maximum_liquidity_maintenance_pending_opportunities :: u64
  ec_identical_rebroadcast_after_opportunities :: u64
  ec_replacement_after_opportunities :: u64
  ec_cancel_when_opportunities_remaining :: u64
  ec_receipt_confirmation_evm_blocks :: u64
  ec_maximum_actions :: nat
  ec_maximum_signed_transaction_gas :: u64
  ec_gas_headroom_bps :: nat
  ec_maximum_fee_per_gas_wei :: u256
  ec_maximum_daily_gas_spend_wei :: u256

record solver_config_canonical =
  so_maximum_nodes :: u64
  so_maximum_amount_candidates_per_position :: nat
  so_maximum_source_sets :: nat
  so_maximum_destination_sets :: nat
  so_allow_incomplete_rate_solver :: bool

record validated_rate_group_config =
  rg_name :: string
  rg_id :: rate_group_id
  rg_minimum_assets :: u256
  rg_target_assets :: u256
  rg_maximum_assets :: u256
  rg_allow_cross_group_movement :: bool

datatype adapter_kind = MorphoMarketV1AdapterV2

record validated_adapter_config =
  ad_address :: adapter_address
  ad_kind :: adapter_kind
  ad_expected_code_hash :: b256
  ad_maximum_markets :: nat

datatype liquidity_adapter_kind = MorphoVaultV1Idle

record validated_liquidity_adapter_config =
  la_position_key :: position_key
  la_address :: adapter_address
  la_kind :: liquidity_adapter_kind
  la_expected_code_hash :: b256
  la_morpho_vault_v1 :: address
  la_expected_morpho_vault_v1_code_hash :: b256
  la_maximum_action_assets :: u256

record validated_position_config =
  po_position_key :: position_key
  po_adapter :: adapter_address
  po_market_params :: market_params
  po_market_id :: market_id
  po_mode :: market_mode
  po_rate_group :: rate_group_id
  po_minimum_position_assets :: u256
  po_maximum_position_assets :: u256
  po_minimum_source_liquidity_assets :: u256
  po_maximum_source_utilization_wad :: u256
  po_minimum_relevance_entry_assets :: u256
  po_minimum_relevance_exit_assets :: u256
  po_minimum_rate_relevant_market_supply_assets :: u256
  po_minimum_rate_relevant_market_borrow_assets :: u256
  po_minimum_destination_market_supply_assets :: u256
  po_minimum_destination_market_supply_shares :: u256
  po_maximum_action_assets :: u256
  po_allow_active_complete_exit :: bool
  po_complete_exit_dust_threshold_assets :: u256
  po_reward_policy :: reward_policy

record validated_vault_config =
  va_name :: string
  va_address :: vault_address
  va_asset :: address
  va_asset_decimals :: nat
  va_expected_vault_code_hash :: b256
  va_deployment_block :: u64
  va_signer_address :: address
  va_strategy :: vault_strategy
  va_strict_zero_routine_idle :: bool
  va_minimum_action_assets :: u256
  va_maximum_rounding_dust_assets :: u256
  va_maximum_immediate_rebalance_loss_assets :: u256
  va_maximum_terminal_value_sacrifice_assets :: u256
  va_minimum_active_positions_after_economic_exit :: nat
  va_maximum_movement_per_hour_assets :: u256
  va_maximum_movement_per_day_assets :: u256
  va_minimum_independent_event_assets :: u256
  va_minimum_atomic_exit_coverage_assets :: u256
  va_minimum_liquidity_adapter_assets :: u256
  va_minimum_deposit_headroom_assets :: u256
  va_deposit_headroom_search_upper_bound_assets :: u256
  va_minimum_source_token_liquidity_assets :: u256
  va_lock_operator_clearance_required :: bool
  va_unattributed_idle_fail_closed :: bool
  va_require_supported_nonzero_liquidity_adapter :: bool
  va_require_zero_gates :: bool
  va_required_vault_dead_address :: address
  va_minimum_market_dead_supply_shares :: u256
  va_approved_allocators :: "address list"
  va_approved_sentinels :: "address list"
  va_rate_group :: validated_rate_group_config
  va_adapters :: "validated_adapter_config list"
  va_liquidity_adapter :: "validated_liquidity_adapter_config option"
  va_positions :: "validated_position_config list"

subsection \<open>Process, chain and snapshot settings\<close>

datatype rpc_role = Head | Logs | Read | Simulate | Submit | Checkpoint | Receipt

datatype snapshot_mode = PinnedBlock | AtomicLatest

record validated_node_config =
  no_instance_id :: string
  no_mode :: runtime_mode
  no_data_dir :: string
  no_full_reconciliation_interval_millis :: u128
  no_topology_reconciliation_interval_millis :: u128

record validated_rpc_config =
  rc_name :: string
  rc_url_env :: string
  rc_websocket_url_env :: "string option"
  rc_roles :: "rpc_role list"
  rc_production_grade :: bool
  rc_supports_websocket :: bool
  rc_supports_historical_state :: bool

record validated_chain_config =
  cn_name :: string
  cn_chain_id :: u64
  cn_morpho_blue :: address
  cn_multicall3 :: address
  cn_expected_multicall3_code_hash :: b256
  cn_event_start_block :: u64
  cn_maximum_log_range :: u64
  cn_reorg_rescan_blocks :: u64
  cn_block_opportunity_policy :: block_opportunity_policy
  cn_rpc :: "validated_rpc_config list"

record validated_snapshot_config =
  sp_mode :: snapshot_mode
  sp_strict_signing_context :: bool
  sp_maximum_background_snapshot_age_blocks :: u64
  sp_maximum_signing_snapshot_age_blocks :: u64
  sp_maximum_snapshot_retries :: nat
  sp_maximum_evm_timestamp_lag_seconds :: u64
  sp_maximum_snapshot_to_sign_latency_millis :: u128
  sp_maximum_sign_to_broadcast_latency_millis :: u128

subsection \<open>Strategy\<close>

record validated_top_k_apy_config =
  tk_enter_apy_wad :: u256
  tk_exit_apy_wad :: u256
  tk_replacement_apy_wad :: u256
  tk_fourth_market_max_gap_apy_wad :: u256
  tk_top_market_boost_threshold_apy_wad :: u256
  tk_top_market_boost_weight_bps :: nat
  tk_upside_ema_alpha_bps :: nat
  tk_probe_allocation_bps :: nat
  tk_membership_confirmation_seconds :: u64
  tk_tick_interval_seconds :: u64
  tk_three_market_weights_bps :: "nat list"
  tk_four_market_weights_bps :: "nat list"
  tk_entry_score_wad :: u256
  tk_target_score_wad :: u256
  tk_minimum_improvement_score_wad :: u256
  tk_enforce_gas_economic_gate :: bool
  tk_minimum_net_gain_assets :: u256
  tk_gas_cost_multiplier :: nat
  tk_native_token_price_ceiling_asset_wad :: u256
  tk_maximum_diversification_cost_apy_wad :: u256

record validated_strategy_config =
  st_objective :: strategy_objective
  st_entry_spread_rate_per_second :: u256
  st_target_spread_rate_per_second :: u256
  st_target_tolerance_rate_per_second :: u256
  st_utilization_entry_spread_wad :: u256
  st_utilization_target_spread_wad :: u256
  st_utilization_target_tolerance_wad :: u256
  st_utilization_minimum_improvement_wad :: u256
  st_utilization_portfolio_spread_tolerance_wad :: u256
  st_minimum_portfolio_improvement_rate_per_second :: u256
  st_minimum_controllable_improvement_rate_per_second :: u256
  st_portfolio_spread_tolerance_rate_per_second :: u256
  st_confirmation_opportunities :: u64
  st_immediate_tranche_bps :: nat
  st_persistent_confirmation_duration_millis :: u128
  st_minimum_independent_rate_events :: nat
  st_minimum_independent_event_span_millis :: u128
  st_minimum_independent_event_rate_impact :: u256
  st_minimum_independent_event_utilization_impact_wad :: u256
  st_maximum_rate_episode_duration_millis :: u128
  st_extreme_spread_bypass_enabled :: bool
  st_benefit_horizon_seconds :: u64
  st_maximum_daily_transactions :: nat
  st_top_k_apy :: validated_top_k_apy_config

definition entry_spread :: "validated_strategy_config \<Rightarrow> u256" where
  "entry_spread s =
     (case st_objective s of
        SpotBorrowRateSpread \<Rightarrow> st_entry_spread_rate_per_second s
      | UtilizationSpread \<Rightarrow> st_utilization_entry_spread_wad s)"

definition target_spread :: "validated_strategy_config \<Rightarrow> u256" where
  "target_spread s =
     (case st_objective s of
        SpotBorrowRateSpread \<Rightarrow> st_target_spread_rate_per_second s
      | UtilizationSpread \<Rightarrow> st_utilization_target_spread_wad s)"

definition target_tolerance :: "validated_strategy_config \<Rightarrow> u256" where
  "target_tolerance s =
     (case st_objective s of
        SpotBorrowRateSpread \<Rightarrow> st_target_tolerance_rate_per_second s
      | UtilizationSpread \<Rightarrow> st_utilization_target_tolerance_wad s)"

definition minimum_improvement :: "validated_strategy_config \<Rightarrow> bool \<Rightarrow> u256" where
  "minimum_improvement s portfolio =
     (case st_objective s of
        SpotBorrowRateSpread \<Rightarrow>
          if portfolio then st_minimum_portfolio_improvement_rate_per_second s
          else st_minimum_controllable_improvement_rate_per_second s
      | UtilizationSpread \<Rightarrow> st_utilization_minimum_improvement_wad s)"

definition portfolio_spread_tolerance :: "validated_strategy_config \<Rightarrow> u256" where
  "portfolio_spread_tolerance s =
     (case st_objective s of
        SpotBorrowRateSpread \<Rightarrow> st_portfolio_spread_tolerance_rate_per_second s
      | UtilizationSpread \<Rightarrow> st_utilization_portfolio_spread_tolerance_wad s)"

definition minimum_independent_event_impact :: "validated_strategy_config \<Rightarrow> u256" where
  "minimum_independent_event_impact s =
     (case st_objective s of
        SpotBorrowRateSpread \<Rightarrow> st_minimum_independent_event_rate_impact s
      | UtilizationSpread \<Rightarrow> st_minimum_independent_event_utilization_impact_wad s)"

definition convergence_spread :: "validated_strategy_config \<Rightarrow> u256" where
  "convergence_spread s =
     (case checked_add (target_spread s) (target_tolerance s) of
        None \<Rightarrow> two256 - 1 | Some v \<Rightarrow> v)"

subsection \<open>The application\<close>

datatype signing_config =
    RemoteSigner (sg_endpoint_env: string)
  | LocalDevelopment (sg_private_key_env: string) (sg_execute_chain_id: "u64 option")

record telegram_config =
  tg_enabled :: bool
  tg_bot_token_env :: string
  tg_chat_id :: string
  tg_message_thread_id :: "int option"

record pager_duty_config =
  pd_enabled :: bool
  pd_integration_key_env :: string

record validated_alert_config =
  al_telegram :: telegram_config
  al_pagerduty :: pager_duty_config

record validated_app_config =
  app_schema_version :: nat
  app_node :: validated_node_config
  app_chain :: validated_chain_config
  app_snapshot :: validated_snapshot_config
  app_execution :: validated_execution_config
  app_solver :: solver_config_canonical
  app_strategy :: validated_strategy_config
  app_signing :: signing_config
  app_alerts :: validated_alert_config
  app_vaults :: "validated_vault_config list"

record validated_config =
  cfg_app :: validated_app_config
  cfg_revision :: b256

subsection \<open>A concrete configuration\<close>

definition witness_params :: market_params where
  "witness_params = \<lparr> mp_loan_token = 2, mp_collateral_token = 3, mp_oracle = 4, mp_irm = 5,
     mp_lltv = 860000000000000000 \<rparr>"

definition witness_position_config :: validated_position_config where
  "witness_position_config =
     \<lparr> po_position_key = 100, po_adapter = 40, po_market_params = witness_params, po_market_id = 1,
       po_mode = Active, po_rate_group = 60, po_minimum_position_assets = 0,
       po_maximum_position_assets = 2000000000000, po_minimum_source_liquidity_assets = 0,
       po_maximum_source_utilization_wad = 1000000000000000000, po_minimum_relevance_entry_assets = 0,
       po_minimum_relevance_exit_assets = 0, po_minimum_rate_relevant_market_supply_assets = 0,
       po_minimum_rate_relevant_market_borrow_assets = 0,
       po_minimum_destination_market_supply_assets = 0,
       po_minimum_destination_market_supply_shares = 0, po_maximum_action_assets = 1000000000000,
       po_allow_active_complete_exit = False, po_complete_exit_dust_threshold_assets = 0,
       po_reward_policy = IgnoreRewardsByCuratorMandate 1 \<rparr>"

definition witness_config :: validated_vault_config where
  "witness_config =
     \<lparr> va_name = ''vault'', va_address = 10, va_asset = 2, va_asset_decimals = 6,
       va_expected_vault_code_hash = 0, va_deployment_block = 1, va_signer_address = 77,
       va_strategy = SpreadEqualization, va_strict_zero_routine_idle = False,
       va_minimum_action_assets = 1, va_maximum_rounding_dust_assets = 10,
       va_maximum_immediate_rebalance_loss_assets = 100,
       va_maximum_terminal_value_sacrifice_assets = 100,
       va_minimum_active_positions_after_economic_exit = 1,
       va_maximum_movement_per_hour_assets = 1000000000000,
       va_maximum_movement_per_day_assets = 1000000000000,
       va_minimum_independent_event_assets = 1, va_minimum_atomic_exit_coverage_assets = 1000,
       va_minimum_liquidity_adapter_assets = 0, va_minimum_deposit_headroom_assets = 0,
       va_deposit_headroom_search_upper_bound_assets = 0,
       va_minimum_source_token_liquidity_assets = 0, va_lock_operator_clearance_required = True,
       va_unattributed_idle_fail_closed = True,
       va_require_supported_nonzero_liquidity_adapter = False, va_require_zero_gates = True,
       va_required_vault_dead_address = 0, va_minimum_market_dead_supply_shares = 0,
       va_approved_allocators = [77], va_approved_sentinels = [],
       va_rate_group = \<lparr> rg_name = ''g'', rg_id = 60, rg_minimum_assets = 0, rg_target_assets = 0,
         rg_maximum_assets = 2000000000000, rg_allow_cross_group_movement = False \<rparr>,
       va_adapters = [], va_liquidity_adapter = None, va_positions = [witness_position_config] \<rparr>"

definition witness_v1_config :: validated_vault_config where
  "witness_v1_config = witness_config
     \<lparr> va_liquidity_adapter := Some \<lparr> la_position_key = 101, la_address = 30,
         la_kind = MorphoVaultV1Idle, la_expected_code_hash = 33, la_morpho_vault_v1 = 31,
         la_expected_morpho_vault_v1_code_hash = 34, la_maximum_action_assets = 1000000 \<rparr> \<rparr>"

definition witness_actions :: "v2_action list" where
  "witness_actions =
     [Deallocate 101 30 [] 100000,
      Allocate 100 40 (encode_adapter_data witness_lib witness_params) 600000]"

definition witness_plan :: "v2_action list \<Rightarrow> v2_plan" where
  "witness_plan actions =
     \<lparr> pl_plan_id = 0, pl_reason = CapitalDeployment, pl_vault = 10,
       pl_snapshot = \<lparr> sc_chain_id = 1,
         sc_block = \<lparr> br_number = 7, br_hash = 70, br_parent_hash = 69, br_timestamp = 1000,
           br_gas_limit = 30000000 \<rparr>,
         sc_evm_timestamp = 1000, sc_block_hash_binding = Proven, sc_static_config_revision = 5,
         sc_dynamic_topology_revision = 6 \<rparr>,
       pl_config_revision = 5, pl_topology_revision = 6, pl_read_set_revision = 0,
       pl_latest_relevant_event_block = 0, pl_planner_generation = 0, pl_actions = actions,
       pl_projection = \<lparr> pp_movement_assets = max (allocated_assets actions) (deallocated_assets actions),
         pp_before_spread = 9, pp_after_spread = 3, pp_immediate_loss_assets = 0,
         pp_terminal_value_delta_assets = 0, pp_expected_gain_assets = 0 \<rparr>,
       pl_solver_certificate = \<lparr> ce_candidate_lattice_hash = 0, ce_nodes_evaluated = 3,
         ce_node_limit = 10, ce_search_complete_for_lattice = True, ce_rate_episode_id = None,
         ce_objective_branch = None, ce_target_reachable = False, ce_target_reached = False \<rparr>,
       pl_episode_id = None, pl_plan_hash = 0 \<rparr>"

definition witness_execution :: validated_execution_config where
  "witness_execution =
     \<lparr> ec_expected_inclusion_opportunities = 1, ec_maximum_inclusion_opportunities = 3,
       ec_maximum_rate_rebalance_pending_opportunities = 5,
       ec_maximum_capital_deployment_pending_opportunities = 5,
       ec_maximum_liquidity_maintenance_pending_opportunities = 5,
       ec_identical_rebroadcast_after_opportunities = 1, ec_replacement_after_opportunities = 2,
       ec_cancel_when_opportunities_remaining = 1, ec_receipt_confirmation_evm_blocks = 2,
       ec_maximum_actions = 4, ec_maximum_signed_transaction_gas = 2000000,
       ec_gas_headroom_bps = 2000, ec_maximum_fee_per_gas_wei = 1000000000,
       ec_maximum_daily_gas_spend_wei = 1000000000000000000 \<rparr>"

definition witness_top_k :: validated_top_k_apy_config where
  "witness_top_k =
     \<lparr> tk_enter_apy_wad = 20000000000000000, tk_exit_apy_wad = 25000000000000000,
       tk_replacement_apy_wad = 10000000000000000, tk_fourth_market_max_gap_apy_wad = 25000000000000000,
       tk_top_market_boost_threshold_apy_wad = 20000000000000000,
       tk_top_market_boost_weight_bps = 7000, tk_upside_ema_alpha_bps = 2000,
       tk_probe_allocation_bps = 500, tk_membership_confirmation_seconds = 1800,
       tk_tick_interval_seconds = 300, tk_three_market_weights_bps = [5000, 3000, 2000],
       tk_four_market_weights_bps = [4000, 3000, 2000, 1000], tk_entry_score_wad = 50000000000000000,
       tk_target_score_wad = 10000000000000000, tk_minimum_improvement_score_wad = 10000000000000000,
       tk_enforce_gas_economic_gate = True, tk_minimum_net_gain_assets = 0, tk_gas_cost_multiplier = 3,
       tk_native_token_price_ceiling_asset_wad = 0,
       tk_maximum_diversification_cost_apy_wad = 2500000000000000 \<rparr>"

definition witness_strategy :: validated_strategy_config where
  "witness_strategy =
     \<lparr> st_objective = SpotBorrowRateSpread, st_entry_spread_rate_per_second = 300,
       st_target_spread_rate_per_second = 100, st_target_tolerance_rate_per_second = 10,
       st_utilization_entry_spread_wad = 0, st_utilization_target_spread_wad = 0,
       st_utilization_target_tolerance_wad = 0, st_utilization_minimum_improvement_wad = 0,
       st_utilization_portfolio_spread_tolerance_wad = 0,
       st_minimum_portfolio_improvement_rate_per_second = 5,
       st_minimum_controllable_improvement_rate_per_second = 5,
       st_portfolio_spread_tolerance_rate_per_second = 5, st_confirmation_opportunities = 2,
       st_immediate_tranche_bps = 2500, st_persistent_confirmation_duration_millis = 60000,
       st_minimum_independent_rate_events = 2, st_minimum_independent_event_span_millis = 1000,
       st_minimum_independent_event_rate_impact = 1,
       st_minimum_independent_event_utilization_impact_wad = 1,
       st_maximum_rate_episode_duration_millis = 600000, st_extreme_spread_bypass_enabled = False,
       st_benefit_horizon_seconds = 86400, st_maximum_daily_transactions = 10,
       st_top_k_apy = witness_top_k \<rparr>"

definition witness_app :: validated_app_config where
  "witness_app =
     \<lparr> app_schema_version = 1,
       app_node = \<lparr> no_instance_id = ''a'', no_mode = Execute, no_data_dir = ''d'',
         no_full_reconciliation_interval_millis = 1000,
         no_topology_reconciliation_interval_millis = 1000 \<rparr>,
       app_chain = \<lparr> cn_name = ''c'', cn_chain_id = 1, cn_morpho_blue = 41, cn_multicall3 = 42,
         cn_expected_multicall3_code_hash = 0, cn_event_start_block = 1, cn_maximum_log_range = 1000,
         cn_reorg_rescan_blocks = 16, cn_block_opportunity_policy = EveryCanonicalBlock,
         cn_rpc = [] \<rparr>,
       app_snapshot = \<lparr> sp_mode = PinnedBlock, sp_strict_signing_context = True,
         sp_maximum_background_snapshot_age_blocks = 10, sp_maximum_signing_snapshot_age_blocks = 1,
         sp_maximum_snapshot_retries = 3, sp_maximum_evm_timestamp_lag_seconds = 5,
         sp_maximum_snapshot_to_sign_latency_millis = 1000,
         sp_maximum_sign_to_broadcast_latency_millis = 1000 \<rparr>,
       app_execution = witness_execution,
       app_solver = \<lparr> so_maximum_nodes = 1000, so_maximum_amount_candidates_per_position = 8,
         so_maximum_source_sets = 8, so_maximum_destination_sets = 8,
         so_allow_incomplete_rate_solver = False \<rparr>,
       app_strategy = witness_strategy, app_signing = RemoteSigner ''e'',
       app_alerts = \<lparr> al_telegram = \<lparr> tg_enabled = False, tg_bot_token_env = [], tg_chat_id = [],
           tg_message_thread_id = None \<rparr>,
         al_pagerduty = \<lparr> pd_enabled = False, pd_integration_key_env = [] \<rparr> \<rparr>,
       app_vaults = [witness_v1_config] \<rparr>"

definition witness_validated_config :: validated_config where
  "witness_validated_config = \<lparr> cfg_app = witness_app, cfg_revision = 5 \<rparr>"

end
