(* ===== verification/Codec.thy ===== *)
theory Codec
  imports Config
begin

text \<open>
  The calldata of routine transactions: the encoder (\<open>src/transaction/encoder.rs\<close>), the independent
  decoder (\<open>src/transaction/decoder.rs\<close>) and the selectors (\<open>src/contracts/selectors.rs\<close>). The ABI
  codec itself is the Alloy library, a field of \<open>evm_lib\<close> for each call.
\<close>

subsection \<open>Selectors\<close>

definition ROUTINE_WRITE_ALLOWLIST :: "evm_lib \<Rightarrow> bytes list" where
  "ROUTINE_WRITE_ALLOWLIST lib = [ALLOCATE lib, DEALLOCATE lib, MULTICALL lib]"

definition is_routine_write :: "evm_lib \<Rightarrow> bytes \<Rightarrow> bool" where
  "is_routine_write lib selector \<longleftrightarrow> selector \<in> set (ROUTINE_WRITE_ALLOWLIST lib)"

subsection \<open>Encoder\<close>

datatype validated_plan = ValidatedPlan (vp_plan: v2_plan)

definition vp_actions :: "validated_plan \<Rightarrow> v2_action list" where
  "vp_actions plan = pl_actions (vp_plan plan)"

definition encode_action :: "evm_lib \<Rightarrow> v2_action \<Rightarrow> bytes" where
  "encode_action lib action =
     (case action of
        Deallocate _ adapter data requested \<Rightarrow> deallocate_call_encode lib (adapter, data, requested)
      | Allocate _ adapter data requested \<Rightarrow> allocate_call_encode lib (adapter, data, requested))"

definition encode_validated_plan :: "evm_lib \<Rightarrow> validated_plan \<Rightarrow> bytes" where
  "encode_validated_plan lib plan =
     (let calls = map (encode_action lib) (vp_actions plan) in
      case calls of [call] \<Rightarrow> call | _ \<Rightarrow> multicall_call_encode lib calls)"

subsection \<open>Decoder\<close>

record decoded_routine_transaction =
  dr_actions :: "v2_action list"
  dr_calldata_hash :: b256

datatype decode_error = Selector | NonCanonicalCall | Multicall | Position | ZeroAmount

definition selector :: "bytes \<Rightarrow> decode_error + bytes" where
  "selector data = (if length data < 4 then Inl Selector else Inr (take 4 data))"

definition decode_call ::
  "('c \<Rightarrow> bytes) \<Rightarrow> (bytes \<Rightarrow> 'c option) \<Rightarrow> bytes \<Rightarrow> decode_error + 'c" where
  "decode_call encode decode calldata =
     try_let (ok_or (decode calldata) NonCanonicalCall) (\<lambda>call.
     if encode call \<noteq> calldata then Inl NonCanonicalCall else Inr call)"

definition routine_action ::
  "bool \<Rightarrow> position_key \<Rightarrow> adapter_address \<Rightarrow> bytes \<Rightarrow> u256 \<Rightarrow> v2_action" where
  "routine_action allocation position adapter data amount =
     (if allocation then Allocate position adapter data amount
      else Deallocate position adapter data amount)"

definition decode_position ::
  "evm_lib \<Rightarrow> validated_vault_config \<Rightarrow> adapter_address \<Rightarrow> bytes \<Rightarrow> u256 \<Rightarrow> bool \<Rightarrow>
     decode_error + v2_action" where
  "decode_position lib config adapter data amount allocation =
     (case filter (\<lambda>position. po_adapter position = adapter \<and>
             encode_adapter_data lib (po_market_params position) = data) (va_positions config) of
        [] \<Rightarrow> Inl Position
      | [position] \<Rightarrow>
          Inr (routine_action allocation (po_position_key position) (po_adapter position) data amount)
      | _ \<Rightarrow> Inl Position)"

definition decode_target ::
  "evm_lib \<Rightarrow> validated_vault_config \<Rightarrow> adapter_address \<Rightarrow> bytes \<Rightarrow> u256 \<Rightarrow> bool \<Rightarrow>
     decode_error + v2_action" where
  "decode_target lib config adapter data amount allocation =
     (case va_liquidity_adapter config of
        Some liquidity \<Rightarrow>
          if la_address liquidity = adapter \<and> data = []
          then Inr (routine_action allocation (la_position_key liquidity) (la_address liquidity) []
            amount)
          else decode_position lib config adapter data amount allocation
      | None \<Rightarrow> decode_position lib config adapter data amount allocation)"

definition decode_routine_call ::
  "evm_lib \<Rightarrow> bytes \<Rightarrow> decode_error + (bool \<times> adapter_address \<times> bytes \<times> u256)" where
  "decode_routine_call lib calldata =
     try_let (selector calldata) (\<lambda>value.
     if value = ALLOCATE lib then
       try_let (decode_call (allocate_call_encode lib) (allocate_call_decode lib) calldata)
         (\<lambda>call. Inr (True, call))
     else if value = DEALLOCATE lib then
       try_let (decode_call (deallocate_call_encode lib) (deallocate_call_decode lib) calldata)
         (\<lambda>call. Inr (False, call))
     else Inl Selector)"

definition decode_action ::
  "evm_lib \<Rightarrow> bytes \<Rightarrow> validated_vault_config \<Rightarrow> decode_error + v2_action" where
  "decode_action lib calldata config =
     try_let (decode_routine_call lib calldata) (\<lambda>(allocation, adapter, data, amount).
     if amount = 0 then Inl ZeroAmount
     else decode_target lib config adapter data amount allocation)"

definition decode_inner ::
  "evm_lib \<Rightarrow> validated_vault_config \<Rightarrow> v2_action list \<Rightarrow> bytes \<Rightarrow> decode_error + v2_action list" where
  "decode_inner lib config actions inner =
     try_let (selector inner) (\<lambda>value.
     if value = MULTICALL lib then Inl Multicall
     else try_let (decode_action lib inner config) (\<lambda>action. Inr (actions @ [action])))"

definition decode_routine_calldata ::
  "evm_lib \<Rightarrow> bytes \<Rightarrow> validated_vault_config \<Rightarrow> decode_error + decoded_routine_transaction" where
  "decode_routine_calldata lib calldata config =
     try_let (selector calldata) (\<lambda>outer_selector.
     try_let
       (if outer_selector = MULTICALL lib then
          try_let (ok_or (multicall_call_decode lib calldata) NonCanonicalCall) (\<lambda>outer.
          if multicall_call_encode lib outer \<noteq> calldata \<or> outer = [] then Inl Multicall
          else try_fold (decode_inner lib config) [] outer)
        else try_let (decode_action lib calldata config) (\<lambda>action. Inr [action])) (\<lambda>actions.
     Inr \<lparr> dr_actions = actions, dr_calldata_hash = keccak256 lib calldata \<rparr>))"

subsection \<open>Acceptance is canonical\<close>

lemma selector_Inr: "selector data = Inr v \<longleftrightarrow> 4 \<le> length data \<and> v = take 4 data"
  by (auto simp: selector_def)

lemma selector_of_prefix: "take 4 data = v \<Longrightarrow> length v = 4 \<Longrightarrow> selector data = Inr v"
  by (auto simp: selector_def)

lemma decode_inner_Inr:
  "decode_inner lib config as inner = Inr bs \<longleftrightarrow>
     4 \<le> length inner \<and> take 4 inner \<noteq> MULTICALL lib \<and>
     (\<exists>a. decode_action lib inner config = Inr a \<and> bs = as @ [a])"
  by (auto simp: decode_inner_def result_simps selector_Inr)

lemma decode_call_Inr:
  "decode_call encode decode calldata = Inr c \<longleftrightarrow> decode calldata = Some c \<and> calldata = encode c"
  by (auto simp: decode_call_def result_simps)

lemma decode_position_Inr:
  assumes "decode_position lib config adapter data amount allocation = Inr a"
  obtains c where "c \<in> set (va_positions config)" and "po_adapter c = adapter"
    and "encode_adapter_data lib (po_market_params c) = data"
    and "a = routine_action allocation (po_position_key c) adapter data amount"
proof -
  let ?P = "\<lambda>position. po_adapter position = adapter \<and>
    encode_adapter_data lib (po_market_params position) = data"
  from assms obtain c where c: "filter ?P (va_positions config) = [c]"
    and a: "a = routine_action allocation (po_position_key c) (po_adapter c) data amount"
    by (auto simp: decode_position_def split: list.splits)
  from c have "c \<in> set (filter ?P (va_positions config))" by simp
  then show thesis using that a by auto
qed

text \<open>The configured target an action names: the liquidity adapter or a direct position.\<close>

definition configured_target :: "evm_lib \<Rightarrow> validated_vault_config \<Rightarrow> v2_action \<Rightarrow> bool" where
  "configured_target lib config a \<longleftrightarrow>
     (\<exists>l. va_liquidity_adapter config = Some l \<and> act_position a = la_position_key l \<and>
        act_adapter a = la_address l \<and> act_data a = []) \<or>
     (\<exists>c \<in> set (va_positions config). act_position a = po_position_key c \<and>
        act_adapter a = po_adapter c \<and> act_data a = encode_adapter_data lib (po_market_params c))"

lemma routine_action_simps [simp]:
  "act_position (routine_action al p ad d x) = p" "act_adapter (routine_action al p ad d x) = ad"
  "act_data (routine_action al p ad d x) = d" "act_requested_assets (routine_action al p ad d x) = x"
  "is_allocation (routine_action al p ad d x) = al"
  by (simp_all add: routine_action_def is_allocation_def)

definition encode_call :: "evm_lib \<Rightarrow> bool \<Rightarrow> adapter_address \<times> bytes \<times> u256 \<Rightarrow> bytes" where
  "encode_call lib al call =
     (if al then allocate_call_encode lib call else deallocate_call_encode lib call)"

lemma encode_routine_action:
  "encode_action lib (routine_action al p ad d x) = encode_call lib al (ad, d, x)"
  by (simp add: routine_action_def encode_action_def encode_call_def)

lemma decode_routine_call_Inr:
  "decode_routine_call lib calldata = Inr (al, call) \<Longrightarrow>
     calldata = encode_call lib al call \<and> take 4 calldata \<in> {ALLOCATE lib, DEALLOCATE lib}"
  by (auto simp: decode_routine_call_def result_simps decode_call_Inr selector_Inr encode_call_def
      split: if_splits)

lemma decode_target_Inr:
  assumes "decode_target lib config adapter data amount al = Inr a"
  shows "configured_target lib config a \<and> a = routine_action al (act_position a) adapter data amount"
  using assms
  by (auto simp: decode_target_def configured_target_def split: option.splits if_splits
      elim!: decode_position_Inr)

lemma decode_action_sound:
  assumes "decode_action lib calldata config = Inr a"
  shows "encode_action lib a = calldata \<and> act_requested_assets a \<noteq> 0 \<and> configured_target lib config a \<and>
    take 4 calldata \<in> {ALLOCATE lib, DEALLOCATE lib}"
proof -
  from assms obtain al adapter data amount where
    call: "decode_routine_call lib calldata = Inr (al, adapter, data, amount)"
    and amount: "amount \<noteq> 0" and target: "decode_target lib config adapter data amount al = Inr a"
    by (auto simp: decode_action_def result_simps split: if_splits)
  have t: "configured_target lib config a" and a: "a = routine_action al (act_position a) adapter data amount"
    using decode_target_Inr [OF target] by auto
  have "act_requested_assets a = amount" by (subst a) simp
  moreover have "encode_action lib a = calldata"
    using decode_routine_call_Inr [OF call] by (subst a) (simp add: encode_routine_action)
  ultimately show ?thesis using t amount decode_routine_call_Inr [OF call] by auto
qed

lemma decode_inner_fold:
  assumes "try_fold (decode_inner lib config) as0 calls = Inr as"
  shows "\<exists>bs. as = as0 @ bs \<and> map (encode_action lib) bs = calls \<and>
    (\<forall>a \<in> set bs. act_requested_assets a \<noteq> 0 \<and> configured_target lib config a)"
  using assms
proof (induction calls arbitrary: as0)
  case (Cons c cs)
  then obtain a where a: "decode_action lib c config = Inr a"
    and rest: "try_fold (decode_inner lib config) (as0 @ [a]) cs = Inr as"
    by (auto simp: result_simps decode_inner_Inr)
  from Cons.IH [OF rest] obtain bs where "as = (as0 @ [a]) @ bs" "map (encode_action lib) bs = cs"
    "\<forall>a \<in> set bs. act_requested_assets a \<noteq> 0 \<and> configured_target lib config a" by blast
  then show ?case using decode_action_sound [OF a] by (intro exI [of _ "a # bs"]) auto
qed simp

subsection \<open>Round trip\<close>

text \<open>
  What the code relies on from the ABI codec: a call decodes to what was encoded, and its bytes start
  with the four-byte selector of the function; the three selectors differ.
\<close>

definition abi_laws :: "evm_lib \<Rightarrow> bool" where
  "abi_laws lib \<longleftrightarrow>
     (\<forall>ad d x. x < two256 \<longrightarrow>
        allocate_call_decode lib (allocate_call_encode lib (ad, d, x)) = Some (ad, d, x) \<and>
        deallocate_call_decode lib (deallocate_call_encode lib (ad, d, x)) = Some (ad, d, x) \<and>
        take 4 (allocate_call_encode lib (ad, d, x)) = ALLOCATE lib \<and>
        take 4 (deallocate_call_encode lib (ad, d, x)) = DEALLOCATE lib) \<and>
     (\<forall>cs. multicall_call_decode lib (multicall_call_encode lib cs) = Some cs \<and>
        take 4 (multicall_call_encode lib cs) = MULTICALL lib) \<and>
     length (ALLOCATE lib) = 4 \<and> length (DEALLOCATE lib) = 4 \<and> length (MULTICALL lib) = 4 \<and>
     distinct (ROUTINE_WRITE_ALLOWLIST lib)"

text \<open>Every target of the configuration is identified by its adapter and data.\<close>

definition targets_identified :: "evm_lib \<Rightarrow> validated_vault_config \<Rightarrow> bool" where
  "targets_identified lib config \<longleftrightarrow>
     distinct (map (\<lambda>c. (po_adapter c, encode_adapter_data lib (po_market_params c))) (va_positions config)) \<and>
     (\<forall>c \<in> set (va_positions config). encode_adapter_data lib (po_market_params c) \<noteq> [])"

lemma filter_unique: "distinct (map f xs) \<Longrightarrow> c \<in> set xs \<Longrightarrow> filter (\<lambda>x. f x = f c) xs = [c]"
  by (induction xs) (auto simp: filter_empty_conv image_iff)

lemma decode_target_configured:
  assumes "targets_identified lib config" and "configured_target lib config a"
  shows "decode_target lib config (act_adapter a) (act_data a) (act_requested_assets a) (is_allocation a)
    = Inr a"
proof -
  have a: "routine_action (is_allocation a) (act_position a) (act_adapter a) (act_data a)
      (act_requested_assets a) = a"
    by (cases a) (simp_all add: routine_action_def is_allocation_def)
  from assms(2) consider l where "va_liquidity_adapter config = Some l" "act_position a = la_position_key l"
      "act_adapter a = la_address l" "act_data a = []"
    | c where "c \<in> set (va_positions config)" "act_position a = po_position_key c"
      "act_adapter a = po_adapter c" "act_data a = encode_adapter_data lib (po_market_params c)"
    by (auto simp: configured_target_def)
  then show ?thesis
  proof cases
    case 1
    then show ?thesis using a by (simp add: decode_target_def)
  next
    case (2 c)
    have "filter (\<lambda>p. po_adapter p = po_adapter c \<and> encode_adapter_data lib (po_market_params p)
        = encode_adapter_data lib (po_market_params c)) (va_positions config) = [c]"
      using filter_unique [of "\<lambda>c. (po_adapter c, encode_adapter_data lib (po_market_params c))"
          "va_positions config" c] assms(1) 2(1) by (simp add: targets_identified_def)
    moreover have "act_data a \<noteq> []" using assms(1) 2 by (auto simp: targets_identified_def)
    ultimately show ?thesis
      using a 2 by (auto simp: decode_target_def decode_position_def split: option.splits)
  qed
qed

lemma decode_encode_action:
  assumes "abi_laws lib" and "targets_identified lib config" and "configured_target lib config a"
    and "0 < act_requested_assets a" and "act_requested_assets a < two256"
  shows "decode_action lib (encode_action lib a) config = Inr a"
proof -
  have sel: "selector (encode_action lib a) = Inr (take 4 (encode_action lib a))"
    using assms(1,5)
    by (intro selector_of_prefix [OF refl], cases a) (auto simp: abi_laws_def encode_action_def)
  have "decode_routine_call lib (encode_action lib a)
      = Inr (is_allocation a, act_adapter a, act_data a, act_requested_assets a)"
    unfolding decode_routine_call_def sel
    using assms(1,5)
    by (cases a) (auto simp: abi_laws_def encode_action_def ROUTINE_WRITE_ALLOWLIST_def decode_call_def
        is_allocation_def)
  then show ?thesis
    using decode_target_configured [OF assms(2,3)] assms(4) by (simp add: decode_action_def)
qed

lemma abi_laws_selector:
  "abi_laws lib \<Longrightarrow> v \<in> {ALLOCATE lib, DEALLOCATE lib} \<Longrightarrow> length v = 4 \<and> v \<noteq> MULTICALL lib"
  by (auto simp: abi_laws_def ROUTINE_WRITE_ALLOWLIST_def)

lemma decode_inner_encoded:
  assumes "abi_laws lib" and "targets_identified lib config"
    and "\<forall>a \<in> set bs. configured_target lib config a \<and> 0 < act_requested_assets a \<and>
      act_requested_assets a < two256"
  shows "try_fold (decode_inner lib config) as (map (encode_action lib) bs) = Inr (as @ bs)"
  using assms(3)
proof (induction bs arbitrary: as)
  case (Cons b bs)
  have d: "decode_action lib (encode_action lib b) config = Inr b"
    using decode_encode_action [OF assms(1,2)] Cons.prems by simp
  have "length (take 4 (encode_action lib b)) = 4 \<and> take 4 (encode_action lib b) \<noteq> MULTICALL lib"
    using decode_action_sound [OF d] by (intro abi_laws_selector [OF assms(1)]) blast
  then have "decode_inner lib config as (encode_action lib b) = Inr (as @ [b])"
    using d by (auto simp: decode_inner_Inr)
  then show ?case using Cons by simp
qed simp

lemma decode_encoded_plan:
  assumes "abi_laws lib" and "targets_identified lib config" and "pl_actions plan \<noteq> []"
    and "\<forall>a \<in> set (pl_actions plan). configured_target lib config a \<and> 0 < act_requested_assets a \<and>
      act_requested_assets a < two256"
  defines "calldata \<equiv> encode_validated_plan lib (ValidatedPlan plan)"
  shows "decode_routine_calldata lib calldata config
    = Inr \<lparr> dr_actions = pl_actions plan, dr_calldata_hash = keccak256 lib calldata \<rparr>"
proof (cases "\<exists>a. pl_actions plan = [a]")
  case True
  then obtain a where a: "pl_actions plan = [a]" by blast
  have d: "decode_action lib (encode_action lib a) config = Inr a"
    using decode_encode_action [OF assms(1,2)] assms(4) a by simp
  have "length (take 4 (encode_action lib a)) = 4 \<and> take 4 (encode_action lib a) \<noteq> MULTICALL lib"
    using decode_action_sound [OF d] by (intro abi_laws_selector [OF assms(1)]) blast
  moreover have "calldata = encode_action lib a"
    by (simp add: calldata_def encode_validated_plan_def vp_actions_def a)
  ultimately show ?thesis
    using d a selector_of_prefix [of "encode_action lib a"] by (simp add: decode_routine_calldata_def)
next
  case False
  let ?calls = "map (encode_action lib) (pl_actions plan)"
  have c: "calldata = multicall_call_encode lib ?calls"
    using False assms(3)
    by (auto simp: calldata_def encode_validated_plan_def vp_actions_def Let_def split: list.splits)
  have "selector calldata = Inr (MULTICALL lib)"
    using assms(1) by (intro selector_of_prefix) (auto simp: c abi_laws_def)
  moreover have "multicall_call_decode lib calldata = Some ?calls"
    using assms(1) by (simp add: c abi_laws_def)
  ultimately show ?thesis
    using decode_inner_encoded [OF assms(1,2,4), of "[]"] assms(3)
    by (simp add: decode_routine_calldata_def c)
qed

subsection \<open>A concrete codec\<close>

text \<open>Instances of the calls on which the witnesses evaluate: fixed-width fields, then the data.\<close>

definition be_nat :: "bytes \<Rightarrow> nat" where
  "be_nat bs = foldl (\<lambda>acc b. 256 * acc + unat b) 0 bs"

lemma be_bytes_Suc: "be_bytes (Suc n) x = be_bytes n (x div 256) @ [word_of_nat x]"
proof -
  have "x div 256 ^ (n - i) = x div 256 div 256 ^ (n - 1 - i)" if "i < n" for i
  proof -
    have "n - i = Suc (n - 1 - i)" using that by simp
    then show ?thesis by (simp add: div_mult2_eq)
  qed
  then show ?thesis by (simp add: be_bytes_def)
qed

lemma be_nat_be_bytes: "x < 256 ^ n \<Longrightarrow> be_nat (be_bytes n x) = x"
proof (induction n arbitrary: x)
  case (Suc n)
  have "be_nat (be_bytes n (x div 256)) = x div 256"
    by (rule Suc.IH) (use Suc.prems in \<open>simp add: less_mult_imp_div_less\<close>)
  then show ?case
    by (simp add: be_bytes_Suc be_nat_def unat_of_nat)
qed (simp add: be_nat_def be_bytes_def)

definition plain_encode :: "bytes \<Rightarrow> address \<times> bytes \<times> u256 \<Rightarrow> bytes" where
  "plain_encode sel = (\<lambda>(ad, d, x). sel @ be_bytes 20 (unat ad) @ be_bytes 32 x @ d)"

definition plain_decode :: "bytes \<Rightarrow> (address \<times> bytes \<times> u256) option" where
  "plain_decode bs =
     (if length bs < 56 then None
      else Some (word_of_nat (be_nat (take 20 (drop 4 bs))), drop 56 bs,
        be_nat (take 32 (drop 24 bs))))"

lemma plain_decode_encode:
  assumes "length sel = 4" and "x < two256"
  shows "plain_decode (plain_encode sel (ad, d, x)) = Some (ad, d, x)"
proof -
  have "unat ad < 256 ^ 20" using unsigned_less [of ad, where 'a = nat] by simp
  moreover have "x < 256 ^ 32" using assms(2) by (simp add: two_powers)
  ultimately show ?thesis
    using assms(1) by (simp add: plain_decode_def plain_encode_def be_nat_be_bytes)
qed

definition framed :: "bytes list \<Rightarrow> bytes" where
  "framed cs = concat (map (\<lambda>c. concat (map (\<lambda>b. [0, b]) c) @ [1]) cs)"

fun unframed :: "bytes \<Rightarrow> bytes \<Rightarrow> bytes list option" where
  "unframed acc [] = (if acc = [] then Some [] else None)"
| "unframed acc [t] = (if t = 1 then Some [acc] else None)"
| "unframed acc (t # b # rest) =
     (if t = 1 then map_option ((#) acc) (unframed [] (b # rest)) else unframed (acc @ [b]) rest)"

lemma unframed_call:
  "unframed acc (concat (map (\<lambda>b. [0, b]) c) @ 1 # rest) = map_option ((#) (acc @ c)) (unframed [] rest)"
  by (induction c arbitrary: acc) (cases rest; simp)+

lemma unframed_framed: "unframed [] (framed cs) = Some cs"
  by (induction cs) (simp_all add: framed_def unframed_call)

definition codec_lib :: evm_lib where
  "codec_lib = witness_lib
     \<lparr> allocate_call_encode := plain_encode (ALLOCATE witness_lib), allocate_call_decode := plain_decode,
       deallocate_call_encode := plain_encode (DEALLOCATE witness_lib),
       deallocate_call_decode := plain_decode,
       multicall_call_encode := (\<lambda>cs. MULTICALL witness_lib @ framed cs),
       multicall_call_decode := (\<lambda>bs. unframed [] (drop 4 bs)) \<rparr>"

lemma witness_selectors:
  "length (ALLOCATE witness_lib) = 4" "length (DEALLOCATE witness_lib) = 4"
  "length (MULTICALL witness_lib) = 4" "distinct (ROUTINE_WRITE_ALLOWLIST witness_lib)"
  by (simp_all add: witness_lib_def ROUTINE_WRITE_ALLOWLIST_def)

lemma abi_laws_codec_lib: "abi_laws codec_lib"
  using witness_selectors
  by (simp add: abi_laws_def codec_lib_def plain_decode_encode unframed_framed ROUTINE_WRITE_ALLOWLIST_def)
    (simp add: plain_encode_def)

subsection \<open>Properties\<close>

text \<open>
  C33. Calldata round trip: under the laws of the ABI codec and for a configuration whose targets are
  identified by adapter and data, the independent decoder reads from the encoded plan exactly the
  plan's actions, in order, for single calls and multicalls alike.
\<close>

theorem calldata_roundtrip:
  assumes "abi_laws lib" and "targets_identified lib config" and "pl_actions plan \<noteq> []"
    and "\<forall>a \<in> set (pl_actions plan). configured_target lib config a \<and> 0 < act_requested_assets a \<and>
      act_requested_assets a < two256"
  defines "calldata \<equiv> encode_validated_plan lib (ValidatedPlan plan)"
  shows "decode_routine_calldata lib calldata config
    = Inr \<lparr> dr_actions = pl_actions plan, dr_calldata_hash = keccak256 lib calldata \<rparr>"
  unfolding calldata_def by (rule decode_encoded_plan [OF assms(1-4)])

lemma witness_codec_data: "encode_adapter_data codec_lib = encode_adapter_data witness_lib"
  by (simp add: encode_adapter_data_def codec_lib_def fun_eq_iff)

lemma witness_targets:
  "targets_identified codec_lib witness_v1_config \<and>
   (\<forall>a \<in> set witness_actions. configured_target codec_lib witness_v1_config a \<and>
      0 < act_requested_assets a \<and> act_requested_assets a < two256)"
  unfolding targets_identified_def configured_target_def witness_codec_data
  by (simp add: witness_v1_config_def witness_config_def witness_position_config_def
      witness_actions_def two_powers)
    (simp add: encode_adapter_data_def witness_lib_def be_bytes_def)

theorem calldata_roundtrip_witness:
  "\<exists>calldata. decode_routine_calldata codec_lib calldata witness_v1_config
    = Inr \<lparr> dr_actions = witness_actions, dr_calldata_hash = keccak256 codec_lib calldata \<rparr>"
proof -
  have "pl_actions (witness_plan witness_actions) = witness_actions" "witness_actions \<noteq> []"
    by (simp_all add: witness_plan_def witness_actions_def)
  then show ?thesis
    using calldata_roundtrip [OF abi_laws_codec_lib, of witness_v1_config "witness_plan witness_actions"]
      witness_targets by auto
qed

text \<open>
  C34. The decoder accepts only canonical calldata, whatever the ABI library decodes: accepted bytes
  are the encoding of the returned actions (as one call, or as one multicall of all of them), carry
  an allowlisted selector, and name nonzero amounts and configured targets only.
\<close>

theorem calldata_acceptance_canonical:
  assumes "decode_routine_calldata lib calldata config = Inr d"
  shows "dr_actions d \<noteq> [] \<and> is_routine_write lib (take 4 calldata) \<and>
    (calldata = multicall_call_encode lib (map (encode_action lib) (dr_actions d)) \<or>
     [calldata] = map (encode_action lib) (dr_actions d)) \<and>
    dr_calldata_hash d = keccak256 lib calldata \<and>
    (\<forall>a \<in> set (dr_actions d). act_requested_assets a \<noteq> 0 \<and> configured_target lib config a)"
proof (cases "take 4 calldata = MULTICALL lib")
  case True
  with assms obtain outer where outer: "calldata = multicall_call_encode lib outer" "outer \<noteq> []"
    "try_fold (decode_inner lib config) [] outer = Inr (dr_actions d)"
    "dr_calldata_hash d = keccak256 lib calldata"
    by (auto simp: decode_routine_calldata_def result_simps selector_Inr)
  then show ?thesis
    using decode_inner_fold [OF outer(3)] True
    by (auto simp: is_routine_write_def ROUTINE_WRITE_ALLOWLIST_def)
next
  case False
  with assms obtain a where a: "decode_action lib calldata config = Inr a"
    "d = \<lparr> dr_actions = [a], dr_calldata_hash = keccak256 lib calldata \<rparr>"
    by (auto simp: decode_routine_calldata_def result_simps selector_Inr)
  show ?thesis
    using decode_action_sound [OF a(1)]
    by (auto simp: a(2) is_routine_write_def ROUTINE_WRITE_ALLOWLIST_def)
qed

theorem calldata_acceptance_canonical_witness:
  "\<exists>d. decode_routine_calldata codec_lib
      (plain_encode [2, 0, 0, 0] (30, [], 7)) witness_v1_config = Inr d \<and> dr_actions d \<noteq> []"
proof -
  have "is_ok (decode_routine_calldata codec_lib (plain_encode [2, 0, 0, 0] (30, [], 7))
      witness_v1_config)"
    using plain_decode_encode [of "[2, 0, 0, 0]" 7 30 "[]"]
    by (simp add: decode_routine_calldata_def decode_action_def decode_routine_call_def decode_call_def
        decode_target_def selector_def codec_lib_def witness_lib_def witness_v1_config_def two_powers
        be_bytes_def plain_encode_def)
  then show ?thesis using calldata_acceptance_canonical by (auto simp: is_ok_iff)
qed
end
