(* ===== verification/Firewall.thy ===== *)
theory Firewall
  imports Codec
begin

text \<open>
  The semantic-plan and transaction firewall (\<open>src/transaction/firewall.rs\<close>). Canonical JSON
  serialization of a plan is \<open>serde_json\<close> and enters as the parameter \<open>to_vec\<close>.
\<close>

subsection \<open>Fields and errors\<close>

record routine_transaction_fields =
  rt_chain_id :: u64
  rt_from :: address
  rt_to :: address
  rt_nonce :: u64
  rt_gas_limit :: u64
  rt_max_fee_per_gas :: u128
  rt_max_priority_fee_per_gas :: u128
  rt_value :: u256
  rt_calldata :: bytes

record validated_routine_transaction =
  vr_fields :: routine_transaction_fields
  vr_plan_hash :: b256

record tx_eip1559 =
  tx_chain_id :: u64
  tx_nonce :: u64
  tx_gas_limit :: u64
  tx_max_fee_per_gas :: u128
  tx_max_priority_fee_per_gas :: u128
  tx_to :: address
  tx_value :: u256
  tx_access_list :: "(address \<times> b256 list) list"
  tx_input :: bytes

definition eip1559 :: "validated_routine_transaction \<Rightarrow> tx_eip1559" where
  "eip1559 t =
     \<lparr> tx_chain_id = rt_chain_id (vr_fields t), tx_nonce = rt_nonce (vr_fields t),
       tx_gas_limit = rt_gas_limit (vr_fields t),
       tx_max_fee_per_gas = rt_max_fee_per_gas (vr_fields t),
       tx_max_priority_fee_per_gas = rt_max_priority_fee_per_gas (vr_fields t),
       tx_to = rt_to (vr_fields t), tx_value = rt_value (vr_fields t), tx_access_list = [],
       tx_input = rt_calldata (vr_fields t) \<rparr>"

datatype firewall_error =
    Context | PlanHash | Solver | Action | Calldata | Envelope | Fee | Serialization

subsection \<open>Plans\<close>

definition canonical_plan_hash ::
  "evm_lib \<Rightarrow> (v2_plan \<Rightarrow> bytes option) \<Rightarrow> v2_plan \<Rightarrow> firewall_error + b256" where
  "canonical_plan_hash lib to_vec plan =
     try_let (ok_or (to_vec (plan \<lparr> pl_plan_hash := 0 \<rparr>)) Serialization) (\<lambda>bytes.
     Inr (keccak256 lib bytes))"

definition canonical_plan_id ::
  "evm_lib \<Rightarrow> (v2_plan \<Rightarrow> bytes option) \<Rightarrow> v2_plan \<Rightarrow> firewall_error + plan_id" where
  "canonical_plan_id lib to_vec plan =
     try_let (ok_or (to_vec (plan \<lparr> pl_plan_id := 0, pl_plan_hash := 0 \<rparr>)) Serialization) (\<lambda>bytes.
     Inr (keccak256 lib bytes))"

record action_totals =
  tt_allocation_phase :: bool
  tt_touched :: "position_key list"
  tt_deallocated :: u256
  tt_allocated :: u256

definition action_configured ::
  "evm_lib \<Rightarrow> validated_vault_config \<Rightarrow> v2_action \<Rightarrow> firewall_error + unit" where
  "action_configured lib vault action =
     (case (case va_liquidity_adapter vault of
              None \<Rightarrow> None
            | Some c \<Rightarrow> if la_position_key c = act_position action then Some c else None) of
        Some configured \<Rightarrow>
          if la_address configured \<noteq> act_adapter action \<or> act_data action \<noteq> [] \<or>
             act_requested_assets action > la_maximum_action_assets configured
          then Inl Action else Inr ()
      | None \<Rightarrow>
          try_let (ok_or (find (\<lambda>configured. po_position_key configured = act_position action)
            (va_positions vault)) Action) (\<lambda>configured.
          if po_adapter configured \<noteq> act_adapter action \<or>
             act_data action \<noteq> encode_adapter_data lib (po_market_params configured) \<or>
             act_requested_assets action > po_maximum_action_assets configured \<or>
             (is_allocation action \<and> po_mode configured \<noteq> Active) \<or>
             (\<not> is_allocation action \<and> po_mode configured \<notin> {Active, SourceOnly, Disabled})
          then Inl Action else Inr ()))"

definition validate_action ::
  "evm_lib \<Rightarrow> validated_vault_config \<Rightarrow> action_totals \<Rightarrow> v2_action \<Rightarrow> firewall_error + action_totals" where
  "validate_action lib vault totals action =
     (let amount = act_requested_assets action; position = act_position action in
      if amount = 0 \<or> position \<in> set (tt_touched totals) \<or>
         (\<not> is_allocation action \<and> tt_allocation_phase totals)
      then Inl Action
      else
        try_let (action_configured lib vault action) (\<lambda>_.
        let marked = totals \<lparr> tt_touched := bs_insert position (tt_touched totals),
              tt_allocation_phase := (tt_allocation_phase totals \<or> is_allocation action) \<rparr> in
        if is_allocation action
        then try_let (ok_or (checked_add (tt_allocated totals) amount) Action) (\<lambda>v.
          Inr (marked \<lparr> tt_allocated := v \<rparr>))
        else try_let (ok_or (checked_add (tt_deallocated totals) amount) Action) (\<lambda>v.
          Inr (marked \<lparr> tt_deallocated := v \<rparr>))))"

definition funds_from_positions :: "validated_vault_config \<Rightarrow> v2_action \<Rightarrow> bool" where
  "funds_from_positions vault action \<longleftrightarrow>
     \<not> is_allocation action \<and>
     (case va_liquidity_adapter vault of
        None \<Rightarrow> True | Some liquidity \<Rightarrow> la_position_key liquidity \<noteq> act_position action)"

definition reason_permits ::
  "v2_plan \<Rightarrow> validated_vault_config \<Rightarrow> u256 \<Rightarrow> u256 \<Rightarrow> firewall_error + unit" where
  "reason_permits plan vault deallocated allocated =
     (let rebalance = (if deallocated = 0 \<or> allocated = 0 \<or> deallocated \<noteq> allocated \<or>
            pp_after_spread (pl_projection plan) \<ge> pp_before_spread (pl_projection plan)
          then Inl Action else Inr ()) in
      case pl_reason plan of
        RateRebalance \<Rightarrow> rebalance
      | TopKApyRebalance \<Rightarrow> rebalance
      | CapitalDeployment \<Rightarrow>
          if allocated = 0 \<or> allocated < deallocated \<or>
             (\<exists>action \<in> set (pl_actions plan). funds_from_positions vault action)
          then Inl Action else Inr ()
      | LiquidityMaintenance \<Rightarrow>
          if allocated = 0 \<or> (deallocated \<noteq> 0 \<and> deallocated \<noteq> allocated)
          then Inl Action else Inr ()
      | PositionSyncRequired \<Rightarrow> Inl Action)"

definition validate_actions ::
  "evm_lib \<Rightarrow> v2_plan \<Rightarrow> validated_vault_config \<Rightarrow> nat \<Rightarrow> firewall_error + unit" where
  "validate_actions lib plan vault maximum_actions =
     (if pl_actions plan = [] \<or> length (pl_actions plan) > maximum_actions then Inl Action
      else
        try_let (try_fold (validate_action lib vault)
          \<lparr> tt_allocation_phase = False, tt_touched = [], tt_deallocated = 0, tt_allocated = 0 \<rparr>
          (pl_actions plan)) (\<lambda>totals.
        let movement = max (tt_allocated totals) (tt_deallocated totals) in
        if movement \<noteq> pp_movement_assets (pl_projection plan) \<or>
           pp_immediate_loss_assets (pl_projection plan) > va_maximum_immediate_rebalance_loss_assets vault
        then Inl Action
        else reason_permits plan vault (tt_deallocated totals) (tt_allocated totals)))"

definition solver_inconsistent :: "v2_plan \<Rightarrow> bool" where
  "solver_inconsistent plan =
     (let c = pl_solver_certificate plan in
      \<not> ce_search_complete_for_lattice c \<or> ce_nodes_evaluated c > ce_node_limit c \<or>
      (case pl_reason plan of
         RateRebalance \<Rightarrow>
           pl_episode_id plan = None \<or> ce_rate_episode_id c \<noteq> pl_episode_id plan \<or>
           ce_objective_branch c = None
       | TopKApyRebalance \<Rightarrow>
           pl_episode_id plan \<noteq> None \<or> ce_rate_episode_id c \<noteq> None \<or> ce_objective_branch c \<noteq> None
       | PositionSyncRequired \<Rightarrow> True
       | _ \<Rightarrow>
           pl_episode_id plan \<noteq> None \<or> ce_rate_episode_id c \<noteq> None \<or> ce_objective_branch c \<noteq> None \<or>
           ce_target_reachable c \<or> ce_target_reached c))"

definition validate_plan_integrity ::
  "evm_lib \<Rightarrow> (v2_plan \<Rightarrow> bytes option) \<Rightarrow> v2_plan \<Rightarrow> validated_vault_config \<Rightarrow> nat \<Rightarrow>
     firewall_error + validated_plan" where
  "validate_plan_integrity lib to_vec plan vault maximum_actions =
     (if pl_topology_revision plan \<noteq> sc_dynamic_topology_revision (pl_snapshot plan)
      then Inl PlanHash
      else
        try_let (canonical_plan_id lib to_vec plan) (\<lambda>plan_id.
        if pl_plan_id plan \<noteq> plan_id then Inl PlanHash
        else
          try_let (canonical_plan_hash lib to_vec plan) (\<lambda>plan_hash.
          if pl_plan_hash plan \<noteq> plan_hash then Inl PlanHash
          else if solver_inconsistent plan then Inl Solver
          else
            try_let (validate_actions lib plan vault maximum_actions) (\<lambda>_.
            Inr (ValidatedPlan plan)))))"

definition vault_of_plan :: "v2_plan \<Rightarrow> validated_config \<Rightarrow> firewall_error + validated_vault_config" where
  "vault_of_plan plan config =
     ok_or (find (\<lambda>vault. va_address vault = pl_vault plan) (app_vaults (cfg_app config))) Context"

definition validate_plan ::
  "evm_lib \<Rightarrow> (v2_plan \<Rightarrow> bytes option) \<Rightarrow> v2_plan \<Rightarrow> validated_config \<Rightarrow>
     firewall_error + validated_plan" where
  "validate_plan lib to_vec plan config =
     try_let (vault_of_plan plan config) (\<lambda>vault.
     if pl_config_revision plan \<noteq> cfg_revision config \<or>
        sc_static_config_revision (pl_snapshot plan) \<noteq> cfg_revision config \<or>
        sc_chain_id (pl_snapshot plan) \<noteq> cn_chain_id (app_chain (cfg_app config))
     then Inl PlanHash
     else validate_plan_integrity lib to_vec plan vault
       (ec_maximum_actions (app_execution (cfg_app config))))"

definition validate_historical_plan ::
  "evm_lib \<Rightarrow> (v2_plan \<Rightarrow> bytes option) \<Rightarrow> v2_plan \<Rightarrow> validated_config \<Rightarrow>
     firewall_error + validated_plan" where
  "validate_historical_plan lib to_vec plan config =
     try_let (vault_of_plan plan config) (\<lambda>vault.
     if pl_config_revision plan \<noteq> sc_static_config_revision (pl_snapshot plan) then Inl PlanHash
     else validate_plan_integrity lib to_vec plan vault
       (ec_maximum_actions (app_execution (cfg_app config))))"

definition configured_plan_vault ::
  "validated_plan \<Rightarrow> validated_config \<Rightarrow> firewall_error + validated_vault_config" where
  "configured_plan_vault plan config =
     ok_or (find (\<lambda>vault. va_address vault = pl_vault (vp_plan plan)) (app_vaults (cfg_app config)))
       Context"

subsection \<open>Transactions\<close>

definition validate_routine_transaction ::
  "evm_lib \<Rightarrow> validated_plan \<Rightarrow> routine_transaction_fields \<Rightarrow> u64 \<Rightarrow> validated_vault_config \<Rightarrow>
     validated_execution_config \<Rightarrow> firewall_error + validated_routine_transaction" where
  "validate_routine_transaction lib plan tx_fields chain_id vault execution =
     (if rt_chain_id tx_fields \<noteq> chain_id \<or> rt_from tx_fields \<noteq> va_signer_address vault \<or>
         rt_to tx_fields \<noteq> va_address vault \<or> rt_value tx_fields \<noteq> 0
      then Inl Envelope
      else if rt_gas_limit tx_fields = 0 \<or>
              rt_gas_limit tx_fields > ec_maximum_signed_transaction_gas execution \<or>
              rt_max_fee_per_gas tx_fields > ec_maximum_fee_per_gas_wei execution \<or>
              rt_max_priority_fee_per_gas tx_fields > rt_max_fee_per_gas tx_fields
      then Inl Fee
      else
        let expected = encode_validated_plan lib plan in
        try_let (map_err (\<lambda>_. Calldata) (decode_routine_calldata lib (rt_calldata tx_fields) vault))
          (\<lambda>decoded.
        if rt_calldata tx_fields \<noteq> expected \<or> dr_actions decoded \<noteq> vp_actions plan then Inl Calldata
        else Inr \<lparr> vr_fields = tx_fields, vr_plan_hash = pl_plan_hash (vp_plan plan) \<rparr>))"

definition validate_historical_routine_transaction ::
  "evm_lib \<Rightarrow> (v2_plan \<Rightarrow> bytes option) \<Rightarrow> v2_plan \<Rightarrow> routine_transaction_fields \<Rightarrow>
     validated_config \<Rightarrow> validated_vault_config \<Rightarrow> firewall_error + validated_routine_transaction" where
  "validate_historical_routine_transaction lib to_vec plan tx_fields config vault =
     try_let (validate_historical_plan lib to_vec plan config) (\<lambda>validated.
     validate_routine_transaction lib validated tx_fields (cn_chain_id (app_chain (cfg_app config))) vault
       (app_execution (cfg_app config)))"

subsection \<open>What the firewall accepts\<close>

definition totals_match :: "v2_action list \<Rightarrow> action_totals \<Rightarrow> bool" where
  "totals_match as t \<longleftrightarrow>
     set (tt_touched t) = act_position ` set as \<and>
     tt_allocation_phase t = (\<exists>a \<in> set as. is_allocation a) \<and>
     tt_allocated t = allocated_assets as \<and> tt_deallocated t = deallocated_assets as"

lemma action_grammar_snoc:
  "action_grammar (as @ [a]) \<longleftrightarrow>
     action_grammar as \<and> act_requested_assets a \<noteq> 0 \<and> act_position a \<notin> act_position ` set as \<and>
     ((\<exists>b \<in> set as. is_allocation b) \<longrightarrow> is_allocation a)"
  by (auto simp: action_grammar_def sorted_wrt_append)

lemma validate_action_iff:
  assumes "totals_match as t"
  shows "(\<exists>t'. validate_action lib vault t a = Inr t') \<longleftrightarrow>
      act_requested_assets a \<noteq> 0 \<and> act_position a \<notin> act_position ` set as \<and>
      ((\<exists>b \<in> set as. is_allocation b) \<longrightarrow> is_allocation a) \<and>
      action_configured lib vault a = Inr () \<and>
      (if is_allocation a then allocated_assets (as @ [a]) < two256
       else deallocated_assets (as @ [a]) < two256)"
  using assms
  by (cases "is_allocation a")
    (auto simp: validate_action_def totals_match_def Let_def result_simps checked_ops)

lemma validate_action_totals:
  assumes "totals_match as t" and "validate_action lib vault t a = Inr t'"
  shows "totals_match (as @ [a]) t'"
  using assms
  by (cases "is_allocation a")
    (auto simp: validate_action_def totals_match_def Let_def result_simps checked_ops)

lemma validate_actions_totals:
  assumes "totals_match as t" and "try_fold (validate_action lib vault) t bs = Inr t'"
  shows "totals_match (as @ bs) t'"
  using assms(2) by (rule try_fold_prefix_induct)
    (use assms(1) in \<open>auto simp: append_assoc [symmetric] simp del: append_assoc intro: validate_action_totals\<close>)

lemma validate_actions_fold_iff:
  "(\<exists>t'. try_fold (validate_action lib vault)
      \<lparr> tt_allocation_phase = False, tt_touched = [], tt_deallocated = 0, tt_allocated = 0 \<rparr> as = Inr t') \<longleftrightarrow>
     action_grammar as \<and> (\<forall>a \<in> set as. action_configured lib vault a = Inr ()) \<and>
     allocated_assets as < two256 \<and> deallocated_assets as < two256"
  (is "(\<exists>t'. try_fold _ ?t0 as = Inr t') \<longleftrightarrow> _")
proof (induction as rule: rev_induct)
  case Nil
  then show ?case by (simp add: action_grammar_def)
next
  case (snoc a as)
  have m0: "totals_match [] ?t0" by (simp add: totals_match_def)
  have "(\<exists>t'. try_fold (validate_action lib vault) ?t0 (as @ [a]) = Inr t') \<longleftrightarrow>
      (\<exists>t. try_fold (validate_action lib vault) ?t0 as = Inr t \<and>
        (\<exists>t'. validate_action lib vault t a = Inr t'))"
    by (auto simp: try_fold_append result_simps)
  also have "\<dots> \<longleftrightarrow> (\<exists>t. try_fold (validate_action lib vault) ?t0 as = Inr t) \<and> (
      act_requested_assets a \<noteq> 0 \<and> act_position a \<notin> act_position ` set as \<and>
      ((\<exists>b \<in> set as. is_allocation b) \<longrightarrow> is_allocation a) \<and>
      action_configured lib vault a = Inr () \<and>
      (if is_allocation a then allocated_assets (as @ [a]) < two256
       else deallocated_assets (as @ [a]) < two256))"
    using validate_action_iff [OF validate_actions_totals [OF m0, unfolded append_Nil]] by blast
  also have "\<dots> \<longleftrightarrow> action_grammar (as @ [a]) \<and>
      (\<forall>a \<in> set (as @ [a]). action_configured lib vault a = Inr ()) \<and>
      allocated_assets (as @ [a]) < two256 \<and> deallocated_assets (as @ [a]) < two256"
    unfolding snoc.IH action_grammar_snoc by auto
  finally show ?case .
qed

text \<open>What each reason demands of the movement.\<close>

definition movement_permitted :: "v2_plan \<Rightarrow> validated_vault_config \<Rightarrow> bool" where
  "movement_permitted plan vault \<longleftrightarrow>
     (let out = deallocated_assets (pl_actions plan); inn = allocated_assets (pl_actions plan) in
      0 < inn \<and>
      (pl_reason plan \<in> {RateRebalance, TopKApyRebalance} \<and> out = inn \<and>
         pp_after_spread (pl_projection plan) < pp_before_spread (pl_projection plan) \<or>
       pl_reason plan = CapitalDeployment \<and> out \<le> inn \<and>
         (\<forall>a \<in> set (pl_actions plan). \<not> is_allocation a \<longrightarrow>
            (\<exists>l. va_liquidity_adapter vault = Some l \<and> act_position a = la_position_key l)) \<or>
       pl_reason plan = LiquidityMaintenance \<and> out \<in> {0, inn}))"

lemma reason_permits_iff:
  "reason_permits plan vault (deallocated_assets (pl_actions plan)) (allocated_assets (pl_actions plan))
      = Inr () \<longleftrightarrow> movement_permitted plan vault"
  by (cases "pl_reason plan")
    (auto simp: reason_permits_def movement_permitted_def Let_def funds_from_positions_def not_less
      split: option.splits)

lemma validate_actions_iff:
  "validate_actions lib plan vault n = Inr () \<longleftrightarrow>
     (let as = pl_actions plan in
      as \<noteq> [] \<and> length as \<le> n \<and> action_grammar as \<and>
      (\<forall>a \<in> set as. action_configured lib vault a = Inr ()) \<and>
      allocated_assets as < two256 \<and> deallocated_assets as < two256 \<and>
      pp_movement_assets (pl_projection plan) = max (allocated_assets as) (deallocated_assets as) \<and>
      pp_immediate_loss_assets (pl_projection plan) \<le> va_maximum_immediate_rebalance_loss_assets vault \<and>
      movement_permitted plan vault)"
proof -
  let ?t0 = "\<lparr> tt_allocation_phase = False, tt_touched = [], tt_deallocated = 0, tt_allocated = 0 \<rparr>"
  let ?as = "pl_actions plan"
  have m: "tt_allocated t = allocated_assets ?as \<and> tt_deallocated t = deallocated_assets ?as"
    if "try_fold (validate_action lib vault) ?t0 ?as = Inr t" for t
    using validate_actions_totals [of "[]" ?t0, OF _ that] by (simp add: totals_match_def)
  show ?thesis
  proof (cases "try_fold (validate_action lib vault) ?t0 ?as")
    case (Inl e)
    then have "\<not> (\<exists>t. try_fold (validate_action lib vault) ?t0 ?as = Inr t)" by simp
    then show ?thesis
      unfolding validate_actions_fold_iff using Inl by (auto simp: validate_actions_def Let_def)
  next
    case (Inr t)
    then have "\<exists>t. try_fold (validate_action lib vault) ?t0 ?as = Inr t" by simp
    then show ?thesis
      unfolding validate_actions_fold_iff
      using Inr m [OF Inr] reason_permits_iff [of plan vault]
      by (auto simp: validate_actions_def Let_def not_less)
  qed
qed

lemma find_SomeD: "find P xs = Some x \<Longrightarrow> x \<in> set xs \<and> P x"
  by (auto simp: find_Some_iff)

lemma action_configured_target:
  assumes "action_configured lib vault a = Inr ()"
  shows "configured_target lib vault a"
proof (cases "\<exists>l. va_liquidity_adapter vault = Some l \<and> la_position_key l = act_position a")
  case True
  then obtain l where l: "va_liquidity_adapter vault = Some l" "la_position_key l = act_position a"
    by blast
  with assms have "la_address l = act_adapter a" "act_data a = []"
    by (simp_all add: action_configured_def split: if_splits)
  then show ?thesis using l by (simp add: configured_target_def)
next
  case False
  then have n: "(case va_liquidity_adapter vault of None \<Rightarrow> None
      | Some c \<Rightarrow> if la_position_key c = act_position a then Some c else None) = None"
    by (simp split: option.splits)
  from assms obtain c where
    c: "find (\<lambda>c. po_position_key c = act_position a) (va_positions vault) = Some c"
    "po_adapter c = act_adapter a" "act_data a = encode_adapter_data lib (po_market_params c)"
    unfolding action_configured_def n option.case
    by (simp add: result_simps) blast
  from find_SomeD [OF c(1)] show ?thesis
    using c(2,3) unfolding configured_target_def
    by (intro disjI2 bexI [of _ c]) simp_all
qed

lemma requested_le_moved: "a \<in> set as \<Longrightarrow> act_requested_assets a \<le> max (allocated_assets as) (deallocated_assets as)"
  using member_le_sum_list [of "act_requested_assets a" "map act_requested_assets (filter is_allocation as)"]
    member_le_sum_list [of "act_requested_assets a" "map act_requested_assets (filter (Not \<circ> is_allocation) as)"]
  by (cases "is_allocation a") (auto simp: allocated_assets_def deallocated_assets_def)

lemma validate_plan_integrity_Inr:
  "validate_plan_integrity lib to_vec plan vault n = Inr v \<longleftrightarrow>
     v = ValidatedPlan plan \<and> pl_topology_revision plan = sc_dynamic_topology_revision (pl_snapshot plan) \<and>
     canonical_plan_id lib to_vec plan = Inr (pl_plan_id plan) \<and>
     canonical_plan_hash lib to_vec plan = Inr (pl_plan_hash plan) \<and> \<not> solver_inconsistent plan \<and>
     validate_actions lib plan vault n = Inr ()"
  by (auto simp: validate_plan_integrity_def result_simps)

subsection \<open>Properties\<close>

definition witness_fields :: routine_transaction_fields where
  "witness_fields =
     \<lparr> rt_chain_id = 1, rt_from = 77, rt_to = 10, rt_nonce = 0, rt_gas_limit = 500000,
       rt_max_fee_per_gas = 100, rt_max_priority_fee_per_gas = 2, rt_value = 0,
       rt_calldata = encode_validated_plan codec_lib (ValidatedPlan (witness_plan witness_actions)) \<rparr>"

lemma witness_plan_validates:
  "validate_plan codec_lib (\<lambda>_. Some []) (witness_plan witness_actions) witness_validated_config
     = Inr (ValidatedPlan (witness_plan witness_actions))"
  "validate_plan_integrity codec_lib (\<lambda>_. Some []) (witness_plan witness_actions) witness_v1_config 4
     = Inr (ValidatedPlan (witness_plan witness_actions))"
  by (simp_all add: validate_plan_def vault_of_plan_def validate_plan_integrity_def
      canonical_plan_id_def canonical_plan_hash_def solver_inconsistent_def validate_actions_def
      validate_action_def action_configured_def reason_permits_def funds_from_positions_def
      witness_validated_config_def witness_app_def witness_execution_def witness_v1_config_def
      witness_config_def witness_position_config_def witness_plan_def witness_actions_def Let_def
      encode_adapter_data_def codec_lib_def witness_lib_def is_allocation_def allocated_assets_def
      deallocated_assets_def evaluate_arith)



text \<open>
  C31. A transaction the firewall releases for signing is the plan and nothing else: it calls the
  configured vault from the configured signer on the configured chain with no value and no access
  list, within the gas and fee ceilings; its input is the encoding of the plan, decodes back to the
  plan's actions, and the plan carries its canonical identity and an executable solver certificate.
\<close>

theorem released_transaction_is_plan:
  assumes "validate_plan lib to_vec plan config = Inr validated"
    and "validate_routine_transaction lib validated tx_fields chain_id vault execution = Inr tx"
  shows "vp_plan validated = plan \<and>
    tx_chain_id (eip1559 tx) = chain_id \<and> tx_to (eip1559 tx) = va_address vault \<and>
    rt_from (vr_fields tx) = va_signer_address vault \<and> tx_value (eip1559 tx) = 0 \<and>
    tx_access_list (eip1559 tx) = [] \<and>
    0 < tx_gas_limit (eip1559 tx) \<and>
    tx_gas_limit (eip1559 tx) \<le> ec_maximum_signed_transaction_gas execution \<and>
    tx_max_priority_fee_per_gas (eip1559 tx) \<le> tx_max_fee_per_gas (eip1559 tx) \<and>
    tx_max_fee_per_gas (eip1559 tx) \<le> ec_maximum_fee_per_gas_wei execution \<and>
    tx_input (eip1559 tx) = encode_validated_plan lib (ValidatedPlan plan) \<and>
    (\<exists>d. decode_routine_calldata lib (tx_input (eip1559 tx)) vault = Inr d \<and>
       dr_actions d = pl_actions plan) \<and>
    action_grammar (pl_actions plan) \<and> \<not> solver_inconsistent plan \<and>
    canonical_plan_hash lib to_vec plan = Inr (vr_plan_hash tx)"
proof -
  from assms(1) obtain v where v: "validate_plan_integrity lib to_vec plan v
      (ec_maximum_actions (app_execution (cfg_app config))) = Inr validated"
    by (auto simp: validate_plan_def result_simps split: if_splits)
  note i = v [unfolded validate_plan_integrity_Inr]
  then have "action_grammar (pl_actions plan)"
    by (simp add: validate_actions_iff Let_def)
  then show ?thesis
    using assms(2) i
    by (auto simp: validate_routine_transaction_def eip1559_def Let_def result_simps vp_actions_def
        split: if_splits)
qed

theorem released_transaction_is_plan_witness:
  "\<exists>tx. validate_routine_transaction codec_lib (ValidatedPlan (witness_plan witness_actions)) witness_fields
      1 witness_v1_config witness_execution = Inr tx \<and> tx_to (eip1559 tx) = 10"
proof -
  have t: "targets_identified codec_lib witness_v1_config" using witness_targets by simp
  have d: "decode_routine_calldata codec_lib (rt_calldata witness_fields) witness_v1_config
      = Inr \<lparr> dr_actions = witness_actions,
          dr_calldata_hash = keccak256 codec_lib (rt_calldata witness_fields) \<rparr>"
    using decode_encoded_plan [OF abi_laws_codec_lib t, of "witness_plan witness_actions"] witness_targets
    by (simp add: witness_fields_def witness_plan_def) (simp add: witness_actions_def)
  have "is_ok (validate_routine_transaction codec_lib (ValidatedPlan (witness_plan witness_actions))
      witness_fields 1 witness_v1_config witness_execution)"
    unfolding validate_routine_transaction_def d
    by (simp add: witness_fields_def witness_v1_config_def witness_config_def witness_execution_def
        vp_actions_def witness_plan_def)
  then obtain tx where tx: "validate_routine_transaction codec_lib
      (ValidatedPlan (witness_plan witness_actions)) witness_fields 1 witness_v1_config witness_execution
      = Inr tx"
    by (auto simp: is_ok_iff)
  show ?thesis
    using released_transaction_is_plan [OF witness_plan_validates(1) tx] tx
    by (simp add: witness_v1_config_def witness_config_def)
qed

text \<open>
  C32. The firewall never blocks the encoder: a plan it validated, encoded by the encoder and put into
  an envelope within the limits, is released. This rests on the ABI codec laws and on a configuration
  that identifies its targets.
\<close>

theorem firewall_releases_encoded_plan:
  assumes "abi_laws lib" and "targets_identified lib vault"
    and "validate_plan_integrity lib to_vec plan vault n = Inr validated"
    and "rt_chain_id tx_fields = chain_id" and "rt_from tx_fields = va_signer_address vault"
    and "rt_to tx_fields = va_address vault" and "rt_value tx_fields = 0"
    and "0 < rt_gas_limit tx_fields"
    and "rt_gas_limit tx_fields \<le> ec_maximum_signed_transaction_gas execution"
    and "rt_max_priority_fee_per_gas tx_fields \<le> rt_max_fee_per_gas tx_fields"
    and "rt_max_fee_per_gas tx_fields \<le> ec_maximum_fee_per_gas_wei execution"
    and "rt_calldata tx_fields = encode_validated_plan lib validated"
  shows "validate_routine_transaction lib validated tx_fields chain_id vault execution
    = Inr \<lparr> vr_fields = tx_fields, vr_plan_hash = pl_plan_hash plan \<rparr>"
proof -
  have v: "validated = ValidatedPlan plan" and va: "validate_actions lib plan vault n = Inr ()"
    using assms(3) by (simp_all add: validate_plan_integrity_Inr)
  have "configured_target lib vault a \<and> 0 < act_requested_assets a \<and> act_requested_assets a < two256"
    if "a \<in> set (pl_actions plan)" for a
    using va that requested_le_moved [OF that]
    by (auto simp: validate_actions_iff Let_def action_grammar_def intro: action_configured_target
        le_less_trans)
  moreover have "pl_actions plan \<noteq> []" using va by (simp add: validate_actions_iff Let_def)
  ultimately have "decode_routine_calldata lib (encode_validated_plan lib (ValidatedPlan plan)) vault
      = Inr \<lparr> dr_actions = pl_actions plan,
          dr_calldata_hash = keccak256 lib (encode_validated_plan lib (ValidatedPlan plan)) \<rparr>"
    by (intro decode_encoded_plan [OF assms(1,2)]) auto
  then show ?thesis
    using assms(4-12) by (simp add: validate_routine_transaction_def v vp_actions_def not_less)
qed
theorem firewall_releases_encoded_plan_witness:
  "validate_routine_transaction codec_lib (ValidatedPlan (witness_plan witness_actions)) witness_fields
     1 witness_v1_config witness_execution = Inr \<lparr> vr_fields = witness_fields, vr_plan_hash = 0 \<rparr>"
proof -
  have t: "targets_identified codec_lib witness_v1_config" using witness_targets by simp
  show ?thesis
    using firewall_releases_encoded_plan [OF abi_laws_codec_lib t witness_plan_validates(2),
        of witness_fields 1 witness_execution]
    by (simp add: witness_fields_def witness_v1_config_def witness_config_def witness_execution_def
        witness_plan_def)
qed

end
