(* ===== verification/BlueMath.thy ===== *)
theory BlueMath
  imports Domain
begin

text \<open>
  Morpho Blue fixed-point and share arithmetic (\<open>src/morpho/blue_math.rs\<close>) and the error type of
  the protocol arithmetic (\<open>src/morpho/mod.rs\<close>). The locale \<open>share_conversion\<close> states what a pool
  with virtual assets and shares promises; it is interpreted on the Morpho conversions here and on
  the MetaMorpho ERC-4626 conversions in \<open>VaultV1Adapter\<close>.
\<close>

subsection \<open>Definitions\<close>

datatype math_error =
    Arithmetic arithmetic_error
  | TimestampRegression
  | Invariant
  | SignedConversion
  | SharePriceAboveOne
  | InsufficientShares
  | InsufficientLiquidity

definition WAD :: u256 where "WAD = 1000000000000000000"
definition VIRTUAL_SHARES :: u256 where "VIRTUAL_SHARES = 1000000"
definition VIRTUAL_ASSETS :: u256 where "VIRTUAL_ASSETS = 1"

definition mul_div_down :: "u256 \<Rightarrow> u256 \<Rightarrow> u256 \<Rightarrow> arithmetic_error + u256" where
  "mul_div_down x y denominator =
     (if denominator = 0 then Inl DivisionByZero
      else ok_or (Option.bind (checked_mul x y) (\<lambda>product. checked_div product denominator)) Overflow)"

definition mul_div_up :: "u256 \<Rightarrow> u256 \<Rightarrow> u256 \<Rightarrow> arithmetic_error + u256" where
  "mul_div_up x y denominator =
     (if denominator = 0 then Inl DivisionByZero
      else
        try_let (ok_or (checked_mul x y) Overflow) (\<lambda>product.
        try_let (ok_or (checked_sub denominator 1) Underflow) (\<lambda>less_one.
        try_let (ok_or (checked_add product less_one) Overflow) (\<lambda>sum.
        ok_or (checked_div sum denominator) Overflow))))"

definition w_mul_down :: "u256 \<Rightarrow> u256 \<Rightarrow> arithmetic_error + u256" where
  "w_mul_down x y = mul_div_down x y WAD"

definition w_div_down :: "u256 \<Rightarrow> u256 \<Rightarrow> arithmetic_error + u256" where
  "w_div_down x y = mul_div_down x WAD y"

definition w_div_up :: "u256 \<Rightarrow> u256 \<Rightarrow> arithmetic_error + u256" where
  "w_div_up x y = mul_div_up x WAD y"

definition w_taylor_compounded :: "u256 \<Rightarrow> u256 \<Rightarrow> arithmetic_error + u256" where
  "w_taylor_compounded x n =
     try_let (ok_or (checked_mul x n) Overflow) (\<lambda>first.
     try_let (ok_or (checked_mul WAD 2) Overflow) (\<lambda>two_wad.
     try_let (mul_div_down first first two_wad) (\<lambda>second.
     try_let (ok_or (checked_mul WAD 3) Overflow) (\<lambda>three_wad.
     try_let (mul_div_down second first three_wad) (\<lambda>third.
     ok_or (Option.bind (checked_add first second) (\<lambda>value. checked_add value third)) Overflow)))))"

definition with_virtuals :: "u256 \<Rightarrow> u256 \<Rightarrow> arithmetic_error + u256 \<times> u256" where
  "with_virtuals total_assets total_shares =
     try_let (ok_or (checked_add total_assets VIRTUAL_ASSETS) Overflow) (\<lambda>assets.
     try_let (ok_or (checked_add total_shares VIRTUAL_SHARES) Overflow) (\<lambda>shares.
     Inr (assets, shares)))"

definition to_supply_shares_down :: "u256 \<Rightarrow> u256 \<Rightarrow> u256 \<Rightarrow> arithmetic_error + u256" where
  "to_supply_shares_down assets total_assets total_shares =
     try_let (with_virtuals total_assets total_shares) (\<lambda>(assets_denominator, shares_numerator).
     mul_div_down assets shares_numerator assets_denominator)"

definition to_supply_shares_up :: "u256 \<Rightarrow> u256 \<Rightarrow> u256 \<Rightarrow> arithmetic_error + u256" where
  "to_supply_shares_up assets total_assets total_shares =
     try_let (with_virtuals total_assets total_shares) (\<lambda>(assets_denominator, shares_numerator).
     mul_div_up assets shares_numerator assets_denominator)"

definition to_supply_assets_down :: "u256 \<Rightarrow> u256 \<Rightarrow> u256 \<Rightarrow> arithmetic_error + u256" where
  "to_supply_assets_down shares total_assets total_shares =
     try_let (with_virtuals total_assets total_shares) (\<lambda>(assets_numerator, shares_denominator).
     mul_div_down shares assets_numerator shares_denominator)"

definition to_supply_assets_up :: "u256 \<Rightarrow> u256 \<Rightarrow> u256 \<Rightarrow> arithmetic_error + u256" where
  "to_supply_assets_up shares total_assets total_shares =
     try_let (with_virtuals total_assets total_shares) (\<lambda>(assets_numerator, shares_denominator).
     mul_div_up shares assets_numerator shares_denominator)"

lemmas evaluate_blue =
  mul_div_down_def mul_div_up_def w_mul_down_def w_div_down_def w_div_up_def
  w_taylor_compounded_def with_virtuals_def to_supply_shares_down_def to_supply_shares_up_def
  to_supply_assets_down_def to_supply_assets_up_def WAD_def VIRTUAL_SHARES_def VIRTUAL_ASSETS_def
  evaluate_arith

subsection \<open>Rounding\<close>

text \<open>Floor and ceiling quotients, characterised by multiplication.\<close>

lemma floor_bounds:
  fixes x d :: nat
  assumes "0 < d"
  shows "x div d * d \<le> x" and "x < (x div d + 1) * d"
  using assms by (simp_all add: div_times_less_eq_dividend dividend_less_div_times)

lemma ceiling_bounds:
  fixes x d :: nat
  assumes "0 < d"
  shows "x \<le> (x + (d - 1)) div d * d" and "(x + (d - 1)) div d * d < x + d"
proof -
  have "x + (d - 1) < ((x + (d - 1)) div d + 1) * d"
    by (rule floor_bounds(2) [OF assms])
  then show "x \<le> (x + (d - 1)) div d * d"
    using assms by (simp add: algebra_simps)
  have "(x + (d - 1)) div d * d \<le> x + (d - 1)"
    by (rule floor_bounds(1) [OF assms])
  also have "x + (d - 1) < x + d"
    using assms by simp
  finally show "(x + (d - 1)) div d * d < x + d" .
qed

lemma WAD_pos [simp]: "0 < WAD"
  by (simp add: WAD_def)

lemma mul_div_down_Inr [arith_simps]:
  "mul_div_down x y d = Inr r \<longleftrightarrow> 0 < d \<and> x * y < two256 \<and> r = x * y div d"
  by (auto simp: mul_div_down_def result_simps arith_simps bind_eq_Some_conv)

lemma mul_div_up_Inr [arith_simps]:
  "mul_div_up x y d = Inr r \<longleftrightarrow>
     0 < d \<and> x * y + (d - 1) < two256 \<and> r = (x * y + (d - 1)) div d"
  by (auto simp: mul_div_up_def result_simps arith_simps)

lemma w_mul_down_Inr [arith_simps]:
  "w_mul_down x y = Inr r \<longleftrightarrow> x * y < two256 \<and> r = x * y div WAD"
  by (auto simp: w_mul_down_def arith_simps)

lemma w_div_down_Inr [arith_simps]:
  "w_div_down x y = Inr r \<longleftrightarrow> 0 < y \<and> x * WAD < two256 \<and> r = x * WAD div y"
  by (auto simp: w_div_down_def arith_simps)

lemma w_mul_down_le: "w_mul_down x y = Inr r \<Longrightarrow> y \<le> WAD \<Longrightarrow> r \<le> x"
  by (auto simp: arith_simps intro!: div_le_mono2 order_trans [OF div_le_mono [of "x * y" "x * WAD"]])

lemma w_div_down_le_WAD: "w_div_down x y = Inr r \<Longrightarrow> x \<le> y \<Longrightarrow> r \<le> WAD"
  by (auto simp: arith_simps intro!: order_trans [OF div_le_mono [of "x * WAD" "y * WAD"]])

subsection \<open>Pools with virtual assets and shares\<close>

locale share_conversion =
  fixes shares_down shares_up assets_down :: "u256 \<Rightarrow> u256 \<Rightarrow> u256 \<Rightarrow> 'e + u256"
    and va vs :: u256
  assumes va_pos: "0 < va" and vs_pos: "0 < vs"
    and shares_down_floor:
      "shares_down a A S = Inr s \<Longrightarrow> s = a * (S + vs) div (A + va)"
    and shares_up_ceiling:
      "shares_up a A S = Inr s \<Longrightarrow> s = (a * (S + vs) + (A + va - 1)) div (A + va)"
    and assets_down_floor:
      "assets_down s A S = Inr a \<Longrightarrow> a = s * (A + va) div (S + vs)"
begin

lemma deposit_value: "shares_down a A S = Inr s \<Longrightarrow> s * (A + va) \<le> a * (S + vs)"
  using floor_bounds(1) [of "A + va" "a * (S + vs)"] va_pos by (auto dest: shares_down_floor)

lemma withdraw_value: "shares_up a A S = Inr s \<Longrightarrow> a * (S + vs) \<le> s * (A + va)"
  using ceiling_bounds(1) [of "A + va" "a * (S + vs)"] va_pos by (auto dest: shares_up_ceiling)

text \<open>A share price, compared by cross multiplication, never falls.\<close>

lemma deposit_price:
  "shares_down a A S = Inr s \<Longrightarrow> (A + va) * (S + s + vs) \<le> (A + a + va) * (S + vs)"
  using deposit_value [of a A S s] by (simp add: algebra_simps)

lemma withdraw_price:
  assumes "shares_up a A S = Inr s" and "a \<le> A" and "s \<le> S"
  shows "(A + va) * (S - s + vs) \<le> (A - a + va) * (S + vs)"
proof -
  from assms(2,3) obtain B T where split: "A = a + B" "S = s + T"
    by (metis le_Suc_ex)
  then show ?thesis
    using withdraw_value [OF assms(1)] by (simp add: algebra_simps)
qed

text \<open>When the price does not fall, no holding loses value.\<close>

lemma value_mono:
  assumes "(A + va) * (S' + vs) \<le> (A' + va) * (S + vs)"
  shows "t * (A + va) div (S + vs) \<le> t * (A' + va) div (S' + vs)"
proof -
  let ?q = "t * (A + va) div (S + vs)"
  have "?q * (S + vs) \<le> t * (A + va)"
    by (rule floor_bounds) (use vs_pos in simp)
  then have "?q * (S + vs) * (S' + vs) \<le> t * (A + va) * (S' + vs)"
    by (rule mult_right_mono) simp
  also have "\<dots> \<le> t * ((A' + va) * (S + vs))"
    using assms by (simp add: mult.assoc)
  finally have "?q * (S' + vs) * (S + vs) \<le> t * (A' + va) * (S + vs)"
    by (simp add: ac_simps)
  then have "?q * (S' + vs) \<le> t * (A' + va)"
    using vs_pos by simp
  then show ?thesis
    using vs_pos by (simp add: less_eq_div_iff_mult_less_eq)
qed

lemma deposit_not_dilutive:
  assumes "shares_down a A S = Inr s"
    and "assets_down t A S = Inr before" and "assets_down t (A + a) (S + s) = Inr after"
  shows "before \<le> after"
  using value_mono [OF deposit_price [OF assms(1)], of t] assms(2,3)
  by (auto dest!: assets_down_floor)

lemma withdraw_not_dilutive:
  assumes "shares_up a A S = Inr s" and "a \<le> A" and "s \<le> S"
    and "assets_down t A S = Inr before" and "assets_down t (A - a) (S - s) = Inr after"
  shows "before \<le> after"
  using value_mono [OF withdraw_price [OF assms(1-3)], of t] assms(4,5)
  by (auto dest!: assets_down_floor)

text \<open>A deposit redeemed at once returns at most what was paid in.\<close>

lemma deposit_redeem:
  assumes "shares_down a A S = Inr s" and "assets_down s (A + a) (S + s) = Inr b"
  shows "b \<le> a"
proof -
  have b: "b = s * (A + a + va) div (S + s + vs)"
    using assms(2) by (auto dest: assets_down_floor)
  have "s * (A + a + va) \<le> a * (S + s + vs)"
    using deposit_value [OF assms(1)] by (simp add: algebra_simps)
  also have "\<dots> < (a + 1) * (S + s + vs)"
    using vs_pos by simp
  finally show ?thesis
    using vs_pos b by (simp add: div_less_iff_less_mult less_Suc_eq_le [symmetric])
qed

text \<open>The shares a withdrawal burns are worth at least what it pays out.\<close>

lemma withdraw_redeem:
  assumes "shares_up a A S = Inr s" and "assets_down s A S = Inr b"
  shows "a \<le> b"
  using withdraw_value [OF assms(1)] assms(2) vs_pos
  by (auto dest!: assets_down_floor simp: less_eq_div_iff_mult_less_eq)

text \<open>Withdrawing what was just deposited burns at least the shares that were minted.\<close>

lemma deposit_withdraw:
  assumes "shares_down a A S = Inr m" and "shares_up a (A + a) (S + m) = Inr b"
  shows "m \<le> b"
proof -
  have "m * (A + a + va) \<le> a * (S + m + vs)"
    using deposit_value [OF assms(1)] by (simp add: algebra_simps)
  also have "\<dots> \<le> b * (A + a + va)"
    by (rule withdraw_value [OF assms(2)])
  finally show ?thesis
    using va_pos by simp
qed

lemma assets_mono:
  assumes "assets_down s A S = Inr a" and "assets_down t A S = Inr b" and "s \<le> t"
  shows "a \<le> b"
  using assms by (auto dest!: assets_down_floor intro: div_le_mono mult_right_mono)

lemma assets_le_total:
  assumes "assets_down s A S = Inr a" and "s \<le> S"
  shows "a \<le> A + va"
proof -
  have "s * (A + va) \<le> (S + vs) * (A + va)"
    using assms(2) by (simp add: mult_right_mono)
  then have "s * (A + va) div (S + vs) \<le> (S + vs) * (A + va) div (S + vs)"
    by (rule div_le_mono)
  then show ?thesis
    using assms(1) vs_pos by (auto dest: assets_down_floor)
qed

end

lemma to_supply_shares_down_Inr [arith_simps]:
  "to_supply_shares_down a A S = Inr s \<longleftrightarrow>
     A + VIRTUAL_ASSETS < two256 \<and> S + VIRTUAL_SHARES < two256 \<and>
     a * (S + VIRTUAL_SHARES) < two256 \<and> s = a * (S + VIRTUAL_SHARES) div (A + VIRTUAL_ASSETS)"
  by (auto simp: to_supply_shares_down_def with_virtuals_def result_simps arith_simps
      VIRTUAL_ASSETS_def)

lemma to_supply_shares_up_Inr [arith_simps]:
  "to_supply_shares_up a A S = Inr s \<longleftrightarrow>
     A + VIRTUAL_ASSETS < two256 \<and> S + VIRTUAL_SHARES < two256 \<and>
     a * (S + VIRTUAL_SHARES) + (A + VIRTUAL_ASSETS - 1) < two256 \<and>
     s = (a * (S + VIRTUAL_SHARES) + (A + VIRTUAL_ASSETS - 1)) div (A + VIRTUAL_ASSETS)"
  by (auto simp: to_supply_shares_up_def with_virtuals_def result_simps arith_simps
      VIRTUAL_ASSETS_def)

lemma to_supply_assets_down_Inr [arith_simps]:
  "to_supply_assets_down s A S = Inr a \<longleftrightarrow>
     A + VIRTUAL_ASSETS < two256 \<and> S + VIRTUAL_SHARES < two256 \<and>
     s * (A + VIRTUAL_ASSETS) < two256 \<and> a = s * (A + VIRTUAL_ASSETS) div (S + VIRTUAL_SHARES)"
  by (auto simp: to_supply_assets_down_def with_virtuals_def result_simps arith_simps
      VIRTUAL_SHARES_def)

interpretation blue: share_conversion
  to_supply_shares_down to_supply_shares_up to_supply_assets_down VIRTUAL_ASSETS VIRTUAL_SHARES
  by unfold_locales (auto simp: arith_simps VIRTUAL_ASSETS_def VIRTUAL_SHARES_def)

subsection \<open>Compounding\<close>

lemma w_taylor_compounded_Inr [arith_simps]:
  "w_taylor_compounded x n = Inr r \<longleftrightarrow>
     (\<exists>f g h. f = x * n \<and> f < two256 \<and> f * f < two256 \<and> g = f * f div (2 * WAD) \<and>
        g * f < two256 \<and> h = g * f div (3 * WAD) \<and> f + g + h < two256 \<and> r = f + g + h)"
  by (auto simp: w_taylor_compounded_def result_simps arith_simps bind_eq_Some_conv
      WAD_def two256_def)

subsection \<open>Properties\<close>

text \<open>
  C22. \<open>mul_div_down\<close> and \<open>mul_div_up\<close> succeed exactly when the denominator is nonzero and every
  intermediate fits 256 bits, and they then return the floor and the ceiling of the quotient.
\<close>

theorem mul_div_exact:
  "(mul_div_down x y d = Inr lo \<longleftrightarrow>
      d \<noteq> 0 \<and> x * y < two256 \<and> lo * d \<le> x * y \<and> x * y < (lo + 1) * d) \<and>
   (mul_div_up x y d = Inr hi \<longleftrightarrow>
      d \<noteq> 0 \<and> x * y + (d - 1) < two256 \<and> x * y \<le> hi * d \<and> hi * d < x * y + d)"
proof (cases "d = 0")
  case False
  then have d: "0 < d" by simp
  have lo: "lo = x * y div d \<longleftrightarrow> lo * d \<le> x * y \<and> x * y < (lo + 1) * d"
  proof
    assume "lo * d \<le> x * y \<and> x * y < (lo + 1) * d"
    then show "lo = x * y div d"
      by (intro div_nat_eqI [symmetric]) (simp_all add: mult.commute)
  qed (use floor_bounds [OF d] in auto)
  have hi: "hi = (x * y + (d - 1)) div d \<longleftrightarrow> x * y \<le> hi * d \<and> hi * d < x * y + d"
  proof
    assume h: "x * y \<le> hi * d \<and> hi * d < x * y + d"
    then have "d * hi \<le> x * y + (d - 1)" "x * y + (d - 1) < d * Suc hi"
      using d by (auto simp: mult.commute)
    then show "hi = (x * y + (d - 1)) div d"
      by (intro div_nat_eqI [symmetric])
  qed (use ceiling_bounds [OF d] in auto)
  show ?thesis using d lo hi by (auto simp: mul_div_down_Inr mul_div_up_Inr)
qed (simp add: mul_div_down_def mul_div_up_def)

text \<open>
  C23. When \<open>w_taylor_compounded\<close> succeeds on rate \<open>x\<close> and time \<open>n\<close>, its result is at least the
  simple interest \<open>x * n\<close> and is the third-order Taylor polynomial of the exponential (scaled here
  by six WAD squared to stay in the integers), rounded down by less than two units plus a third of
  the WAD-scaled exponent.
\<close>

theorem w_taylor_compounded_accuracy:
  assumes "w_taylor_compounded x n = Inr r"
  shows "x * n \<le> r \<and>
    6 * WAD\<^sup>2 * r \<le> 6 * WAD\<^sup>2 * (x * n) + 3 * WAD * (x * n)\<^sup>2 + (x * n) ^ 3 \<and>
    6 * WAD\<^sup>2 * (x * n) + 3 * WAD * (x * n)\<^sup>2 + (x * n) ^ 3
      \<le> 6 * WAD\<^sup>2 * r + 12 * WAD\<^sup>2 + 2 * WAD * (x * n)"
proof -
  define f where "f = x * n"
  define g where "g = f * f div (2 * WAD)"
  define h where "h = g * f div (3 * WAD)"
  have r: "r = f + g + h"
    using assms by (auto simp: w_taylor_compounded_Inr f_def g_def h_def)
  then have simple: "x * n \<le> r" by (simp add: f_def)
  have g: "g * (2 * WAD) \<le> f * f" "f * f < (g + 1) * (2 * WAD)"
    unfolding g_def by (rule floor_bounds; simp)+
  have h: "h * (3 * WAD) \<le> g * f" "g * f < (h + 1) * (3 * WAD)"
    unfolding h_def by (rule floor_bounds; simp)+
  have "6 * WAD\<^sup>2 * r = 6 * WAD\<^sup>2 * f + 3 * WAD * (g * (2 * WAD)) + 2 * WAD * (h * (3 * WAD))"
    by (simp add: r algebra_simps power2_eq_square)
  also have "\<dots> \<le> 6 * WAD\<^sup>2 * f + 3 * WAD * (f * f) + 2 * WAD * (g * f)"
    using g(1) h(1) by (intro add_mono mult_left_mono) simp_all
  also have "2 * WAD * (g * f) = (g * (2 * WAD)) * f" by (simp add: ac_simps)
  also have "\<dots> \<le> f * f * f" using g(1) by (intro mult_right_mono) simp_all
  finally have upper: "6 * WAD\<^sup>2 * r \<le> 6 * WAD\<^sup>2 * (x * n) + 3 * WAD * (x * n)\<^sup>2 + (x * n) ^ 3"
    by (simp add: power2_eq_square power3_eq_cube flip: f_def)
  have "f * f * f \<le> (g + 1) * (2 * WAD) * f"
    using g(2) by (intro mult_right_mono) simp_all
  also have "\<dots> = 2 * WAD * (g * f) + 2 * WAD * f" by (simp add: algebra_simps)
  also have "2 * WAD * (g * f) \<le> 2 * WAD * ((h + 1) * (3 * WAD))"
    using h(2) by (intro mult_left_mono) simp_all
  finally have cube: "f * f * f \<le> 2 * WAD * ((h + 1) * (3 * WAD)) + 2 * WAD * f" by simp
  have "3 * WAD * (f * f) \<le> 3 * WAD * ((g + 1) * (2 * WAD))"
    using g(2) by (intro mult_left_mono) simp_all
  with cube have "6 * WAD\<^sup>2 * f + 3 * WAD * (f * f) + f * f * f
      \<le> 6 * WAD\<^sup>2 * f + 3 * WAD * ((g + 1) * (2 * WAD))
        + (2 * WAD * ((h + 1) * (3 * WAD)) + 2 * WAD * f)"
    by (intro add_mono order_refl)
  also have "\<dots> = 6 * WAD\<^sup>2 * r + 12 * WAD\<^sup>2 + 2 * WAD * f"
    by (simp add: r algebra_simps power2_eq_square)
  finally have lower: "6 * WAD\<^sup>2 * (x * n) + 3 * WAD * (x * n)\<^sup>2 + (x * n) ^ 3
      \<le> 6 * WAD\<^sup>2 * r + 12 * WAD\<^sup>2 + 2 * WAD * (x * n)"
    by (simp add: power2_eq_square power3_eq_cube flip: f_def)
  from simple upper lower show ?thesis by blast
qed

theorem w_taylor_compounded_accuracy_witness:
  "w_taylor_compounded 1000000000 31536000 = Inr 32038486841419776 \<and>
   1000000000 * 31536000 \<le> (32038486841419776::nat)"
proof -
  have ev: "w_taylor_compounded 1000000000 31536000 = Inr 32038486841419776"
    by (simp add: evaluate_blue)
  show ?thesis using ev w_taylor_compounded_accuracy [OF ev] by simp
qed

end
