(* ===== verification/IdleLocks.thy ===== *)
theory IdleLocks
  imports BlueMath
begin

text \<open>
  Idle-flow attribution (\<open>src/state/attribution.rs\<close>) and the ordered idle-lock ledger
  (\<open>src/state/idle_locks.rs\<close>). \<open>apply_transaction\<close> mutates the ledger on some error paths, so the
  model returns the ledger together with the result.
\<close>

subsection \<open>Attribution\<close>

datatype flow_origin =
    BotRebalance | VaultUserDeposit | VaultUserWithdrawal | VaultUserForceDeallocate
  | ApprovedExternalAllocator | UnknownExternalAllocator | SentinelDeallocation
  | CuratorAdministration | OwnerAdministration | MorphoExternalUser | DirectDonation
  | LiquidationOrBadDebt | UnknownOrigin

record ordered_asset_flow =
  af_log_index :: u64
  af_assets :: u256

record ordered_transaction_flow =
  tf_block_number :: u64
  tf_transaction_index :: u64
  tf_transaction_hash :: b256
  tf_sender :: address
  tf_origin :: flow_origin
  tf_inflows :: "ordered_asset_flow list"
  tf_outflows :: "ordered_asset_flow list"
  tf_preauthorized_redeploy :: bool

record transaction_idle_effect =
  ie_pre_idle :: u256
  ie_post_idle :: u256
  ie_inflow_assets :: u256
  ie_outflow_assets :: u256
  ie_net_created_assets :: u256
  ie_net_consumed_assets :: u256

datatype attribution_error = FlowNonCanonicalOrder | FlowOverflow | ExactBalanceMismatch

definition sum_ordered :: "ordered_asset_flow list \<Rightarrow> attribution_error + u256" where
  "sum_ordered flows =
     try_let (try_fold (\<lambda>(previous, total_assets) flow.
       if (case previous of None \<Rightarrow> False | Some index \<Rightarrow> index \<ge> af_log_index flow)
       then Inl FlowNonCanonicalOrder
       else
         try_let (ok_or (checked_add total_assets (af_assets flow)) FlowOverflow) (\<lambda>t.
         Inr (Some (af_log_index flow), t))) (None, 0) flows) (\<lambda>(_, t). Inr t)"

definition attribute_idle_effect ::
  "ordered_transaction_flow \<Rightarrow> u256 \<Rightarrow> u256 \<Rightarrow> attribution_error + transaction_idle_effect" where
  "attribute_idle_effect transaction pre_idle exact_post_idle =
     try_let (sum_ordered (tf_inflows transaction)) (\<lambda>inflow_assets.
     try_let (sum_ordered (tf_outflows transaction)) (\<lambda>outflow_assets.
     try_let (ok_or (Option.bind (checked_add pre_idle inflow_assets)
       (\<lambda>v. checked_sub v outflow_assets)) FlowOverflow) (\<lambda>computed_post.
     if computed_post \<noteq> exact_post_idle then Inl ExactBalanceMismatch
     else Inr \<lparr> ie_pre_idle = pre_idle, ie_post_idle = exact_post_idle,
       ie_inflow_assets = inflow_assets, ie_outflow_assets = outflow_assets,
       ie_net_created_assets = saturating_sub exact_post_idle pre_idle,
       ie_net_consumed_assets = saturating_sub pre_idle exact_post_idle \<rparr>)))"

subsection \<open>The ledger\<close>

datatype idle_lock_kind =
    ForceExit | ExternalEmergencyDeallocation | OperatorEmergency | UnattributedSafetyHold

definition lock_kind_code :: "idle_lock_kind \<Rightarrow> nat" where
  "lock_kind_code k = (case k of ForceExit \<Rightarrow> 0 | ExternalEmergencyDeallocation \<Rightarrow> 1
     | OperatorEmergency \<Rightarrow> 2 | UnattributedSafetyHold \<Rightarrow> 3)"

datatype idle_lock_release_state = LockActive | OperatorCleared | PreauthorizedRedeploy | Consumed

record idle_lock =
  lk_lock_id :: b256
  lk_vault :: vault_address
  lk_kind :: idle_lock_kind
  lk_origin_transaction :: b256
  lk_origin_address :: address
  lk_created_assets :: u256
  lk_remaining_assets :: u256
  lk_created_block :: u64
  lk_release_state :: idle_lock_release_state

record idle_lock_ledger =
  il_vault :: vault_address
  il_exact_idle_assets :: u256
  il_locks :: "idle_lock list"
  il_cursor :: "(u64 \<times> u64) option"
  il_verified :: bool

datatype idle_lock_error =
    LockNonCanonicalOrder | Attribution attribution_error | LockInvariant | UnknownLock

definition ledger_new :: "vault_address \<Rightarrow> u256 \<Rightarrow> idle_lock_ledger" where
  "ledger_new vault exact_idle_assets =
     \<lparr> il_vault = vault, il_exact_idle_assets = exact_idle_assets, il_locks = [],
       il_cursor = None, il_verified = True \<rparr>"

abbreviation lock_active :: "idle_lock \<Rightarrow> bool" where
  "lock_active lock \<equiv> lk_release_state lock = LockActive"

definition sum_remaining :: "idle_lock list \<Rightarrow> idle_lock_error + u256" where
  "sum_remaining locks =
     try_fold (\<lambda>t lock. ok_or (checked_add t (lk_remaining_assets lock)) LockInvariant) 0 locks"

definition total_locked :: "idle_lock_ledger \<Rightarrow> idle_lock_error + u256" where
  "total_locked ledger = sum_remaining (filter lock_active (il_locks ledger))"

definition routine_available_idle :: "idle_lock_ledger \<Rightarrow> idle_lock_error + u256" where
  "routine_available_idle ledger =
     (if \<not> il_verified ledger then Inl LockInvariant
      else try_let (total_locked ledger) (\<lambda>locked.
        ok_or (checked_sub (il_exact_idle_assets ledger) locked) LockInvariant))"

definition create_lock ::
  "evm_lib \<Rightarrow> idle_lock_ledger \<Rightarrow> idle_lock_kind \<Rightarrow> ordered_transaction_flow \<Rightarrow> u256 \<Rightarrow>
     idle_lock_ledger" where
  "create_lock lib ledger kind transaction assets =
     (let material = be_bytes 32 (unat (tf_transaction_hash transaction))
        @ address_bytes (tf_sender transaction)
        @ be_bytes 8 (tf_block_number transaction)
        @ be_bytes 8 (tf_transaction_index transaction)
        @ [word_of_nat (lock_kind_code kind)] in
      ledger \<lparr> il_locks := il_locks ledger @
        [\<lparr> lk_lock_id = keccak256 lib material, lk_vault = il_vault ledger, lk_kind = kind,
           lk_origin_transaction = tf_transaction_hash transaction,
           lk_origin_address = tf_sender transaction, lk_created_assets = assets,
           lk_remaining_assets = assets, lk_created_block = tf_block_number transaction,
           lk_release_state = LockActive \<rparr>] \<rparr>)"

text \<open>The loop over the mutable locks of one kind, with its early exit.\<close>

primrec consume_kind ::
  "idle_lock_kind \<Rightarrow> u256 \<Rightarrow> idle_lock list \<Rightarrow> idle_lock list \<times> (idle_lock_error + u256)" where
  "consume_kind kind remaining [] = ([], Inr remaining)"
| "consume_kind kind remaining (lock # locks) =
     (if lk_kind lock = kind \<and> lock_active lock then
        let consumed = min (lk_remaining_assets lock) remaining in
        case checked_sub (lk_remaining_assets lock) consumed of
          None \<Rightarrow> (lock # locks, Inl LockInvariant)
        | Some left \<Rightarrow>
            (case checked_sub remaining consumed of
               None \<Rightarrow> (lock \<lparr> lk_remaining_assets := left \<rparr> # locks, Inl LockInvariant)
             | Some rest \<Rightarrow>
                 let lock' = lock \<lparr> lk_remaining_assets := left,
                   lk_release_state := (if left = 0 then Consumed else lk_release_state lock) \<rparr> in
                 if rest = 0 then (lock' # locks, Inr rest)
                 else let (locks', result) = consume_kind kind rest locks in
                   (lock' # locks', result))
      else let (locks', result) = consume_kind kind remaining locks in (lock # locks', result))"

primrec consume_kinds ::
  "idle_lock_kind list \<Rightarrow> u256 \<Rightarrow> idle_lock list \<Rightarrow> idle_lock list \<times> (idle_lock_error + u256)" where
  "consume_kinds [] remaining locks = (locks, Inr remaining)"
| "consume_kinds (kind # kinds) remaining locks =
     (let (locks', result) = consume_kind kind remaining locks in
      case result of
        Inl e \<Rightarrow> (locks', Inl e)
      | Inr rest \<Rightarrow> consume_kinds kinds rest locks')"

definition created_kind :: "ordered_transaction_flow \<Rightarrow> idle_lock_kind option" where
  "created_kind transaction =
     (case tf_origin transaction of
        VaultUserForceDeallocate \<Rightarrow> Some ForceExit
      | SentinelDeallocation \<Rightarrow> Some ExternalEmergencyDeallocation
      | ApprovedExternalAllocator \<Rightarrow>
          if \<not> tf_preauthorized_redeploy transaction then Some ExternalEmergencyDeallocation
          else None
      | UnknownOrigin \<Rightarrow> Some UnattributedSafetyHold
      | UnknownExternalAllocator \<Rightarrow> Some UnattributedSafetyHold
      | DirectDonation \<Rightarrow> Some UnattributedSafetyHold
      | _ \<Rightarrow> None)"

definition consume_idle ::
  "idle_lock_ledger \<Rightarrow> flow_origin \<Rightarrow> u256 \<Rightarrow> idle_lock_ledger \<times> (idle_lock_error + unit)" where
  "consume_idle ledger origin net_consumed =
     (if net_consumed = 0 then (ledger, Inr ())
      else
        case routine_available_idle ledger of
          Inl e \<Rightarrow> (ledger, Inl e)
        | Inr unlocked \<Rightarrow>
            let from_locks = saturating_sub net_consumed unlocked in
            if origin = BotRebalance \<and> from_locks \<noteq> 0
            then (ledger \<lparr> il_verified := False \<rparr>, Inl LockInvariant)
            else
              let (locks, result) = consume_kinds [ForceExit, ExternalEmergencyDeallocation,
                    OperatorEmergency, UnattributedSafetyHold] from_locks (il_locks ledger);
                  ledger' = ledger \<lparr> il_locks := locks \<rparr> in
              case result of
                Inl e \<Rightarrow> (ledger', Inl e)
              | Inr rest \<Rightarrow>
                  if rest \<noteq> 0 then (ledger' \<lparr> il_verified := False \<rparr>, Inl LockInvariant)
                  else (ledger', Inr ()))"

text \<open>\<open>cursor >= location\<close> in the lexicographic order of pairs, for a cursor that is set.\<close>

definition cursor_reached :: "(u64 \<times> u64) option \<Rightarrow> u64 \<times> u64 \<Rightarrow> bool" where
  "cursor_reached cursor location =
     (case cursor of None \<Rightarrow> False
      | Some (block, index) \<Rightarrow>
          block > fst location \<or> block = fst location \<and> index \<ge> snd location)"

definition apply_transaction ::
  "evm_lib \<Rightarrow> idle_lock_ledger \<Rightarrow> ordered_transaction_flow \<Rightarrow> u256 \<Rightarrow>
     idle_lock_ledger \<times> (idle_lock_error + unit)" where
  "apply_transaction lib ledger transaction exact_post_idle =
     (let location = (tf_block_number transaction, tf_transaction_index transaction) in
      if cursor_reached (il_cursor ledger) location
      then (ledger \<lparr> il_verified := False \<rparr>, Inl LockNonCanonicalOrder)
      else
        case attribute_idle_effect transaction (il_exact_idle_assets ledger) exact_post_idle of
          Inl e \<Rightarrow> (ledger, Inl (Attribution e))
        | Inr effect \<Rightarrow>
            (case consume_idle ledger (tf_origin transaction) (ie_net_consumed_assets effect) of
               (ledger1, Inl e) \<Rightarrow> (ledger1, Inl e)
             | (ledger1, Inr _) \<Rightarrow>
                 let ledger2 =
                       (if ie_net_created_assets effect \<noteq> 0 then
                          case created_kind transaction of
                            None \<Rightarrow> ledger1
                          | Some kind \<Rightarrow>
                              create_lock lib ledger1 kind transaction (ie_net_created_assets effect)
                        else ledger1);
                     ledger3 = ledger2 \<lparr> il_exact_idle_assets := exact_post_idle,
                       il_cursor := Some location \<rparr> in
                 (case total_locked ledger3 of
                    Inl e \<Rightarrow> (ledger3, Inl e)
                  | Inr locked \<Rightarrow>
                      if locked > il_exact_idle_assets ledger3
                      then (ledger3 \<lparr> il_verified := False \<rparr>, Inl LockInvariant)
                      else (ledger3, Inr ()))))"

primrec release_first ::
  "b256 \<Rightarrow> idle_lock_release_state \<Rightarrow> idle_lock list \<Rightarrow> idle_lock list option" where
  "release_first lock_id state [] = None"
| "release_first lock_id state (lock # locks) =
     (if lk_lock_id lock = lock_id \<and> lock_active lock
      then Some (lock \<lparr> lk_remaining_assets := 0, lk_release_state := state \<rparr> # locks)
      else map_option ((#) lock) (release_first lock_id state locks))"

definition release ::
  "idle_lock_ledger \<Rightarrow> b256 \<Rightarrow> idle_lock_release_state \<Rightarrow> idle_lock_error + idle_lock_ledger" where
  "release ledger lock_id state =
     (if state = LockActive then Inl UnknownLock
      else
        try_let (ok_or (release_first lock_id state (il_locks ledger)) UnknownLock) (\<lambda>locks.
        Inr (ledger \<lparr> il_locks := locks \<rparr>)))"

definition ledger_snapshot :: "idle_lock_ledger \<Rightarrow> idle_lock_error + idle_lock_ledger_snapshot" where
  "ledger_snapshot ledger =
     try_let (total_locked ledger) (\<lambda>locked.
     try_let (sum_remaining (filter (\<lambda>lock. lk_kind lock = UnattributedSafetyHold \<and> lock_active lock)
       (il_locks ledger))) (\<lambda>unattributed.
     Inr \<lparr> ll_locks = map (\<lambda>lock.
             \<lparr> ls_lock_id = lk_lock_id lock, ls_remaining_assets = lk_remaining_assets lock,
               ls_created_block = lk_created_block lock, ls_release_timestamp = None \<rparr>)
             (filter lock_active (il_locks ledger)),
           ll_unattributed_idle_assets = unattributed,
           ll_verified = (il_verified ledger \<and> locked \<le> il_exact_idle_assets ledger) \<rparr>))"

subsection \<open>Sums over locks\<close>

definition kind_sum :: "idle_lock_kind \<Rightarrow> idle_lock list \<Rightarrow> u256" where
  "kind_sum k locks =
     sum_list (map lk_remaining_assets (filter (\<lambda>l. lk_kind l = k \<and> lock_active l) locks))"

definition active_sum :: "idle_lock list \<Rightarrow> u256" where
  "active_sum locks = sum_list (map lk_remaining_assets (filter lock_active locks))"

definition locks_wf :: "idle_lock list \<Rightarrow> bool" where
  "locks_wf locks \<longleftrightarrow> list_all (\<lambda>l. lock_active l \<longrightarrow> 0 < lk_remaining_assets l) locks"

lemma sum_lists_simps [simp]:
  "kind_sum k [] = 0" "active_sum [] = 0" "locks_wf []"
  "kind_sum k (l # ls) = (if lk_kind l = k \<and> lock_active l then lk_remaining_assets l else 0) + kind_sum k ls"
  "active_sum (l # ls) = (if lock_active l then lk_remaining_assets l else 0) + active_sum ls"
  "locks_wf (l # ls) \<longleftrightarrow> (lock_active l \<longrightarrow> 0 < lk_remaining_assets l) \<and> locks_wf ls"
  "active_sum (ls @ ms) = active_sum ls + active_sum ms"
  "locks_wf (ls @ ms) \<longleftrightarrow> locks_wf ls \<and> locks_wf ms"
  by (simp_all add: kind_sum_def active_sum_def locks_wf_def)

lemma active_sum_kinds:
  "active_sum ls = kind_sum ForceExit ls + kind_sum ExternalEmergencyDeallocation ls
     + kind_sum OperatorEmergency ls + kind_sum UnattributedSafetyHold ls"
proof (induction ls)
  case (Cons l ls)
  then show ?case by (cases "lk_kind l") simp_all
qed simp

lemma sum_remaining_from:
  "a < two256 \<Longrightarrow>
     try_fold (\<lambda>t lock. ok_or (checked_add t (lk_remaining_assets lock)) LockInvariant) a ls = Inr t \<longleftrightarrow>
     t = a + sum_list (map lk_remaining_assets ls) \<and> t < two256"
  by (induction ls arbitrary: a) (auto simp: result_simps checked_ops)

lemma sum_remaining_Inr:
  "sum_remaining ls = Inr t \<longleftrightarrow> t = sum_list (map lk_remaining_assets ls) \<and> t < two256"
  unfolding sum_remaining_def by (simp add: sum_remaining_from)

lemma total_locked_Inr:
  "total_locked l = Inr t \<longleftrightarrow> t = active_sum (il_locks l) \<and> t < two256"
  by (simp add: total_locked_def sum_remaining_Inr active_sum_def)

lemma routine_available_idle_Inr:
  "routine_available_idle l = Inr a \<longleftrightarrow>
     il_verified l \<and> active_sum (il_locks l) < two256 \<and>
     active_sum (il_locks l) \<le> il_exact_idle_assets l \<and>
     a = il_exact_idle_assets l - active_sum (il_locks l)"
  by (auto simp: routine_available_idle_def result_simps total_locked_Inr checked_ops)

subsection \<open>Consumption\<close>

lemma consume_kind_Cons:
  "consume_kind k rem (l # ls) =
     (if lk_kind l = k \<and> lock_active l then
        (if rem \<le> lk_remaining_assets l
         then (l \<lparr> lk_remaining_assets := lk_remaining_assets l - rem,
            lk_release_state := (if lk_remaining_assets l - rem = 0 then Consumed else LockActive) \<rparr> # ls,
            Inr 0)
         else (l \<lparr> lk_remaining_assets := 0, lk_release_state := Consumed \<rparr>
            # fst (consume_kind k (rem - lk_remaining_assets l) ls),
            snd (consume_kind k (rem - lk_remaining_assets l) ls)))
      else (l # fst (consume_kind k rem ls), snd (consume_kind k rem ls)))"
  by (simp add: Let_def checked_sub_def min_def case_prod_beta)

lemma consume_kind_conj:
  "snd (consume_kind k rem ls) = Inr (rem - kind_sum k ls) \<and>
   kind_sum k (fst (consume_kind k rem ls)) = kind_sum k ls - rem \<and>
   (\<forall>j. j \<noteq> k \<longrightarrow> kind_sum j (fst (consume_kind k rem ls)) = kind_sum j ls) \<and>
   (locks_wf ls \<longrightarrow> locks_wf (fst (consume_kind k rem ls)))"
proof (induction ls arbitrary: rem)
  case (Cons l ls)
  then show ?case
    unfolding consume_kind_Cons by (auto simp del: consume_kind.simps)
qed simp

lemma consume_kind_spec:
  assumes "consume_kind k rem ls = (ls', r)"
  shows "r = Inr (rem - kind_sum k ls)"
    and "kind_sum k ls' = kind_sum k ls - rem"
    and "j \<noteq> k \<Longrightarrow> kind_sum j ls' = kind_sum j ls"
    and "locks_wf ls \<Longrightarrow> locks_wf ls'"
  using consume_kind_conj [of k rem ls] assms by simp_all

lemma consume_kind_zero: "locks_wf ls \<Longrightarrow> consume_kind k 0 ls = (ls, Inr 0)"
  by (induction ls) (auto simp: checked_sub_def)

abbreviation all_kinds :: "idle_lock_kind list" where
  "all_kinds \<equiv> [ForceExit, ExternalEmergencyDeallocation, OperatorEmergency, UnattributedSafetyHold]"

lemma consume_all_zero: "locks_wf ls \<Longrightarrow> consume_kinds all_kinds 0 ls = (ls, Inr 0)"
  by (simp add: consume_kind_zero)

lemma spend_in_order:
  fixes a b c d r :: nat
  shows "a - r + (b - (r - a)) + (c - (r - (a + b))) + (d - (r - (a + b + c))) = a + b + c + d - r"
  by arith

lemma consume_all_spec:
  assumes "consume_kinds all_kinds rem ls = (ls', r)"
  shows "r = Inr (rem - active_sum ls) \<and> active_sum ls' = active_sum ls - rem \<and>
    (locks_wf ls \<longrightarrow> locks_wf ls')"
proof -
  obtain l1 r1 where 1: "consume_kind ForceExit rem ls = (l1, r1)" by fastforce
  note s1 = consume_kind_spec [OF 1]
  obtain l2 r2 where 2: "consume_kind ExternalEmergencyDeallocation (rem - kind_sum ForceExit ls) l1 = (l2, r2)"
    by fastforce
  note s2 = consume_kind_spec [OF 2]
  let ?r2 = "rem - (kind_sum ForceExit ls + kind_sum ExternalEmergencyDeallocation l1)"
  obtain l3 r3 where 3: "consume_kind OperatorEmergency ?r2 l2 = (l3, r3)" by fastforce
  note s3 = consume_kind_spec [OF 3]
  let ?r3 = "rem - (kind_sum ForceExit ls + kind_sum ExternalEmergencyDeallocation l1
      + kind_sum OperatorEmergency l2)"
  obtain l4 r4 where 4: "consume_kind UnattributedSafetyHold ?r3 l3 = (l4, r4)" by fastforce
  note s4 = consume_kind_spec [OF 4]
  have eq: "ls' = l4" "r = Inr (?r3 - kind_sum UnattributedSafetyHold l3)"
    using assms by (simp_all add: 1 s1(1) 2 s2(1) 3 s3(1) 4 s4(1))
  show ?thesis
    unfolding eq active_sum_kinds
    using s1(2-4) s2(2-4) s3(2-4) s4(2-4) by (simp add: spend_in_order)
qed

subsection \<open>The invariant\<close>

text \<open>
  Active locks hold something, the exact idle balance is a 256-bit value, and while the ledger is
  verified the active locks are covered by the exact idle balance.
\<close>

definition ledger_inv :: "idle_lock_ledger \<Rightarrow> bool" where
  "ledger_inv l \<longleftrightarrow>
     locks_wf (il_locks l) \<and> il_exact_idle_assets l < two256 \<and>
     (il_verified l \<longrightarrow> active_sum (il_locks l) \<le> il_exact_idle_assets l)"

lemma ledger_inv_available:
  assumes "ledger_inv l" and "il_verified l"
  shows "routine_available_idle l = Inr (il_exact_idle_assets l - active_sum (il_locks l))"
  using assms by (simp add: ledger_inv_def routine_available_idle_Inr)

lemma attribute_idle_effect_Inr:
  assumes "attribute_idle_effect tx pre post = Inr e"
  shows "ie_net_created_assets e = post - pre" and "ie_net_consumed_assets e = pre - post"
  using assms by (auto simp: attribute_idle_effect_def result_simps)

lemma consume_idle_cases:
  assumes "ledger_inv l" and "consume_idle l origin (il_exact_idle_assets l - post) = (l', r)"
  shows "ledger_inv l' \<and> il_exact_idle_assets l' = il_exact_idle_assets l \<and>
    il_cursor l' = il_cursor l \<and>
    (r = Inr () \<longrightarrow>
      il_verified l' = il_verified l \<and>
      (il_exact_idle_assets l \<le> post \<longrightarrow> l' = l) \<and>
      (il_verified l \<longrightarrow> active_sum (il_locks l') = min (active_sum (il_locks l)) post
        \<or> il_exact_idle_assets l \<le> post) \<and>
      (il_exact_idle_assets l > post \<longrightarrow> il_verified l \<and> active_sum (il_locks l') \<le> post) \<and>
      (origin = BotRebalance \<longrightarrow> l' = l))"
proof (cases "il_exact_idle_assets l \<le> post")
  case True
  then show ?thesis using assms by (simp add: consume_idle_def)
next
  case lt: False
  show ?thesis
  proof (cases "il_verified l")
    case nv: False
    then have "routine_available_idle l = Inl LockInvariant"
      by (simp add: routine_available_idle_def)
    then show ?thesis using assms lt by (auto simp: consume_idle_def)
  next
    case v: True
    let ?E = "il_exact_idle_assets l" and ?A = "active_sum (il_locks l)"
    have A: "?A \<le> ?E" and wf: "locks_wf (il_locks l)"
      using assms(1) v by (simp_all add: ledger_inv_def)
    let ?f = "?E - post - (?E - ?A)"
    obtain ls s where c: "consume_kinds all_kinds ?f (il_locks l) = (ls, s)" by fastforce
    note spec = consume_all_spec [OF c]
    have f: "?f = ?A - post" using A by simp
    have s0: "s = Inr 0" using spec f by simp
    have step: "consume_idle l origin (?E - post) =
      (if origin = BotRebalance \<and> ?f \<noteq> 0 then (l \<lparr> il_verified := False \<rparr>, Inl LockInvariant)
       else (l \<lparr> il_locks := ls \<rparr>, Inr ()))"
      using lt c s0 unfolding consume_idle_def ledger_inv_available [OF assms(1) v]
      by (simp del: consume_kinds.simps)
    show ?thesis
    proof (cases "origin = BotRebalance \<and> ?f \<noteq> 0")
      case True
      then have "l' = l \<lparr> il_verified := False \<rparr>" "r = Inl LockInvariant"
        using assms(2) step by auto
      then show ?thesis using assms(1) by (simp add: ledger_inv_def)
    next
      case nb: False
      then have l': "l' = l \<lparr> il_locks := ls \<rparr>" "r = Inr ()"
        using assms(2) unfolding step by auto
      have bot: "ls = il_locks l" if "origin = BotRebalance"
        using nb that c consume_all_zero [OF wf] by (simp del: consume_kinds.simps)
      show ?thesis
        using spec wf A assms(1) bot lt v unfolding l' f by (auto simp: ledger_inv_def min_def)
    qed
  qed
qed

text \<open>The part of a transaction after attribution and consumption.\<close>

definition finish_transaction ::
  "evm_lib \<Rightarrow> idle_lock_ledger \<Rightarrow> ordered_transaction_flow \<Rightarrow> u256 \<Rightarrow> u256 \<Rightarrow> idle_lock_ledger" where
  "finish_transaction lib l tx created post =
     (if created \<noteq> 0 then
        case created_kind tx of None \<Rightarrow> l | Some kind \<Rightarrow> create_lock lib l kind tx created
      else l)
     \<lparr> il_exact_idle_assets := post,
       il_cursor := Some (tf_block_number tx, tf_transaction_index tx) \<rparr>"

lemma finish_transaction_fields:
  "il_exact_idle_assets (finish_transaction lib l tx created post) = post"
  "il_verified (finish_transaction lib l tx created post) = il_verified l"
  "active_sum (il_locks (finish_transaction lib l tx created post)) = active_sum (il_locks l)
     + (if created_kind tx = None then 0 else created)"
  "locks_wf (il_locks l) \<Longrightarrow> locks_wf (il_locks (finish_transaction lib l tx created post))"
  "created = 0 \<or> created_kind tx = None \<Longrightarrow>
     il_locks (finish_transaction lib l tx created post) = il_locks l"
  by (auto simp: finish_transaction_def create_lock_def Let_def split: option.splits)

lemma apply_transaction_cases:
  assumes "ledger_inv l" and "post < two256"
    and "apply_transaction lib l tx post = (l', r)"
  obtains (rejected) e where "r = Inl e" "ledger_inv l'"
  | (applied) l1 where "r = Inr ()" "l' = finish_transaction lib l1 tx (post - il_exact_idle_assets l) post"
      "consume_idle l (tf_origin tx) (il_exact_idle_assets l - post) = (l1, Inr ())" "ledger_inv l'"
proof -
  let ?E = "il_exact_idle_assets l"
  let ?late = "cursor_reached (il_cursor l) (tf_block_number tx, tf_transaction_index tx)"
  have unverified: "ledger_inv (m \<lparr> il_verified := False \<rparr>)" if "locks_wf (il_locks m)"
      "il_exact_idle_assets m < two256" for m
    using that by (simp add: ledger_inv_def)
  show thesis
  proof (cases ?late)
    case True
    then have "l' = l \<lparr> il_verified := False \<rparr>" "r = Inl LockNonCanonicalOrder"
      using assms(3) by (auto simp: apply_transaction_def Let_def)
    then show thesis
      using rejected unverified [of l] assms(1) by (auto simp: ledger_inv_def)
  next
    case late: False
    show thesis
    proof (cases "attribute_idle_effect tx ?E post")
      case (Inl e)
      then have "l' = l" "r = Inl (Attribution e)"
        using assms(3) late by (auto simp: apply_transaction_def Let_def)
      then show thesis using rejected assms(1) by auto
    next
      case (Inr effect)
      note eff = attribute_idle_effect_Inr [OF Inr]
      obtain l1 c where c: "consume_idle l (tf_origin tx) (?E - post) = (l1, c)" by fastforce
      note cc = consume_idle_cases [OF assms(1) c]
      let ?l3 = "finish_transaction lib l1 tx (post - ?E) post"
      have step: "apply_transaction lib l tx post =
        (case c of Inl e \<Rightarrow> (l1, Inl e)
         | Inr _ \<Rightarrow> (case total_locked ?l3 of
             Inl e \<Rightarrow> (?l3, Inl e)
           | Inr locked \<Rightarrow> if locked > post then (?l3 \<lparr> il_verified := False \<rparr>, Inl LockInvariant)
               else (?l3, Inr ())))"
        using late Inr c eff
        by (auto simp: apply_transaction_def Let_def finish_transaction_def
            split: option.splits sum.splits)
      show thesis
      proof (cases c)
        case (Inl e)
        then show thesis using step assms(3) cc rejected by auto
      next
        case inr: (Inr u)
        then have c1: "c = Inr ()" by simp
        have wf3: "locks_wf (il_locks ?l3)"
          using cc by (simp add: finish_transaction_fields ledger_inv_def)
        have cover: "active_sum (il_locks ?l3) \<le> post" if "il_verified l"
          using cc c1 that assms(1)
          by (auto simp: finish_transaction_fields ledger_inv_def)
        have inv3: "ledger_inv ?l3"
          using wf3 cover cc c1 assms(2) by (simp add: ledger_inv_def finish_transaction_fields)
        have inv4: "ledger_inv (?l3 \<lparr> il_verified := False \<rparr>)"
          by (rule unverified) (use wf3 assms(2) in \<open>simp_all add: finish_transaction_fields\<close>)
        show thesis
        proof (cases "total_locked ?l3")
          case (Inl e)
          then show thesis using step assms(3) c1 inv3 rejected by auto
        next
          case (Inr locked)
          then show thesis
            using step assms(3) c1 c inv3 inv4 rejected applied by (auto split: if_splits)
        qed
      qed
    qed
  qed
qed

lemma release_first_spec:
  "release_first i st ls = Some ls' \<Longrightarrow> st \<noteq> LockActive \<Longrightarrow>
     active_sum ls' \<le> active_sum ls \<and> (locks_wf ls \<longrightarrow> locks_wf ls')"
  by (induction ls arbitrary: ls') (auto split: if_splits)

datatype ledger_command =
    ApplyTransaction ordered_transaction_flow u256
  | ReleaseLock b256 idle_lock_release_state

definition ledger_step ::
  "evm_lib \<Rightarrow> idle_lock_ledger \<Rightarrow> ledger_command \<Rightarrow> idle_lock_error + idle_lock_ledger" where
  "ledger_step lib l c =
     (case c of
        ApplyTransaction tx post \<Rightarrow> Inr (fst (apply_transaction lib l tx post))
      | ReleaseLock i st \<Rightarrow> release l i st)"

definition command_in_range :: "ledger_command \<Rightarrow> bool" where
  "command_in_range c \<longleftrightarrow> (case c of ApplyTransaction _ post \<Rightarrow> post < two256 | _ \<Rightarrow> True)"

lemma ledger_step_inv:
  assumes "ledger_inv l" and "command_in_range c" and "ledger_step lib l c = Inr l'"
  shows "ledger_inv l'"
proof (cases c)
  case (ApplyTransaction tx post)
  obtain m r where m: "apply_transaction lib l tx post = (m, r)" by fastforce
  have "ledger_inv m"
    by (rule apply_transaction_cases [OF assms(1) _ m])
      (use assms(2) ApplyTransaction in \<open>auto simp: command_in_range_def\<close>)
  then show ?thesis using assms(3) m ApplyTransaction by (simp add: ledger_step_def)
next
  case (ReleaseLock i st)
  then obtain ls where "st \<noteq> LockActive" "release_first i st (il_locks l) = Some ls"
    "l' = l \<lparr> il_locks := ls \<rparr>"
    using assms(3) by (auto simp: ledger_step_def release_def result_simps)
  then show ?thesis
    using release_first_spec [of i st "il_locks l" ls] assms(1) by (auto simp: ledger_inv_def)
qed

interpretation locks: fallible_machine "ledger_step lib" command_in_range ledger_inv for lib
  by unfold_locales (rule ledger_step_inv)

subsection \<open>Properties\<close>

text \<open>
  C8. Replaying any sequence of transactions and releases from a new ledger, accepted or rejected,
  keeps the ledger sound: while it is verified, the routine available idle is defined and is
  exactly the exact idle balance less the active locks.
\<close>

theorem ledger_replay_sound:
  assumes "idle < two256" and "list_all command_in_range cs"
    and "l = commit_run (ledger_step lib) (ledger_new vault idle) cs" and "il_verified l"
  shows "\<exists>available. routine_available_idle l = Inr available \<and>
    available + active_sum (il_locks l) = il_exact_idle_assets l"
proof -
  have "ledger_inv (ledger_new vault idle)"
    using assms(1) by (simp add: ledger_inv_def ledger_new_def)
  then have "ledger_inv l"
    unfolding assms(3) using locks.commit_run_inv assms(2) by blast
  then show ?thesis
    using ledger_inv_available [OF _ assms(4)] assms(4) by (auto simp: ledger_inv_def)
qed

definition witness_flow :: "flow_origin \<Rightarrow> u64 \<Rightarrow> u256 \<Rightarrow> u256 \<Rightarrow> ordered_transaction_flow" where
  "witness_flow origin block inflow outflow =
     \<lparr> tf_block_number = block, tf_transaction_index = 0, tf_transaction_hash = 7, tf_sender = 8,
       tf_origin = origin, tf_inflows = [\<lparr> af_log_index = 0, af_assets = inflow \<rparr>],
       tf_outflows = [\<lparr> af_log_index = 1, af_assets = outflow \<rparr>], tf_preauthorized_redeploy = False \<rparr>"

lemmas evaluate_ledger =
  ledger_new_def ledger_step_def apply_transaction_def attribute_idle_effect_def sum_ordered_def
  cursor_reached_def consume_idle_def created_kind_def create_lock_def routine_available_idle_def
  total_locked_def sum_remaining_def evaluate_arith Let_def

theorem ledger_replay_sound_witness:
  "\<exists>available. routine_available_idle
     (commit_run (ledger_step witness_lib) (ledger_new 10 100)
        [ApplyTransaction (witness_flow SentinelDeallocation 5 40 0) 140,
         ApplyTransaction (witness_flow BotRebalance 6 0 70) 70]) = Inr available"
proof -
  let ?cs = "[ApplyTransaction (witness_flow SentinelDeallocation 5 40 0) 140,
    ApplyTransaction (witness_flow BotRebalance 6 0 70) 70]"
  let ?l = "commit_run (ledger_step witness_lib) (ledger_new 10 100) ?cs"
  have "il_verified ?l"
    by (simp add: commit_step_def witness_flow_def evaluate_ledger)
  moreover have "list_all command_in_range ?cs"
    by (simp add: command_in_range_def two256_def)
  ultimately show ?thesis
    using ledger_replay_sound [of 100 ?cs ?l witness_lib 10] by (auto simp: two256_def)
qed

text \<open>
  C9. What one applied transaction does to a verified ledger: when idle falls, unlocked idle is
  spent first and the active locks shrink only to the new balance; when idle rises, the whole
  increase is locked exactly for the origins that must not be redeployed; the exact balance becomes
  the observed one and the ledger stays verified.
\<close>

theorem transaction_lock_accounting:
  assumes "ledger_inv l" and "il_verified l" and "post < two256"
    and "apply_transaction lib l tx post = (l', Inr ())"
  shows "il_verified l' \<and> il_exact_idle_assets l' = post \<and>
    active_sum (il_locks l') =
      (if post \<le> il_exact_idle_assets l then min (active_sum (il_locks l)) post
       else if created_kind tx \<noteq> None
       then active_sum (il_locks l) + (post - il_exact_idle_assets l)
       else active_sum (il_locks l))"
proof (rule apply_transaction_cases [OF assms(1,3,4)])
  fix l1
  assume l': "l' = finish_transaction lib l1 tx (post - il_exact_idle_assets l) post"
    and c: "consume_idle l (tf_origin tx) (il_exact_idle_assets l - post) = (l1, Inr ())"
  note cc = consume_idle_cases [OF assms(1) c]
  show ?thesis
    using cc assms(1,2) unfolding l' by (auto simp: finish_transaction_fields ledger_inv_def min_def)
qed simp

theorem transaction_lock_accounting_witness:
  "active_sum (il_locks (fst (apply_transaction witness_lib (ledger_new 10 100)
     (witness_flow DirectDonation 5 40 0) 140))) = 40"
proof -
  let ?r = "apply_transaction witness_lib (ledger_new 10 100) (witness_flow DirectDonation 5 40 0) 140"
  have "snd ?r = Inr ()"
    by (simp add: witness_flow_def evaluate_ledger)
  then have "?r = (fst ?r, Inr ())" by (metis prod.collapse)
  then show ?thesis
    using transaction_lock_accounting [of "ledger_new 10 100" 140 witness_lib
        "witness_flow DirectDonation 5 40 0" "fst ?r"]
    by (simp add: ledger_inv_def ledger_new_def two256_def created_kind_def witness_flow_def)
qed

text \<open>
  C10. A routine transaction of the bot never spends held assets: when it is applied to a sound
  ledger, every lock is left exactly as it was and the remaining idle still covers the locks.
\<close>

theorem bot_never_spends_locks:
  assumes "ledger_inv l" and "il_verified l" and "post < two256"
    and "tf_origin tx = BotRebalance"
    and "apply_transaction lib l tx post = (l', Inr ())"
  shows "il_locks l' = il_locks l \<and> active_sum (il_locks l) \<le> post"
proof (rule apply_transaction_cases [OF assms(1,3,5)])
  fix l1
  assume l': "l' = finish_transaction lib l1 tx (post - il_exact_idle_assets l) post"
    and c: "consume_idle l (tf_origin tx) (il_exact_idle_assets l - post) = (l1, Inr ())"
    and inv: "ledger_inv l'"
  note cc = consume_idle_cases [OF assms(1) c]
  have l1: "l1 = l" using cc assms(4) by simp
  have "created_kind tx = None" using assms(4) by (simp add: created_kind_def)
  then have "il_locks l' = il_locks l"
    unfolding l' l1 by (simp add: finish_transaction_fields)
  then show ?thesis
    using inv assms(2) unfolding l' l1 by (simp add: ledger_inv_def finish_transaction_fields)
qed simp

theorem bot_never_spends_locks_witness:
  "il_locks (fst (apply_transaction witness_lib (ledger_new 10 100)
     (witness_flow BotRebalance 5 10 50) 60)) = []"
proof -
  let ?r = "apply_transaction witness_lib (ledger_new 10 100) (witness_flow BotRebalance 5 10 50) 60"
  have "snd ?r = Inr ()"
    by (simp add: witness_flow_def evaluate_ledger)
  then have "?r = (fst ?r, Inr ())" by (metis prod.collapse)
  then show ?thesis
    using bot_never_spends_locks [of "ledger_new 10 100" 60 "witness_flow BotRebalance 5 10 50"
        witness_lib "fst ?r"]
    by (simp add: ledger_inv_def ledger_new_def two256_def witness_flow_def)
qed

end
