(* ===== verification/AdaptiveCurve.thy ===== *)
theory AdaptiveCurve
  imports BlueMath
begin

text \<open>
  The Adaptive Curve interest-rate model (\<open>src/morpho/adaptive_curve.rs\<close>) in signed 256-bit
  fixed-point arithmetic. Shifts of \<open>I256\<close> keep the value or lose bits: the theorem \<open>w_exp_total\<close>
  shows that no shift the function performs loses a bit, so the checked result is the exact product
  or the arithmetic quotient.
\<close>

subsection \<open>Definitions\<close>

definition TARGET_UTILIZATION :: u256 where "TARGET_UTILIZATION = 900000000000000000"
definition INITIAL_RATE_AT_TARGET :: u256 where "INITIAL_RATE_AT_TARGET = 1268391679"
definition MIN_RATE_AT_TARGET :: u256 where "MIN_RATE_AT_TARGET = 31709791"
definition MAX_RATE_AT_TARGET :: u256 where "MAX_RATE_AT_TARGET = 63419583967"
definition CURVE_STEEPNESS :: i256 where "CURVE_STEEPNESS = 4000000000000000000"
definition ADJUSTMENT_SPEED :: i256 where "ADJUSTMENT_SPEED = 1585489599188"
definition LN_2 :: i256 where "LN_2 = 693147180559945309"
definition LN_WEI_ABS :: u256 where "LN_WEI_ABS = 41446531673892822312"
definition WEXP_UPPER :: u256 where "WEXP_UPPER = 93859467695000404319"
definition WEXP_UPPER_VALUE :: u256 where
  "WEXP_UPPER_VALUE = 57716089161558943949701069502944508345128422502756744429568"

record adaptive_curve_projection =
  ac_average_rate :: u256
  ac_ending_rate_at_target :: u256

record adaptive_curve_state =
  ac_stored_rate_at_target :: u256

definition positive :: "u256 \<Rightarrow> math_error + i256" where
  "positive v = ok_or (i256_of_u256 v) SignedConversion"

definition unsigned_value :: "i256 \<Rightarrow> math_error + u256" where
  "unsigned_value v = ok_or (u256_of_i256 v) SignedConversion"

definition wad :: i256 where "wad = 1000000000000000000"

definition checked_neg :: "i256 \<Rightarrow> math_error + i256" where
  "checked_neg v = ok_or (checked_sneg v) Invariant"

definition w_mul_to_zero :: "i256 \<Rightarrow> i256 \<Rightarrow> math_error + i256" where
  "w_mul_to_zero x y =
     ok_or (Option.bind (checked_smul x y) (\<lambda>product. checked_sdiv product wad)) Invariant"

definition w_div_to_zero :: "i256 \<Rightarrow> i256 \<Rightarrow> math_error + i256" where
  "w_div_to_zero x y =
     ok_or (Option.bind (checked_smul x wad) (\<lambda>product. checked_sdiv product y)) Invariant"

text \<open>Checked shifts by less than the width.\<close>

definition checked_sshl :: "i256 \<Rightarrow> nat \<Rightarrow> i256 option" where
  "checked_sshl x k = (if k < 256 then checked_i256 (x * 2 ^ k) else None)"

definition checked_sshr :: "i256 \<Rightarrow> nat \<Rightarrow> i256 option" where
  "checked_sshr x k = (if k < 256 then Some (x div 2 ^ k) else None)"

definition w_exp :: "i256 \<Rightarrow> math_error + i256" where
  "w_exp x =
     try_let (positive LN_WEI_ABS) (\<lambda>ln_abs.
     try_let (checked_neg ln_abs) (\<lambda>ln_wei.
     if x < ln_wei then Inr 0
     else
       try_let (positive WEXP_UPPER) (\<lambda>upper.
       if x \<ge> upper then positive WEXP_UPPER_VALUE
       else
         try_let (ok_or (checked_sdiv LN_2 2) Invariant) (\<lambda>half.
         try_let (if x < 0 then checked_neg half else Inr half) (\<lambda>adjustment.
         try_let (ok_or (Option.bind (checked_sadd x adjustment) (\<lambda>v. checked_sdiv v LN_2))
             Invariant) (\<lambda>q.
         try_let (ok_or (checked_smul q LN_2) Invariant) (\<lambda>q_ln.
         try_let (ok_or (checked_ssub x q_ln) Invariant) (\<lambda>r.
         try_let (ok_or (Option.bind (checked_smul r r) (\<lambda>v.
             Option.bind (checked_sdiv v wad) (\<lambda>v. checked_sdiv v 2))) Invariant) (\<lambda>square_term.
         try_let (ok_or (Option.bind (checked_sadd wad r) (\<lambda>v. checked_sadd v square_term))
             Invariant) (\<lambda>exp_r.
         let shift = nat \<bar>q\<bar> in
         if two64 \<le> shift then Inl Invariant
         else if q < 0 then ok_or (checked_sshr exp_r shift) Invariant
         else ok_or (checked_sshl exp_r shift) Invariant))))))))))"

definition normalized_error :: "u256 \<Rightarrow> math_error + i256" where
  "normalized_error utilization =
     (if utilization > WAD then Inl Invariant
      else
        try_let (positive utilization) (\<lambda>u.
        try_let (positive TARGET_UTILIZATION) (\<lambda>target.
        try_let (if u > target then ok_or (checked_ssub wad target) Invariant else Inr target)
          (\<lambda>denominator.
        try_let (ok_or (checked_ssub u target) Invariant) (\<lambda>difference.
        w_div_to_zero difference denominator)))))"

definition curve :: "i256 \<Rightarrow> i256 \<Rightarrow> math_error + i256" where
  "curve rate_at_target error =
     try_let
       (if error < 0
        then try_let (w_div_to_zero wad CURVE_STEEPNESS) (\<lambda>d. ok_or (checked_ssub wad d) Invariant)
        else ok_or (checked_ssub CURVE_STEEPNESS wad) Invariant) (\<lambda>coefficient.
     try_let (w_mul_to_zero coefficient error) (\<lambda>v.
     try_let (ok_or (checked_sadd v wad) Invariant) (\<lambda>factor.
     w_mul_to_zero factor rate_at_target)))"

definition clamp :: "'a::linorder \<Rightarrow> 'a \<Rightarrow> 'a \<Rightarrow> 'a" where
  "clamp x lo hi = (if x < lo then lo else if hi < x then hi else x)"

definition new_rate :: "i256 \<Rightarrow> i256 \<Rightarrow> math_error + i256" where
  "new_rate start linear_adaptation =
     try_let (w_exp linear_adaptation) (\<lambda>e.
     try_let (w_mul_to_zero start e) (\<lambda>candidate.
     try_let (positive MIN_RATE_AT_TARGET) (\<lambda>lo.
     try_let (positive MAX_RATE_AT_TARGET) (\<lambda>hi.
     Inr (clamp candidate lo hi)))))"

definition market_utilization :: "u256 \<Rightarrow> u256 \<Rightarrow> arithmetic_error + u256" where
  "market_utilization borrow supply = (if supply = 0 then Inr 0 else w_div_down borrow supply)"

text \<open>The pair of average and ending target rates computed by the IRM call.\<close>

definition target_rates :: "i256 \<Rightarrow> i256 \<Rightarrow> u64 \<Rightarrow> math_error + i256 \<times> i256" where
  "target_rates start error elapsed_seconds =
     (if start = 0 then
        try_let (positive INITIAL_RATE_AT_TARGET) (\<lambda>initial. Inr (initial, initial))
      else
        try_let (w_mul_to_zero ADJUSTMENT_SPEED error) (\<lambda>speed.
        try_let (positive elapsed_seconds) (\<lambda>elapsed.
        try_let (ok_or (checked_smul speed elapsed) Invariant) (\<lambda>linear.
        if linear = 0 then Inr (start, start)
        else
          try_let (new_rate start linear) (\<lambda>ending.
          try_let (ok_or (checked_sdiv linear 2) Invariant) (\<lambda>half_linear.
          try_let (new_rate start half_linear) (\<lambda>midpoint.
          try_let (ok_or
            (Option.bind (checked_sadd start ending) (\<lambda>v.
             Option.bind (Option.bind (checked_smul midpoint 2) (\<lambda>twice. checked_sadd v twice)) (\<lambda>v.
             checked_sdiv v 4))) Invariant) (\<lambda>average.
          Inr (average, ending)))))))))"

definition adaptive_curve_borrow_rate ::
  "stored_market_state \<Rightarrow> u256 \<Rightarrow> u64 \<Rightarrow> math_error + adaptive_curve_projection" where
  "adaptive_curve_borrow_rate market stored_rate_at_target elapsed_seconds =
     try_let (map_err Arithmetic
       (market_utilization (sm_total_borrow_assets market) (sm_total_supply_assets market)))
       (\<lambda>utilization.
     try_let (normalized_error utilization) (\<lambda>error.
     try_let (positive stored_rate_at_target) (\<lambda>start.
     try_let (target_rates start error elapsed_seconds) (\<lambda>(average_target, ending_target).
     try_let (curve average_target error) (\<lambda>average.
     try_let (unsigned_value average) (\<lambda>average_rate.
     try_let (unsigned_value ending_target) (\<lambda>ending_rate.
     Inr \<lparr> ac_average_rate = average_rate, ac_ending_rate_at_target = ending_rate \<rparr>)))))))"

definition adaptive_curve_spot_rate :: "u256 \<Rightarrow> u256 \<Rightarrow> math_error + u256" where
  "adaptive_curve_spot_rate utilization rate_at_target =
     try_let (positive rate_at_target) (\<lambda>rate.
     try_let (normalized_error utilization) (\<lambda>error.
     try_let (curve rate error) (\<lambda>v.
     unsigned_value v)))"

lemmas curve_constants =
  TARGET_UTILIZATION_def INITIAL_RATE_AT_TARGET_def MIN_RATE_AT_TARGET_def MAX_RATE_AT_TARGET_def
  CURVE_STEEPNESS_def ADJUSTMENT_SPEED_def LN_2_def LN_WEI_ABS_def WEXP_UPPER_def
  WEXP_UPPER_VALUE_def wad_def WAD_def

lemmas evaluate_curve =
  adaptive_curve_spot_rate_def adaptive_curve_borrow_rate_def target_rates_def market_utilization_def
  new_rate_def clamp_def curve_def normalized_error_def w_exp_def checked_sshl_def checked_sshr_def
  w_mul_to_zero_def w_div_to_zero_def checked_neg_def positive_def unsigned_value_def
  curve_constants evaluate_signed

subsection \<open>Signed operations in range\<close>

lemma checked_i256_small: "\<bar>x\<bar> < 2 ^ 255 \<Longrightarrow> checked_i256 x = Some x"
  by (auto simp: checked_i256_def i256_range_def)

lemma positive_eq: "v < 2 ^ 255 \<Longrightarrow> positive v = Inr (int v)"
  by (simp add: positive_def result_simps arith_simps)

lemma positive_Inr [arith_simps]: "positive v = Inr x \<longleftrightarrow> x = int v \<and> v < 2 ^ 255"
  by (auto simp: positive_def result_simps arith_simps)

lemma unsigned_value_Inr [arith_simps]: "unsigned_value v = Inr x \<longleftrightarrow> v = int x"
  by (auto simp: unsigned_value_def result_simps arith_simps)

lemma abs_quot_to_zero: "\<bar>quot_to_zero x y\<bar> \<le> \<bar>x\<bar>"
proof (cases "y = 0")
  case False
  then have "\<bar>x\<bar> div \<bar>y\<bar> \<le> \<bar>x\<bar> div 1"
    by (intro zdiv_mono2) auto
  then have "\<bar>x\<bar> div \<bar>y\<bar> \<le> \<bar>x\<bar>" by simp
  moreover have "0 \<le> \<bar>x\<bar> div \<bar>y\<bar>"
    using False by (simp add: pos_imp_zdiv_nonneg_iff)
  ultimately show ?thesis
    by (auto simp: quot_to_zero_def abs_mult sgn_if)
qed (simp add: quot_to_zero_def)

lemma checked_sdiv_small: "\<bar>x\<bar> < 2 ^ 255 \<Longrightarrow> y \<noteq> 0 \<Longrightarrow> checked_sdiv x y = Some (quot_to_zero x y)"
  using abs_quot_to_zero [of x y] by (simp add: checked_sdiv_def checked_i256_small)

lemma w_mul_to_zero_eq:
  "\<bar>x * y\<bar> < 2 ^ 255 \<Longrightarrow> w_mul_to_zero x y = Inr (quot_to_zero (x * y) wad)"
  by (simp add: w_mul_to_zero_def checked_smul_def checked_i256_small checked_sdiv_small wad_def)

lemma w_div_to_zero_eq:
  "\<bar>x * wad\<bar> < 2 ^ 255 \<Longrightarrow> y \<noteq> 0 \<Longrightarrow> w_div_to_zero x y = Inr (quot_to_zero (x * wad) y)"
  by (simp add: w_div_to_zero_def checked_smul_def checked_i256_small checked_sdiv_small)

text \<open>Truncating division is monotone in the dividend.\<close>

lemma quot_to_zero_mono:
  assumes "x \<le> x'" and "0 < y"
  shows "quot_to_zero x y \<le> quot_to_zero x' y"
proof (cases "0 \<le> x \<or> x' \<le> 0")
  case True
  then show ?thesis
    using assms by (auto simp: quot_to_zero_pos quot_to_zero_neg intro!: zdiv_mono1)
next
  case False
  then have "quot_to_zero x y \<le> 0" and "0 \<le> quot_to_zero x' y"
    using assms by (simp_all add: quot_to_zero_pos quot_to_zero_neg pos_imp_zdiv_nonneg_iff)
  then show ?thesis by simp
qed

lemma quot_to_zero_exact: "y \<noteq> 0 \<Longrightarrow> quot_to_zero (k * y) y = k"
proof -
  assume y: "y \<noteq> 0"
  then have "sgn y * sgn y = 1" by (auto simp: sgn_if)
  with y show ?thesis
    by (simp add: quot_to_zero_def abs_mult sgn_mult mult.assoc mult.left_commute)
      (metis mult.commute mult_sgn_abs)
qed

subsection \<open>The exponential\<close>

text \<open>Rounding \<open>x / ln 2\<close> to the nearest integer leaves a remainder of at most half of \<open>ln 2\<close>.\<close>

lemma nearest_remainder:
  fixes x h :: int
  assumes "0 < h"
  shows "\<bar>x - quot_to_zero (x + (if x < 0 then - h else h)) (2 * h + 1) * (2 * h + 1)\<bar> \<le> h"
proof (cases "x < 0")
  case True
  let ?y = "h - x" and ?l = "2 * h + 1"
  have "quot_to_zero (x - h) ?l = - (?y div ?l)"
    using True assms by (subst quot_to_zero_neg) auto
  moreover have "0 \<le> ?y mod ?l" and "?y mod ?l < ?l"
    using assms pos_mod_bound [of ?l ?y] pos_mod_sign [of ?l ?y] by linarith+
  moreover have "?y = ?y div ?l * ?l + ?y mod ?l"
    by (rule div_mult_mod_eq [symmetric])
  ultimately show ?thesis
    using True by (auto simp: abs_le_iff)
next
  case False
  let ?y = "x + h" and ?l = "2 * h + 1"
  have "quot_to_zero ?y ?l = ?y div ?l"
    using False assms by (subst quot_to_zero_pos) auto
  moreover have "0 \<le> ?y mod ?l" and "?y mod ?l < ?l"
    using assms pos_mod_bound [of ?l ?y] pos_mod_sign [of ?l ?y] by linarith+
  moreover have "?y = ?y div ?l * ?l + ?y mod ?l"
    by (rule div_mult_mod_eq [symmetric])
  ultimately show ?thesis
    using False by (auto simp: abs_le_iff)
qed

definition exp_quotient :: "i256 \<Rightarrow> int" where
  "exp_quotient x =
     quot_to_zero (x + (if x < 0 then - 346573590279972654 else 346573590279972654)) LN_2"

definition exp_remainder :: "i256 \<Rightarrow> int" where
  "exp_remainder x = x - exp_quotient x * LN_2"

definition exp_mantissa :: "int \<Rightarrow> int" where
  "exp_mantissa r = wad + r + r * r div wad div 2"

lemma exp_remainder_bound: "\<bar>exp_remainder x\<bar> \<le> 346573590279972654"
  using nearest_remainder [of 346573590279972654 x]
  by (simp add: exp_remainder_def exp_quotient_def LN_2_def)

lemma exp_quotient_bounds:
  assumes "- 41446531673892822312 \<le> x" and "x < 93859467695000404319"
  shows "- 60 \<le> exp_quotient x" and "exp_quotient x \<le> 135"
  using exp_remainder_bound [of x] assms
  unfolding exp_remainder_def LN_2_def abs_le_iff by linarith+

lemma exp_square_bound:
  fixes r :: int
  assumes "\<bar>r\<bar> \<le> 346573590279972654"
  shows "0 \<le> r * r" and "r * r \<le> 120113253479550355675600406987803716"
proof -
  have "\<bar>r\<bar> * \<bar>r\<bar> \<le> 346573590279972654 * 346573590279972654"
    by (rule mult_mono) (use assms in auto)
  then show "r * r \<le> 120113253479550355675600406987803716" by simp
qed simp

lemma exp_mantissa_bounds:
  assumes "\<bar>r\<bar> \<le> 346573590279972654"
  shows "600000000000000000 \<le> exp_mantissa r" and "exp_mantissa r \<le> 1406630217019747831"
proof -
  have "r * r div wad \<le> 120113253479550355675600406987803716 div wad"
    by (rule zdiv_mono1) (use exp_square_bound [OF assms] in \<open>simp_all add: wad_def\<close>)
  then have "r * r div wad div 2 \<le> 120113253479550355675600406987803716 div wad div 2"
    by (rule zdiv_mono1) simp
  moreover have "0 \<le> r * r div wad div 2"
    using exp_square_bound(1) [OF assms] by (simp add: pos_imp_zdiv_nonneg_iff wad_def)
  ultimately show "600000000000000000 \<le> exp_mantissa r" "exp_mantissa r \<le> 1406630217019747831"
    using assms by (auto simp: exp_mantissa_def wad_def abs_le_iff)
qed

definition exp_scaled :: "int \<Rightarrow> int \<Rightarrow> int" where
  "exp_scaled m q = (if q < 0 then m div 2 ^ nat \<bar>q\<bar> else m * 2 ^ nat \<bar>q\<bar>)"

lemma exp_scaled_bounds:
  assumes "0 \<le> m" and "m \<le> 1406630217019747831" and "- 60 \<le> q" and "q \<le> 135"
  shows "0 \<le> exp_scaled m q" and "exp_scaled m q < 2 ^ 196"
proof -
  show "0 \<le> exp_scaled m q"
    using assms by (simp add: exp_scaled_def pos_imp_zdiv_nonneg_iff)
  show "exp_scaled m q < 2 ^ 196"
  proof (cases "q < 0")
    case True
    have "m div 2 ^ nat \<bar>q\<bar> \<le> m div 1"
      by (rule zdiv_mono2) (use assms in auto)
    also have "\<dots> < 2 ^ 196" using assms by simp
    finally show ?thesis using True by (simp add: exp_scaled_def)
  next
    case False
    have "(2::int) ^ nat \<bar>q\<bar> \<le> 2 ^ 135"
      by (rule power_increasing) (use assms False in auto)
    then have "m * 2 ^ nat \<bar>q\<bar> \<le> 1406630217019747831 * 2 ^ 135"
      using assms by (intro mult_mono) auto
    also have "\<dots> < (2::int) ^ 196" by simp
    finally show ?thesis using False by (simp add: exp_scaled_def)
  qed
qed

lemma exp_limits:
  "positive LN_WEI_ABS = Inr 41446531673892822312"
  "positive WEXP_UPPER = Inr 93859467695000404319"
  "checked_neg 41446531673892822312 = Inr (- 41446531673892822312)"
  by (simp_all add: positive_eq checked_neg_def evaluate_signed LN_WEI_ABS_def WEXP_UPPER_def)

lemma w_exp_middle:
  assumes x: "- 41446531673892822312 \<le> x" "x < 93859467695000404319"
  shows "w_exp x = Inr (exp_scaled (exp_mantissa (exp_remainder x)) (exp_quotient x))"
proof -
  let ?q = "exp_quotient x" and ?r = "exp_remainder x"
  let ?m = "exp_mantissa ?r"
  note q = exp_quotient_bounds [OF x]
  note r = exp_remainder_bound [of x]
  note sq = exp_square_bound [OF r]
  note m = exp_mantissa_bounds [OF r]
  have small: "- 41446531673892822312 \<le> x" "\<not> x < - 41446531673892822312"
    "\<not> 93859467695000404319 \<le> x" using x by simp_all
  have c1: "checked_sdiv LN_2 2 = Some 346573590279972654"
    by (simp add: evaluate_signed LN_2_def sgn_if)
  have neg: "checked_neg 346573590279972654 = Inr (- 346573590279972654)"
    by (simp add: checked_neg_def evaluate_signed)
  have adj: "checked_sadd x (- 346573590279972654) = Some (x - 346573590279972654)"
    "checked_sadd x 346573590279972654 = Some (x + 346573590279972654)"
    using x by (simp_all add: checked_sadd_def checked_i256_small)
  have quo: "checked_sdiv (x - 346573590279972654) LN_2 = Some ?q" if "x < 0"
    using that x by (subst checked_sdiv_small) (simp_all add: exp_quotient_def LN_2_def)
  have quo': "checked_sdiv (x + 346573590279972654) LN_2 = Some ?q" if "\<not> x < 0"
    using that x by (subst checked_sdiv_small) (simp_all add: exp_quotient_def LN_2_def)
  have mul: "checked_smul ?q LN_2 = Some (?q * LN_2)"
    using q by (simp add: checked_smul_def checked_i256_small LN_2_def abs_less_iff)
  have rem: "checked_ssub x (?q * LN_2) = Some ?r"
    using r by (simp add: checked_ssub_def checked_i256_small flip: exp_remainder_def)
  have sq1: "checked_smul ?r ?r = Some (?r * ?r)"
    using sq by (simp add: checked_smul_def checked_i256_small)
  have sq2: "checked_sdiv (?r * ?r) wad = Some (?r * ?r div wad)"
    using sq by (subst checked_sdiv_small) (simp_all add: wad_def quot_to_zero_pos)
  have sq3: "checked_sdiv (?r * ?r div wad) 2 = Some (?r * ?r div wad div 2)"
  proof -
    have "0 \<le> ?r * ?r div wad"
      using sq by (simp add: wad_def pos_imp_zdiv_nonneg_iff)
    moreover have "?r * ?r div wad \<le> ?r * ?r div 1"
      by (rule zdiv_mono2) (use sq in \<open>simp_all add: wad_def\<close>)
    ultimately show ?thesis
      using sq by (subst checked_sdiv_small) (simp_all add: quot_to_zero_pos)
  qed
  have e1: "checked_sadd wad ?r = Some (wad + ?r)"
    using r by (simp add: checked_sadd_def checked_i256_small wad_def)
  have e2: "checked_sadd (wad + ?r) (?r * ?r div wad div 2) = Some ?m"
    using m by (simp add: checked_sadd_def checked_i256_small flip: exp_mantissa_def)
  have shift: "nat \<bar>?q\<bar> < 256" "\<not> two64 \<le> nat \<bar>?q\<bar>"
    using q by (simp_all add: two64_def)
  have shl: "checked_sshl ?m (nat \<bar>?q\<bar>) = Some (exp_scaled ?m ?q)" if "\<not> ?q < 0"
    using that exp_scaled_bounds [of ?m ?q] m q shift
    by (simp add: checked_sshl_def exp_scaled_def checked_i256_small)
  have shr: "checked_sshr ?m (nat \<bar>?q\<bar>) = Some (exp_scaled ?m ?q)" if "?q < 0"
    using that shift by (simp add: checked_sshr_def exp_scaled_def)
  show ?thesis
    unfolding w_exp_def Let_def
    by (cases "x < 0"; cases "?q < 0")
      (simp_all add: exp_limits small c1 neg adj quo quo' mul rem sq1 sq2 sq3 e1 e2 shift shl shr
        del: abs_of_neg abs_of_nonneg abs_of_nonpos)
qed

lemma w_exp_ok: "\<exists>v. w_exp x = Inr v \<and> 0 \<le> v \<and> v < 2 ^ 196"
proof (cases "- 41446531673892822312 \<le> x \<and> x < 93859467695000404319")
  case True
  then have x: "- 41446531673892822312 \<le> x" "x < 93859467695000404319" by simp_all
  note m = exp_mantissa_bounds [OF exp_remainder_bound [of x]]
  show ?thesis
    using w_exp_middle [OF x] exp_scaled_bounds [OF _ m(2) exp_quotient_bounds [OF x]] m by auto
next
  case False
  then consider "x < - 41446531673892822312" | "93859467695000404319 \<le> x" by linarith
  then show ?thesis
    by cases (simp_all add: w_exp_def exp_limits WEXP_UPPER_VALUE_def positive_eq)
qed

subsection \<open>The curve\<close>

definition error_of :: "u256 \<Rightarrow> int" where
  "error_of u =
     quot_to_zero ((int u - 900000000000000000) * wad)
       (if u > TARGET_UTILIZATION then 100000000000000000 else 900000000000000000)"

lemma normalized_error_eq: "u \<le> WAD \<Longrightarrow> normalized_error u = Inr (error_of u)"
proof -
  assume u: "u \<le> WAD"
  have "\<bar>(int u - 900000000000000000) * wad\<bar> < 2 ^ 255"
    using u by (simp add: abs_mult wad_def WAD_def)
  moreover have "checked_ssub (int u) 900000000000000000 = Some (int u - 900000000000000000)"
    using u by (simp add: checked_ssub_def checked_i256_small WAD_def)
  moreover have "checked_ssub wad 900000000000000000 = Some 100000000000000000"
    by (simp add: wad_def evaluate_signed)
  moreover have "int u > 900000000000000000 \<longleftrightarrow> u > TARGET_UTILIZATION"
    by (simp add: TARGET_UTILIZATION_def)
  moreover have "positive u = Inr (int u)"
    using u by (intro positive_eq) (simp add: WAD_def)
  moreover have "positive TARGET_UTILIZATION = Inr 900000000000000000"
    by (subst positive_eq) (simp_all add: TARGET_UTILIZATION_def)
  ultimately show ?thesis
    using u by (simp add: normalized_error_def error_of_def w_div_to_zero_eq)
qed

lemma normalized_error_Inr [arith_simps]:
  "normalized_error u = Inr e \<longleftrightarrow> u \<le> WAD \<and> e = error_of u"
  by (cases "u \<le> WAD") (auto simp: normalized_error_eq, simp add: normalized_error_def)

lemma error_of_bounds:
  assumes "u \<le> WAD"
  shows "- wad \<le> error_of u" and "error_of u \<le> wad"
proof -
  have "quot_to_zero (- wad * 900000000000000000) 900000000000000000 \<le> error_of u"
  proof (cases "u > TARGET_UTILIZATION")
    case True
    then have "0 \<le> error_of u"
      by (simp add: error_of_def quot_to_zero_pos TARGET_UTILIZATION_def wad_def
          pos_imp_zdiv_nonneg_iff)
    then show ?thesis by (subst quot_to_zero_exact) (simp_all add: wad_def)
  next
    case False
    then show ?thesis
      by (simp add: error_of_def quot_to_zero_mono wad_def)
  qed
  then show "- wad \<le> error_of u" by (subst (asm) quot_to_zero_exact) auto
  show "error_of u \<le> wad"
  proof (cases "u > TARGET_UTILIZATION")
    case True
    have "error_of u \<le> quot_to_zero (wad * 100000000000000000) 100000000000000000"
      using True assms by (simp add: error_of_def WAD_def wad_def quot_to_zero_mono)
    also have "\<dots> = wad" by (rule quot_to_zero_exact) simp
    finally show ?thesis .
  next
    case False
    then have "error_of u \<le> quot_to_zero (0 * 900000000000000000) 900000000000000000"
      unfolding error_of_def
      by (auto simp: TARGET_UTILIZATION_def wad_def intro!: quot_to_zero_mono)
    also have "\<dots> = 0" by (rule quot_to_zero_exact) simp
    finally show ?thesis by (simp add: wad_def)
  qed
qed

lemma error_of_nonneg_iff: "u > TARGET_UTILIZATION \<Longrightarrow> 0 \<le> error_of u"
  by (simp add: error_of_def quot_to_zero_pos TARGET_UTILIZATION_def wad_def
      pos_imp_zdiv_nonneg_iff)

lemma error_of_nonpos: "u \<le> TARGET_UTILIZATION \<Longrightarrow> error_of u \<le> 0"
  by (simp add: error_of_def quot_to_zero_neg TARGET_UTILIZATION_def wad_def
      pos_imp_zdiv_nonneg_iff)

lemma error_of_mono:
  assumes "u \<le> u'"
  shows "error_of u \<le> error_of u'"
proof (cases "u' \<le> TARGET_UTILIZATION \<or> TARGET_UTILIZATION < u")
  case True
  then show ?thesis
    using assms by (auto simp: error_of_def wad_def intro!: quot_to_zero_mono)
next
  case False
  then show ?thesis
    using error_of_nonpos [of u] error_of_nonneg_iff [of u'] by simp
qed

lemma error_of_target: "error_of TARGET_UTILIZATION = 0"
  by (simp add: error_of_def TARGET_UTILIZATION_def quot_to_zero_def)

definition curve_factor :: "int \<Rightarrow> int" where
  "curve_factor e =
     quot_to_zero ((if e < 0 then 750000000000000000 else 3000000000000000000) * e) wad + wad"

lemma curve_factor_mono:
  assumes "e \<le> e'"
  shows "curve_factor e \<le> curve_factor e'"
proof -
  have "(if e < 0 then 750000000000000000 else 3000000000000000000) * e
      \<le> (if e' < 0 then 750000000000000000 else 3000000000000000000) * (e'::int)"
    using assms by auto
  then show ?thesis
    by (auto simp: curve_factor_def wad_def intro: quot_to_zero_mono)
qed

lemma curve_factor_limits:
  "curve_factor (- wad) = 250000000000000000" "curve_factor 0 = wad"
  "curve_factor wad = 4000000000000000000"
  by (simp_all add: curve_factor_def quot_to_zero_def wad_def sgn_if)

lemma curve_factor_bounds:
  assumes "- wad \<le> e" and "e \<le> wad"
  shows "250000000000000000 \<le> curve_factor e" and "curve_factor e \<le> 4000000000000000000"
  using curve_factor_mono [OF assms(1)] curve_factor_mono [OF assms(2)]
  by (simp_all add: curve_factor_limits)

lemma curve_eq:
  assumes e: "- wad \<le> e" "e \<le> wad" and r: "0 \<le> r" "r < 2 ^ 190"
  shows "curve r e = Inr (curve_factor e * r div wad)"
proof -
  note f = curve_factor_bounds [OF e]
  have prod: "0 \<le> curve_factor e * r"
    using f r by simp
  have prod': "curve_factor e * r \<le> 4000000000000000000 * 2 ^ 190"
    by (rule mult_mono) (use f r in auto)
  have c: "w_div_to_zero wad CURVE_STEEPNESS = Inr 250000000000000000"
    "checked_ssub wad 250000000000000000 = Some 750000000000000000"
    "checked_ssub CURVE_STEEPNESS wad = Some 3000000000000000000"
    by (simp_all add: w_div_to_zero_def evaluate_signed curve_constants sgn_if)
  have v: "w_mul_to_zero k e = Inr (quot_to_zero (k * e) wad)" if "0 \<le> k" "k \<le> 2 ^ 80" for k
  proof (rule w_mul_to_zero_eq)
    have "\<bar>k\<bar> * \<bar>e\<bar> \<le> 2 ^ 80 * wad"
      by (rule mult_mono) (use that e in \<open>auto simp: wad_def\<close>)
    then show "\<bar>k * e\<bar> < 2 ^ 255" by (simp add: abs_mult wad_def)
  qed
  have a: "checked_sadd (quot_to_zero (k * e) wad) wad = Some (curve_factor e)"
    if "k = (if e < 0 then 750000000000000000 else 3000000000000000000)" for k
    using f that unfolding curve_factor_def by (simp add: checked_sadd_def checked_i256_small)
  have m: "w_mul_to_zero (curve_factor e) r = Inr (curve_factor e * r div wad)"
    using prod prod' by (subst w_mul_to_zero_eq) (simp_all add: quot_to_zero_pos wad_def)
  show ?thesis
    unfolding curve_def by (cases "e < 0") (simp_all add: c v a m)
qed

lemma spot_rate_eq:
  assumes "u \<le> WAD" and "r < 2 ^ 190"
  shows "adaptive_curve_spot_rate u r = Inr (nat (curve_factor (error_of u) * int r div wad))"
proof -
  have r: "int r < 2 ^ 190" using assms(2) by (metis of_nat_less_iff of_nat_numeral of_nat_power)
  have "r < 2 ^ 255" using assms(2) by (rule less_trans) simp
  moreover have "0 \<le> curve_factor (error_of u) * int r div wad"
    using curve_factor_bounds [OF error_of_bounds [OF assms(1)]]
    by (simp add: wad_def pos_imp_zdiv_nonneg_iff)
  ultimately show ?thesis
    using r assms(1) error_of_bounds [OF assms(1)]
    by (simp add: adaptive_curve_spot_rate_def positive_eq normalized_error_eq curve_eq
        unsigned_value_def u256_of_i256_def)
qed

lemma curve_rate_bounds:
  assumes "- wad \<le> e" and "e \<le> wad" and "0 \<le> r"
  shows "r div 4 \<le> curve_factor e * r div wad" and "curve_factor e * r div wad \<le> 4 * r"
proof -
  note f = curve_factor_bounds [OF assms(1,2)]
  have "250000000000000000 * r div wad \<le> curve_factor e * r div wad"
    by (rule zdiv_mono1) (use f assms in \<open>auto simp: wad_def mult_right_mono\<close>)
  moreover have "250000000000000000 * r div wad = r div 4"
    by (simp add: wad_def zdiv_zmult2_eq)
  ultimately show "r div 4 \<le> curve_factor e * r div wad" by simp
  have "curve_factor e * r div wad \<le> 4000000000000000000 * r div wad"
    by (rule zdiv_mono1) (use f assms in \<open>auto simp: wad_def mult_right_mono\<close>)
  also have "\<dots> = 4 * r" by (simp add: wad_def)
  finally show "curve_factor e * r div wad \<le> 4 * r" .
qed

subsection \<open>Adaptation\<close>

abbreviation min_rate :: int where "min_rate \<equiv> 31709791"
abbreviation max_rate :: int where "max_rate \<equiv> 63419583967"

lemma new_rate_ok:
  assumes "0 \<le> start" and "start \<le> max_rate"
  shows "\<exists>v. new_rate start l = Inr v \<and> min_rate \<le> v \<and> v \<le> max_rate"
proof -
  obtain e where e: "w_exp l = Inr e" "0 \<le> e" "e < 2 ^ 196"
    using w_exp_ok [of l] by blast
  have "start * e \<le> max_rate * 2 ^ 196"
    by (rule mult_mono) (use assms e in auto)
  then have "\<bar>start * e\<bar> < 2 ^ 255"
    using assms e by simp
  then show ?thesis
    using e(1) by (simp add: new_rate_def w_mul_to_zero_eq positive_eq MIN_RATE_AT_TARGET_def
        MAX_RATE_AT_TARGET_def clamp_def)
qed

text \<open>The average target rate: a mean of the start, the end and twice the midpoint.\<close>

lemma average_target_ok:
  assumes "min_rate \<le> s" "s \<le> max_rate" "min_rate \<le> e" "e \<le> max_rate"
    "min_rate \<le> m" "m \<le> max_rate"
  shows "Option.bind (checked_sadd s e) (\<lambda>v.
      Option.bind (checked_smul m 2) (\<lambda>twice.
      Option.bind (checked_sadd v twice) (\<lambda>v.
      checked_sdiv v 4))) = Some ((s + e + m * 2) div 4)"
  using assms
  by (simp add: checked_sadd_def checked_smul_def checked_i256_small checked_sdiv_small
      quot_to_zero_pos)

lemma market_utilization_ok:
  assumes "borrow \<le> supply" and "borrow < two128"
  shows "\<exists>u. market_utilization borrow supply = Inr u \<and> u \<le> WAD"
proof (cases "supply = 0")
  case False
  have "borrow * WAD < two128 * two128"
    by (rule mult_strict_mono) (use assms in \<open>auto simp: two128_def WAD_def\<close>)
  then have "market_utilization borrow supply = Inr (borrow * WAD div supply)"
    using False by (simp add: market_utilization_def arith_simps two_powers)
  moreover have "borrow * WAD div supply \<le> WAD"
    using w_div_down_le_WAD [of borrow "supply" "borrow * WAD div supply"] calculation False assms
    by (simp add: market_utilization_def)
  ultimately show ?thesis by blast
qed (simp add: market_utilization_def)

definition rate_in_band :: "u256 \<Rightarrow> bool" where
  "rate_in_band r \<longleftrightarrow> r = 0 \<or> MIN_RATE_AT_TARGET \<le> r \<and> r \<le> MAX_RATE_AT_TARGET"

lemma borrow_rate_targets_ok:
  assumes "- wad \<le> e" and "e \<le> wad" and "rate_in_band stored" and "elapsed < two64"
  shows "\<exists>a t. target_rates (int stored) e elapsed = Inr (a, t) \<and>
      min_rate \<le> a \<and> a \<le> max_rate \<and> min_rate \<le> t \<and> t \<le> max_rate"
proof (cases "stored = 0")
  case True
  then show ?thesis by (simp add: target_rates_def positive_eq INITIAL_RATE_AT_TARGET_def)
next
  case False
  then have start: "min_rate \<le> int stored" "int stored \<le> max_rate"
    using assms(3) by (simp_all add: rate_in_band_def MIN_RATE_AT_TARGET_def MAX_RATE_AT_TARGET_def)
  have el: "0 \<le> int elapsed" "int elapsed < 2 ^ 64"
    using assms(4) by (simp_all add: two64_def)
  let ?speed = "quot_to_zero (ADJUSTMENT_SPEED * e) wad"
  let ?linear = "?speed * int elapsed"
  have b: "\<bar>ADJUSTMENT_SPEED * e\<bar> \<le> 2 ^ 120"
    using assms(1,2) by (simp add: abs_mult ADJUSTMENT_SPEED_def wad_def)
  have speed: "w_mul_to_zero ADJUSTMENT_SPEED e = Inr ?speed"
    using b by (intro w_mul_to_zero_eq) simp
  have "\<bar>?speed\<bar> * \<bar>int elapsed\<bar> \<le> 2 ^ 120 * 2 ^ 64"
    using abs_quot_to_zero [of "ADJUSTMENT_SPEED * e" wad] b el by (intro mult_mono) auto
  then have small: "\<bar>?linear\<bar> < 2 ^ 255"
    by (simp add: abs_mult)
  have lin: "checked_smul ?speed (int elapsed) = Some ?linear"
    using small by (simp add: checked_smul_def checked_i256_small)
  have half: "checked_sdiv ?linear 2 = Some (quot_to_zero ?linear 2)"
    using small by (intro checked_sdiv_small) auto
  obtain t where t: "new_rate (int stored) ?linear = Inr t" "min_rate \<le> t" "t \<le> max_rate"
    using new_rate_ok [of "int stored" ?linear] start by auto
  obtain m where m: "new_rate (int stored) (quot_to_zero ?linear 2) = Inr m"
      "min_rate \<le> m" "m \<le> max_rate"
    using new_rate_ok [of "int stored" "quot_to_zero ?linear 2"] start by auto
  note avg = average_target_ok [OF start t(2,3) m(2,3)]
  have pe: "positive elapsed = Inr (int elapsed)"
    by (rule positive_eq) (use assms(4) in \<open>simp add: two64_def\<close>)
  show ?thesis
  proof (cases "?linear = 0")
    case True
    then show ?thesis
      using False start by (simp add: target_rates_def speed pe lin)
  next
    case nz: False
    have "min_rate \<le> (int stored + t + m * 2) div 4" "(int stored + t + m * 2) div 4 \<le> max_rate"
      using start t m by linarith+
    then show ?thesis
      using False nz t by (simp add: target_rates_def speed pe lin half m avg)
  qed
qed

lemma borrow_rate_ok:
  assumes "sm_total_borrow_assets market \<le> sm_total_supply_assets market"
    and "sm_total_borrow_assets market < two128"
    and "rate_in_band stored" and "elapsed < two64"
  shows "\<exists>p. adaptive_curve_borrow_rate market stored elapsed = Inr p \<and>
      ac_average_rate p \<le> 4 * MAX_RATE_AT_TARGET \<and>
      MIN_RATE_AT_TARGET div 4 \<le> ac_average_rate p \<and>
      MIN_RATE_AT_TARGET \<le> ac_ending_rate_at_target p \<and>
      ac_ending_rate_at_target p \<le> MAX_RATE_AT_TARGET"
proof -
  obtain u where u: "market_utilization (sm_total_borrow_assets market)
      (sm_total_supply_assets market) = Inr u" "u \<le> WAD"
    using market_utilization_ok [OF assms(1,2)] by blast
  note e = error_of_bounds [OF u(2)]
  have ps: "positive stored = Inr (int stored)"
    by (rule positive_eq) (use assms(3) in \<open>auto simp: rate_in_band_def MAX_RATE_AT_TARGET_def\<close>)
  obtain a t where at: "min_rate \<le> a" "a \<le> max_rate" "min_rate \<le> t" "t \<le> max_rate"
    and eq: "adaptive_curve_borrow_rate market stored elapsed =
      try_let (curve a (error_of u)) (\<lambda>average.
      try_let (unsigned_value average) (\<lambda>average_rate.
      try_let (unsigned_value t) (\<lambda>ending_rate.
      Inr \<lparr> ac_average_rate = average_rate, ac_ending_rate_at_target = ending_rate \<rparr>)))"
    using borrow_rate_targets_ok [OF e assms(3,4)]
    by (auto simp: adaptive_curve_borrow_rate_def u normalized_error_eq ps)
  have c: "curve a (error_of u) = Inr (curve_factor (error_of u) * a div wad)"
    using e at by (intro curve_eq) auto
  have b: "a div 4 \<le> curve_factor (error_of u) * a div wad"
    "curve_factor (error_of u) * a div wad \<le> 4 * a"
    using curve_rate_bounds [OF e, of a] at by auto
  have b4: "min_rate div 4 \<le> a div 4" using at by (intro zdiv_mono1) auto
  let ?v = "nat (curve_factor (error_of u) * a div wad)"
  have uv: "unsigned_value (curve_factor (error_of u) * a div wad) = Inr ?v"
    "unsigned_value t = Inr (nat t)"
    using b b4 at by (simp_all add: arith_simps)
  show ?thesis
    using b b4 at by (simp add: eq c uv nat_le_iff le_nat_iff MIN_RATE_AT_TARGET_def
        MAX_RATE_AT_TARGET_def)
qed

subsection \<open>Properties\<close>

text \<open>
  C16. For every solvent market with 128-bit totals, every stored target rate the protocol can hold
  and every elapsed time, \<open>adaptive_curve_borrow_rate\<close> returns a result: the ending target rate
  stays between the protocol minimum and maximum, so the next call is again in range, and the
  average borrow rate lies between a quarter of the minimum and four times the maximum.
\<close>

theorem adaptive_curve_total:
  assumes "sm_total_borrow_assets market \<le> sm_total_supply_assets market"
    and "sm_total_borrow_assets market < two128"
    and "rate_in_band stored" and "elapsed < two64"
  shows "\<exists>p. adaptive_curve_borrow_rate market stored elapsed = Inr p \<and>
      MIN_RATE_AT_TARGET div 4 \<le> ac_average_rate p \<and>
      ac_average_rate p \<le> 4 * MAX_RATE_AT_TARGET \<and>
      MIN_RATE_AT_TARGET \<le> ac_ending_rate_at_target p \<and>
      ac_ending_rate_at_target p \<le> MAX_RATE_AT_TARGET \<and>
      rate_in_band (ac_ending_rate_at_target p)"
  using borrow_rate_ok [OF assms] by (auto simp: rate_in_band_def)

definition witness_market :: stored_market_state where
  "witness_market =
     \<lparr> sm_market_id = 1,
       sm_params = \<lparr> mp_loan_token = 2, mp_collateral_token = 3, mp_oracle = 4, mp_irm = 5,
         mp_lltv = 860000000000000000 \<rparr>,
       sm_total_supply_assets = 1000000000000, sm_total_supply_shares = 1000000000000000000,
       sm_total_borrow_assets = 950000000000, sm_total_borrow_shares = 900000000000000000,
       sm_last_update = 1000, sm_fee = 100000000000000000, sm_irm = 5,
       sm_stored_rate_at_target = 1268391679, sm_morpho_loan_token_balance = 900000000000 \<rparr>"

theorem adaptive_curve_total_witness:
  "\<exists>p. adaptive_curve_borrow_rate witness_market 1268391679 86400 = Inr p \<and>
      ac_ending_rate_at_target p \<le> MAX_RATE_AT_TARGET"
  using adaptive_curve_total [of witness_market 1268391679 86400]
  by (auto simp: witness_market_def rate_in_band_def curve_constants two_powers)

text \<open>
  C17. The spot borrow rate is defined for every utilization up to one, equals the target rate at
  the target utilization, never decreases with utilization, and stays between a quarter and four
  times the target rate.
\<close>

theorem spot_rate_shape:
  assumes "u \<le> u'" and "u' \<le> WAD" and "r < 2 ^ 190"
  shows "\<exists>v v'. adaptive_curve_spot_rate u r = Inr v \<and> adaptive_curve_spot_rate u' r = Inr v' \<and>
    r div 4 \<le> v \<and> v \<le> v' \<and> v' \<le> 4 * r \<and>
    adaptive_curve_spot_rate TARGET_UTILIZATION r = Inr r"
proof -
  let ?f = "\<lambda>u. curve_factor (error_of u) * int r div wad"
  have u: "u \<le> WAD" using assms by simp
  have "?f u \<le> ?f u'"
    by (intro zdiv_mono1 mult_right_mono curve_factor_mono error_of_mono)
      (use assms in \<open>auto simp: wad_def\<close>)
  moreover have "int r div 4 \<le> ?f u" "?f u' \<le> 4 * int r"
    using curve_rate_bounds [OF error_of_bounds [OF u], of "int r"]
      curve_rate_bounds [OF error_of_bounds [OF assms(2)], of "int r"] by simp_all
  moreover have "adaptive_curve_spot_rate TARGET_UTILIZATION r = Inr r"
    using spot_rate_eq [OF _ assms(3), of TARGET_UTILIZATION, unfolded error_of_target
        curve_factor_limits]
    by (simp add: TARGET_UTILIZATION_def WAD_def wad_def)
  moreover have "int (r div 4) = int r div 4" by (simp add: zdiv_int)
  ultimately show ?thesis
    using spot_rate_eq [OF u assms(3)] spot_rate_eq [OF assms(2,3)]
    by (simp add: nat_le_iff le_nat_iff nat_mono)
qed

theorem spot_rate_shape_witness:
  "\<exists>v v'. adaptive_curve_spot_rate 500000000000000000 1268391679 = Inr v \<and>
     adaptive_curve_spot_rate 950000000000000000 1268391679 = Inr v' \<and> v \<le> v'"
  using spot_rate_shape [of 500000000000000000 950000000000000000 1268391679]
  by (auto simp: WAD_def)

end
