(* ===== verification/MarketAdapter.thy ===== *)
theory MarketAdapter
  imports AdaptiveCurve
begin

text \<open>
  Morpho market accrual (\<open>src/morpho/fees.rs\<close>), the direct market adapter's supply and withdrawal
  (\<open>src/morpho/market_adapter.rs\<close>) and reward eligibility (\<open>src/morpho/rewards.rs\<close>).
\<close>

subsection \<open>Accrual\<close>

record market_accrual_result =
  ma_market :: projected_market_state
  ma_interest_assets :: u256
  ma_fee_shares :: u256

definition require_uint128 :: "u256 \<Rightarrow> math_error + u256" where
  "require_uint128 v = (if v > two128 - 1 then Inl Invariant else Inr v)"

definition accrual_rates ::
  "stored_market_state \<Rightarrow> u64 \<Rightarrow> adaptive_curve_state \<Rightarrow> math_error + u256 \<times> u256" where
  "accrual_rates stored elapsed irm =
     (if elapsed = 0 then Inr (0, ac_stored_rate_at_target irm)
      else
        try_let (adaptive_curve_borrow_rate stored (ac_stored_rate_at_target irm) elapsed)
          (\<lambda>projection. Inr (ac_average_rate projection, ac_ending_rate_at_target projection)))"

definition accrual_fee_shares ::
  "stored_market_state \<Rightarrow> u256 \<Rightarrow> u256 \<Rightarrow> math_error + u256" where
  "accrual_fee_shares stored interest total_supply_assets =
     (if sm_fee stored = 0 then Inr 0
      else
        try_let (map_err Arithmetic (w_mul_down interest (sm_fee stored))) (\<lambda>fee_assets.
        try_let (ok_or (checked_sub total_supply_assets fee_assets) (Arithmetic Underflow))
          (\<lambda>without_fee.
        map_err Arithmetic
          (to_supply_shares_down fee_assets without_fee (sm_total_supply_shares stored)))))"

definition supply_rate :: "u256 \<Rightarrow> u256 \<Rightarrow> u256 \<Rightarrow> math_error + u256" where
  "supply_rate spot_borrow_rate utilization fee =
     try_let (map_err Arithmetic (w_mul_down spot_borrow_rate utilization)) (\<lambda>gross.
     try_let (ok_or (checked_sub WAD fee) (Arithmetic Underflow)) (\<lambda>kept.
     map_err Arithmetic (w_mul_down gross kept)))"

definition accrue_market ::
  "stored_market_state \<Rightarrow> u64 \<Rightarrow> adaptive_curve_state \<Rightarrow> math_error + market_accrual_result" where
  "accrue_market stored timestamp irm =
     (if timestamp < sm_last_update stored then Inl TimestampRegression
      else if sm_total_borrow_assets stored > sm_total_supply_assets stored \<or> sm_fee stored > WAD
      then Inl Invariant
      else
        try_let (ok_or (checked_sub timestamp (sm_last_update stored)) TimestampRegression) (\<lambda>elapsed.
        try_let (accrual_rates stored elapsed irm) (\<lambda>(average_rate, ending_rate_at_target).
        try_let (map_err Arithmetic (w_taylor_compounded average_rate elapsed)) (\<lambda>compounded.
        try_let (map_err Arithmetic (w_mul_down (sm_total_borrow_assets stored) compounded))
          (\<lambda>interest.
        try_let (ok_or (checked_add (sm_total_borrow_assets stored) interest)
            (Arithmetic Overflow)) (\<lambda>v.
        try_let (require_uint128 v) (\<lambda>total_borrow_assets.
        try_let (ok_or (checked_add (sm_total_supply_assets stored) interest)
            (Arithmetic Overflow)) (\<lambda>v.
        try_let (require_uint128 v) (\<lambda>total_supply_assets.
        try_let (accrual_fee_shares stored interest total_supply_assets) (\<lambda>fee_shares.
        try_let (ok_or (checked_add (sm_total_supply_shares stored) fee_shares)
            (Arithmetic Overflow)) (\<lambda>v.
        try_let (require_uint128 v) (\<lambda>total_supply_shares.
        try_let (map_err Arithmetic (market_utilization total_borrow_assets total_supply_assets))
          (\<lambda>utilization.
        try_let (adaptive_curve_spot_rate utilization ending_rate_at_target) (\<lambda>spot_borrow_rate.
        try_let (supply_rate spot_borrow_rate utilization (sm_fee stored)) (\<lambda>spot_supply_rate.
        try_let (ok_or (checked_sub total_supply_assets total_borrow_assets) Invariant)
          (\<lambda>accounting_liquidity.
        Inr \<lparr> ma_market =
            \<lparr> pm_market_id = sm_market_id stored,
              pm_timestamp = timestamp,
              pm_total_supply_assets = total_supply_assets,
              pm_total_supply_shares = total_supply_shares,
              pm_total_borrow_assets = total_borrow_assets,
              pm_total_borrow_shares = sm_total_borrow_shares stored,
              pm_average_accrual_borrow_rate = average_rate,
              pm_ending_rate_at_target = ending_rate_at_target,
              pm_spot_borrow_rate = spot_borrow_rate,
              pm_spot_supply_rate = spot_supply_rate,
              pm_utilization = utilization,
              pm_accounting_liquidity = accounting_liquidity \<rparr>,
          ma_interest_assets = interest,
          ma_fee_shares = fee_shares \<rparr>))))))))))))))))"

subsection \<open>Supply and withdrawal\<close>

record adapter_transition_result =
  at_market :: projected_market_state
  at_internal_supply_shares :: u256
  at_changed_shares :: u256
  at_expected_assets :: u256
  at_allocation_change :: i256
  at_affected_caps :: "cap_ref list"

definition expected_adapter_assets :: "u256 \<Rightarrow> projected_market_state \<Rightarrow> math_error + u256" where
  "expected_adapter_assets internal_supply_shares projected_market =
     map_err Arithmetic (to_supply_assets_down internal_supply_shares
       (pm_total_supply_assets projected_market) (pm_total_supply_shares projected_market))"

definition signed_difference :: "u256 \<Rightarrow> u256 \<Rightarrow> math_error + i256" where
  "signed_difference after before =
     try_let (ok_or (i256_of_u256 after) SignedConversion) (\<lambda>after.
     try_let (ok_or (i256_of_u256 before) SignedConversion) (\<lambda>before.
     ok_or (checked_ssub after before) Invariant))"

definition refresh_rates :: "projected_market_state \<Rightarrow> u256 \<Rightarrow> math_error + projected_market_state" where
  "refresh_rates market fee =
     (if pm_total_borrow_assets market > pm_total_supply_assets market \<or> fee > WAD
      then Inl Invariant
      else
        try_let (map_err Arithmetic
          (market_utilization (pm_total_borrow_assets market) (pm_total_supply_assets market)))
          (\<lambda>utilization.
        try_let (adaptive_curve_spot_rate utilization (pm_ending_rate_at_target market))
          (\<lambda>spot_borrow_rate.
        try_let (supply_rate spot_borrow_rate utilization fee) (\<lambda>spot_supply_rate.
        try_let (ok_or (checked_sub (pm_total_supply_assets market) (pm_total_borrow_assets market))
            Invariant) (\<lambda>accounting_liquidity.
        Inr (market \<lparr> pm_utilization := utilization, pm_spot_borrow_rate := spot_borrow_rate,
          pm_spot_supply_rate := spot_supply_rate,
          pm_accounting_liquidity := accounting_liquidity \<rparr>))))))"

definition allocate ::
  "projected_market_state \<Rightarrow> u256 \<Rightarrow> u256 \<Rightarrow> u256 \<Rightarrow> u256 \<Rightarrow> cap_ref list \<Rightarrow>
     math_error + adapter_transition_result" where
  "allocate accrued_market internal_supply_shares requested_assets parent_recorded_allocation
       market_fee affected_caps =
     try_let (map_err Arithmetic (to_supply_shares_down requested_assets
       (pm_total_supply_assets accrued_market) (pm_total_supply_shares accrued_market)))
       (\<lambda>minted_shares.
     if requested_assets \<noteq> 0 \<and> minted_shares < requested_assets then Inl SharePriceAboveOne
     else
       try_let (ok_or (checked_add (pm_total_supply_assets accrued_market) requested_assets)
           (Arithmetic Overflow)) (\<lambda>total_supply_assets.
       try_let (ok_or (checked_add (pm_total_supply_shares accrued_market) minted_shares)
           (Arithmetic Overflow)) (\<lambda>total_supply_shares.
       try_let (ok_or (checked_add internal_supply_shares minted_shares)
           (Arithmetic Overflow)) (\<lambda>internal.
       try_let (refresh_rates (accrued_market \<lparr> pm_total_supply_assets := total_supply_assets,
           pm_total_supply_shares := total_supply_shares \<rparr>) market_fee) (\<lambda>market.
       try_let (expected_adapter_assets internal market) (\<lambda>expected_assets.
       try_let (signed_difference expected_assets parent_recorded_allocation) (\<lambda>change.
       Inr \<lparr> at_market = market, at_internal_supply_shares = internal,
         at_changed_shares = minted_shares, at_expected_assets = expected_assets,
         at_allocation_change = change, at_affected_caps = affected_caps \<rparr>)))))))"

definition deallocate ::
  "projected_market_state \<Rightarrow> u256 \<Rightarrow> u256 \<Rightarrow> u256 \<Rightarrow> u256 \<Rightarrow> u256 \<Rightarrow> cap_ref list \<Rightarrow>
     math_error + adapter_transition_result" where
  "deallocate accrued_market internal_supply_shares requested_assets parent_recorded_allocation
       morpho_token_balance market_fee affected_caps =
     (if requested_assets > pm_accounting_liquidity accrued_market \<or>
         requested_assets > morpho_token_balance
      then Inl InsufficientLiquidity
      else
        try_let (map_err Arithmetic (to_supply_shares_up requested_assets
          (pm_total_supply_assets accrued_market) (pm_total_supply_shares accrued_market)))
          (\<lambda>burned_shares.
        if burned_shares > internal_supply_shares then Inl InsufficientShares
        else
          try_let (ok_or (checked_sub (pm_total_supply_assets accrued_market) requested_assets)
              (Arithmetic Underflow)) (\<lambda>total_supply_assets.
          try_let (ok_or (checked_sub (pm_total_supply_shares accrued_market) burned_shares)
              (Arithmetic Underflow)) (\<lambda>total_supply_shares.
          try_let (ok_or (checked_sub internal_supply_shares burned_shares)
              (Arithmetic Underflow)) (\<lambda>internal.
          try_let (refresh_rates (accrued_market \<lparr> pm_total_supply_assets := total_supply_assets,
              pm_total_supply_shares := total_supply_shares \<rparr>) market_fee) (\<lambda>market.
          try_let (expected_adapter_assets internal market) (\<lambda>expected_assets.
          try_let (signed_difference expected_assets parent_recorded_allocation) (\<lambda>change.
          Inr \<lparr> at_market = market, at_internal_supply_shares = internal,
            at_changed_shares = burned_shares, at_expected_assets = expected_assets,
            at_allocation_change = change, at_affected_caps = affected_caps \<rparr>))))))))"

subsection \<open>Rewards\<close>

datatype reward_contribution = ExplicitlyZero

datatype reward_error = RewardExpired | UnsupportedModel | RewardFixed | RewardInvalidIdentity

definition release_one_reward_contribution ::
  "reward_policy \<Rightarrow> u64 \<Rightarrow> reward_error + reward_contribution" where
  "release_one_reward_contribution policy required_through =
     (case policy of
        NoMaterialRewards _ valid_until evidence_hash \<Rightarrow>
          if evidence_hash = 0 then Inl RewardInvalidIdentity
          else if valid_until < required_through then Inl RewardExpired
          else Inr ExplicitlyZero
      | IgnoreRewardsByCuratorMandate policy_revision \<Rightarrow>
          if policy_revision = 0 then Inl RewardInvalidIdentity else Inr ExplicitlyZero
      | Modeled _ _ \<Rightarrow> Inl UnsupportedModel
      | FixedUntilModeled \<Rightarrow> Inl RewardFixed)"

lemmas evaluate_market =
  accrue_market_def accrual_rates_def accrual_fee_shares_def supply_rate_def require_uint128_def
  allocate_def deallocate_def refresh_rates_def expected_adapter_assets_def signed_difference_def
  evaluate_blue evaluate_curve

subsection \<open>Success of the operations\<close>

lemma require_uint128_Inr [arith_simps]: "require_uint128 v = Inr x \<longleftrightarrow> x = v \<and> v < two128"
  by (auto simp: require_uint128_def two128_def)

lemma signed_difference_Inr [arith_simps]:
  "signed_difference a b = Inr d \<longleftrightarrow> a < 2 ^ 255 \<and> b < 2 ^ 255 \<and> d = int a - int b"
proof -
  have "i256_range (int a - int b)" if "a < 2 ^ 255" "b < 2 ^ 255"
  proof -
    have "int a < 2 ^ 255" "int b < 2 ^ 255"
      using that by (metis of_nat_less_iff of_nat_numeral of_nat_power)+
    then show ?thesis unfolding i256_range_def by linarith
  qed
  then show ?thesis
    by (auto simp: signed_difference_def result_simps arith_simps checked_ssub_def)
qed

lemma supply_rate_le:
  assumes "supply_rate b u fee = Inr s" and "u \<le> WAD"
  shows "s \<le> b"
proof -
  obtain g where "w_mul_down b u = Inr g" "w_mul_down g (WAD - fee) = Inr s"
    using assms(1) by (auto simp: supply_rate_def result_simps checked_ops)
  then show ?thesis
    using w_mul_down_le [of g "WAD - fee" s] w_mul_down_le [of b u g] assms(2) by simp
qed

text \<open>A market is coherent when its derived fields agree with its totals.\<close>

definition market_coherent :: "u256 \<Rightarrow> projected_market_state \<Rightarrow> bool" where
  "market_coherent fee m \<longleftrightarrow>
     pm_total_borrow_assets m \<le> pm_total_supply_assets m \<and>
     pm_accounting_liquidity m = pm_total_supply_assets m - pm_total_borrow_assets m \<and>
     market_utilization (pm_total_borrow_assets m) (pm_total_supply_assets m)
       = Inr (pm_utilization m) \<and>
     pm_utilization m \<le> WAD \<and>
     adaptive_curve_spot_rate (pm_utilization m) (pm_ending_rate_at_target m)
       = Inr (pm_spot_borrow_rate m) \<and>
     supply_rate (pm_spot_borrow_rate m) (pm_utilization m) fee = Inr (pm_spot_supply_rate m)"

lemma market_utilization_le: "market_utilization b s = Inr u \<Longrightarrow> b \<le> s \<Longrightarrow> u \<le> WAD"
  by (auto simp: market_utilization_def split: if_splits dest: w_div_down_le_WAD)

lemma refresh_rates_Inr:
  assumes "refresh_rates m fee = Inr m'"
  shows "market_coherent fee m'"
    and "pm_total_supply_assets m' = pm_total_supply_assets m"
    and "pm_total_supply_shares m' = pm_total_supply_shares m"
    and "pm_total_borrow_assets m' = pm_total_borrow_assets m"
    and "pm_total_borrow_shares m' = pm_total_borrow_shares m"
    and "pm_ending_rate_at_target m' = pm_ending_rate_at_target m"
    and "pm_timestamp m' = pm_timestamp m"
    and "pm_market_id m' = pm_market_id m"
  using assms market_utilization_le
  by (auto simp: refresh_rates_def market_coherent_def result_simps checked_ops)

lemma accrue_market_conj:
  assumes "accrue_market stored timestamp irm = Inr res"
  shows "sm_last_update stored \<le> timestamp \<and>
    sm_total_borrow_assets stored \<le> sm_total_supply_assets stored \<and>
    sm_fee stored \<le> WAD \<and>
    accrual_rates stored (timestamp - sm_last_update stored) irm
      = Inr (pm_average_accrual_borrow_rate (ma_market res), pm_ending_rate_at_target (ma_market res)) \<and>
    accrual_fee_shares stored (ma_interest_assets res) (pm_total_supply_assets (ma_market res))
      = Inr (ma_fee_shares res) \<and>
    pm_total_supply_assets (ma_market res) = sm_total_supply_assets stored + ma_interest_assets res \<and>
    pm_total_borrow_assets (ma_market res) = sm_total_borrow_assets stored + ma_interest_assets res \<and>
    pm_total_supply_shares (ma_market res) = sm_total_supply_shares stored + ma_fee_shares res \<and>
    pm_total_borrow_shares (ma_market res) = sm_total_borrow_shares stored \<and>
    pm_total_supply_assets (ma_market res) < two128 \<and>
    pm_total_supply_shares (ma_market res) < two128 \<and>
    pm_market_id (ma_market res) = sm_market_id stored \<and>
    pm_timestamp (ma_market res) = timestamp \<and>
    market_coherent (sm_fee stored) (ma_market res)"
proof -
  from assms show ?thesis
    apply (simp add: accrue_market_def result_simps checked_ops require_uint128_Inr split_paired_Ex
        not_less)
    apply (elim conjE exE)
    apply hypsubst
    apply (simp add: market_coherent_def market_utilization_le)
    done
qed

lemma accrue_market_Inr:
  assumes "accrue_market stored timestamp irm = Inr res"
  shows "sm_last_update stored \<le> timestamp"
    and "sm_total_borrow_assets stored \<le> sm_total_supply_assets stored"
    and "sm_fee stored \<le> WAD"
    and "accrual_rates stored (timestamp - sm_last_update stored) irm
      = Inr (pm_average_accrual_borrow_rate (ma_market res), pm_ending_rate_at_target (ma_market res))"
    and "accrual_fee_shares stored (ma_interest_assets res) (pm_total_supply_assets (ma_market res))
      = Inr (ma_fee_shares res)"
    and "pm_total_supply_assets (ma_market res) = sm_total_supply_assets stored + ma_interest_assets res"
    and "pm_total_borrow_assets (ma_market res) = sm_total_borrow_assets stored + ma_interest_assets res"
    and "pm_total_supply_shares (ma_market res) = sm_total_supply_shares stored + ma_fee_shares res"
    and "pm_total_borrow_shares (ma_market res) = sm_total_borrow_shares stored"
    and "pm_total_supply_assets (ma_market res) < two128"
    and "pm_total_supply_shares (ma_market res) < two128"
    and "pm_market_id (ma_market res) = sm_market_id stored"
    and "pm_timestamp (ma_market res) = timestamp"
    and "market_coherent (sm_fee stored) (ma_market res)"
  using accrue_market_conj [OF assms] by blast+

text \<open>Interest grows the pool by at least what the fee shares are worth.\<close>

lemma accrual_price:
  assumes "accrue_market stored timestamp irm = Inr res"
  shows "(sm_total_supply_assets stored + VIRTUAL_ASSETS)
      * (pm_total_supply_shares (ma_market res) + VIRTUAL_SHARES)
    \<le> (pm_total_supply_assets (ma_market res) + VIRTUAL_ASSETS)
      * (sm_total_supply_shares stored + VIRTUAL_SHARES)"
proof -
  note r = accrue_market_Inr [OF assms]
  let ?A = "sm_total_supply_assets stored" and ?S = "sm_total_supply_shares stored + VIRTUAL_SHARES"
  let ?I = "ma_interest_assets res" and ?f = "ma_fee_shares res"
  have fee: "(?A + VIRTUAL_ASSETS) * ?f \<le> ?I * ?S"
  proof (cases "sm_fee stored = 0")
    case True
    with r(5) show ?thesis by (simp add: accrual_fee_shares_def)
  next
    case False
    then obtain F where F: "w_mul_down ?I (sm_fee stored) = Inr F"
      "to_supply_shares_down F (?A + ?I - F) (sm_total_supply_shares stored) = Inr ?f"
      using r(5,6) by (auto simp: accrual_fee_shares_def result_simps checked_ops)
    have FI: "F \<le> ?I" using w_mul_down_le [OF F(1) r(3)] .
    have "?f * (?A + VIRTUAL_ASSETS) \<le> ?f * (?A + ?I - F + VIRTUAL_ASSETS)"
      using FI by (intro mult_le_mono) simp_all
    then have "(?A + VIRTUAL_ASSETS) * ?f \<le> ?f * (?A + ?I - F + VIRTUAL_ASSETS)"
      by (simp add: mult.commute)
    also have "\<dots> \<le> F * ?S" by (rule blue.deposit_value [OF F(2)])
    also have "\<dots> \<le> ?I * ?S" using FI by simp
    finally show ?thesis .
  qed
  then show ?thesis
    unfolding r(6,8) by (simp add: algebra_simps)
qed

subsection \<open>Adapter transitions\<close>

lemma expected_adapter_assets_Inr:
  "expected_adapter_assets t m = Inr v \<longleftrightarrow>
     to_supply_assets_down t (pm_total_supply_assets m) (pm_total_supply_shares m) = Inr v"
  by (simp add: expected_adapter_assets_def result_simps)

lemma allocate_Inr:
  assumes "allocate m t a recorded fee caps = Inr res"
  shows "to_supply_shares_down a (pm_total_supply_assets m) (pm_total_supply_shares m)
      = Inr (at_changed_shares res)"
    and "a = 0 \<or> a \<le> at_changed_shares res"
    and "pm_total_supply_assets (at_market res) = pm_total_supply_assets m + a"
    and "pm_total_supply_shares (at_market res) = pm_total_supply_shares m + at_changed_shares res"
    and "pm_total_borrow_assets (at_market res) = pm_total_borrow_assets m"
    and "pm_ending_rate_at_target (at_market res) = pm_ending_rate_at_target m"
    and "at_internal_supply_shares res = t + at_changed_shares res"
    and "expected_adapter_assets (at_internal_supply_shares res) (at_market res)
      = Inr (at_expected_assets res)"
    and "at_allocation_change res = int (at_expected_assets res) - int recorded"
    and "market_coherent fee (at_market res)"
    and "at_affected_caps res = caps"
  using assms
  by (auto simp: allocate_def result_simps checked_ops signed_difference_Inr
      dest: refresh_rates_Inr)

lemma deallocate_Inr:
  assumes "deallocate m t a recorded balance fee caps = Inr res"
  shows "a \<le> pm_accounting_liquidity m" and "a \<le> balance"
    and "to_supply_shares_up a (pm_total_supply_assets m) (pm_total_supply_shares m)
      = Inr (at_changed_shares res)"
    and "at_changed_shares res \<le> t"
    and "a \<le> pm_total_supply_assets m"
    and "at_changed_shares res \<le> pm_total_supply_shares m"
    and "pm_total_supply_assets (at_market res) = pm_total_supply_assets m - a"
    and "pm_total_supply_shares (at_market res) = pm_total_supply_shares m - at_changed_shares res"
    and "pm_total_borrow_assets (at_market res) = pm_total_borrow_assets m"
    and "pm_ending_rate_at_target (at_market res) = pm_ending_rate_at_target m"
    and "at_internal_supply_shares res = t - at_changed_shares res"
    and "expected_adapter_assets (at_internal_supply_shares res) (at_market res)
      = Inr (at_expected_assets res)"
    and "at_allocation_change res = int (at_expected_assets res) - int recorded"
    and "market_coherent fee (at_market res)"
    and "at_affected_caps res = caps"
  using assms
  by (auto simp: deallocate_def result_simps checked_ops signed_difference_Inr
      dest: refresh_rates_Inr)

subsection \<open>Accrual over a bounded horizon\<close>

text \<open>Within one year the compounding factor stays below 126 WAD.\<close>

lemma w_taylor_year:
  assumes "x \<le> 4 * MAX_RATE_AT_TARGET" and "n \<le> 31536000"
  shows "\<exists>r. w_taylor_compounded x n = Inr r \<and> r \<le> 126 * WAD"
proof -
  define f g h where "f = x * n" and "g = f * f div (2 * WAD)" and "h = g * f div (3 * WAD)"
  note defs = f_def g_def h_def
  have "f \<le> 253678335868 * 31536000"
    unfolding defs by (rule mult_le_mono) (use assms in \<open>auto simp: MAX_RATE_AT_TARGET_def\<close>)
  then have f: "f \<le> 8000000000000000000" by simp
  then have ff: "f * f \<le> 8000000000000000000 * 8000000000000000000"
    by (intro mult_le_mono)
  then have "g \<le> 8000000000000000000 * 8000000000000000000 div (2 * WAD)"
    unfolding defs(2) by (intro div_le_mono)
  then have g: "g \<le> 32000000000000000000" by (simp add: WAD_def)
  then have gf: "g * f \<le> 32000000000000000000 * 8000000000000000000"
    using f by (intro mult_le_mono)
  then have "h \<le> 32000000000000000000 * 8000000000000000000 div (3 * WAD)"
    unfolding defs(3) by (intro div_le_mono)
  then have h: "h \<le> 85333333333333333333" by (simp add: WAD_def)
  have "w_taylor_compounded x n = Inr (f + g + h)"
    unfolding w_taylor_compounded_Inr using f ff g gf h
    by (intro exI [of _ f] exI [of _ g] exI [of _ h] conjI) (simp_all add: defs two256_def)
  moreover have "f + g + h \<le> 126 * WAD"
    using f g h by (simp add: WAD_def)
  ultimately show ?thesis by blast
qed

lemma accrual_rates_ok:
  assumes "sm_total_borrow_assets stored \<le> sm_total_supply_assets stored"
    and "sm_total_borrow_assets stored < two128"
    and "rate_in_band (ac_stored_rate_at_target irm)" and "elapsed < two64"
  shows "\<exists>average ending. accrual_rates stored elapsed irm = Inr (average, ending) \<and>
    average \<le> 4 * MAX_RATE_AT_TARGET \<and> ending \<le> MAX_RATE_AT_TARGET"
  using borrow_rate_ok [OF assms] assms(3)
  by (auto simp: accrual_rates_def rate_in_band_def)

lemma fee_shares_ok:
  assumes interest: "interest \<le> 126 * A" and A: "A < 2 ^ 120"
    and shares: "sm_total_supply_shares stored < 2 ^ 120" and fee: "sm_fee stored \<le> WAD"
  shows "\<exists>f. accrual_fee_shares stored interest (A + interest) = Inr f \<and>
    f \<le> 126 * (sm_total_supply_shares stored + VIRTUAL_SHARES)"
proof (cases "sm_fee stored = 0")
  case False
  let ?S = "sm_total_supply_shares stored + VIRTUAL_SHARES"
  have i: "interest < 2 ^ 127" using interest A by simp
  have "interest * sm_fee stored \<le> 2 ^ 127 * 2 ^ 60"
    using i fee by (intro mult_le_mono) (auto simp: WAD_def)
  then have F: "w_mul_down interest (sm_fee stored) = Inr (interest * sm_fee stored div WAD)"
    by (simp add: w_mul_down_Inr two256_def)
  define F where "F = interest * sm_fee stored div WAD"
  have Fi: "F \<le> interest" using w_mul_down_le [OF F fee] by (simp add: F_def)
  let ?D = "A + interest - F + VIRTUAL_ASSETS"
  have S: "?S < 2 ^ 121" using shares by (simp add: VIRTUAL_SHARES_def)
  have "F * ?S \<le> 2 ^ 127 * 2 ^ 121"
    using Fi i S by (intro mult_le_mono) auto
  then have prod: "F * ?S < two256" by (simp add: two256_def)
  have D: "?D < two256" using A i by (simp add: VIRTUAL_ASSETS_def two256_def)
  have eq: "to_supply_shares_down F (A + interest - F) (sm_total_supply_shares stored)
      = Inr (F * ?S div ?D)"
    using prod D S by (simp add: to_supply_shares_down_Inr two256_def)
  have "F * ?S \<le> 126 * A * ?S"
    using Fi interest by (intro mult_right_mono) auto
  also have "\<dots> = 126 * ?S * A" by (simp only: ac_simps)
  also have "\<dots> \<le> 126 * ?S * ?D"
    using Fi by (intro mult_left_mono) auto
  finally have "F * ?S div ?D \<le> 126 * ?S * ?D div ?D"
    by (rule div_le_mono)
  also have "\<dots> = 126 * ?S"
    by (rule nonzero_mult_div_cancel_right) (simp add: VIRTUAL_ASSETS_def)
  finally have "F * ?S div ?D \<le> 126 * ?S" .
  then show ?thesis
    using False F eq Fi
    by (simp add: accrual_fee_shares_def checked_sub_def flip: F_def)
qed (simp add: accrual_fee_shares_def)

lemma supply_rate_ok:
  assumes "b \<le> 4 * MAX_RATE_AT_TARGET" and "u \<le> WAD" and "fee \<le> WAD"
  shows "\<exists>s. supply_rate b u fee = Inr s"
proof -
  have "b * u \<le> 4 * MAX_RATE_AT_TARGET * WAD" using assms by (intro mult_le_mono) auto
  then have g: "w_mul_down b u = Inr (b * u div WAD)"
    by (simp add: w_mul_down_Inr two256_def WAD_def MAX_RATE_AT_TARGET_def)
  have "b * u div WAD \<le> b" using w_mul_down_le [OF g assms(2)] .
  then have "b * u div WAD * (WAD - fee) \<le> 4 * MAX_RATE_AT_TARGET * WAD"
    using assms by (intro mult_le_mono) auto
  then have "w_mul_down (b * u div WAD) (WAD - fee) = Inr (b * u div WAD * (WAD - fee) div WAD)"
    by (simp add: w_mul_down_Inr two256_def WAD_def MAX_RATE_AT_TARGET_def)
  then show ?thesis using g assms(3) by (simp add: supply_rate_def checked_sub_def)
qed

lemma accrue_market_ok:
  assumes time: "sm_last_update stored \<le> timestamp"
      "timestamp \<le> sm_last_update stored + 31536000"
    and solvent: "sm_total_borrow_assets stored \<le> sm_total_supply_assets stored"
    and size: "sm_total_supply_assets stored < 2 ^ 120" "sm_total_supply_shares stored < 2 ^ 120"
    and fee: "sm_fee stored \<le> WAD"
    and band: "rate_in_band (ac_stored_rate_at_target irm)"
  shows "\<exists>res. accrue_market stored timestamp irm = Inr res"
proof -
  let ?el = "timestamp - sm_last_update stored"
  let ?B = "sm_total_borrow_assets stored" and ?A = "sm_total_supply_assets stored"
  have B: "?B < two128" using solvent size by (simp add: two128_def)
  have el: "?el \<le> 31536000" "?el < two64" using time by (auto simp: two64_def)
  obtain av en where rates: "accrual_rates stored ?el irm = Inr (av, en)"
      "av \<le> 4 * MAX_RATE_AT_TARGET" "en \<le> MAX_RATE_AT_TARGET"
    using accrual_rates_ok [OF solvent B band el(2)] by blast
  obtain c where c: "w_taylor_compounded av ?el = Inr c" "c \<le> 126 * WAD"
    using w_taylor_year [OF rates(2) el(1)] by blast
  define I where "I = ?B * c div WAD"
  have Bc: "?B * c \<le> ?A * (126 * WAD)" using solvent c by (intro mult_le_mono)
  also have "\<dots> < two256" using size by (simp add: WAD_def two256_def)
  finally have I: "w_mul_down ?B c = Inr I" by (simp add: w_mul_down_Inr I_def)
  have "I \<le> ?A * (126 * WAD) div WAD" unfolding I_def by (rule div_le_mono [OF Bc])
  also have "?A * (126 * WAD) div WAD = 126 * ?A"
    by (simp add: mult.left_commute WAD_def)
  finally have I126: "I \<le> 126 * ?A" .
  obtain f where f: "accrual_fee_shares stored I (?A + I) = Inr f"
      "f \<le> 126 * (sm_total_supply_shares stored + VIRTUAL_SHARES)"
    using fee_shares_ok [OF I126 size fee] by blast
  have bounds: "?B + I < two128" "?A + I < two128" "sm_total_supply_shares stored + f < two128"
    using solvent size I126 f(2) by (auto simp: two128_def VIRTUAL_SHARES_def)
  obtain u where u: "market_utilization (?B + I) (?A + I) = Inr u" "u \<le> WAD"
    using market_utilization_ok [of "?B + I" "?A + I"] solvent bounds by auto
  have en190: "en < 2 ^ 190" using rates(3) by (simp add: MAX_RATE_AT_TARGET_def)
  obtain sb where sb: "adaptive_curve_spot_rate u en = Inr sb" "sb \<le> 4 * MAX_RATE_AT_TARGET"
    using spot_rate_eq [OF u(2) en190] curve_rate_bounds(2) [OF error_of_bounds [OF u(2)], of "int en"]
      rates(3) by (auto simp: nat_le_iff)
  obtain ss where ss: "supply_rate sb u (sm_fee stored) = Inr ss"
    using supply_rate_ok [OF sb(2) u(2) fee] by blast
  have lt: "checked_add a b = Some (a + b)" if "a + b < two128" for a b
    using less_trans [OF that two128_less_two256] by (simp add: checked_add_bound_def)
  show ?thesis
    using time solvent fee
    by (simp add: accrue_market_def checked_sub_def rates(1) c(1) I lt bounds require_uint128_Inr
        [THEN iffD2] f(1) u(1) sb(1) ss)
qed

subsection \<open>Properties\<close>


definition witness_irm :: adaptive_curve_state where
  "witness_irm = \<lparr> ac_stored_rate_at_target = 1268391679 \<rparr>"


text \<open>
  C12. Accrual never takes value from a supplier: whatever number of supply shares is valued before
  and after, the value after accrual, fee shares included, is at least the value before.
\<close>

theorem accrual_never_dilutes:
  assumes "accrue_market stored timestamp irm = Inr res"
    and "to_supply_assets_down t (sm_total_supply_assets stored) (sm_total_supply_shares stored)
      = Inr before"
    and "expected_adapter_assets t (ma_market res) = Inr after"
  shows "before \<le> after"
  using blue.value_mono [OF accrual_price [OF assms(1)], of t] assms(2,3)
  by (auto simp: expected_adapter_assets_Inr dest!: blue.assets_down_floor)

theorem accrual_never_dilutes_witness:
  "\<exists>res before after. accrue_market witness_market 1000 witness_irm = Inr res \<and>
     to_supply_assets_down 1000000 1000000000000 1000000000000000000 = Inr before \<and>
     expected_adapter_assets 1000000 (ma_market res) = Inr after \<and> before \<le> after"
proof -
  have ok: "is_ok (accrue_market witness_market 1000 witness_irm)"
    "is_ok (to_supply_assets_down 1000000 1000000000000 1000000000000000000)"
    "is_ok (try_let (accrue_market witness_market 1000 witness_irm)
      (\<lambda>res. expected_adapter_assets 1000000 (ma_market res)))"
    by (simp_all add: witness_market_def witness_irm_def evaluate_market sgn_if)
  then obtain res before after where
    "accrue_market witness_market 1000 witness_irm = Inr res"
    "to_supply_assets_down 1000000 1000000000000 1000000000000000000 = Inr before"
    "expected_adapter_assets 1000000 (ma_market res) = Inr after"
    by (auto simp: is_ok_iff result_simps)
  then show ?thesis
    using accrual_never_dilutes [of witness_market 1000 witness_irm res 1000000 before after]
    by (auto simp: witness_market_def)
qed

text \<open>
  C15. Accrual does not get stuck: for a solvent market below 2 to the 120 in assets and shares,
  with a fee of at most one, a target rate in the protocol band and at most one year since the last
  update, \<open>accrue_market\<close> returns a result.
\<close>

theorem accrual_available:
  assumes "sm_last_update stored \<le> timestamp" and "timestamp \<le> sm_last_update stored + 31536000"
    and "sm_total_borrow_assets stored \<le> sm_total_supply_assets stored"
    and "sm_total_supply_assets stored < 2 ^ 120" and "sm_total_supply_shares stored < 2 ^ 120"
    and "sm_fee stored \<le> WAD"
    and "rate_in_band (ac_stored_rate_at_target irm)"
  shows "\<exists>res. accrue_market stored timestamp irm = Inr res"
  by (rule accrue_market_ok [OF assms])

theorem accrual_available_witness:
  "\<exists>res. accrue_market witness_market 31537000 witness_irm = Inr res"
  by (rule accrual_available)
    (simp_all add: witness_market_def witness_irm_def rate_in_band_def curve_constants)

text \<open>
  C13. Neither a supply nor a withdrawal through the direct adapter takes value from any other
  supplier: shares valued in the market before and after the action are worth at least as much
  after it.
\<close>

theorem adapter_actions_not_dilutive:
  assumes "allocate m t a recorded fee caps = Inr res \<or>
      deallocate m t a recorded balance fee caps = Inr res"
    and "expected_adapter_assets s m = Inr before"
    and "expected_adapter_assets s (at_market res) = Inr after"
  shows "before \<le> after"
  using assms(1)
proof
  assume r: "allocate m t a recorded fee caps = Inr res"
  show ?thesis
    using blue.deposit_not_dilutive [OF allocate_Inr(1) [OF r], of s before after] assms(2,3)
    by (simp add: expected_adapter_assets_Inr allocate_Inr(3,4) [OF r])
next
  assume r: "deallocate m t a recorded balance fee caps = Inr res"
  show ?thesis
    using blue.withdraw_not_dilutive [OF deallocate_Inr(3,5,6) [OF r], of s before after] assms(2,3)
    by (simp add: expected_adapter_assets_Inr deallocate_Inr(7,8) [OF r])
qed

definition witness_projected :: projected_market_state where
  "witness_projected =
     \<lparr> pm_market_id = 1, pm_timestamp = 1000, pm_total_supply_assets = 1000000000000,
       pm_total_supply_shares = 1000000000000000000, pm_total_borrow_assets = 950000000000,
       pm_total_borrow_shares = 900000000000000000, pm_average_accrual_borrow_rate = 0,
       pm_ending_rate_at_target = 1268391679, pm_spot_borrow_rate = 0, pm_spot_supply_rate = 0,
       pm_utilization = 950000000000000000, pm_accounting_liquidity = 50000000000 \<rparr>"

theorem adapter_actions_not_dilutive_witness:
  "\<exists>res before after.
     deallocate witness_projected 500000000000000000 40000000000 500000000000 900000000000 0 [] = Inr res \<and>
     expected_adapter_assets 1234567 witness_projected = Inr before \<and>
     expected_adapter_assets 1234567 (at_market res) = Inr after \<and> before \<le> after"
proof -
  let ?d = "deallocate witness_projected 500000000000000000 40000000000 500000000000 900000000000 0 []"
  have "is_ok (try_let ?d (\<lambda>res. expected_adapter_assets 1234567 (at_market res)))"
    "is_ok (expected_adapter_assets 1234567 witness_projected)"
    by (simp_all add: witness_projected_def evaluate_market sgn_if)
  then obtain res before after where "?d = Inr res"
    "expected_adapter_assets 1234567 witness_projected = Inr before"
    "expected_adapter_assets 1234567 (at_market res) = Inr after"
    by (auto simp: is_ok_iff result_simps)
  then show ?thesis
    using adapter_actions_not_dilutive [of witness_projected 500000000000000000 40000000000
        500000000000 0 "[]" res 900000000000 1234567 before after] by blast
qed

text \<open>
  C14. Moving assets out and back through the adapter creates nothing: after supplying an amount,
  withdrawing the same amount from the resulting market burns at least the shares that were minted,
  so the adapter ends with at most the shares it started with, and the market totals return with
  at least as few shares outstanding.
\<close>

theorem supply_withdraw_no_gain:
  assumes "allocate m t a recorded fee caps = Inr res"
    and "deallocate (at_market res) (at_internal_supply_shares res) a recorded' balance fee caps
      = Inr res'"
  shows "at_internal_supply_shares res' \<le> t \<and>
    pm_total_supply_assets (at_market res') = pm_total_supply_assets m \<and>
    pm_total_supply_shares (at_market res') \<le> pm_total_supply_shares m \<and>
    pm_total_borrow_assets (at_market res') = pm_total_borrow_assets m"
proof -
  note al = allocate_Inr [OF assms(1)] and de = deallocate_Inr [OF assms(2)]
  have "at_changed_shares res \<le> at_changed_shares res'"
    using blue.deposit_withdraw [OF al(1), of "at_changed_shares res'"] de(3) by (simp add: al)
  then show ?thesis using al(3,4,5,7) de(7,8,9,11) by auto
qed

theorem supply_withdraw_no_gain_witness:
  "\<exists>res res'.
     allocate witness_projected 500000000000000000 12345 500000000000 0 [] = Inr res \<and>
     deallocate (at_market res) (at_internal_supply_shares res) 12345 500000012345 900000000000 0 []
       = Inr res' \<and>
     at_internal_supply_shares res' \<le> 500000000000000000"
proof -
  let ?a = "allocate witness_projected 500000000000000000 12345 500000000000 0 []"
  have "is_ok (try_let ?a (\<lambda>res.
      deallocate (at_market res) (at_internal_supply_shares res) 12345 500000012345 900000000000 0 []))"
    by (simp add: witness_projected_def evaluate_market sgn_if)
  then obtain res res' where "?a = Inr res"
    "deallocate (at_market res) (at_internal_supply_shares res) 12345 500000012345 900000000000 0 []
      = Inr res'"
    by (auto simp: is_ok_iff result_simps)
  then show ?thesis
    using supply_withdraw_no_gain [of witness_projected 500000000000000000 12345 500000000000 0 "[]"
        res 500000012345 900000000000 res'] by blast
qed

end
