(* ===== verification/VaultV1Adapter.thy ===== *)
theory VaultV1Adapter
  imports BlueMath
begin

text \<open>
  ERC-4626 arithmetic of the Morpho Vault V1 idle liquidity adapter
  (\<open>src/morpho/vault_v1_adapter.rs\<close>). Its conversions satisfy the same pool contract as the Morpho
  market's, with one virtual asset and ten to the decimals offset virtual shares.
\<close>

subsection \<open>Definitions\<close>

record vault_v1_adapter_transition =
  vt_vault_total_assets :: u256
  vt_vault_total_supply :: u256
  vt_share_balance :: u256
  vt_real_assets :: u256
  vt_allocation_change :: i256
  vt_changed_morpho_shares :: u256
  vt_idle_market_total_supply_assets :: u256
  vt_idle_market_total_supply_shares :: u256
  vt_idle_market_supply_shares :: u256

primrec virtual_shares :: "nat \<Rightarrow> math_error + u256" where
  "virtual_shares 0 = Inr 1"
| "virtual_shares (Suc offset) =
     try_let (virtual_shares offset) (\<lambda>v. ok_or (checked_mul v 10) Invariant)"

definition conversion_totals :: "u256 \<Rightarrow> u256 \<Rightarrow> nat \<Rightarrow> math_error + u256 \<times> u256" where
  "conversion_totals total_assets total_supply offset =
     try_let (ok_or (checked_add total_assets 1) Invariant) (\<lambda>assets.
     try_let (virtual_shares offset) (\<lambda>v.
     try_let (ok_or (checked_add total_supply v) Invariant) (\<lambda>shares.
     Inr (assets, shares))))"

definition preview_deposit :: "u256 \<Rightarrow> u256 \<Rightarrow> u256 \<Rightarrow> nat \<Rightarrow> math_error + u256" where
  "preview_deposit assets total_assets total_supply offset =
     try_let (conversion_totals total_assets total_supply offset) (\<lambda>(asset_total, share_total).
     map_err Arithmetic (mul_div_down assets share_total asset_total))"

definition preview_withdraw :: "u256 \<Rightarrow> u256 \<Rightarrow> u256 \<Rightarrow> nat \<Rightarrow> math_error + u256" where
  "preview_withdraw assets total_assets total_supply offset =
     try_let (conversion_totals total_assets total_supply offset) (\<lambda>(asset_total, share_total).
     map_err Arithmetic (mul_div_up assets share_total asset_total))"

definition preview_redeem :: "u256 \<Rightarrow> u256 \<Rightarrow> u256 \<Rightarrow> nat \<Rightarrow> math_error + u256" where
  "preview_redeem shares total_assets total_supply offset =
     try_let (conversion_totals total_assets total_supply offset) (\<lambda>(asset_total, share_total).
     map_err Arithmetic (mul_div_down shares asset_total share_total))"

definition allocation_change :: "u256 \<Rightarrow> u256 \<Rightarrow> math_error + i256" where
  "allocation_change after before =
     try_let (ok_or (i256_of_u256 after) SignedConversion) (\<lambda>after.
     try_let (ok_or (i256_of_u256 before) SignedConversion) (\<lambda>before.
     ok_or (checked_ssub after before) SignedConversion))"

definition v1_allocate ::
  "vault_v1_liquidity_adapter_state \<Rightarrow> u256 \<Rightarrow> math_error + vault_v1_adapter_transition" where
  "v1_allocate state assets =
     (if assets = 0 \<or> assets > lq_max_deposit state then Inl Invariant
      else
        try_let (preview_deposit assets (lq_vault_total_assets state) (lq_vault_total_supply state)
          (lq_decimals_offset state)) (\<lambda>minted.
        if minted = 0 then Inl Invariant
        else
          try_let (map_err Arithmetic (to_supply_shares_down assets
            (lq_idle_market_total_supply_assets state) (lq_idle_market_total_supply_shares state)))
            (\<lambda>changed_morpho_shares.
          if changed_morpho_shares = 0 then Inl Invariant
          else
            try_let (ok_or (checked_add (lq_vault_total_assets state) assets) Invariant)
              (\<lambda>vault_total_assets.
            try_let (ok_or (checked_add (lq_vault_total_supply state) minted) Invariant)
              (\<lambda>vault_total_supply.
            try_let (ok_or (checked_add (lq_share_balance state) minted) Invariant)
              (\<lambda>share_balance.
            try_let (preview_redeem share_balance vault_total_assets vault_total_supply
              (lq_decimals_offset state)) (\<lambda>real_assets.
            try_let (allocation_change real_assets (lq_recorded_allocation state)) (\<lambda>change.
            try_let (ok_or (checked_add (lq_idle_market_total_supply_assets state) assets) Invariant)
              (\<lambda>idle_assets.
            try_let (ok_or (checked_add (lq_idle_market_total_supply_shares state)
              changed_morpho_shares) Invariant) (\<lambda>idle_shares.
            try_let (ok_or (checked_add (lq_idle_market_supply_shares state)
              changed_morpho_shares) Invariant) (\<lambda>idle_position.
            Inr \<lparr> vt_vault_total_assets = vault_total_assets,
                  vt_vault_total_supply = vault_total_supply,
                  vt_share_balance = share_balance, vt_real_assets = real_assets,
                  vt_allocation_change = change,
                  vt_changed_morpho_shares = changed_morpho_shares,
                  vt_idle_market_total_supply_assets = idle_assets,
                  vt_idle_market_total_supply_shares = idle_shares,
                  vt_idle_market_supply_shares = idle_position \<rparr>)))))))))))"

definition v1_deallocate ::
  "vault_v1_liquidity_adapter_state \<Rightarrow> u256 \<Rightarrow> math_error + vault_v1_adapter_transition" where
  "v1_deallocate state assets =
     (if assets = 0 \<or> assets > lq_max_withdraw state \<or> assets > lq_vault_total_assets state
      then Inl InsufficientLiquidity
      else
        try_let (preview_withdraw assets (lq_vault_total_assets state) (lq_vault_total_supply state)
          (lq_decimals_offset state)) (\<lambda>burned.
        if burned > lq_share_balance state \<or> burned > lq_vault_total_supply state
        then Inl InsufficientShares
        else
          try_let (map_err Arithmetic (to_supply_shares_up assets
            (lq_idle_market_total_supply_assets state) (lq_idle_market_total_supply_shares state)))
            (\<lambda>changed_morpho_shares.
          if changed_morpho_shares > lq_idle_market_supply_shares state \<or>
             changed_morpho_shares > lq_idle_market_total_supply_shares state
          then Inl InsufficientShares
          else
            try_let (ok_or (checked_sub (lq_vault_total_assets state) assets) Invariant)
              (\<lambda>vault_total_assets.
            try_let (ok_or (checked_sub (lq_vault_total_supply state) burned) Invariant)
              (\<lambda>vault_total_supply.
            try_let (ok_or (checked_sub (lq_share_balance state) burned) Invariant)
              (\<lambda>share_balance.
            try_let (preview_redeem share_balance vault_total_assets vault_total_supply
              (lq_decimals_offset state)) (\<lambda>real_assets.
            try_let (allocation_change real_assets (lq_recorded_allocation state)) (\<lambda>change.
            try_let (ok_or (checked_sub (lq_idle_market_total_supply_assets state) assets) Invariant)
              (\<lambda>idle_assets.
            try_let (ok_or (checked_sub (lq_idle_market_total_supply_shares state)
              changed_morpho_shares) Invariant) (\<lambda>idle_shares.
            try_let (ok_or (checked_sub (lq_idle_market_supply_shares state)
              changed_morpho_shares) Invariant) (\<lambda>idle_position.
            Inr \<lparr> vt_vault_total_assets = vault_total_assets,
                  vt_vault_total_supply = vault_total_supply,
                  vt_share_balance = share_balance, vt_real_assets = real_assets,
                  vt_allocation_change = change,
                  vt_changed_morpho_shares = changed_morpho_shares,
                  vt_idle_market_total_supply_assets = idle_assets,
                  vt_idle_market_total_supply_shares = idle_shares,
                  vt_idle_market_supply_shares = idle_position \<rparr>)))))))))))"

lemmas evaluate_v1 =
  v1_allocate_def v1_deallocate_def allocation_change_def preview_deposit_def preview_withdraw_def
  preview_redeem_def conversion_totals_def evaluate_blue evaluate_signed

subsection \<open>The pool contract\<close>

lemma virtual_shares_Inr: "virtual_shares off = Inr v \<Longrightarrow> v = 10 ^ off"
  by (induction off arbitrary: v) (auto simp: result_simps checked_ops)

lemma virtual_shares_eq: "10 ^ off < two256 \<Longrightarrow> virtual_shares off = Inr (10 ^ off)"
  by (induction off) (auto simp: checked_mul_def mult.commute)

lemma conversion_totals_Inr:
  "conversion_totals A S off = Inr (a, s) \<Longrightarrow> a = A + 1 \<and> s = S + 10 ^ off"
  by (auto simp: conversion_totals_def result_simps checked_ops dest: virtual_shares_Inr)

interpretation v1: share_conversion
  "\<lambda>a A S. preview_deposit a A S off" "\<lambda>a A S. preview_withdraw a A S off"
  "\<lambda>s A S. preview_redeem s A S off" 1 "10 ^ off" for off
  by unfold_locales
    (auto simp: preview_deposit_def preview_withdraw_def preview_redeem_def result_simps
      mul_div_down_Inr mul_div_up_Inr dest!: conversion_totals_Inr)

lemma v1_allocate_Inr:
  assumes "v1_allocate st a = Inr t"
  shows "0 < a" and "a \<le> lq_max_deposit st"
    and "vt_vault_total_assets t = lq_vault_total_assets st + a"
    and "\<exists>minted. 0 < minted \<and>
      preview_deposit a (lq_vault_total_assets st) (lq_vault_total_supply st) (lq_decimals_offset st)
        = Inr minted \<and>
      vt_vault_total_supply t = lq_vault_total_supply st + minted \<and>
      vt_share_balance t = lq_share_balance st + minted"
    and "preview_redeem (vt_share_balance t) (vt_vault_total_assets t) (vt_vault_total_supply t)
      (lq_decimals_offset st) = Inr (vt_real_assets t)"
    and "to_supply_shares_down a (lq_idle_market_total_supply_assets st)
      (lq_idle_market_total_supply_shares st) = Inr (vt_changed_morpho_shares t)"
    and "vt_idle_market_total_supply_assets t = lq_idle_market_total_supply_assets st + a"
    and "vt_idle_market_total_supply_shares t
      = lq_idle_market_total_supply_shares st + vt_changed_morpho_shares t"
    and "vt_idle_market_supply_shares t
      = lq_idle_market_supply_shares st + vt_changed_morpho_shares t"
  using assms by (auto simp: v1_allocate_def result_simps checked_ops)

lemma v1_deallocate_Inr:
  assumes "v1_deallocate st a = Inr t"
  shows "0 < a" and "a \<le> lq_max_withdraw st" and "a \<le> lq_vault_total_assets st"
    and "vt_vault_total_assets t = lq_vault_total_assets st - a"
    and "\<exists>burned. burned \<le> lq_share_balance st \<and> burned \<le> lq_vault_total_supply st \<and>
      preview_withdraw a (lq_vault_total_assets st) (lq_vault_total_supply st) (lq_decimals_offset st)
        = Inr burned \<and>
      vt_vault_total_supply t = lq_vault_total_supply st - burned \<and>
      vt_share_balance t = lq_share_balance st - burned"
    and "preview_redeem (vt_share_balance t) (vt_vault_total_assets t) (vt_vault_total_supply t)
      (lq_decimals_offset st) = Inr (vt_real_assets t)"
    and "to_supply_shares_up a (lq_idle_market_total_supply_assets st)
      (lq_idle_market_total_supply_shares st) = Inr (vt_changed_morpho_shares t)"
    and "vt_idle_market_total_supply_assets t = lq_idle_market_total_supply_assets st - a"
    and "vt_changed_morpho_shares t \<le> lq_idle_market_supply_shares st"
    and "vt_idle_market_total_supply_shares t
      = lq_idle_market_total_supply_shares st - vt_changed_morpho_shares t"
    and "vt_idle_market_supply_shares t
      = lq_idle_market_supply_shares st - vt_changed_morpho_shares t"
  using assms by (auto simp: v1_deallocate_def result_simps checked_ops)

subsection \<open>Properties\<close>

text \<open>
  C20. A deposit or a withdrawal through the idle liquidity adapter never lowers the redeem value of
  wrapped-vault shares: for every holding valued before and after the action, the value after is at
  least the value before, whatever the decimals offset.
\<close>

theorem v1_actions_not_dilutive:
  assumes "v1_allocate st a = Inr t \<or> v1_deallocate st a = Inr t"
    and "preview_redeem s (lq_vault_total_assets st) (lq_vault_total_supply st)
      (lq_decimals_offset st) = Inr before"
    and "preview_redeem s (vt_vault_total_assets t) (vt_vault_total_supply t)
      (lq_decimals_offset st) = Inr after"
  shows "before \<le> after"
  using assms(1)
proof
  assume t: "v1_allocate st a = Inr t"
  obtain minted where m: "preview_deposit a (lq_vault_total_assets st) (lq_vault_total_supply st)
      (lq_decimals_offset st) = Inr minted"
    "vt_vault_total_supply t = lq_vault_total_supply st + minted"
    using v1_allocate_Inr(4) [OF t] by blast
  show ?thesis
    using v1.deposit_not_dilutive [OF m(1) assms(2), of after] assms(3) m(2)
      v1_allocate_Inr(3) [OF t] by simp
next
  assume t: "v1_deallocate st a = Inr t"
  obtain burned where b: "preview_withdraw a (lq_vault_total_assets st) (lq_vault_total_supply st)
      (lq_decimals_offset st) = Inr burned" "burned \<le> lq_vault_total_supply st"
    "vt_vault_total_supply t = lq_vault_total_supply st - burned"
    using v1_deallocate_Inr(5) [OF t] by blast
  show ?thesis
    using v1.withdraw_not_dilutive [OF b(1) v1_deallocate_Inr(3) [OF t] b(2) assms(2), of after]
      assms(3) b(3) v1_deallocate_Inr(4) [OF t] by simp
qed

definition witness_v1 :: vault_v1_liquidity_adapter_state where
  "witness_v1 =
     \<lparr> lq_adapter = 30, lq_parent_vault = 10, lq_morpho_vault_v1 = 31, lq_adapter_id = 32,
       lq_runtime_code_hash = 33, lq_morpho_vault_v1_runtime_code_hash = 34, lq_real_assets = 500000,
       lq_recorded_allocation = 500000, lq_share_balance = 500000000000000000,
       lq_vault_total_assets = 1000000, lq_vault_total_supply = 1000000000000000000,
       lq_decimals_offset = 12, lq_max_deposit = 1000000, lq_max_withdraw = 500000,
       lq_idle_market_id = 35, lq_idle_market_total_supply_assets = 1000000,
       lq_idle_market_total_supply_shares = 1000000000000, lq_idle_market_supply_shares = 900000000000,
       lq_skim_recipient = 0 \<rparr>"

theorem v1_actions_not_dilutive_witness:
  "\<exists>t before after. v1_deallocate witness_v1 123456 = Inr t \<and>
     preview_redeem 777777777777 1000000 1000000000000000000 12 = Inr before \<and>
     preview_redeem 777777777777 (vt_vault_total_assets t) (vt_vault_total_supply t) 12 = Inr after \<and>
     before \<le> after"
proof -
  have ok: "is_ok (try_let (v1_deallocate witness_v1 123456) (\<lambda>t.
      preview_redeem 777777777777 (vt_vault_total_assets t) (vt_vault_total_supply t) 12))"
    "is_ok (preview_redeem 777777777777 1000000 1000000000000000000 12)"
    by (simp_all add: witness_v1_def evaluate_v1 virtual_shares_eq sgn_if)
  then obtain t before after where "v1_deallocate witness_v1 123456 = Inr t"
    "preview_redeem 777777777777 1000000 1000000000000000000 12 = Inr before"
    "preview_redeem 777777777777 (vt_vault_total_assets t) (vt_vault_total_supply t) 12 = Inr after"
    by (auto simp: is_ok_iff result_simps)
  then show ?thesis
    using v1_actions_not_dilutive [of witness_v1 123456 t 777777777777 before after]
    by (simp add: witness_v1_def)
qed

end
