(* ===== verification/VaultV2.thy ===== *)
theory VaultV2
  imports BlueMath
begin

text \<open>
  Parent Vault V2 accrual (\<open>src/morpho/vault_v2.rs\<close>): the rate-limited total assets and the
  performance and management fee shares.
\<close>

subsection \<open>Definitions\<close>

record parent_accrual_result =
  pr_total_assets :: u256
  pr_projected_total_supply :: u256
  pr_performance_fee_shares :: u256
  pr_management_fee_shares :: u256

definition sum_real_assets ::
  "u256 \<Rightarrow> (adapter_address, u256) btree_map \<Rightarrow> math_error + u256" where
  "sum_real_assets idle adapter_real_assets =
     try_fold (\<lambda>real_assets assets.
       ok_or (checked_add real_assets assets) (Arithmetic Overflow))
       idle (bt_values adapter_real_assets)"

definition performance_fee_assets :: "parent_vault_state \<Rightarrow> u256 \<Rightarrow> math_error + u256" where
  "performance_fee_assets parent interest =
     (if interest \<noteq> 0 \<and> pv_performance_fee parent \<noteq> 0 \<and>
         pv_performance_fee_recipient_allowed parent
      then map_err Arithmetic (mul_div_down interest (pv_performance_fee parent) WAD)
      else Inr 0)"

definition management_fee_assets :: "parent_vault_state \<Rightarrow> u256 \<Rightarrow> u256 \<Rightarrow> math_error + u256" where
  "management_fee_assets parent new_total_assets elapsed =
     (if elapsed \<noteq> 0 \<and> pv_management_fee parent \<noteq> 0 \<and>
         pv_management_fee_recipient_allowed parent
      then
        try_let (ok_or (checked_mul new_total_assets elapsed) (Arithmetic Overflow))
          (\<lambda>time_weighted_assets.
        map_err Arithmetic (mul_div_down time_weighted_assets (pv_management_fee parent) WAD))
      else Inr 0)"

definition accrue_parent_view ::
  "parent_vault_state \<Rightarrow> (adapter_address, u256) btree_map \<Rightarrow> u64 \<Rightarrow>
     math_error + parent_accrual_result" where
  "accrue_parent_view parent adapter_real_assets timestamp =
     (if timestamp < pv_last_update parent then Inl TimestampRegression
      else
        try_let (sum_real_assets (pv_idle_assets parent) adapter_real_assets) (\<lambda>real_assets.
        try_let (ok_or (checked_sub timestamp (pv_last_update parent)) TimestampRegression) (\<lambda>elapsed.
        try_let (ok_or (checked_mul (pv_stored_total_assets parent) elapsed) (Arithmetic Overflow))
          (\<lambda>elapsed_assets.
        try_let (map_err Arithmetic (mul_div_down elapsed_assets (pv_max_rate parent) WAD))
          (\<lambda>maximum_growth.
        try_let (ok_or (checked_add (pv_stored_total_assets parent) maximum_growth)
            (Arithmetic Overflow)) (\<lambda>maximum_total_assets.
        let new_total_assets = min real_assets maximum_total_assets;
            interest = saturating_sub new_total_assets (pv_stored_total_assets parent) in
        try_let (performance_fee_assets parent interest) (\<lambda>performance.
        try_let (management_fee_assets parent new_total_assets elapsed) (\<lambda>management.
        try_let (ok_or (Option.bind (checked_sub new_total_assets performance)
            (\<lambda>v. checked_sub v management)) Invariant) (\<lambda>assets_without_fees.
        try_let (ok_or (checked_add assets_without_fees 1) (Arithmetic Overflow)) (\<lambda>denominator.
        try_let (ok_or (checked_add (pv_total_supply parent) (pv_virtual_shares parent))
            (Arithmetic Overflow)) (\<lambda>shares_with_virtual.
        try_let (map_err Arithmetic (mul_div_down performance shares_with_virtual denominator))
          (\<lambda>performance_fee_shares.
        try_let (map_err Arithmetic (mul_div_down management shares_with_virtual denominator))
          (\<lambda>management_fee_shares.
        try_let (ok_or (Option.bind (checked_add (pv_total_supply parent) performance_fee_shares)
            (\<lambda>v. checked_add v management_fee_shares)) (Arithmetic Overflow))
          (\<lambda>projected_total_supply.
        Inr \<lparr> pr_total_assets = new_total_assets,
              pr_projected_total_supply = projected_total_supply,
              pr_performance_fee_shares = performance_fee_shares,
              pr_management_fee_shares = management_fee_shares \<rparr>))))))))))))))"

lemmas evaluate_parent =
  accrue_parent_view_def sum_real_assets_def performance_fee_assets_def management_fee_assets_def
  bt_values_def evaluate_blue

subsection \<open>Lemmas\<close>

lemma sum_real_assets_Inr:
  "sum_real_assets idle m = Inr t \<Longrightarrow> t = idle + sum_list (bt_values m)"
  unfolding sum_real_assets_def
  by (drule try_fold_measure [where g = "\<lambda>x. x" and h = "\<lambda>x. x"])
    (auto simp: result_simps checked_ops)

lemma accrue_parent_view_elim:
  assumes "accrue_parent_view parent adapters timestamp = Inr res"
  obtains real growth perf man where
    "pv_last_update parent \<le> timestamp"
    "real = pv_idle_assets parent + sum_list (bt_values adapters)"
    "growth = pv_stored_total_assets parent * (timestamp - pv_last_update parent)
      * pv_max_rate parent div WAD"
    "pr_total_assets res = min real (pv_stored_total_assets parent + growth)"
    "performance_fee_assets parent (pr_total_assets res - pv_stored_total_assets parent) = Inr perf"
    "management_fee_assets parent (pr_total_assets res) (timestamp - pv_last_update parent) = Inr man"
    "perf + man \<le> pr_total_assets res"
    "pr_performance_fee_shares res = perf * (pv_total_supply parent + pv_virtual_shares parent)
      div Suc (pr_total_assets res - (perf + man))"
    "pr_management_fee_shares res = man * (pv_total_supply parent + pv_virtual_shares parent)
      div Suc (pr_total_assets res - (perf + man))"
    "pr_projected_total_supply res
      = pv_total_supply parent + pr_performance_fee_shares res + pr_management_fee_shares res"
proof -
  from assms show ?thesis
    apply (simp add: accrue_parent_view_def result_simps checked_ops mul_div_down_Inr Let_def
        bind_eq_Some_conv not_less)
    apply (elim conjE exE)
    apply (drule sum_real_assets_Inr)
    apply hypsubst
    subgoal premises prems for real perf man
      by (rule that [OF _ refl refl, of perf man]; insert prems;
          simp only: parent_accrual_result.simps; linarith)
    done
qed

lemma performance_fee_le:
  "performance_fee_assets parent interest = Inr f \<Longrightarrow> pv_performance_fee parent \<le> WAD \<Longrightarrow>
     f \<le> interest"
  by (auto simp: performance_fee_assets_def result_simps split: if_splits
      intro: w_mul_down_le [unfolded w_mul_down_def])

text \<open>Two floored fee mints at one price claim at most the fee assets.\<close>

lemma fee_shares_value:
  fixes p m S d :: nat
  shows "(p * S div Suc d + m * S div Suc d) * Suc d \<le> (p + m) * S"
  using floor_bounds(1) [of "Suc d" "p * S"] floor_bounds(1) [of "Suc d" "m * S"]
  unfolding add_mult_distrib by linarith

subsection \<open>Properties\<close>

text \<open>
  C18. The parent's accrued total assets never exceed what it holds (idle plus the adapters' real
  assets) nor the rate-limited growth of its stored total; a vault whose real assets cover the
  stored total reports no loss; and the share supply grows by exactly the two fee mints.
\<close>

theorem parent_accrual_bounded:
  assumes "accrue_parent_view parent adapters timestamp = Inr res"
  shows "pr_total_assets res \<le> pv_idle_assets parent + sum_list (bt_values adapters) \<and>
    (pr_total_assets res - pv_stored_total_assets parent) * WAD
      \<le> pv_stored_total_assets parent * (timestamp - pv_last_update parent) * pv_max_rate parent \<and>
    min (pv_stored_total_assets parent) (pv_idle_assets parent + sum_list (bt_values adapters))
      \<le> pr_total_assets res \<and>
    pr_projected_total_supply res
      = pv_total_supply parent + pr_performance_fee_shares res + pr_management_fee_shares res"
proof -
  obtain real growth where
    real: "real = pv_idle_assets parent + sum_list (bt_values adapters)" and
    growth: "growth = pv_stored_total_assets parent * (timestamp - pv_last_update parent)
      * pv_max_rate parent div WAD" and
    total: "pr_total_assets res = min real (pv_stored_total_assets parent + growth)" and
    supp: "pr_projected_total_supply res
      = pv_total_supply parent + pr_performance_fee_shares res + pr_management_fee_shares res"
    using accrue_parent_view_elim [OF assms] by metis
  have "(pr_total_assets res - pv_stored_total_assets parent) * WAD \<le> growth * WAD"
    unfolding total by (intro mult_right_mono) auto
  also have "\<dots> \<le> pv_stored_total_assets parent * (timestamp - pv_last_update parent)
      * pv_max_rate parent"
    unfolding growth by (rule floor_bounds) simp
  finally show ?thesis
    using total real supp by auto
qed

definition witness_parent :: parent_vault_state where
  "witness_parent =
     \<lparr> pv_vault = 10, pv_asset = 2, pv_idle_assets = 1000000, pv_stored_total_assets = 9000000,
       pv_last_update = 1000, pv_max_rate = 63419583967, pv_total_supply = 9000000000000,
       pv_virtual_shares = 1000000, pv_performance_fee = 100000000000000000,
       pv_performance_fee_recipient = 11, pv_performance_fee_recipient_allowed = True,
       pv_management_fee = 158548959, pv_management_fee_recipient = 12,
       pv_management_fee_recipient_allowed = True, pv_receive_shares_gate = 0,
       pv_send_shares_gate = 0, pv_receive_assets_gate = 0, pv_send_assets_gate = 0,
       pv_adapter_registry = 0, pv_liquidity_adapter = 0, pv_liquidity_data = [],
       pv_force_deallocate_penalties = [], pv_approved_allocators = [], pv_approved_sentinels = [],
       pv_dead_address = 0, pv_dead_share_balance = 0, pv_required_dead_shares = 0 \<rparr>"

lemma witness_parent_accrues:
  "is_ok (accrue_parent_view witness_parent [(20, 5000000), (21, 3100000)] 87400)"
  by (simp add: witness_parent_def evaluate_parent)

theorem parent_accrual_bounded_witness:
  "\<exists>res. accrue_parent_view witness_parent [(20, 5000000), (21, 3100000)] 87400 = Inr res \<and>
     pr_total_assets res \<le> 9100000"
proof -
  obtain res where res: "accrue_parent_view witness_parent [(20, 5000000), (21, 3100000)] 87400 = Inr res"
    using witness_parent_accrues by (auto simp: is_ok_iff)
  then show ?thesis
    using parent_accrual_bounded [OF res] by (simp add: witness_parent_def bt_values_def)
qed

text \<open>
  C19. Fee minting charges at most the fees: valued at the accrued totals (with the vault's virtual
  asset and shares), the shares that existed before accrual are worth at least the total less the
  performance and management fee assets, and the performance fee is at most the interest when the
  fee rate is at most one.
\<close>

theorem parent_fees_not_overcharged:
  assumes "accrue_parent_view parent adapters timestamp = Inr res"
    and "pv_performance_fee parent \<le> WAD"
  shows "\<exists>performance management.
    performance_fee_assets parent (pr_total_assets res - pv_stored_total_assets parent)
      = Inr performance \<and>
    management_fee_assets parent (pr_total_assets res) (timestamp - pv_last_update parent)
      = Inr management \<and>
    performance \<le> pr_total_assets res - pv_stored_total_assets parent \<and>
    performance + management \<le> pr_total_assets res \<and>
    (pr_total_assets res - (performance + management) + 1)
        * (pr_projected_total_supply res + pv_virtual_shares parent)
      \<le> (pr_total_assets res + 1) * (pv_total_supply parent + pv_virtual_shares parent)"
proof -
  obtain perf man where
    perf: "performance_fee_assets parent (pr_total_assets res - pv_stored_total_assets parent)
      = Inr perf" and
    man: "management_fee_assets parent (pr_total_assets res) (timestamp - pv_last_update parent)
      = Inr man" and
    le: "perf + man \<le> pr_total_assets res" and
    shares: "pr_performance_fee_shares res = perf * (pv_total_supply parent + pv_virtual_shares parent)
        div Suc (pr_total_assets res - (perf + man))"
      "pr_management_fee_shares res = man * (pv_total_supply parent + pv_virtual_shares parent)
        div Suc (pr_total_assets res - (perf + man))" and
    supp: "pr_projected_total_supply res
      = pv_total_supply parent + pr_performance_fee_shares res + pr_management_fee_shares res"
    using accrue_parent_view_elim [OF assms(1)] by metis
  let ?S = "pv_total_supply parent + pv_virtual_shares parent"
  let ?d = "pr_total_assets res - (perf + man)"
  have "(pr_performance_fee_shares res + pr_management_fee_shares res) * Suc ?d \<le> (perf + man) * ?S"
    unfolding shares by (rule fee_shares_value)
  moreover have "Suc ?d * (pr_projected_total_supply res + pv_virtual_shares parent)
      = Suc ?d * ?S + (pr_performance_fee_shares res + pr_management_fee_shares res) * Suc ?d"
    unfolding supp by (simp only: algebra_simps)
  moreover have "(pr_total_assets res + 1) * ?S = Suc ?d * ?S + (perf + man) * ?S"
  proof -
    have "pr_total_assets res + 1 = Suc ?d + (perf + man)" using le by simp
    then show ?thesis by (simp only: add_mult_distrib)
  qed
  ultimately have "Suc ?d * (pr_projected_total_supply res + pv_virtual_shares parent)
      \<le> (pr_total_assets res + 1) * ?S"
    by linarith
  then show ?thesis
    using perf man le performance_fee_le [OF perf assms(2)] by auto
qed

theorem parent_fees_not_overcharged_witness:
  "\<exists>res performance.
     accrue_parent_view witness_parent [(20, 5000000), (21, 3100000)] 87400 = Inr res \<and>
     performance_fee_assets witness_parent (pr_total_assets res - 9000000) = Inr performance \<and>
     performance \<le> pr_total_assets res - 9000000"
proof -
  obtain res where res: "accrue_parent_view witness_parent [(20, 5000000), (21, 3100000)] 87400 = Inr res"
    using witness_parent_accrues by (auto simp: is_ok_iff)
  moreover have "pv_performance_fee witness_parent \<le> WAD"
    by (simp add: witness_parent_def WAD_def)
  moreover have "pv_stored_total_assets witness_parent = 9000000"
    by (simp add: witness_parent_def)
  ultimately show ?thesis
    using parent_fees_not_overcharged [OF res] by auto
qed

end
