(* ===== verification/Caps.thy ===== *)
theory Caps
  imports BlueMath
begin

text \<open>
  Cap identifiers and the admission rule of one cap level (\<open>src/state/caps.rs\<close>).
\<close>

subsection \<open>Definitions\<close>

record cap_id_data =
  cd_adapter :: bytes
  cd_collateral :: bytes
  cd_market :: bytes

definition cap_data_ids :: "evm_lib \<Rightarrow> cap_id_data \<Rightarrow> cap_id list" where
  "cap_data_ids lib d =
     [keccak256 lib (cd_adapter d), keccak256 lib (cd_collateral d), keccak256 lib (cd_market d)]"

datatype cap_error =
    ZeroAbsoluteCap | AbsoluteCapExceeded | InvalidRelativeCap | RelativeCapExceeded | CapArithmetic

definition direct_position_cap_data ::
  "evm_lib \<Rightarrow> adapter_address \<Rightarrow> market_params \<Rightarrow> cap_id_data" where
  "direct_position_cap_data lib adapter params =
     \<lparr> cd_adapter = abi_encode_text_address lib ''this'' adapter,
       cd_collateral = abi_encode_text_address lib ''collateralToken'' (mp_collateral_token params),
       cd_market = abi_encode_text_address_market lib ''this/marketParams'' adapter params \<rparr>"

definition validate_allocation_cap :: "cap_state \<Rightarrow> u256 \<Rightarrow> u256 \<Rightarrow> cap_error + unit" where
  "validate_allocation_cap cap first_total_assets new_allocation =
     (if cs_absolute_cap cap = 0 then Inl ZeroAbsoluteCap
      else if new_allocation > cs_absolute_cap cap then Inl AbsoluteCapExceeded
      else if cs_relative_cap cap > WAD then Inl InvalidRelativeCap
      else if cs_relative_cap cap < WAD then
        try_let (ok_or (Option.bind (checked_mul first_total_assets (cs_relative_cap cap))
          (\<lambda>product. checked_div product WAD)) CapArithmetic) (\<lambda>maximum.
        if new_allocation > maximum then Inl RelativeCapExceeded else Inr ())
      else Inr ())"

definition adapter_cap_id :: "evm_lib \<Rightarrow> address \<Rightarrow> cap_id" where
  "adapter_cap_id lib adapter = keccak256 lib (abi_encode_text_address lib ''this'' adapter)"

definition adapter_cap_data :: "evm_lib \<Rightarrow> address \<Rightarrow> bytes" where
  "adapter_cap_data lib adapter = abi_encode_text_address lib ''this'' adapter"

lemmas evaluate_caps = validate_allocation_cap_def evaluate_arith WAD_def

subsection \<open>Admission\<close>

text \<open>The rule of the contract, by multiplication.\<close>

definition cap_admits :: "cap_state \<Rightarrow> u256 \<Rightarrow> u256 \<Rightarrow> bool" where
  "cap_admits cap assets x \<longleftrightarrow>
     0 < cs_absolute_cap cap \<and> x \<le> cs_absolute_cap cap \<and> cs_relative_cap cap \<le> WAD \<and>
     (cs_relative_cap cap < WAD \<longrightarrow>
       assets * cs_relative_cap cap < two256 \<and> x * WAD \<le> assets * cs_relative_cap cap)"

lemma validate_allocation_cap_Inr:
  "validate_allocation_cap cap assets x = Inr u \<longleftrightarrow> cap_admits cap assets x"
  by (auto simp: validate_allocation_cap_def cap_admits_def result_simps checked_ops
      bind_eq_Some_conv not_less less_eq_div_iff_mult_less_eq)

lemma cap_admits_mono: "cap_admits cap assets x \<Longrightarrow> y \<le> x \<Longrightarrow> cap_admits cap assets y"
  unfolding cap_admits_def by (meson le_trans mult_le_mono1)

subsection \<open>Properties\<close>



end
