(* ===== verification/Search.thy ===== *)
theory Search
  imports Prelude
begin

text \<open>
  The bounded binary search \<open>monotone_maximum\<close> (\<open>src/planner/simulator.rs\<close>) and its copies in
  \<open>src/state/projection.rs\<close>: the same loop with the error type of the caller, which is the first
  argument here. The locale \<open>threshold_search\<close> states what a caller with a monotone predicate gets.
\<close>

subsection \<open>The loop\<close>

function bisect :: "'e \<Rightarrow> (u256 \<Rightarrow> 'e + bool) \<Rightarrow> u256 \<Rightarrow> u256 \<Rightarrow> 'e + u256" where
  "bisect err p low high =
     (if low < high then
        try_let (ok_or (Option.bind (checked_sub high low) (\<lambda>d. checked_add d 1)) err) (\<lambda>distance.
        try_let (ok_or (checked_div distance 2) err) (\<lambda>half.
        try_let (ok_or (checked_add low half) err) (\<lambda>midpoint.
        try_let (p midpoint) (\<lambda>ok.
        if ok then bisect err p midpoint high
        else try_let (ok_or (checked_sub midpoint 1) err) (\<lambda>below. bisect err p low below)))))
      else Inr low)"
  by pat_completeness auto
termination
  by (relation "measure (\<lambda>(_, _, low, high). high - low)")
    (auto simp: result_simps checked_ops bind_eq_Some_conv)

declare bisect.simps [simp del]

definition monotone_maximum :: "'e \<Rightarrow> u256 \<Rightarrow> (u256 \<Rightarrow> 'e + bool) \<Rightarrow> 'e + u256" where
  "monotone_maximum err upper p = bisect err p 0 upper"

subsection \<open>What it returns\<close>

text \<open>One turn of the loop on bounds below the maximal 256-bit value.\<close>

lemma bisect_step:
  assumes "low < high" and "high < two256 - 1"
  shows "bisect err p low high =
    (let m = low + (high - low + 1) div 2 in
     try_let (p m) (\<lambda>ok. if ok then bisect err p m high else bisect err p low (m - 1)))"
proof -
  have "high - low + 1 < two256" "low + (high - low + 1) div 2 < two256"
    using assms by (simp_all add: less_diff_conv)
  moreover have "1 \<le> low + (high - low + 1) div 2" using assms by simp
  ultimately show ?thesis
    using assms(1)
    by (subst bisect.simps, cases "p (low + (high - low + 1) div 2)")
      (simp_all add: checked_sub_def checked_add_bound_def checked_div_def Let_def)
qed

lemma bisect_boundary:
  assumes "bisect err p low high = Inr r" and "low \<le> high" and "high < two256 - 1"
  shows "low \<le> r \<and> r \<le> high \<and> (r = low \<or> p r = Inr True) \<and> (r = high \<or> p (r + 1) = Inr False)"
  using assms
proof (induction "high - low" arbitrary: low high rule: less_induct)
  case less
  show ?case
  proof (cases "low < high")
    case False
    with less.prems show ?thesis by (simp add: bisect.simps)
  next
    case True
    define m where "m = low + (high - low + 1) div 2"
    have m: "low < m" "m \<le> high" using True by (auto simp: m_def)
    obtain b where b: "p m = Inr b"
      "(if b then bisect err p m high else bisect err p low (m - 1)) = Inr r"
      using less.prems(1) unfolding bisect_step [OF True less.prems(3)] Let_def m_def [symmetric]
      by (auto simp: result_simps)
    show ?thesis
    proof (cases b)
      case True
      then have "bisect err p m high = Inr r" using b by simp
      moreover have "high - m < high - low" using m by linarith
      ultimately show ?thesis
        using less.hyps [of high m] less.prems(3) m b True by auto
    next
      case False
      then have "bisect err p low (m - 1) = Inr r" using b by simp
      moreover have "m - 1 - low < high - low" using m by linarith
      moreover have "low \<le> m - 1" "m - 1 < two256 - 1" "m - 1 + 1 = m"
        using m less.prems(3) by linarith+
      ultimately have "low \<le> r \<and> r \<le> m - 1 \<and> (r = low \<or> p r = Inr True) \<and>
          (r = m - 1 \<or> p (r + 1) = Inr False)"
        by (intro less.hyps)
      then show ?thesis
        using m(2) b(1) False \<open>m - 1 + 1 = m\<close> by (auto intro: order_trans)
    qed
  qed
qed

lemma bisect_defined:
  assumes "\<And>x. low < x \<Longrightarrow> x \<le> high \<Longrightarrow> \<exists>b. p x = Inr b" and "low \<le> high" and "high < two256 - 1"
  shows "\<exists>r. bisect err p low high = Inr r"
  using assms
proof (induction "high - low" arbitrary: low high rule: less_induct)
  case less
  show ?case
  proof (cases "low < high")
    case False
    then show ?thesis by (simp add: bisect.simps)
  next
    case True
    define m where "m = low + (high - low + 1) div 2"
    have m: "low < m" "m \<le> high" using True by (auto simp: m_def)
    obtain b where b: "p m = Inr b" using less.prems(1) m by blast
    have up: "\<exists>r. bisect err p m high = Inr r"
      by (rule less.hyps) (use m less.prems in auto)
    have down: "\<exists>r. bisect err p low (m - 1) = Inr r"
      by (rule less.hyps) (use m less.prems in auto)
    show ?thesis
      using up down b unfolding bisect_step [OF True less.prems(3)] Let_def m_def [symmetric]
      by (cases b) auto
  qed
qed

text \<open>Whatever the predicate, the returned bound sits at a boundary of it.\<close>

lemma monotone_maximum_boundary:
  assumes "monotone_maximum err upper p = Inr r"
  shows "r \<le> upper \<and> (r = 0 \<or> p r = Inr True) \<and> (r = upper \<or> p (r + 1) = Inr False)"
proof (cases "upper < two256 - 1")
  case True
  then show ?thesis using bisect_boundary [of err p 0 upper r] assms by (simp add: monotone_maximum_def)
next
  case False
  then have "0 < upper" and over: "\<not> upper + 1 < two256" by (simp_all add: two_powers)
  then have "bisect err p 0 upper = Inl err"
    by (subst bisect.simps) (simp add: checked_sub_def checked_add_bound_def)
  then show ?thesis using assms by (simp add: monotone_maximum_def)
qed
subsection \<open>Monotone predicates\<close>

locale threshold_search =
  fixes feasible :: "u256 \<Rightarrow> bool"
  assumes feasible_down: "feasible x \<Longrightarrow> 0 < y \<Longrightarrow> y \<le> x \<Longrightarrow> feasible y"
begin

lemma maximum_exact:
  assumes "monotone_maximum err upper (\<lambda>x. Inr (feasible x)) = Inr r" and "upper < two256 - 1"
  shows "r \<le> upper \<and> (r = 0 \<or> feasible r) \<and> (\<forall>x. r < x \<and> x \<le> upper \<longrightarrow> \<not> feasible x)"
proof -
  note b = bisect_boundary [OF assms(1) [unfolded monotone_maximum_def] _ assms(2)]
  have "\<not> feasible x" if "r < x" "x \<le> upper" for x
    using b that feasible_down [of x "r + 1"] by auto
  then show ?thesis using b by auto
qed

lemma maximum_defined:
  assumes "upper < two256 - 1"
  shows "\<exists>r. monotone_maximum err upper (\<lambda>x. Inr (feasible x)) = Inr r"
  unfolding monotone_maximum_def by (rule bisect_defined) (use assms in auto)

end

end
