(* ===== verification/Projection.thy ===== *)
theory Projection
  imports MarketAdapter VaultV1Adapter VaultV2 Caps Config Search
begin

text \<open>
  Projection of one exact snapshot to a canonical head (\<open>src/state/projection.rs\<close>): accrual of every
  market, expected assets of every position, cap catch-up, parent accrual, the maximal executable
  deposit and the atomic exit coverage, and the reasons that force a fresh snapshot.
\<close>

subsection \<open>Data\<close>

record projected_vault_view =
  vw_base_snapshot_hash :: b256
  vw_head :: block_ref
  vw_markets :: "(market_id, projected_market_state) btree_map"
  vw_adapter_real_assets :: "(adapter_address, u256) btree_map"
  vw_vault :: projected_vault_state
  vw_deposit_headroom_satisfied :: bool
  vw_atomic_exit_coverage_satisfied :: bool
  vw_source_constraints_satisfied :: bool

datatype refresh_reason =
    SnapshotAge | RelevantEvent | ConfigurationRevision | TopologyRevision | OrphanedBase
  | DepositHeadroom | AtomicExitCoverage | SourceConstraint | LiquidityAdapterFloor
  | PositionRelevance | RewardHorizon | PendingAdministrationHorizon | CapBoundary

text \<open>The derived order of the enumeration is that of its declaration.\<close>

definition refresh_reason_index :: "refresh_reason \<Rightarrow> nat" where
  "refresh_reason_index r =
     (case r of SnapshotAge \<Rightarrow> 0 | RelevantEvent \<Rightarrow> 1 | ConfigurationRevision \<Rightarrow> 2
      | TopologyRevision \<Rightarrow> 3 | OrphanedBase \<Rightarrow> 4 | DepositHeadroom \<Rightarrow> 5 | AtomicExitCoverage \<Rightarrow> 6
      | SourceConstraint \<Rightarrow> 7 | LiquidityAdapterFloor \<Rightarrow> 8 | PositionRelevance \<Rightarrow> 9
      | RewardHorizon \<Rightarrow> 10 | PendingAdministrationHorizon \<Rightarrow> 11 | CapBoundary \<Rightarrow> 12)"

lemma refresh_reason_index_inject: "refresh_reason_index r = refresh_reason_index s \<longleftrightarrow> r = s"
  by (cases r; cases s) (simp_all add: refresh_reason_index_def)

instantiation refresh_reason :: linorder
begin

definition less_eq_refresh_reason :: "refresh_reason \<Rightarrow> refresh_reason \<Rightarrow> bool" where
  "less_eq_refresh_reason r s \<longleftrightarrow> refresh_reason_index r \<le> refresh_reason_index s"

definition less_refresh_reason :: "refresh_reason \<Rightarrow> refresh_reason \<Rightarrow> bool" where
  "less_refresh_reason r s \<longleftrightarrow> refresh_reason_index r < refresh_reason_index s"

instance
  by standard
    (auto simp: less_eq_refresh_reason_def less_refresh_reason_def
      simp flip: refresh_reason_index_inject)

end

record projection_freshness =
  fr_config_revision :: b256
  fr_topology_revision :: b256
  fr_base_is_canonical :: bool
  fr_relevant_event_after_base :: bool
  fr_maximum_age_blocks :: u64
  fr_safety_horizon_timestamp :: u64

datatype projection_error =
    IncompatibleHead | IncompleteSnapshot | ProjectionMath math_error | ProjectionArithmetic

subsection \<open>Signed allocations\<close>

definition projection_signed_difference :: "u256 \<Rightarrow> u256 \<Rightarrow> projection_error + i256" where
  "projection_signed_difference after before =
     ok_or (Option.bind (i256_of_u256 after) (\<lambda>a.
            Option.bind (i256_of_u256 before) (\<lambda>b. checked_ssub a b))) ProjectionArithmetic"

definition add_signed_allocation :: "u256 \<Rightarrow> i256 \<Rightarrow> projection_error + u256" where
  "add_signed_allocation allocation delta =
     try_let (ok_or (i256_of_u256 allocation) ProjectionArithmetic) (\<lambda>a.
     try_let (ok_or (checked_sadd a delta) ProjectionArithmetic) (\<lambda>result.
     ok_or (u256_of_i256 result) ProjectionArithmetic))"

subsection \<open>Refresh reasons\<close>

definition insert_if :: "bool \<Rightarrow> 'a::linorder \<Rightarrow> 'a list \<Rightarrow> 'a list" where
  "insert_if c r reasons = (if c then bs_insert r reasons else reasons)"

definition liquidity_floor_crossed ::
  "exact_vault_snapshot \<Rightarrow> projected_vault_view \<Rightarrow> validated_vault_config \<Rightarrow> bool" where
  "liquidity_floor_crossed snapshot projection config \<longleftrightarrow>
     (case find (\<lambda>p. dp_adapter p = pv_liquidity_adapter (sn_parent snapshot))
        (bt_values (sn_positions snapshot)) of
        None \<Rightarrow> False
      | Some p \<Rightarrow>
          (case map_of (pj_position_expected_assets (vw_vault projection)) (dp_position_key p) of
             None \<Rightarrow> True
           | Some assets \<Rightarrow> assets < va_minimum_liquidity_adapter_assets config)) \<or>
     (case sn_liquidity_adapter snapshot of
        None \<Rightarrow> False
      | Some adapter \<Rightarrow> lq_real_assets adapter < va_minimum_liquidity_adapter_assets config)"

definition reward_expires :: "reward_policy \<Rightarrow> u64 \<Rightarrow> bool" where
  "reward_expires policy horizon =
     (case policy of
        NoMaterialRewards _ valid_until _ \<Rightarrow> valid_until \<le> horizon
      | Modeled _ valid_until \<Rightarrow> valid_until \<le> horizon
      | FixedUntilModeled \<Rightarrow> False
      | IgnoreRewardsByCuratorMandate _ \<Rightarrow> False)"

definition position_refresh ::
  "exact_vault_snapshot \<Rightarrow> projected_vault_view \<Rightarrow> projection_freshness \<Rightarrow>
     refresh_reason list \<Rightarrow> validated_position_config \<Rightarrow> projection_error + refresh_reason list" where
  "position_refresh snapshot projection freshness reasons configured =
     try_let (ok_or (map_of (sn_positions snapshot) (po_position_key configured)) IncompleteSnapshot)
       (\<lambda>position.
     try_let (ok_or (map_of (pj_position_expected_assets (vw_vault projection))
         (po_position_key configured)) IncompleteSnapshot) (\<lambda>projected.
     Inr (insert_if (reward_expires (dp_reward_policy position)
            (fr_safety_horizon_timestamp freshness)) RewardHorizon
          (insert_if ((dp_expected_assets position < po_minimum_relevance_entry_assets configured \<and>
               projected \<ge> po_minimum_relevance_entry_assets configured) \<or>
              (dp_expected_assets position \<ge> po_minimum_relevance_exit_assets configured \<and>
               projected < po_minimum_relevance_exit_assets configured)) PositionRelevance reasons))))"

definition cap_refresh ::
  "exact_vault_snapshot \<Rightarrow> projected_vault_view \<Rightarrow> refresh_reason list \<Rightarrow> cap_ref \<times> i256 \<Rightarrow>
     projection_error + refresh_reason list" where
  "cap_refresh snapshot projection reasons entry =
     try_let (ok_or (map_of (sn_caps snapshot) (fst entry)) IncompleteSnapshot) (\<lambda>cap.
     try_let (add_signed_allocation (cs_recorded_allocation cap) (snd entry)) (\<lambda>allocation.
     if allocation \<ge> cs_absolute_cap cap then Inr (bs_insert CapBoundary reasons)
     else if cs_relative_cap cap < WAD then
       try_let (map_err (ProjectionMath \<circ> Arithmetic)
         (mul_div_down (pj_parent_total_assets (vw_vault projection)) (cs_relative_cap cap) WAD))
         (\<lambda>limit. Inr (insert_if (allocation \<ge> limit) CapBoundary reasons))
     else Inr reasons))"

definition refresh_reasons ::
  "exact_vault_snapshot \<Rightarrow> projected_vault_view \<Rightarrow> validated_vault_config \<Rightarrow> projection_freshness \<Rightarrow>
     projection_error + refresh_reason list" where
  "refresh_reasons snapshot projection config freshness =
     (let context = sn_context snapshot;
          r1 = insert_if (saturating_sub (br_number (vw_head projection))
                 (br_number (sc_block context)) > fr_maximum_age_blocks freshness) SnapshotAge [];
          r2 = insert_if (fr_relevant_event_after_base freshness) RelevantEvent r1;
          r3 = insert_if (fr_config_revision freshness \<noteq> sc_static_config_revision context)
                 ConfigurationRevision r2;
          r4 = insert_if (fr_topology_revision freshness \<noteq> sc_dynamic_topology_revision context)
                 TopologyRevision r3;
          r5 = insert_if (\<not> fr_base_is_canonical freshness) OrphanedBase r4;
          r6 = insert_if (\<not> vw_deposit_headroom_satisfied projection) DepositHeadroom r5;
          r7 = insert_if (\<not> vw_atomic_exit_coverage_satisfied projection) AtomicExitCoverage r6;
          r8 = insert_if (\<not> vw_source_constraints_satisfied projection) SourceConstraint r7;
          r9 = insert_if (liquidity_floor_crossed snapshot projection config) LiquidityAdapterFloor r8 in
      try_let (try_fold (position_refresh snapshot projection freshness) r9 (va_positions config))
        (\<lambda>r10.
      let r11 = insert_if (list_ex (\<lambda>operation.
            pa_executable_at operation \<le> fr_safety_horizon_timestamp freshness)
            (sn_pending_admin snapshot)) PendingAdministrationHorizon r10 in
      try_fold (cap_refresh snapshot projection) r11 (pj_cap_catch_up (vw_vault projection))))"

subsection \<open>Deposit headroom and exit coverage\<close>

definition executable_v1_deposit ::
  "vault_v1_liquidity_adapter_state \<Rightarrow> cap_state \<Rightarrow> u256 \<Rightarrow> u256 \<Rightarrow> projection_error + bool" where
  "executable_v1_deposit liquidity cap parent_total_assets assets =
     (case checked_add parent_total_assets assets of
        None \<Rightarrow> Inr False
      | Some value \<Rightarrow>
          if value > two128 - 1 then Inr False
          else
            (case v1_allocate liquidity assets of
               Inl _ \<Rightarrow> Inr False
             | Inr transition \<Rightarrow>
                 try_let (add_signed_allocation (lq_recorded_allocation liquidity)
                   (vt_allocation_change transition)) (\<lambda>allocation.
                 Inr (is_ok (validate_allocation_cap cap value allocation)))))"

primrec caps_admit ::
  "exact_vault_snapshot \<Rightarrow> i256 \<Rightarrow> u256 \<Rightarrow> cap_ref list \<Rightarrow> projection_error + bool" where
  "caps_admit snapshot change total_assets [] = Inr True"
| "caps_admit snapshot change total_assets (reference # references) =
     try_let (ok_or (map_of (sn_caps snapshot) reference) IncompleteSnapshot) (\<lambda>cap.
     try_let (add_signed_allocation (cs_recorded_allocation cap) change) (\<lambda>new_allocation.
     if \<not> is_ok (validate_allocation_cap cap total_assets new_allocation) then Inr False
     else caps_admit snapshot change total_assets references))"

definition executable_direct_deposit ::
  "exact_vault_snapshot \<Rightarrow> direct_market_position_state \<Rightarrow> projected_market_state \<Rightarrow> u256 \<Rightarrow>
     u256 \<Rightarrow> projection_error + bool" where
  "executable_direct_deposit snapshot position market parent_total_assets assets =
     (case checked_add parent_total_assets assets of
        None \<Rightarrow> Inr False
      | Some value \<Rightarrow>
          if value > two128 - 1 then Inr False
          else
            try_let (ok_or (map_of (sn_markets snapshot) (dp_market_id position)) IncompleteSnapshot)
              (\<lambda>stored.
            case allocate market (dp_internal_supply_shares position) assets
                (dp_parent_recorded_market_allocation position) (sm_fee stored)
                (dp_affected_caps position) of
              Inl _ \<Rightarrow> Inr False
            | Inr transition \<Rightarrow>
                caps_admit snapshot (at_allocation_change transition) value
                  (dp_affected_caps position)))"

definition is_liquidity_position :: "evm_lib \<Rightarrow> exact_vault_snapshot \<Rightarrow> direct_market_position_state \<Rightarrow> bool" where
  "is_liquidity_position lib snapshot position \<longleftrightarrow>
     dp_adapter position = pv_liquidity_adapter (sn_parent snapshot) \<and>
     encode_adapter_data lib (dp_market_params position) = pv_liquidity_data (sn_parent snapshot)"

definition maximum_deposit ::
  "evm_lib \<Rightarrow> exact_vault_snapshot \<Rightarrow> validated_vault_config \<Rightarrow>
     (market_id, projected_market_state) btree_map \<Rightarrow> u256 \<Rightarrow> projection_error + u256" where
  "maximum_deposit lib snapshot config markets parent_total_assets =
     (let upper = va_deposit_headroom_search_upper_bound_assets config;
          parent = sn_parent snapshot in
      if upper = 0 then Inr 0
      else if pv_receive_shares_gate parent \<noteq> 0 \<or> pv_send_assets_gate parent \<noteq> 0 then Inr 0
      else if pv_liquidity_adapter parent = 0 then
        (if (case checked_add parent_total_assets upper of None \<Rightarrow> False
             | Some value \<Rightarrow> value \<le> two128 - 1)
         then Inr upper
         else Inr (saturating_sub (two128 - 1) parent_total_assets))
      else
        case sn_liquidity_adapter snapshot of
          Some liquidity \<Rightarrow>
            try_let (ok_or (map_of (sn_caps snapshot)
              (CapRef (va_address config) (lq_adapter_id liquidity))) IncompleteSnapshot) (\<lambda>cap.
            monotone_maximum ProjectionArithmetic (min upper (lq_max_deposit liquidity))
              (executable_v1_deposit liquidity cap parent_total_assets))
        | None \<Rightarrow>
            try_let (ok_or (find (is_liquidity_position lib snapshot)
              (bt_values (sn_positions snapshot))) IncompleteSnapshot) (\<lambda>position.
            try_let (ok_or (map_of markets (dp_market_id position)) IncompleteSnapshot) (\<lambda>market.
            monotone_maximum ProjectionArithmetic upper
              (executable_direct_deposit snapshot position market parent_total_assets))))"

definition maximum_liquidity_deallocation ::
  "evm_lib \<Rightarrow> exact_vault_snapshot \<Rightarrow> (market_id, projected_market_state) btree_map \<Rightarrow>
     projection_error + u256" where
  "maximum_liquidity_deallocation lib snapshot markets =
     (if pv_liquidity_adapter (sn_parent snapshot) = 0 then Inr 0
      else
        case sn_liquidity_adapter snapshot of
          Some liquidity \<Rightarrow> Inr (min (lq_max_withdraw liquidity) (lq_real_assets liquidity))
        | None \<Rightarrow>
            try_let (ok_or (find (is_liquidity_position lib snapshot)
              (bt_values (sn_positions snapshot))) IncompleteSnapshot) (\<lambda>position.
            try_let (ok_or (map_of markets (dp_market_id position)) IncompleteSnapshot) (\<lambda>market.
            try_let (ok_or (map_of (sn_markets snapshot) (dp_market_id position)) IncompleteSnapshot)
              (\<lambda>stored.
            try_let (map_err ProjectionMath
              (expected_adapter_assets (dp_internal_supply_shares position) market)) (\<lambda>expected.
            let upper = min (min expected (pm_accounting_liquidity market))
                  (sm_morpho_loan_token_balance stored) in
            monotone_maximum ProjectionArithmetic upper (\<lambda>assets.
              Inr (is_ok (deallocate market (dp_internal_supply_shares position) assets
                (dp_parent_recorded_market_allocation position)
                (sm_morpho_loan_token_balance stored) (sm_fee stored)
                (dp_affected_caps position)))))))))"

subsection \<open>The projection\<close>

definition project_markets ::
  "u64 \<Rightarrow> (market_id, stored_market_state) btree_map \<Rightarrow>
     projection_error + (market_id, projected_market_state) btree_map" where
  "project_markets head_evm_timestamp markets =
     try_fold (\<lambda>acc entry.
       try_let (map_err ProjectionMath (accrue_market (snd entry) head_evm_timestamp
         \<lparr> ac_stored_rate_at_target = sm_stored_rate_at_target (snd entry) \<rparr>)) (\<lambda>accrued.
       Inr (bt_insert (fst entry) (ma_market accrued) acc))) [] markets"

record position_totals =
  pt_expected :: "(position_key, u256) btree_map"
  pt_adapters :: "(adapter_address, u256) btree_map"
  pt_catch_up :: "(cap_ref, i256) btree_map"

definition project_position ::
  "exact_vault_snapshot \<Rightarrow> (market_id, projected_market_state) btree_map \<Rightarrow> position_totals \<Rightarrow>
     position_key \<times> direct_market_position_state \<Rightarrow> projection_error + position_totals" where
  "project_position snapshot markets acc entry =
     (let key = fst entry; position = snd entry in
      try_let (ok_or (map_of markets (dp_market_id position)) IncompleteSnapshot) (\<lambda>market.
      try_let (map_err ProjectionMath
        (expected_adapter_assets (dp_internal_supply_shares position) market)) (\<lambda>expected.
      try_let (ok_or (map_of (sn_adapters snapshot) (dp_adapter position)) IncompleteSnapshot)
        (\<lambda>adapter.
      try_let
        (if dp_market_id position \<in> set (da_current_market_ids adapter) then
           try_let (ok_or (checked_add (or_insert (pt_adapters acc) (dp_adapter position) 0) expected)
             ProjectionArithmetic) (\<lambda>t.
           Inr (bt_insert (dp_adapter position) t (pt_adapters acc)))
         else Inr (pt_adapters acc)) (\<lambda>adapters.
      try_let (projection_signed_difference expected (dp_parent_recorded_market_allocation position))
        (\<lambda>delta.
      try_let (try_fold (\<lambda>catch_up reference.
          try_let (ok_or (checked_sadd (or_insert catch_up reference 0) delta) ProjectionArithmetic)
            (\<lambda>t. Inr (bt_insert reference t catch_up)))
          (pt_catch_up acc) (dp_affected_caps position)) (\<lambda>catch_up.
      Inr \<lparr> pt_expected = bt_insert key expected (pt_expected acc),
            pt_adapters = adapters, pt_catch_up = catch_up \<rparr>)))))))"

definition source_constraints ::
  "exact_vault_snapshot \<Rightarrow> validated_vault_config \<Rightarrow>
     (market_id, projected_market_state) btree_map \<Rightarrow> validated_position_config \<Rightarrow> bool" where
  "source_constraints snapshot config markets configured \<longleftrightarrow>
     (let source_eligible =
        (case map_of (sn_positions snapshot) (po_position_key configured) of
           None \<Rightarrow> False
         | Some position \<Rightarrow> dp_internal_supply_shares position \<noteq> 0 \<and>
             po_mode configured \<in> {Active, SourceOnly}) in
      \<not> source_eligible \<or>
      (case (map_of (sn_markets snapshot) (po_market_id configured),
             map_of markets (po_market_id configured)) of
         (Some stored, Some projected) \<Rightarrow>
           pm_accounting_liquidity projected \<ge> po_minimum_source_liquidity_assets configured \<and>
           sm_morpho_loan_token_balance stored \<ge> va_minimum_source_token_liquidity_assets config \<and>
           pm_utilization projected \<le> po_maximum_source_utilization_wad configured
       | _ \<Rightarrow> False))"

definition project_snapshot_to_head ::
  "evm_lib \<Rightarrow> exact_vault_snapshot \<Rightarrow> block_ref \<Rightarrow> validated_vault_config \<Rightarrow>
     projection_error + projected_vault_view" where
  "project_snapshot_to_head lib snapshot head config =
     (let context = sn_context snapshot; parent_state = sn_parent snapshot in
      try_let (ok_or (checked_sub (br_timestamp (sc_block context)) (sc_evm_timestamp context))
        IncompatibleHead) (\<lambda>header_evm_lag.
      try_let (ok_or (checked_sub (br_timestamp head) header_evm_lag) IncompatibleHead)
        (\<lambda>head_evm_timestamp.
      if br_number head < br_number (sc_block context) \<or>
         head_evm_timestamp < sc_evm_timestamp context \<or>
         va_address config \<noteq> pv_vault parent_state
      then Inl IncompatibleHead
      else
        try_let (project_markets head_evm_timestamp (sn_markets snapshot)) (\<lambda>markets.
        try_let (try_fold (project_position snapshot markets)
          \<lparr> pt_expected = [], pt_adapters = [], pt_catch_up = [] \<rparr> (sn_positions snapshot)) (\<lambda>totals.
        let adapters0 = fold (\<lambda>entry acc.
              bt_insert (fst entry) (or_insert acc (fst entry) 0) acc) (sn_adapters snapshot)
              (pt_adapters totals) in
        try_let
          (case sn_liquidity_adapter snapshot of
             None \<Rightarrow> Inr (adapters0, pt_catch_up totals)
           | Some liquidity \<Rightarrow>
               try_let (projection_signed_difference (lq_real_assets liquidity)
                 (lq_recorded_allocation liquidity)) (\<lambda>delta.
               Inr (bt_insert (lq_adapter liquidity) (lq_real_assets liquidity) adapters0,
                 bt_insert (CapRef (va_address config) (lq_adapter_id liquidity)) delta
                   (pt_catch_up totals)))) (\<lambda>(adapter_real_assets, cap_catch_up).
        try_let (map_err ProjectionMath
          (accrue_parent_view parent_state adapter_real_assets (br_timestamp head))) (\<lambda>parent.
        try_let (maximum_deposit lib snapshot config markets (pr_total_assets parent))
          (\<lambda>max_executable_deposit_assets.
        try_let (maximum_liquidity_deallocation lib snapshot markets) (\<lambda>exit.
        try_let (ok_or (checked_add (pv_idle_assets parent_state) exit) ProjectionArithmetic)
          (\<lambda>atomic_exit_coverage_assets.
        Inr \<lparr> vw_base_snapshot_hash = sn_snapshot_hash snapshot,
          vw_head = head,
          vw_markets = markets,
          vw_adapter_real_assets = adapter_real_assets,
          vw_vault =
            \<lparr> pj_timestamp = br_timestamp head,
              pj_parent_total_assets = pr_total_assets parent,
              pj_projected_total_supply = pr_projected_total_supply parent,
              pj_fee_shares =
                \<lparr> fs_performance_fee_shares = pr_performance_fee_shares parent,
                  fs_management_fee_shares = pr_management_fee_shares parent \<rparr>,
              pj_position_expected_assets = pt_expected totals,
              pj_cap_catch_up = cap_catch_up,
              pj_max_executable_deposit_assets = max_executable_deposit_assets,
              pj_atomic_exit_coverage_assets = atomic_exit_coverage_assets \<rparr>,
          vw_deposit_headroom_satisfied =
            (max_executable_deposit_assets \<ge> va_minimum_deposit_headroom_assets config),
          vw_atomic_exit_coverage_satisfied =
            (atomic_exit_coverage_assets \<ge> va_minimum_atomic_exit_coverage_assets config),
          vw_source_constraints_satisfied =
            list_all (source_constraints snapshot config markets) (va_positions config) \<rparr>))))))))))"

subsection \<open>Withdrawal capacity\<close>

text \<open>
  A direct withdrawal is possible when both liquidity domains cover it and the adapter owns the
  shares it burns.
\<close>

definition withdrawable :: "projected_market_state \<Rightarrow> u256 \<Rightarrow> u256 \<Rightarrow> u256 \<Rightarrow> bool" where
  "withdrawable m t balance a \<longleftrightarrow>
     a \<le> pm_total_supply_assets m - pm_total_borrow_assets m \<and> a \<le> balance \<and>
     a * (pm_total_supply_shares m + VIRTUAL_SHARES)
       \<le> t * (pm_total_supply_assets m + VIRTUAL_ASSETS)"

lemma withdrawable_mono: "withdrawable m t b x \<Longrightarrow> y \<le> x \<Longrightarrow> withdrawable m t b y"
  unfolding withdrawable_def by (meson le_trans mult_le_mono1)

interpretation capacity: threshold_search "withdrawable m t balance" for m t balance
  by unfold_locales (rule withdrawable_mono)

text \<open>Protocol-sized markets, on which no intermediate of a withdrawal overflows.\<close>

definition market_sized :: "projected_market_state \<Rightarrow> bool" where
  "market_sized m \<longleftrightarrow>
     pm_total_supply_assets m < 2 ^ 120 \<and> pm_total_supply_shares m < 2 ^ 120 \<and>
     pm_total_borrow_assets m \<le> pm_total_supply_assets m \<and>
     pm_accounting_liquidity m = pm_total_supply_assets m - pm_total_borrow_assets m \<and>
     pm_ending_rate_at_target m \<le> MAX_RATE_AT_TARGET"

lemma refresh_rates_ok:
  assumes "pm_total_borrow_assets m \<le> pm_total_supply_assets m"
    and "pm_total_supply_assets m < 2 ^ 120" and "fee \<le> WAD"
    and "pm_ending_rate_at_target m \<le> MAX_RATE_AT_TARGET"
  shows "\<exists>m'. refresh_rates m fee = Inr m'"
proof -
  have "pm_total_borrow_assets m < two128"
    using assms(1,2) by (simp add: two128_def)
  then obtain u where u: "market_utilization (pm_total_borrow_assets m) (pm_total_supply_assets m)
      = Inr u" "u \<le> WAD"
    using market_utilization_ok [OF assms(1)] by blast
  have e: "pm_ending_rate_at_target m < 2 ^ 190"
    using assms(4) by (simp add: MAX_RATE_AT_TARGET_def)
  obtain sb where sb: "adaptive_curve_spot_rate u (pm_ending_rate_at_target m) = Inr sb"
      "sb \<le> 4 * MAX_RATE_AT_TARGET"
    using spot_rate_eq [OF u(2) e]
      curve_rate_bounds(2) [OF error_of_bounds [OF u(2)], of "int (pm_ending_rate_at_target m)"]
      assms(4) by (auto simp: nat_le_iff)
  obtain ss where "supply_rate sb u fee = Inr ss"
    using supply_rate_ok [OF sb(2) u(2) assms(3)] by blast
  then show ?thesis
    using assms(1,3) u(1) sb(1) by (simp add: refresh_rates_def checked_sub_def not_less)
qed

lemma ceiling_le_iff:
  fixes x d t :: nat
  assumes "0 < d"
  shows "(x + (d - 1)) div d \<le> t \<longleftrightarrow> x \<le> t * d"
proof
  assume "(x + (d - 1)) div d \<le> t"
  then have "(x + (d - 1)) div d * d \<le> t * d" by (rule mult_right_mono) simp
  then show "x \<le> t * d" using ceiling_bounds(1) [OF assms, of x] by linarith
next
  assume "x \<le> t * d"
  then have "(x + (d - 1)) div d * d < (t + 1) * d"
    using ceiling_bounds(2) [OF assms, of x] by (simp add: algebra_simps)
  then have "(x + (d - 1)) div d < t + 1" by (simp only: mult_less_cancel2)
  then show "(x + (d - 1)) div d \<le> t" by simp
qed

lemma deallocate_ok_iff:
  assumes m: "market_sized m" and t: "t \<le> pm_total_supply_shares m" and r: "recorded < 2 ^ 255"
    and fee: "fee \<le> WAD"
  shows "is_ok (deallocate m t a recorded balance fee caps) \<longleftrightarrow> withdrawable m t balance a"
proof
  assume "is_ok (deallocate m t a recorded balance fee caps)"
  then obtain res where res: "deallocate m t a recorded balance fee caps = Inr res"
    by (auto simp: is_ok_iff)
  note d = deallocate_Inr [OF res]
  have "a * (pm_total_supply_shares m + VIRTUAL_SHARES)
      \<le> at_changed_shares res * (pm_total_supply_assets m + VIRTUAL_ASSETS)"
    by (rule blue.withdraw_value [OF d(3)])
  also have "\<dots> \<le> t * (pm_total_supply_assets m + VIRTUAL_ASSETS)"
    using d(4) by simp
  finally show "withdrawable m t balance a"
    using d m by (simp add: withdrawable_def market_sized_def)
next
  assume w: "withdrawable m t balance a"
  let ?A = "pm_total_supply_assets m" and ?S = "pm_total_supply_shares m"
  have size: "?A < 2 ^ 120" "?S < 2 ^ 120" using m by (simp_all add: market_sized_def)
  have a: "a \<le> ?A" "a \<le> pm_accounting_liquidity m" "a \<le> balance"
    using w m by (auto simp: withdrawable_def market_sized_def)
  have prod: "a * (?S + VIRTUAL_SHARES) \<le> 2 ^ 120 * 2 ^ 121"
    using a(1) size by (intro mult_le_mono) (auto simp: VIRTUAL_SHARES_def)
  define b where "b = (a * (?S + VIRTUAL_SHARES) + (?A + VIRTUAL_ASSETS - 1)) div (?A + VIRTUAL_ASSETS)"
  have shares: "to_supply_shares_up a ?A ?S = Inr b"
    using prod size unfolding to_supply_shares_up_Inr b_def
    by (simp add: VIRTUAL_ASSETS_def VIRTUAL_SHARES_def two256_def)
  have bt: "b \<le> t"
    using w ceiling_le_iff [of "?A + VIRTUAL_ASSETS" "a * (?S + VIRTUAL_SHARES)" t]
    by (simp add: b_def withdrawable_def VIRTUAL_ASSETS_def)
  let ?m' = "m \<lparr> pm_total_supply_assets := ?A - a, pm_total_supply_shares := ?S - b \<rparr>"
  have borrow: "pm_total_borrow_assets m \<le> ?A - a"
    using a m unfolding market_sized_def by linarith
  have "\<exists>m''. refresh_rates ?m' fee = Inr m''"
    by (rule refresh_rates_ok) (use borrow size fee m in \<open>auto simp: market_sized_def\<close>)
  then obtain m'' where m'': "refresh_rates ?m' fee = Inr m''" by blast
  have val: "(t - b) * (?A - a + VIRTUAL_ASSETS) \<le> 2 ^ 120 * 2 ^ 120"
    using t size by (intro mult_le_mono) (auto simp: VIRTUAL_ASSETS_def)
  define e where "e = (t - b) * (?A - a + VIRTUAL_ASSETS) div (?S - b + VIRTUAL_SHARES)"
  have "?A - a < 2 ^ 120" "?S - b < 2 ^ 120" using size by linarith+
  then have e: "expected_adapter_assets (t - b) m'' = Inr e"
    using val refresh_rates_Inr(2,3) [OF m'']
    unfolding expected_adapter_assets_Inr to_supply_assets_down_Inr e_def
    by (simp add: VIRTUAL_ASSETS_def VIRTUAL_SHARES_def two256_def)
  have "e \<le> (t - b) * (?A - a + VIRTUAL_ASSETS)" unfolding e_def by (rule div_le_dividend)
  then have "e < 2 ^ 255" using val by simp
  then have sd: "signed_difference e recorded = Inr (int e - int recorded)"
    using r by (simp add: signed_difference_Inr)
  show "is_ok (deallocate m t a recorded balance fee caps)"
    using a bt t by (simp add: deallocate_def shares m'' e sd checked_sub_def not_less)
qed

lemma withdrawable_expected:
  assumes "expected_adapter_assets t m = Inr e" and "withdrawable m t balance a"
  shows "a \<le> e"
  using assms
  by (simp add: expected_adapter_assets_Inr to_supply_assets_down_Inr withdrawable_def
      less_eq_div_iff_mult_less_eq VIRTUAL_SHARES_def)

lemma maximum_liquidity_deallocation_direct:
  assumes "pv_liquidity_adapter (sn_parent snapshot) \<noteq> 0" and "sn_liquidity_adapter snapshot = None"
    and "find (is_liquidity_position lib snapshot) (bt_values (sn_positions snapshot)) = Some position"
    and "map_of markets (dp_market_id position) = Some market"
    and "map_of (sn_markets snapshot) (dp_market_id position) = Some stored"
    and "expected_adapter_assets (dp_internal_supply_shares position) market = Inr expected"
    and sized: "market_sized market" "dp_internal_supply_shares position \<le> pm_total_supply_shares market"
      "dp_parent_recorded_market_allocation position < 2 ^ 255" "sm_fee stored \<le> WAD"
  shows "maximum_liquidity_deallocation lib snapshot markets =
    monotone_maximum ProjectionArithmetic
      (min (min expected (pm_accounting_liquidity market)) (sm_morpho_loan_token_balance stored))
      (\<lambda>a. Inr (withdrawable market (dp_internal_supply_shares position)
        (sm_morpho_loan_token_balance stored) a))"
  using assms(1-6) by (simp add: maximum_liquidity_deallocation_def deallocate_ok_iff [OF sized] Let_def)

subsection \<open>What a projection reports\<close>

lemma project_markets_coherent:
  assumes "project_markets ts markets = Inr out"
  shows "\<forall>(id, m) \<in> set out. \<exists>fee. market_coherent fee m"
  unfolding project_markets_def
  by (rule try_fold_invariant [OF assms [unfolded project_markets_def]])
    (auto simp: result_simps dest!: in_set_bt_insert accrue_market_Inr(14))

lemma project_snapshot_elim:
  assumes "project_snapshot_to_head lib snapshot head config = Inr view"
  shows "vw_base_snapshot_hash view = sn_snapshot_hash snapshot"
    and "vw_head view = head" and "br_number (sc_block (sn_context snapshot)) \<le> br_number head"
    and "\<exists>ts. project_markets ts (sn_markets snapshot) = Inr (vw_markets view)"
    and "\<exists>res. accrue_parent_view (sn_parent snapshot) (vw_adapter_real_assets view) (br_timestamp head)
        = Inr res \<and> pj_parent_total_assets (vw_vault view) = pr_total_assets res \<and>
        pj_projected_total_supply (vw_vault view) = pr_projected_total_supply res"
    and "maximum_deposit lib snapshot config (vw_markets view) (pj_parent_total_assets (vw_vault view))
      = Inr (pj_max_executable_deposit_assets (vw_vault view))"
    and "\<exists>exit. maximum_liquidity_deallocation lib snapshot (vw_markets view) = Inr exit \<and>
      pj_atomic_exit_coverage_assets (vw_vault view) = pv_idle_assets (sn_parent snapshot) + exit"
    and "vw_deposit_headroom_satisfied view \<longleftrightarrow>
      va_minimum_deposit_headroom_assets config \<le> pj_max_executable_deposit_assets (vw_vault view)"
    and "vw_atomic_exit_coverage_satisfied view \<longleftrightarrow>
      va_minimum_atomic_exit_coverage_assets config \<le> pj_atomic_exit_coverage_assets (vw_vault view)"
  using assms
  by (auto simp: project_snapshot_to_head_def Let_def result_simps checked_ops)

subsection \<open>Properties\<close>

definition witness_position :: direct_market_position_state where
  "witness_position =
     \<lparr> dp_position_key = 100, dp_adapter = 40, dp_market_params = witness_params, dp_market_id = 1,
       dp_internal_supply_shares = 500000000000000000,
       dp_actual_morpho_supply_shares = 500000000000000000, dp_ignored_donation_shares = 0,
       dp_market_dead_supply_shares = 0, dp_expected_assets = 500000000000,
       dp_parent_recorded_market_allocation = 500000000000,
       dp_affected_caps = [CapRef 10 50, CapRef 10 51, CapRef 10 52], dp_mode = Active,
       dp_reward_policy = IgnoreRewardsByCuratorMandate 1 \<rparr>"

definition witness_cap :: "cap_id \<Rightarrow> cap_state" where
  "witness_cap i = \<lparr> cs_reference = CapRef 10 i, cs_id_data_hash = 0,
     cs_absolute_cap = 2000000000000, cs_relative_cap = WAD, cs_recorded_allocation = 500000000000 \<rparr>"

definition witness_snapshot :: exact_vault_snapshot where
  "witness_snapshot =
     \<lparr> sn_context = \<lparr> sc_chain_id = 1,
         sc_block = \<lparr> br_number = 7, br_hash = 70, br_parent_hash = 69, br_timestamp = 1000,
           br_gas_limit = 30000000 \<rparr>,
         sc_evm_timestamp = 1000, sc_block_hash_binding = Proven, sc_static_config_revision = 5,
         sc_dynamic_topology_revision = 6 \<rparr>,
       sn_parent = witness_parent \<lparr> pv_liquidity_adapter := 40,
         pv_liquidity_data := encode_adapter_data witness_lib witness_params,
         pv_stored_total_assets := 500001000000 \<rparr>,
       sn_adapters = [(40, \<lparr> da_adapter = 40, da_parent_vault = 10, da_asset = 2, da_morpho = 41,
         da_adaptive_curve_irm = 5, da_adapter_id = 50, da_current_market_ids = [1],
         da_historical_market_ids = [1], da_runtime_code_hash = 0, da_real_assets = 500000000000,
         da_skim_recipient = 0, da_pending_operations = [] \<rparr>)],
       sn_enabled_adapters = [40], sn_liquidity_adapter = None,
       sn_positions = [(100, witness_position)], sn_markets = [(1, witness_market)],
       sn_caps = [(CapRef 10 50, witness_cap 50), (CapRef 10 51, witness_cap 51),
         (CapRef 10 52, witness_cap 52)],
       sn_pending_admin = [],
       sn_capabilities = \<lparr> vc_can_observe = True, vc_can_project = True, vc_can_allocate = True,
         vc_can_deallocate_supported_position = True, vc_can_model_user_deposit = True,
         vc_can_model_user_withdrawal = True, vc_lock_ledger_verified = True,
         vc_seed_requirements_verified = True, vc_reward_policy_ready = True,
         vc_rate_episode_state_verified = True \<rparr>,
       sn_idle_locks = \<lparr> ll_locks = [], ll_unattributed_idle_assets = 0, ll_verified = True \<rparr>,
       sn_snapshot_hash = 99 \<rparr>"

text \<open>
  C28. The atomic exit capacity of a direct liquidity position is exact: on a protocol-sized market
  the binary search returns an amount \<open>r\<close> such that a withdrawal succeeds for precisely the amounts
  up to \<open>r\<close>.
\<close>

theorem exit_capacity_exact:
  assumes "pv_liquidity_adapter (sn_parent snapshot) \<noteq> 0" and "sn_liquidity_adapter snapshot = None"
    and "find (is_liquidity_position lib snapshot) (bt_values (sn_positions snapshot)) = Some position"
    and "map_of markets (dp_market_id position) = Some market"
    and "map_of (sn_markets snapshot) (dp_market_id position) = Some stored"
    and "expected_adapter_assets (dp_internal_supply_shares position) market = Inr expected"
    and "market_sized market" and "dp_internal_supply_shares position \<le> pm_total_supply_shares market"
    and "dp_parent_recorded_market_allocation position < 2 ^ 255" and "sm_fee stored \<le> WAD"
  shows "\<exists>r. maximum_liquidity_deallocation lib snapshot markets = Inr r \<and>
    (\<forall>a. is_ok (deallocate market (dp_internal_supply_shares position) a
        (dp_parent_recorded_market_allocation position) (sm_morpho_loan_token_balance stored)
        (sm_fee stored) (dp_affected_caps position)) \<longleftrightarrow> a \<le> r)"
proof -
  let ?w = "withdrawable market (dp_internal_supply_shares position) (sm_morpho_loan_token_balance stored)"
  let ?u = "min (min expected (pm_accounting_liquidity market)) (sm_morpho_loan_token_balance stored)"
  have "?u \<le> pm_accounting_liquidity market" by simp
  also have "\<dots> < 2 ^ 120" using assms(7) unfolding market_sized_def by linarith
  also have "(2 ^ 120 :: nat) < two256 - 1" by (simp add: two256_def)
  finally have u: "?u < two256 - 1" .
  have "\<exists>r. monotone_maximum ProjectionArithmetic ?u (\<lambda>a. Inr (?w a)) = Inr r"
    by (rule capacity.maximum_defined [OF u])
  then obtain r where r: "monotone_maximum ProjectionArithmetic ?u (\<lambda>a. Inr (?w a)) = Inr r" ..
  note max = capacity.maximum_exact [OF r u]
  have up: "?w a \<Longrightarrow> a \<le> ?u" for a
    using withdrawable_expected [OF assms(6)] assms(7) by (auto simp: withdrawable_def market_sized_def)
  have "?w a \<longleftrightarrow> a \<le> r" for a
  proof
    assume "?w a"
    then show "a \<le> r" using max up [of a] by (meson not_le)
  next
    assume "a \<le> r"
    then show "?w a"
      using max withdrawable_mono [of market _ _ r a] by (cases "r = 0") (auto simp: withdrawable_def)
  qed
  then show ?thesis
    using maximum_liquidity_deallocation_direct [OF assms] r deallocate_ok_iff [OF assms(7-10)]
    by simp
qed

theorem exit_capacity_exact_witness:
  "\<exists>r. maximum_liquidity_deallocation witness_lib witness_snapshot [(1, witness_projected)] = Inr r \<and>
     (is_ok (deallocate witness_projected 500000000000000000 50000000000 500000000000
        900000000000 100000000000000000 [CapRef 10 50, CapRef 10 51, CapRef 10 52])
      \<longleftrightarrow> 50000000000 \<le> r)"
proof -
  have "is_ok (expected_adapter_assets 500000000000000000 witness_projected)"
    by (simp add: witness_projected_def evaluate_market)
  then obtain e where "expected_adapter_assets 500000000000000000 witness_projected = Inr e"
    by (auto simp: is_ok_iff)
  then show ?thesis
    using exit_capacity_exact [of witness_snapshot witness_lib witness_position
        "[(1, witness_projected)]" witness_projected witness_market e]
    by (auto simp: witness_snapshot_def witness_position_def witness_market_def bt_values_def
        is_liquidity_position_def market_sized_def witness_projected_def MAX_RATE_AT_TARGET_def WAD_def)
qed


definition witness_idle_snapshot :: exact_vault_snapshot where
  "witness_idle_snapshot = witness_snapshot
     \<lparr> sn_parent := (sn_parent witness_snapshot) \<lparr> pv_liquidity_adapter := 0 \<rparr> \<rparr>"

definition witness_head :: block_ref where
  "witness_head = \<lparr> br_number = 7, br_hash = 70, br_parent_hash = 69, br_timestamp = 1000,
     br_gas_limit = 30000000 \<rparr>"

lemmas evaluate_projection =
  project_snapshot_to_head_def project_markets_def project_position_def source_constraints_def
  projection_signed_difference_def maximum_deposit_def maximum_liquidity_deallocation_def
  or_insert_def Let_def evaluate_parent evaluate_market

lemmas witness_data =
  witness_config_def witness_position_config_def witness_idle_snapshot_def witness_snapshot_def
  witness_position_def witness_params_def witness_parent_def witness_market_def witness_cap_def
  witness_head_def


end
