(* ===== verification/Simulator.thy ===== *)
theory Simulator
  imports Projection
begin

text \<open>
  Sequential simulation of a candidate plan (\<open>src/planner/simulator.rs\<close>) over one projection, with
  the shared loan-token ledger of \<open>src/planner/liquidity.rs\<close>. The source mutates one state and drops
  it on the first error, so an action is a function to an error or the next state.
\<close>

subsection \<open>Shared token liquidity\<close>

type_synonym shared_token_liquidity = "(address, u256) btree_map"

datatype liquidity_error = InconsistentBalance | MissingToken | Exhausted

definition register ::
  "shared_token_liquidity \<Rightarrow> address \<Rightarrow> u256 \<Rightarrow> liquidity_error + shared_token_liquidity" where
  "register ledger token exact_balance =
     (case map_of ledger token of
        Some existing \<Rightarrow> if existing \<noteq> exact_balance then Inl InconsistentBalance else Inr ledger
      | None \<Rightarrow> Inr (bt_insert token exact_balance ledger))"

definition consume ::
  "shared_token_liquidity \<Rightarrow> address \<Rightarrow> u256 \<Rightarrow> liquidity_error + shared_token_liquidity" where
  "consume ledger token assets =
     try_let (ok_or (map_of ledger token) MissingToken) (\<lambda>remaining.
     try_let (ok_or (checked_sub remaining assets) Exhausted) (\<lambda>rest.
     Inr (bt_insert token rest ledger)))"

definition credit ::
  "shared_token_liquidity \<Rightarrow> address \<Rightarrow> u256 \<Rightarrow> liquidity_error + shared_token_liquidity" where
  "credit ledger token assets =
     try_let (ok_or (map_of ledger token) MissingToken) (\<lambda>remaining.
     try_let (ok_or (checked_add remaining assets) Exhausted) (\<lambda>more.
     Inr (bt_insert token more ledger)))"

definition remaining_liquidity :: "shared_token_liquidity \<Rightarrow> address \<Rightarrow> liquidity_error + u256" where
  "remaining_liquidity ledger token = ok_or (map_of ledger token) MissingToken"

definition source_constraints_hold :: "u256 \<Rightarrow> u256 \<Rightarrow> u256 \<Rightarrow> u256 \<Rightarrow> u256 \<Rightarrow> u256 \<Rightarrow> bool" where
  "source_constraints_hold accounting_liquidity shared_token_liquidity utilization
       minimum_accounting_liquidity minimum_token_liquidity maximum_utilization \<longleftrightarrow>
     accounting_liquidity \<ge> minimum_accounting_liquidity \<and>
     shared_token_liquidity \<ge> minimum_token_liquidity \<and> utilization \<le> maximum_utilization"

subsection \<open>State\<close>

record action_projection =
  ap_position :: position_key
  ap_requested_assets :: u256
  ap_changed_shares :: u256
  ap_expected_assets_after :: u256
  ap_allocation_change :: i256
  ap_positive_loss_assets :: u256

record position_simulation =
  ps_adapter :: adapter_address
  ps_market :: market_id
  ps_current :: bool
  ps_internal_shares :: u256
  ps_expected_assets :: u256
  ps_recorded_market_allocation :: u256
  ps_affected_caps :: "cap_ref list"
  ps_mode :: market_mode

record simulation_state =
  ss_projection_timestamp :: u64
  ss_markets :: "(market_id, projected_market_state) btree_map"
  ss_positions :: "(position_key, position_simulation) btree_map"
  ss_initial_position_assets :: "(position_key, u256) btree_map"
  ss_liquidity_adapter :: "vault_v1_liquidity_adapter_state option"
  ss_cap_ledger :: "(cap_ref, u256) btree_map"
  ss_vault_idle :: u256
  ss_locked_idle :: u256
  ss_first_total_assets :: "u256 option"
  ss_shared_liquidity :: shared_token_liquidity
  ss_actions :: "action_projection list"
  ss_immediate_loss_assets :: u256

datatype simulation_error =
    InvalidAction | IncompleteState | PositionMode | InsufficientIdle | InvalidDeallocationCap
  | AllocationCap | SimMath math_error | SimLiquidity liquidity_error | SimArithmetic
  | ServiceConstraint

definition apply_delta :: "u256 \<Rightarrow> i256 \<Rightarrow> simulation_error + u256" where
  "apply_delta v delta =
     try_let (ok_or (i256_of_u256 v) SimArithmetic) (\<lambda>x.
     try_let (ok_or (checked_sadd x delta) SimArithmetic) (\<lambda>y.
     ok_or (u256_of_i256 y) InvalidDeallocationCap))"

subsection \<open>Construction\<close>

definition sum_locks :: "idle_lock_snapshot list \<Rightarrow> simulation_error + u256" where
  "sum_locks locks =
     try_fold (\<lambda>t lock. ok_or (checked_add t (ls_remaining_assets lock)) SimArithmetic) 0 locks"

definition simulation_position ::
  "exact_vault_snapshot \<Rightarrow> projected_vault_view \<Rightarrow>
     (position_key, position_simulation) btree_map \<Rightarrow>
     position_key \<times> direct_market_position_state \<Rightarrow>
     simulation_error + (position_key, position_simulation) btree_map" where
  "simulation_position snapshot projection acc entry =
     (let key = fst entry; position = snd entry in
      try_let (ok_or (map_of (sn_adapters snapshot) (dp_adapter position)) IncompleteState) (\<lambda>adapter.
      try_let (ok_or (map_of (pj_position_expected_assets (vw_vault projection)) key) IncompleteState)
        (\<lambda>expected.
      Inr (bt_insert key
        \<lparr> ps_adapter = dp_adapter position, ps_market = dp_market_id position,
          ps_current = (dp_market_id position \<in> set (da_current_market_ids adapter)),
          ps_internal_shares = dp_internal_supply_shares position, ps_expected_assets = expected,
          ps_recorded_market_allocation = dp_parent_recorded_market_allocation position,
          ps_affected_caps = dp_affected_caps position, ps_mode = dp_mode position \<rparr> acc))))"

definition from_projection ::
  "exact_vault_snapshot \<Rightarrow> projected_vault_view \<Rightarrow> simulation_error + simulation_state" where
  "from_projection snapshot projection =
     try_let (try_fold (simulation_position snapshot projection) [] (sn_positions snapshot))
       (\<lambda>positions.
     try_let (sum_locks (ll_locks (sn_idle_locks snapshot))) (\<lambda>locked_idle.
     if \<not> ll_verified (sn_idle_locks snapshot) \<or> locked_idle > pv_idle_assets (sn_parent snapshot)
     then Inl InsufficientIdle
     else
       try_let (try_fold (\<lambda>ledger market.
           map_err SimLiquidity (register ledger (mp_loan_token (sm_params market))
             (sm_morpho_loan_token_balance market))) [] (bt_values (sn_markets snapshot)))
         (\<lambda>shared_liquidity.
       Inr \<lparr> ss_projection_timestamp = br_timestamp (vw_head projection),
         ss_markets = vw_markets projection, ss_positions = positions,
         ss_initial_position_assets = pj_position_expected_assets (vw_vault projection),
         ss_liquidity_adapter = sn_liquidity_adapter snapshot,
         ss_cap_ledger = map (\<lambda>(reference, cap). (reference, cs_recorded_allocation cap))
           (sn_caps snapshot),
         ss_vault_idle = pv_idle_assets (sn_parent snapshot), ss_locked_idle = locked_idle,
         ss_first_total_assets = None, ss_shared_liquidity = shared_liquidity, ss_actions = [],
         ss_immediate_loss_assets = 0 \<rparr>)))"

definition unreserved_idle :: "simulation_state \<Rightarrow> simulation_error + u256" where
  "unreserved_idle state =
     ok_or (checked_sub (ss_vault_idle state) (ss_locked_idle state)) InsufficientIdle"

definition position_expected_assets ::
  "evm_lib \<Rightarrow> simulation_state \<Rightarrow> position_key \<Rightarrow> u256 option" where
  "position_expected_assets lib state position =
     (case map_of (ss_positions state) position of
        Some p \<Rightarrow> Some (ps_expected_assets p)
      | None \<Rightarrow>
          (case ss_liquidity_adapter state of
             Some adapter \<Rightarrow>
               if derive_liquidity_position_key lib (lq_adapter adapter) = position
               then Some (lq_real_assets adapter) else None
           | None \<Rightarrow> None))"

subsection \<open>Totals\<close>

definition add_adapter_assets ::
  "(adapter_address, u256) btree_map \<Rightarrow> adapter_address \<Rightarrow> u256 \<Rightarrow>
     simulation_error + (adapter_address, u256) btree_map" where
  "add_adapter_assets totals adapter assets =
     try_let (ok_or (checked_add (or_insert totals adapter 0) assets) SimArithmetic) (\<lambda>t.
     Inr (bt_insert adapter t totals))"

definition adapter_real_assets ::
  "simulation_state \<Rightarrow> exact_vault_snapshot \<Rightarrow>
     simulation_error + (adapter_address, u256) btree_map" where
  "adapter_real_assets state snapshot =
     try_let (try_fold (\<lambda>totals entry.
         try_let (if ps_current (snd entry)
             then add_adapter_assets totals (ps_adapter (snd entry)) (ps_expected_assets (snd entry))
             else Inr totals) (\<lambda>totals'.
         if map_of (sn_positions snapshot) (fst entry) = None then Inl IncompleteState
         else Inr totals')) [] (ss_positions state)) (\<lambda>totals.
     Inr (case ss_liquidity_adapter state of
        None \<Rightarrow> totals
      | Some liquidity \<Rightarrow> bt_insert (lq_adapter liquidity) (lq_real_assets liquidity) totals))"

definition parent_total_assets ::
  "simulation_state \<Rightarrow> exact_vault_snapshot \<Rightarrow> simulation_error + u256" where
  "parent_total_assets state snapshot =
     try_let (adapter_real_assets state snapshot) (\<lambda>assets.
     try_let (map_err SimMath (accrue_parent_view
       ((sn_parent snapshot) \<lparr> pv_idle_assets := ss_vault_idle state \<rparr>) assets
       (ss_projection_timestamp state))) (\<lambda>accrued.
     Inr (pr_total_assets accrued)))"

definition terminal_market ::
  "simulation_state \<Rightarrow> exact_vault_snapshot \<Rightarrow> projected_vault_view \<Rightarrow> u64 \<Rightarrow>
     (market_id, projected_market_state) btree_map \<Rightarrow> market_id \<times> projected_market_state \<Rightarrow>
     simulation_error + (market_id, projected_market_state) btree_map" where
  "terminal_market state snapshot projection horizon acc entry =
     (let i = fst entry; market = snd entry in
      try_let (ok_or (map_of (sn_markets snapshot) i) IncompleteState) (\<lambda>source.
      try_let (map_err SimLiquidity (remaining_liquidity (ss_shared_liquidity state)
        (mp_loan_token (sm_params source)))) (\<lambda>balance.
      try_let (map_err SimMath (accrue_market
        \<lparr> sm_market_id = i, sm_params = sm_params source,
          sm_total_supply_assets = pm_total_supply_assets market,
          sm_total_supply_shares = pm_total_supply_shares market,
          sm_total_borrow_assets = pm_total_borrow_assets market,
          sm_total_borrow_shares = pm_total_borrow_shares market,
          sm_last_update = br_timestamp (vw_head projection), sm_fee = sm_fee source,
          sm_irm = sm_irm source, sm_stored_rate_at_target = pm_ending_rate_at_target market,
          sm_morpho_loan_token_balance = balance \<rparr> horizon
        \<lparr> ac_stored_rate_at_target = pm_ending_rate_at_target market \<rparr>)) (\<lambda>accrued.
      Inr (bt_insert i (ma_market accrued) acc)))))"

definition terminal_adapter_assets ::
  "simulation_state \<Rightarrow> exact_vault_snapshot \<Rightarrow> projected_vault_view \<Rightarrow> u64 \<Rightarrow>
     simulation_error + (adapter_address, u256) btree_map" where
  "terminal_adapter_assets state snapshot projection horizon =
     (if horizon < br_timestamp (vw_head projection) then Inl SimArithmetic
      else
        try_let (try_fold (terminal_market state snapshot projection horizon) [] (ss_markets state))
          (\<lambda>terminal_markets.
        try_let (try_fold (\<lambda>totals position.
            if ps_current position then
              try_let (ok_or (map_of terminal_markets (ps_market position)) IncompleteState) (\<lambda>market.
              try_let (map_err SimMath (expected_adapter_assets (ps_internal_shares position) market))
                (\<lambda>assets. add_adapter_assets totals (ps_adapter position) assets))
            else Inr totals) [] (bt_values (ss_positions state))) (\<lambda>totals.
        Inr (case ss_liquidity_adapter state of
           None \<Rightarrow> totals
         | Some liquidity \<Rightarrow> bt_insert (lq_adapter liquidity) (lq_real_assets liquidity) totals))))"

definition terminal_real_assets ::
  "simulation_state \<Rightarrow> exact_vault_snapshot \<Rightarrow> projected_vault_view \<Rightarrow> u64 \<Rightarrow>
     simulation_error + u256" where
  "terminal_real_assets state snapshot projection horizon =
     try_let (terminal_adapter_assets state snapshot projection horizon) (\<lambda>assets.
     try_fold (\<lambda>t a. ok_or (checked_add t a) SimArithmetic) (ss_vault_idle state) (bt_values assets))"

definition existing_share_value :: "parent_vault_state \<Rightarrow> u256 \<Rightarrow> u256 \<Rightarrow> simulation_error + u256" where
  "existing_share_value parent terminal_assets terminal_supply =
     try_let (ok_or (checked_add terminal_assets 1) SimArithmetic) (\<lambda>numerator_assets.
     try_let (ok_or (checked_add terminal_supply (pv_virtual_shares parent)) SimArithmetic)
       (\<lambda>denominator_shares.
     map_err (SimMath \<circ> Arithmetic)
       (mul_div_down (pv_total_supply parent) numerator_assets denominator_shares)))"

definition terminal_existing_shareholder_assets ::
  "simulation_state \<Rightarrow> exact_vault_snapshot \<Rightarrow> projected_vault_view \<Rightarrow> u64 \<Rightarrow>
     simulation_error + u256" where
  "terminal_existing_shareholder_assets state snapshot projection horizon =
     try_let (terminal_adapter_assets state snapshot projection horizon) (\<lambda>assets.
     try_let (map_err SimMath (accrue_parent_view
       ((sn_parent snapshot) \<lparr> pv_idle_assets := ss_vault_idle state,
          pv_stored_total_assets := (case ss_first_total_assets state of
             Some v \<Rightarrow> v | None \<Rightarrow> pj_parent_total_assets (vw_vault projection)),
          pv_total_supply := pj_projected_total_supply (vw_vault projection),
          pv_last_update := br_timestamp (vw_head projection) \<rparr>) assets horizon)) (\<lambda>terminal.
     existing_share_value (sn_parent snapshot) (pr_total_assets terminal)
       (pr_projected_total_supply terminal)))"

definition horizon_head :: "projected_vault_view \<Rightarrow> u64 \<Rightarrow> block_ref" where
  "horizon_head projection horizon = (vw_head projection) \<lparr> br_timestamp := horizon \<rparr>"

definition no_plan_terminal_existing_shareholder_assets ::
  "evm_lib \<Rightarrow> exact_vault_snapshot \<Rightarrow> validated_vault_config \<Rightarrow> projected_vault_view \<Rightarrow> u64 \<Rightarrow>
     simulation_error + u256" where
  "no_plan_terminal_existing_shareholder_assets lib snapshot config projection horizon =
     try_let (map_err (\<lambda>_. IncompleteState)
       (project_snapshot_to_head lib snapshot (horizon_head projection horizon) config)) (\<lambda>terminal.
     existing_share_value (sn_parent snapshot) (pj_parent_total_assets (vw_vault terminal))
       (pj_projected_total_supply (vw_vault terminal)))"

definition no_plan_terminal_real_assets ::
  "evm_lib \<Rightarrow> exact_vault_snapshot \<Rightarrow> validated_vault_config \<Rightarrow> projected_vault_view \<Rightarrow> u64 \<Rightarrow>
     simulation_error + u256" where
  "no_plan_terminal_real_assets lib snapshot config projection horizon =
     try_let (map_err (\<lambda>_. IncompleteState)
       (project_snapshot_to_head lib snapshot (horizon_head projection horizon) config)) (\<lambda>terminal.
     try_let (try_fold (\<lambda>t entry.
         try_let (ok_or (map_of (sn_adapters snapshot) (dp_adapter (snd entry))) IncompleteState)
           (\<lambda>adapter.
         if dp_market_id (snd entry) \<notin> set (da_current_market_ids adapter) then Inr t
         else
           try_let (ok_or (map_of (pj_position_expected_assets (vw_vault terminal)) (fst entry))
             IncompleteState) (\<lambda>assets.
           ok_or (checked_add t assets) SimArithmetic))) 0 (sn_positions snapshot)) (\<lambda>direct_assets.
     ok_or (Option.bind (checked_add direct_assets (pv_idle_assets (sn_parent snapshot))) (\<lambda>t.
       case sn_liquidity_adapter snapshot of
         None \<Rightarrow> Some t
       | Some adapter \<Rightarrow> checked_add t (lq_real_assets adapter))) SimArithmetic))"

subsection \<open>Service floors\<close>

definition deposit_admits ::
  "u256 \<Rightarrow> cap_state \<Rightarrow> u256 \<Rightarrow> i256 \<Rightarrow> simulation_error + bool" where
  "deposit_admits total_assets_after_deposit cap recorded change =
     try_let (apply_delta recorded change) (\<lambda>allocation.
     Inr (is_ok (validate_allocation_cap cap total_assets_after_deposit allocation)))"

definition executable_deposit ::
  "u256 \<Rightarrow> (u256 \<Rightarrow> math_error + 't) \<Rightarrow> ('t \<Rightarrow> u256 \<Rightarrow> simulation_error + bool) \<Rightarrow> u256 \<Rightarrow>
     simulation_error + bool" where
  "executable_deposit parent_total transition_of admitted assets =
     (case checked_add parent_total assets of
        None \<Rightarrow> Inr False
      | Some total_assets_after_deposit \<Rightarrow>
          if total_assets_after_deposit > two128 - 1 then Inr False
          else
            (case transition_of assets of
               Inl _ \<Rightarrow> Inr False
             | Inr transition \<Rightarrow> admitted transition total_assets_after_deposit))"

fun direct_deposit_admits ::
  "simulation_state \<Rightarrow> exact_vault_snapshot \<Rightarrow> i256 \<Rightarrow> u256 \<Rightarrow> cap_ref list \<Rightarrow>
     simulation_error + bool" where
  "direct_deposit_admits state snapshot change total_assets_after_deposit [] = Inr True"
| "direct_deposit_admits state snapshot change total_assets_after_deposit (reference # rest) =
     try_let (ok_or (map_of (ss_cap_ledger state) reference) IncompleteState) (\<lambda>recorded.
     try_let (ok_or (map_of (sn_caps snapshot) reference) IncompleteState) (\<lambda>cap.
     try_let (deposit_admits total_assets_after_deposit cap recorded change) (\<lambda>ok.
     if ok then direct_deposit_admits state snapshot change total_assets_after_deposit rest
     else Inr False)))"

definition is_liquidity_config ::
  "evm_lib \<Rightarrow> exact_vault_snapshot \<Rightarrow> validated_position_config \<Rightarrow> bool" where
  "is_liquidity_config lib snapshot configured \<longleftrightarrow>
     po_adapter configured = pv_liquidity_adapter (sn_parent snapshot) \<and>
     encode_adapter_data lib (po_market_params configured) = pv_liquidity_data (sn_parent snapshot)"

definition maximum_executable_deposit ::
  "evm_lib \<Rightarrow> simulation_state \<Rightarrow> exact_vault_snapshot \<Rightarrow> validated_vault_config \<Rightarrow> u256 \<Rightarrow>
     simulation_error + u256" where
  "maximum_executable_deposit lib state snapshot config parent_total =
     (let upper = va_deposit_headroom_search_upper_bound_assets config;
          parent = sn_parent snapshot in
      if upper = 0 \<or> pv_receive_shares_gate parent \<noteq> 0 \<or> pv_send_assets_gate parent \<noteq> 0
      then Inr 0
      else if pv_liquidity_adapter parent = 0
      then Inr (min upper (saturating_sub (two128 - 1) parent_total))
      else
        case ss_liquidity_adapter state of
          Some liquidity \<Rightarrow>
            let reference = CapRef (va_address config) (lq_adapter_id liquidity) in
            try_let (ok_or (map_of (ss_cap_ledger state) reference) IncompleteState) (\<lambda>recorded.
            try_let (ok_or (map_of (sn_caps snapshot) reference) IncompleteState) (\<lambda>cap.
            monotone_maximum SimArithmetic (min upper (lq_max_deposit liquidity))
              (executable_deposit parent_total (v1_allocate liquidity)
                (\<lambda>transition after. deposit_admits after cap recorded
                  (vt_allocation_change transition)))))
        | None \<Rightarrow>
            try_let (ok_or (find (is_liquidity_config lib snapshot) (va_positions config))
              IncompleteState) (\<lambda>configured.
            try_let (ok_or (map_of (ss_positions state) (po_position_key configured)) IncompleteState)
              (\<lambda>position.
            try_let (ok_or (map_of (sn_markets snapshot) (ps_market position)) IncompleteState) (\<lambda>stored.
            try_let (ok_or (map_of (ss_markets state) (ps_market position)) IncompleteState) (\<lambda>market.
            monotone_maximum SimArithmetic upper
              (executable_deposit parent_total
                (\<lambda>assets. allocate market (ps_internal_shares position) assets
                  (ps_recorded_market_allocation position) (sm_fee stored) (ps_affected_caps position))
                (\<lambda>transition after. direct_deposit_admits state snapshot
                  (at_allocation_change transition) after (ps_affected_caps position))))))))"

definition atomic_exit_coverage ::
  "evm_lib \<Rightarrow> simulation_state \<Rightarrow> exact_vault_snapshot \<Rightarrow> validated_vault_config \<Rightarrow>
     simulation_error + u256" where
  "atomic_exit_coverage lib state snapshot config =
     try_let
       (case ss_liquidity_adapter state of
          Some liquidity \<Rightarrow> Inr (min (lq_max_withdraw liquidity) (lq_real_assets liquidity))
        | None \<Rightarrow>
            if pv_liquidity_adapter (sn_parent snapshot) = 0 then Inr 0
            else
              try_let (ok_or (find (is_liquidity_config lib snapshot) (va_positions config))
                IncompleteState) (\<lambda>configured.
              try_let (ok_or (map_of (ss_positions state) (po_position_key configured)) IncompleteState)
                (\<lambda>position.
              try_let (ok_or (map_of (ss_markets state) (ps_market position)) IncompleteState) (\<lambda>market.
              try_let (ok_or (map_of (sn_markets snapshot) (ps_market position)) IncompleteState)
                (\<lambda>stored.
              try_let (map_err SimLiquidity (remaining_liquidity (ss_shared_liquidity state)
                (mp_loan_token (sm_params stored)))) (\<lambda>shared.
              monotone_maximum SimArithmetic
                (min (min (ps_expected_assets position) (pm_accounting_liquidity market)) shared)
                (\<lambda>assets. Inr (is_ok (deallocate market (ps_internal_shares position) assets
                  (ps_recorded_market_allocation position) shared (sm_fee stored)
                  (ps_affected_caps position))))))))))
       (\<lambda>executable. ok_or (checked_add (ss_vault_idle state) executable) SimArithmetic)"

definition retained_active_positions :: "simulation_state \<Rightarrow> validated_vault_config \<Rightarrow> nat" where
  "retained_active_positions state config =
     length (filter (\<lambda>configured. case map_of (ss_positions state) (po_position_key configured) of
         None \<Rightarrow> False | Some position \<Rightarrow> ps_internal_shares position \<noteq> 0)
       (filter (\<lambda>configured. po_mode configured = Active) (va_positions config)))"

definition complete_exit_allowed ::
  "evm_lib \<Rightarrow> simulation_state \<Rightarrow> exact_vault_snapshot \<Rightarrow> validated_vault_config \<Rightarrow>
     validated_position_config \<Rightarrow> position_simulation \<Rightarrow> bool" where
  "complete_exit_allowed lib state snapshot config configured position =
     (let policy_exit = po_mode configured \<in> {SourceOnly, Disabled};
          dust_exit = (\<not> is_liquidity_config lib snapshot configured \<and>
            (case map_of (ss_initial_position_assets state) (po_position_key configured) of
               None \<Rightarrow> False
             | Some assets \<Rightarrow> assets \<le> po_complete_exit_dust_threshold_assets configured));
          economic_exit = (po_mode configured = Active \<and> po_allow_active_complete_exit configured \<and>
            retained_active_positions state config
              \<ge> va_minimum_active_positions_after_economic_exit config) in
      ps_expected_assets position = 0 \<and> ps_recorded_market_allocation position = 0 \<and>
      (policy_exit \<or> dust_exit \<or> economic_exit))"

definition validate_position_service ::
  "evm_lib \<Rightarrow> simulation_state \<Rightarrow> exact_vault_snapshot \<Rightarrow> validated_vault_config \<Rightarrow>
     u256 \<times> u256 \<Rightarrow> validated_position_config \<Rightarrow> simulation_error + (u256 \<times> u256)" where
  "validate_position_service lib state snapshot config totals configured =
     try_let (ok_or (map_of (ss_positions state) (po_position_key configured)) IncompleteState)
       (\<lambda>position.
     try_let (ok_or (checked_add (fst totals) (ps_expected_assets position)) SimArithmetic)
       (\<lambda>group_assets.
     try_let (ok_or (map_of (sn_positions snapshot) (po_position_key configured)) IncompleteState)
       (\<lambda>previous.
     if dp_internal_supply_shares previous \<noteq> 0 \<and> ps_internal_shares position = 0 \<and>
        \<not> complete_exit_allowed lib state snapshot config configured position
     then Inl ServiceConstraint
     else if (ps_expected_assets position \<noteq> 0 \<and>
              ps_expected_assets position < po_minimum_position_assets configured) \<or>
             ps_expected_assets position > po_maximum_position_assets configured
     then Inl ServiceConstraint
     else
       try_let (ok_or (map_of (ss_markets state) (po_market_id configured)) IncompleteState) (\<lambda>market.
       try_let (ok_or (map_of (sn_markets snapshot) (po_market_id configured)) IncompleteState)
         (\<lambda>stored.
       try_let (map_err SimLiquidity (remaining_liquidity (ss_shared_liquidity state)
         (mp_loan_token (sm_params stored)))) (\<lambda>shared.
       if (ps_internal_shares position \<noteq> 0 \<and> po_mode configured \<in> {Active, SourceOnly}) \<and>
          (pm_accounting_liquidity market < po_minimum_source_liquidity_assets configured \<or>
           pm_utilization market > po_maximum_source_utilization_wad configured \<or>
           shared < va_minimum_source_token_liquidity_assets config)
       then Inl ServiceConstraint
       else
         try_let (if po_adapter configured = pv_liquidity_adapter (sn_parent snapshot)
           then ok_or (checked_add (snd totals) (ps_expected_assets position)) SimArithmetic
           else Inr (snd totals)) (\<lambda>liquidity_adapter_assets.
         Inr (group_assets, liquidity_adapter_assets))))))))"

definition validate_service_constraints ::
  "evm_lib \<Rightarrow> simulation_state \<Rightarrow> exact_vault_snapshot \<Rightarrow> validated_vault_config \<Rightarrow>
     simulation_error + unit" where
  "validate_service_constraints lib state snapshot config =
     try_let (try_fold (validate_position_service lib state snapshot config)
       (0, case ss_liquidity_adapter state of None \<Rightarrow> 0 | Some adapter \<Rightarrow> lq_real_assets adapter)
       (va_positions config)) (\<lambda>totals.
     if fst totals < rg_minimum_assets (va_rate_group config) \<or>
        fst totals > rg_maximum_assets (va_rate_group config)
     then Inl ServiceConstraint
     else if snd totals < va_minimum_liquidity_adapter_assets config then Inl ServiceConstraint
     else
       try_let (parent_total_assets state snapshot) (\<lambda>parent_total.
       try_let (maximum_executable_deposit lib state snapshot config parent_total) (\<lambda>deposit.
       if deposit < va_minimum_deposit_headroom_assets config then Inl ServiceConstraint
       else
         try_let (atomic_exit_coverage lib state snapshot config) (\<lambda>coverage.
         if coverage < va_minimum_atomic_exit_coverage_assets config then Inl ServiceConstraint
         else Inr ()))))"

subsection \<open>Deallocation\<close>

definition apply_v1_transition ::
  "vault_v1_liquidity_adapter_state \<Rightarrow> vault_v1_adapter_transition \<Rightarrow> u256 \<Rightarrow>
     vault_v1_liquidity_adapter_state" where
  "apply_v1_transition adapter transition recorded =
     adapter \<lparr> lq_vault_total_assets := vt_vault_total_assets transition,
       lq_vault_total_supply := vt_vault_total_supply transition,
       lq_share_balance := vt_share_balance transition,
       lq_real_assets := vt_real_assets transition,
       lq_recorded_allocation := recorded,
       lq_idle_market_total_supply_assets := vt_idle_market_total_supply_assets transition,
       lq_idle_market_total_supply_shares := vt_idle_market_total_supply_shares transition,
       lq_idle_market_supply_shares := vt_idle_market_supply_shares transition \<rparr>"

definition liquidity_configured ::
  "validated_vault_config \<Rightarrow> position_key \<Rightarrow> validated_liquidity_adapter_config option" where
  "liquidity_configured config key =
     (case va_liquidity_adapter config of
        None \<Rightarrow> None
      | Some configured \<Rightarrow> if la_position_key configured = key then Some configured else None)"

definition liquidity_action_checked ::
  "validated_liquidity_adapter_config \<Rightarrow> adapter_address \<Rightarrow> bytes \<Rightarrow> u256 \<Rightarrow>
     simulation_error + unit" where
  "liquidity_action_checked configured adapter data requested =
     (if la_address configured \<noteq> adapter \<or> data \<noteq> [] \<or>
         requested > la_maximum_action_assets configured
      then Inl InvalidAction else Inr ())"

definition owned_liquidity_adapter ::
  "simulation_state \<Rightarrow> adapter_address \<Rightarrow> simulation_error + vault_v1_liquidity_adapter_state" where
  "owned_liquidity_adapter state adapter =
     try_let (ok_or (ss_liquidity_adapter state) IncompleteState) (\<lambda>current.
     if lq_adapter current \<noteq> adapter then Inl IncompleteState else Inr current)"

definition push_action :: "action_projection \<Rightarrow> simulation_state \<Rightarrow> simulation_error + simulation_state" where
  "push_action projection state =
     try_let (ok_or (checked_add (ss_immediate_loss_assets state) (ap_positive_loss_assets projection))
       SimArithmetic) (\<lambda>loss.
     Inr (state \<lparr> ss_immediate_loss_assets := loss, ss_actions := ss_actions state @ [projection] \<rparr>))"

definition liquidity_deallocation ::
  "simulation_state \<Rightarrow> validated_vault_config \<Rightarrow> validated_liquidity_adapter_config \<Rightarrow>
     position_key \<Rightarrow> adapter_address \<Rightarrow> bytes \<Rightarrow> u256 \<Rightarrow> simulation_error + simulation_state" where
  "liquidity_deallocation state config configured key adapter data requested =
     try_let (liquidity_action_checked configured adapter data requested) (\<lambda>_.
     try_let (owned_liquidity_adapter state adapter) (\<lambda>current.
     try_let (map_err SimMath (v1_deallocate current requested)) (\<lambda>transition.
     let reference = CapRef (va_address config) (lq_adapter_id current) in
     try_let (ok_or (map_of (ss_cap_ledger state) reference) IncompleteState) (\<lambda>old.
     try_let (apply_delta old (vt_allocation_change transition)) (\<lambda>updated.
     try_let (map_err SimLiquidity (consume (ss_shared_liquidity state) (va_asset config) requested))
       (\<lambda>shared.
     try_let (ok_or (checked_add (ss_vault_idle state) requested) SimArithmetic) (\<lambda>idle.
     try_let (ok_or (checked_add (vt_real_assets transition) requested) SimArithmetic) (\<lambda>retained.
     let local_loss = saturating_sub (lq_real_assets current) retained in
     push_action
       \<lparr> ap_position = key, ap_requested_assets = requested,
         ap_changed_shares = vt_changed_morpho_shares transition,
         ap_expected_assets_after = vt_real_assets transition,
         ap_allocation_change = vt_allocation_change transition,
         ap_positive_loss_assets = local_loss \<rparr>
       (state \<lparr> ss_cap_ledger := bt_insert reference updated (ss_cap_ledger state),
          ss_shared_liquidity := shared, ss_vault_idle := idle,
          ss_liquidity_adapter := Some ((apply_v1_transition current transition updated)
            \<lparr> lq_max_withdraw := saturating_sub (lq_max_withdraw current) requested \<rparr>) \<rparr>)))))))))"

definition configured_position ::
  "evm_lib \<Rightarrow> validated_vault_config \<Rightarrow> position_key \<Rightarrow> adapter_address \<Rightarrow> bytes \<Rightarrow>
     simulation_error + unit" where
  "configured_position lib config key adapter data =
     try_let (ok_or (find (\<lambda>position. po_position_key position = key) (va_positions config))
       IncompleteState) (\<lambda>configured.
     if po_adapter configured \<noteq> adapter \<or>
        data \<noteq> encode_adapter_data lib (po_market_params configured)
     then Inl InvalidAction else Inr ())"

definition updated_position :: "position_simulation \<Rightarrow> adapter_transition_result \<Rightarrow> position_simulation" where
  "updated_position position transition =
     position \<lparr> ps_internal_shares := at_internal_supply_shares transition,
       ps_current := (at_internal_supply_shares transition \<noteq> 0),
       ps_expected_assets := at_expected_assets transition,
       ps_recorded_market_allocation := at_expected_assets transition \<rparr>"

definition release_caps ::
  "i256 \<Rightarrow> (cap_ref, u256) btree_map \<Rightarrow> cap_ref list \<Rightarrow> simulation_error + (cap_ref, u256) btree_map" where
  "release_caps change ledger references =
     try_fold (\<lambda>acc reference.
       try_let (ok_or (map_of acc reference) IncompleteState) (\<lambda>old.
       if old = 0 then Inl InvalidDeallocationCap
       else try_let (apply_delta old change) (\<lambda>updated.
         Inr (bt_insert reference updated acc)))) ledger references"

definition direct_deallocation ::
  "evm_lib \<Rightarrow> simulation_state \<Rightarrow> exact_vault_snapshot \<Rightarrow> validated_vault_config \<Rightarrow>
     position_key \<Rightarrow> adapter_address \<Rightarrow> bytes \<Rightarrow> u256 \<Rightarrow> simulation_error + simulation_state" where
  "direct_deallocation lib state snapshot config key adapter data requested =
     try_let (configured_position lib config key adapter data) (\<lambda>_.
     try_let (ok_or (map_of (ss_positions state) key) IncompleteState) (\<lambda>position.
     if ps_mode position \<notin> {Active, SourceOnly, Disabled} then Inl PositionMode
     else if map_of (sn_adapters snapshot) adapter = None then Inl IncompleteState
     else
       try_let (ok_or (map_of (ss_markets state) (ps_market position)) IncompleteState) (\<lambda>market.
       try_let (ok_or (map_of (sn_markets snapshot) (ps_market position)) IncompleteState) (\<lambda>stored.
       let token = mp_loan_token (sm_params stored) in
       try_let (map_err SimLiquidity (remaining_liquidity (ss_shared_liquidity state) token))
         (\<lambda>token_balance.
       try_let (map_err SimMath (deallocate market (ps_internal_shares position) requested
         (ps_recorded_market_allocation position) token_balance (sm_fee stored)
         (ps_affected_caps position))) (\<lambda>transition.
       try_let (release_caps (at_allocation_change transition) (ss_cap_ledger state)
         (ps_affected_caps position)) (\<lambda>ledger.
       try_let (map_err SimLiquidity (consume (ss_shared_liquidity state) token requested)) (\<lambda>shared.
       try_let (ok_or (checked_add (ss_vault_idle state) requested) SimArithmetic) (\<lambda>idle.
       try_let (ok_or (checked_add (at_expected_assets transition) requested) SimArithmetic)
         (\<lambda>retained.
       let local_loss = saturating_sub (ps_expected_assets position) retained in
       push_action
         \<lparr> ap_position = key, ap_requested_assets = requested,
           ap_changed_shares = at_changed_shares transition,
           ap_expected_assets_after = at_expected_assets transition,
           ap_allocation_change = at_allocation_change transition,
           ap_positive_loss_assets = local_loss \<rparr>
         (state \<lparr> ss_cap_ledger := ledger, ss_shared_liquidity := shared, ss_vault_idle := idle,
            ss_markets := bt_insert (ps_market position) (at_market transition) (ss_markets state),
            ss_positions := bt_insert key (updated_position position transition)
              (ss_positions state) \<rparr>)))))))))))"

definition simulate_deallocation ::
  "evm_lib \<Rightarrow> simulation_state \<Rightarrow> exact_vault_snapshot \<Rightarrow> validated_vault_config \<Rightarrow> v2_action \<Rightarrow>
     simulation_error + simulation_state" where
  "simulate_deallocation lib state snapshot config action =
     (case action of
        Deallocate key adapter data requested \<Rightarrow>
          if requested = 0 then Inl InvalidAction
          else
            (case liquidity_configured config key of
               Some configured \<Rightarrow>
                 liquidity_deallocation state config configured key adapter data requested
             | None \<Rightarrow> direct_deallocation lib state snapshot config key adapter data requested)
      | Allocate _ _ _ _ \<Rightarrow> Inl InvalidAction)"

subsection \<open>Allocation\<close>

definition establish_first_total_assets ::
  "simulation_state \<Rightarrow> exact_vault_snapshot \<Rightarrow> projected_vault_view \<Rightarrow> simulation_error + u256" where
  "establish_first_total_assets state snapshot projection =
     (case ss_first_total_assets state of
        Some v \<Rightarrow> Inr v
      | None \<Rightarrow>
          try_let (adapter_real_assets state snapshot) (\<lambda>assets.
          try_let (map_err SimMath (accrue_parent_view
            ((sn_parent snapshot) \<lparr> pv_idle_assets := ss_vault_idle state \<rparr>) assets
            (br_timestamp (vw_head projection)))) (\<lambda>accrued.
          Inr (pr_total_assets accrued))))"

definition admit_cap ::
  "exact_vault_snapshot \<Rightarrow> u256 \<Rightarrow> i256 \<Rightarrow> (cap_ref, u256) btree_map \<Rightarrow> cap_ref \<Rightarrow>
     simulation_error + (cap_ref, u256) btree_map" where
  "admit_cap snapshot first_total_assets change ledger reference =
     try_let (ok_or (map_of ledger reference) IncompleteState) (\<lambda>old.
     try_let (apply_delta old change) (\<lambda>updated.
     try_let (ok_or (map_of (sn_caps snapshot) reference) IncompleteState) (\<lambda>cap.
     try_let (map_err (\<lambda>_. AllocationCap) (validate_allocation_cap cap first_total_assets updated))
       (\<lambda>_. Inr (bt_insert reference updated ledger)))))"

definition liquidity_allocation ::
  "simulation_state \<Rightarrow> exact_vault_snapshot \<Rightarrow> validated_vault_config \<Rightarrow> projected_vault_view \<Rightarrow>
     validated_liquidity_adapter_config \<Rightarrow> position_key \<Rightarrow> adapter_address \<Rightarrow> bytes \<Rightarrow> u256 \<Rightarrow>
     simulation_error + simulation_state" where
  "liquidity_allocation state snapshot config projection configured key adapter data requested =
     try_let (liquidity_action_checked configured adapter data requested) (\<lambda>_.
     try_let (establish_first_total_assets state snapshot projection) (\<lambda>first_total_assets.
     try_let (owned_liquidity_adapter state adapter) (\<lambda>current.
     try_let (map_err SimMath (v1_allocate current requested)) (\<lambda>transition.
     let reference = CapRef (va_address config) (lq_adapter_id current) in
     try_let (admit_cap snapshot first_total_assets (vt_allocation_change transition)
       (ss_cap_ledger state) reference) (\<lambda>ledger.
     try_let (ok_or (checked_sub (ss_vault_idle state) requested) InsufficientIdle) (\<lambda>idle.
     try_let (map_err SimLiquidity (credit (ss_shared_liquidity state) (va_asset config) requested))
       (\<lambda>shared.
     try_let (ok_or (checked_add (lq_real_assets current) requested) SimArithmetic) (\<lambda>invested.
     let local_loss = saturating_sub invested (vt_real_assets transition) in
     try_let (ok_or (checked_add (lq_max_withdraw current) requested) SimArithmetic) (\<lambda>max_withdraw.
     push_action
       \<lparr> ap_position = key, ap_requested_assets = requested,
         ap_changed_shares = vt_changed_morpho_shares transition,
         ap_expected_assets_after = vt_real_assets transition,
         ap_allocation_change = vt_allocation_change transition,
         ap_positive_loss_assets = local_loss \<rparr>
       (state \<lparr> ss_first_total_assets := Some first_total_assets, ss_cap_ledger := ledger,
          ss_vault_idle := idle, ss_shared_liquidity := shared,
          ss_liquidity_adapter := Some ((apply_v1_transition current transition
              (or_insert ledger reference 0))
            \<lparr> lq_max_deposit := saturating_sub (lq_max_deposit current) requested,
              lq_max_withdraw := max_withdraw \<rparr>) \<rparr>))))))))))"

definition direct_allocation ::
  "evm_lib \<Rightarrow> simulation_state \<Rightarrow> exact_vault_snapshot \<Rightarrow> validated_vault_config \<Rightarrow>
     projected_vault_view \<Rightarrow> position_key \<Rightarrow> adapter_address \<Rightarrow> bytes \<Rightarrow> u256 \<Rightarrow>
     simulation_error + simulation_state" where
  "direct_allocation lib state snapshot config projection key adapter data requested =
     try_let (configured_position lib config key adapter data) (\<lambda>_.
     try_let (ok_or (map_of (ss_positions state) key) IncompleteState) (\<lambda>position.
     if ps_mode position \<noteq> Active then Inl PositionMode
     else if map_of (sn_adapters snapshot) adapter = None then Inl IncompleteState
     else
       try_let (establish_first_total_assets state snapshot projection) (\<lambda>first_total_assets.
       try_let (ok_or (map_of (ss_markets state) (ps_market position)) IncompleteState) (\<lambda>market.
       try_let (ok_or (map_of (sn_markets snapshot) (ps_market position)) IncompleteState) (\<lambda>stored.
       try_let (map_err SimMath (allocate market (ps_internal_shares position) requested
         (ps_recorded_market_allocation position) (sm_fee stored) (ps_affected_caps position)))
         (\<lambda>transition.
       try_let (try_fold (admit_cap snapshot first_total_assets (at_allocation_change transition))
         (ss_cap_ledger state) (ps_affected_caps position)) (\<lambda>ledger.
       try_let (ok_or (checked_sub (ss_vault_idle state) requested) InsufficientIdle) (\<lambda>idle.
       try_let (map_err SimLiquidity (credit (ss_shared_liquidity state)
         (mp_loan_token (sm_params stored)) requested)) (\<lambda>shared.
       try_let (ok_or (checked_add (ps_expected_assets position) requested) SimArithmetic) (\<lambda>invested.
       let local_loss = saturating_sub invested (at_expected_assets transition) in
       push_action
         \<lparr> ap_position = key, ap_requested_assets = requested,
           ap_changed_shares = at_changed_shares transition,
           ap_expected_assets_after = at_expected_assets transition,
           ap_allocation_change = at_allocation_change transition,
           ap_positive_loss_assets = local_loss \<rparr>
         (state \<lparr> ss_first_total_assets := Some first_total_assets, ss_cap_ledger := ledger,
            ss_vault_idle := idle, ss_shared_liquidity := shared,
            ss_markets := bt_insert (ps_market position) (at_market transition) (ss_markets state),
            ss_positions := bt_insert key (updated_position position transition)
              (ss_positions state) \<rparr>)))))))))))"

definition simulate_allocation ::
  "evm_lib \<Rightarrow> simulation_state \<Rightarrow> exact_vault_snapshot \<Rightarrow> validated_vault_config \<Rightarrow>
     projected_vault_view \<Rightarrow> v2_action \<Rightarrow> simulation_error + simulation_state" where
  "simulate_allocation lib state snapshot config projection action =
     (case action of
        Allocate key adapter data requested \<Rightarrow>
          if requested = 0 then Inl InvalidAction
          else
            try_let (unreserved_idle state) (\<lambda>available.
            if requested > available then Inl InsufficientIdle
            else
              (case liquidity_configured config key of
                 Some configured \<Rightarrow>
                   liquidity_allocation state snapshot config projection configured key adapter data
                     requested
               | None \<Rightarrow>
                   direct_allocation lib state snapshot config projection key adapter data requested))
      | Deallocate _ _ _ _ \<Rightarrow> Inl InvalidAction)"

subsection \<open>Plans\<close>

record simulation_run =
  sr_state :: simulation_state
  sr_allocation_phase :: bool
  sr_touched :: "position_key list"

definition simulate_step ::
  "evm_lib \<Rightarrow> exact_vault_snapshot \<Rightarrow> projected_vault_view \<Rightarrow> validated_vault_config \<Rightarrow>
     simulation_run \<Rightarrow> v2_action \<Rightarrow> simulation_error + simulation_run" where
  "simulate_step lib snapshot projection config run action =
     (if \<not> is_allocation action \<and> sr_allocation_phase run then Inl InvalidAction
      else if act_position action \<in> set (sr_touched run) then Inl InvalidAction
      else
        try_let
          (if is_allocation action
           then simulate_allocation lib (sr_state run) snapshot config projection action
           else simulate_deallocation lib (sr_state run) snapshot config action) (\<lambda>state.
        Inr \<lparr> sr_state = state,
              sr_allocation_phase = (sr_allocation_phase run \<or> is_allocation action),
              sr_touched = bs_insert (act_position action) (sr_touched run) \<rparr>))"

definition simulate_actions ::
  "evm_lib \<Rightarrow> exact_vault_snapshot \<Rightarrow> projected_vault_view \<Rightarrow> validated_vault_config \<Rightarrow>
     v2_action list \<Rightarrow> simulation_error + simulation_state" where
  "simulate_actions lib snapshot projection config actions =
     try_let (from_projection snapshot projection) (\<lambda>state.
     try_let (try_fold (simulate_step lib snapshot projection config)
       \<lparr> sr_state = state, sr_allocation_phase = False, sr_touched = [] \<rparr> actions) (\<lambda>run.
     Inr (sr_state run)))"

subsection \<open>The effect of one action\<close>

text \<open>The cap references an action charges: its adapter's, or those of its position.\<close>

definition action_caps :: "validated_vault_config \<Rightarrow> simulation_state \<Rightarrow> v2_action \<Rightarrow> cap_ref list" where
  "action_caps config s a =
     (case liquidity_configured config (act_position a) of
        Some _ \<Rightarrow>
          (case ss_liquidity_adapter s of
             None \<Rightarrow> []
           | Some l \<Rightarrow> [CapRef (va_address config) (lq_adapter_id l)])
      | None \<Rightarrow>
          (case map_of (ss_positions s) (act_position a) of
             None \<Rightarrow> [] | Some p \<Rightarrow> ps_affected_caps p))"

definition token_holdings :: "simulation_state \<Rightarrow> nat" where
  "token_holdings s = ss_vault_idle s + sum_list (bt_values (ss_shared_liquidity s))"

definition recorded_action :: "v2_action \<Rightarrow> simulation_state \<Rightarrow> simulation_state \<Rightarrow> bool" where
  "recorded_action a s t \<longleftrightarrow>
     ss_locked_idle t = ss_locked_idle s \<and>
     (\<exists>p. ss_actions t = ss_actions s @ [p] \<and> ap_position p = act_position a \<and>
        ap_requested_assets p = act_requested_assets a \<and>
        ss_immediate_loss_assets t = ss_immediate_loss_assets s + ap_positive_loss_assets p)"

lemma push_action_Inr:
  "push_action p s = Inr t \<longleftrightarrow>
     ss_immediate_loss_assets s + ap_positive_loss_assets p < two256 \<and>
     t = s \<lparr> ss_immediate_loss_assets := ss_immediate_loss_assets s + ap_positive_loss_assets p,
              ss_actions := ss_actions s @ [p] \<rparr>"
  by (auto simp: push_action_def result_simps checked_ops)

lemma consume_total:
  assumes "consume l token x = Inr l'" and "bt_wf l"
  shows "bt_wf l' \<and> sum_list (bt_values l') + x = sum_list (bt_values l)"
proof -
  from assms(1) obtain r where "map_of l token = Some r" "x \<le> r" "l' = bt_insert token (r - x) l"
    by (auto simp: consume_def result_simps checked_ops)
  then show ?thesis
    using bt_total_insert [OF assms(2), of token "r - x"] assms(2)
    by (simp add: or_insert_def bt_wf_insert)
qed

lemma credit_total:
  assumes "credit l token x = Inr l'" and "bt_wf l"
  shows "bt_wf l' \<and> sum_list (bt_values l') = sum_list (bt_values l) + x"
proof -
  from assms(1) obtain r where "map_of l token = Some r" "l' = bt_insert token (r + x) l"
    by (auto simp: credit_def result_simps checked_ops)
  then show ?thesis
    using bt_total_insert [OF assms(2), of token "r + x"] assms(2)
    by (simp add: or_insert_def bt_wf_insert)
qed

text \<open>What both kinds of action do, whichever path executes them.\<close>

definition released :: "v2_action \<Rightarrow> simulation_state \<Rightarrow> simulation_state \<Rightarrow> bool" where
  "released a s t \<longleftrightarrow>
     ss_vault_idle t = ss_vault_idle s + act_requested_assets a \<and>
     ss_first_total_assets t = ss_first_total_assets s \<and>
     (\<exists>token. consume (ss_shared_liquidity s) token (act_requested_assets a)
        = Inr (ss_shared_liquidity t))"

definition invested :: "v2_action \<Rightarrow> simulation_state \<Rightarrow> simulation_state \<Rightarrow> bool" where
  "invested a s t \<longleftrightarrow>
     act_requested_assets a + ss_locked_idle s \<le> ss_vault_idle s \<and>
     ss_vault_idle s = ss_vault_idle t + act_requested_assets a \<and>
     (\<exists>token. credit (ss_shared_liquidity s) token (act_requested_assets a)
        = Inr (ss_shared_liquidity t))"

definition caps_kept :: "validated_vault_config \<Rightarrow> simulation_state \<Rightarrow> simulation_state \<Rightarrow> bool" where
  "caps_kept config s t \<longleftrightarrow> (\<forall>a. action_caps config t a = action_caps config s a)"

text \<open>The caps of an allocation are admitted against one total, the others keep their record.\<close>

definition caps_admitted ::
  "exact_vault_snapshot \<Rightarrow> cap_ref list \<Rightarrow> simulation_state \<Rightarrow> simulation_state \<Rightarrow> bool" where
  "caps_admitted snapshot refs s t \<longleftrightarrow>
     (\<exists>f. ss_first_total_assets t = Some f \<and> ss_first_total_assets s \<in> {None, Some f} \<and>
       (\<forall>r \<in> set refs. \<exists>cap v. map_of (sn_caps snapshot) r = Some cap \<and>
          map_of (ss_cap_ledger t) r = Some v \<and> cap_admits cap f v) \<and>
       (\<forall>r. r \<notin> set refs \<longrightarrow> map_of (ss_cap_ledger t) r = map_of (ss_cap_ledger s) r))"

lemma caps_keptI:
  assumes "\<And>k. map_option ps_affected_caps (map_of (ss_positions t) k)
      = map_option ps_affected_caps (map_of (ss_positions s) k)"
    and "map_option lq_adapter_id (ss_liquidity_adapter t)
      = map_option lq_adapter_id (ss_liquidity_adapter s)"
  shows "caps_kept config s t"
  unfolding caps_kept_def
proof
  fix a
  show "action_caps config t a = action_caps config s a"
    using assms(1) [of "act_position a"] assms(2)
    by (auto simp: action_caps_def split: option.splits)
qed

lemma owned_liquidity_adapter_Inr:
  "owned_liquidity_adapter s adapter = Inr l \<longleftrightarrow>
     ss_liquidity_adapter s = Some l \<and> lq_adapter l = adapter"
  by (auto simp: owned_liquidity_adapter_def result_simps)

lemma liquidity_deallocation_effect:
  assumes "liquidity_deallocation s config configured key adapter data requested = Inr t"
  defines "a \<equiv> Deallocate key adapter data requested"
  shows "recorded_action a s t \<and> released a s t \<and> caps_kept config s t"
  using assms(1)
  apply (simp add: liquidity_deallocation_def Let_def result_simps checked_ops push_action_Inr
      owned_liquidity_adapter_Inr)
  apply (elim conjE exE)
  apply hypsubst
  apply (auto simp: a_def recorded_action_def released_def apply_v1_transition_def
      intro: caps_keptI)
  done

lemma direct_deallocation_effect:
  assumes "direct_deallocation lib s snapshot config key adapter data requested = Inr t"
  defines "a \<equiv> Deallocate key adapter data requested"
  shows "recorded_action a s t \<and> released a s t \<and> caps_kept config s t"
  using assms(1)
  apply (simp add: direct_deallocation_def Let_def result_simps checked_ops push_action_Inr)
  apply (elim conjE exE)
  apply hypsubst
  apply (intro conjI)
    apply (simp add: a_def recorded_action_def)
   apply (auto simp: a_def released_def) [1]
  apply (rule caps_keptI)
   apply (simp_all add: updated_position_def)
  done

lemma simulate_deallocation_effect:
  assumes "simulate_deallocation lib s snapshot config a = Inr t"
  shows "act_requested_assets a \<noteq> 0 \<and> \<not> is_allocation a \<and> recorded_action a s t \<and> released a s t \<and>
    caps_kept config s t"
  using assms liquidity_deallocation_effect direct_deallocation_effect
  by (fastforce simp: simulate_deallocation_def is_allocation_def
      split: v2_action.splits option.splits if_splits)

lemma admit_cap_Inr:
  "admit_cap snapshot f change ledger r = Inr ledger' \<longleftrightarrow>
     (\<exists>old v cap. map_of ledger r = Some old \<and> apply_delta old change = Inr v \<and>
        map_of (sn_caps snapshot) r = Some cap \<and> cap_admits cap f v \<and>
        ledger' = bt_insert r v ledger)"
  by (auto simp: admit_cap_def result_simps validate_allocation_cap_Inr)

lemma admit_caps_fold:
  assumes "try_fold (admit_cap snapshot f change) ledger refs = Inr ledger'"
  shows "(\<forall>r \<in> set refs. \<exists>cap v. map_of (sn_caps snapshot) r = Some cap \<and>
      map_of ledger' r = Some v \<and> cap_admits cap f v) \<and>
    (\<forall>r. r \<notin> set refs \<longrightarrow> map_of ledger' r = map_of ledger r)"
  using assms
proof (induction refs arbitrary: ledger)
  case (Cons r refs)
  from Cons.prems obtain v cap where step: "map_of (sn_caps snapshot) r = Some cap" "cap_admits cap f v"
    "try_fold (admit_cap snapshot f change) (bt_insert r v ledger) refs = Inr ledger'"
    by (auto simp: result_simps admit_cap_Inr)
  show ?case
    using Cons.IH [OF step(3)] step(1,2) by (cases "r \<in> set refs") auto
qed simp

lemma establish_first_total_assets_Inr:
  "establish_first_total_assets s snapshot projection = Inr f \<Longrightarrow>
     ss_first_total_assets s \<in> {None, Some f}"
  by (auto simp: establish_first_total_assets_def split: option.splits)

lemma liquidity_allocation_effect:
  assumes "liquidity_allocation s snapshot config projection configured key adapter data requested
      = Inr t"
    and "liquidity_configured config key = Some configured"
    and "requested + ss_locked_idle s \<le> ss_vault_idle s"
  defines "a \<equiv> Allocate key adapter data requested"
  shows "recorded_action a s t \<and> invested a s t \<and> caps_kept config s t \<and>
    caps_admitted snapshot (action_caps config s a) s t"
  using assms(1-3)
  apply (simp add: liquidity_allocation_def Let_def result_simps checked_ops push_action_Inr
      owned_liquidity_adapter_Inr admit_cap_Inr)
  apply (elim conjE exE)
  apply hypsubst
  apply (intro conjI)
     apply (simp add: a_def recorded_action_def)
    apply (auto simp: a_def invested_def) [1]
   apply (simp add: caps_keptI apply_v1_transition_def)
  apply (drule establish_first_total_assets_Inr)
  apply (simp add: caps_admitted_def a_def action_caps_def)
  done

lemma direct_allocation_effect:
  assumes "direct_allocation lib s snapshot config projection key adapter data requested = Inr t"
    and "liquidity_configured config key = None"
    and "requested + ss_locked_idle s \<le> ss_vault_idle s"
  defines "a \<equiv> Allocate key adapter data requested"
  shows "recorded_action a s t \<and> invested a s t \<and> caps_kept config s t \<and>
    caps_admitted snapshot (action_caps config s a) s t"
  using assms(1-3)
  apply (simp add: direct_allocation_def Let_def result_simps checked_ops push_action_Inr)
  apply (elim conjE exE)
  apply hypsubst
  apply (intro conjI)
     apply (simp add: a_def recorded_action_def)
    apply (auto simp: a_def invested_def) [1]
   apply (rule caps_keptI)
    apply (simp_all add: updated_position_def) [2]
  apply (drule establish_first_total_assets_Inr, drule admit_caps_fold)
  apply (simp add: caps_admitted_def a_def action_caps_def)
  done

lemma simulate_allocation_effect:
  assumes "simulate_allocation lib s snapshot config projection a = Inr t"
  shows "act_requested_assets a \<noteq> 0 \<and> is_allocation a \<and> recorded_action a s t \<and> invested a s t \<and>
    caps_kept config s t \<and> caps_admitted snapshot (action_caps config s a) s t"
proof -
  from assms obtain k ad d r where a: "a = Allocate k ad d r" and r: "r \<noteq> 0"
    and idle: "r + ss_locked_idle s \<le> ss_vault_idle s"
    and run: "case liquidity_configured config k of
        Some configured \<Rightarrow> liquidity_allocation s snapshot config projection configured k ad d r = Inr t
      | None \<Rightarrow> direct_allocation lib s snapshot config projection k ad d r = Inr t"
    by (auto simp: simulate_allocation_def unreserved_idle_def result_simps checked_ops
        split: v2_action.splits if_splits option.splits)
  show ?thesis
    using run liquidity_allocation_effect [OF _ _ idle] direct_allocation_effect [OF _ _ idle]
    by (cases "liquidity_configured config k") (auto simp: a r is_allocation_def)
qed
subsection \<open>Runs\<close>

lemma simulate_step_effect:
  assumes "simulate_step lib snapshot projection config r a = Inr r'"
  shows "act_position a \<notin> set (sr_touched r) \<and> (sr_allocation_phase r \<longrightarrow> is_allocation a) \<and>
    sr_allocation_phase r' = (sr_allocation_phase r \<or> is_allocation a) \<and>
    set (sr_touched r') = insert (act_position a) (set (sr_touched r)) \<and>
    act_requested_assets a \<noteq> 0 \<and> recorded_action a (sr_state r) (sr_state r') \<and>
    caps_kept config (sr_state r) (sr_state r') \<and>
    (if is_allocation a
     then invested a (sr_state r) (sr_state r') \<and>
       caps_admitted snapshot (action_caps config (sr_state r) a) (sr_state r) (sr_state r')
     else released a (sr_state r) (sr_state r'))"
proof -
  from assms obtain s where s: "r' = \<lparr> sr_state = s,
        sr_allocation_phase = (sr_allocation_phase r \<or> is_allocation a),
        sr_touched = bs_insert (act_position a) (sr_touched r) \<rparr>"
    and guards: "act_position a \<notin> set (sr_touched r)" "sr_allocation_phase r \<longrightarrow> is_allocation a"
    and run: "(if is_allocation a
       then simulate_allocation lib (sr_state r) snapshot config projection a
       else simulate_deallocation lib (sr_state r) snapshot config a) = Inr s"
    by (auto simp: simulate_step_def result_simps split: if_splits)
  show ?thesis
    using run guards simulate_allocation_effect [of lib "sr_state r" snapshot config projection a s]
      simulate_deallocation_effect [of lib "sr_state r" snapshot config a s]
    by (cases "is_allocation a") (simp_all add: s)
qed

definition run_grammar :: "v2_action list \<Rightarrow> simulation_run \<Rightarrow> bool" where
  "run_grammar as r \<longleftrightarrow> action_grammar as \<and> set (sr_touched r) = act_position ` set as \<and>
     sr_allocation_phase r = (\<exists>a \<in> set as. is_allocation a)"

lemma run_grammar_step:
  assumes "run_grammar as r" and "simulate_step lib snapshot projection config r a = Inr r'"
  shows "run_grammar (as @ [a]) r'"
  using assms(1) simulate_step_effect [OF assms(2)]
  by (auto simp: run_grammar_def action_grammar_def sorted_wrt_append)

definition run_balance :: "simulation_state \<Rightarrow> v2_action list \<Rightarrow> simulation_run \<Rightarrow> bool" where
  "run_balance s as r \<longleftrightarrow>
     (let t = sr_state r in
      ss_vault_idle t + allocated_assets as = ss_vault_idle s + deallocated_assets as \<and>
      ss_locked_idle t = ss_locked_idle s \<and> ss_locked_idle t \<le> ss_vault_idle t \<and>
      bt_wf (ss_shared_liquidity t) \<and> token_holdings t = token_holdings s)"

lemma run_balance_step:
  assumes "run_balance s as r" and "simulate_step lib snapshot projection config r a = Inr r'"
  shows "run_balance s (as @ [a]) r'"
proof (cases "is_allocation a")
  case True
  then have e: "recorded_action a (sr_state r) (sr_state r')" "invested a (sr_state r) (sr_state r')"
    using simulate_step_effect [OF assms(2)] by simp_all
  then obtain token where "credit (ss_shared_liquidity (sr_state r)) token (act_requested_assets a)
      = Inr (ss_shared_liquidity (sr_state r'))" by (auto simp: invested_def)
  from credit_total [OF this] show ?thesis
    using assms(1) e True
    by (simp add: run_balance_def Let_def recorded_action_def invested_def token_holdings_def)
next
  case False
  then have e: "recorded_action a (sr_state r) (sr_state r')" "released a (sr_state r) (sr_state r')"
    using simulate_step_effect [OF assms(2)] by simp_all
  then obtain token where "consume (ss_shared_liquidity (sr_state r)) token (act_requested_assets a)
      = Inr (ss_shared_liquidity (sr_state r'))" by (auto simp: released_def)
  from consume_total [OF this] show ?thesis
    using assms(1) e False
    by (simp add: run_balance_def Let_def recorded_action_def released_def token_holdings_def)
qed

definition run_record :: "v2_action list \<Rightarrow> simulation_run \<Rightarrow> bool" where
  "run_record as r \<longleftrightarrow>
     (let t = sr_state r in
      map (\<lambda>p. (ap_position p, ap_requested_assets p)) (ss_actions t)
        = map (\<lambda>a. (act_position a, act_requested_assets a)) as \<and>
      ss_immediate_loss_assets t = sum_list (map ap_positive_loss_assets (ss_actions t)))"

lemma run_record_step:
  assumes "run_record as r" and "simulate_step lib snapshot projection config r a = Inr r'"
  shows "run_record (as @ [a]) r'"
proof -
  from simulate_step_effect [OF assms(2)] obtain p where
    "ss_actions (sr_state r') = ss_actions (sr_state r) @ [p]" "ap_position p = act_position a"
    "ap_requested_assets p = act_requested_assets a"
    "ss_immediate_loss_assets (sr_state r')
      = ss_immediate_loss_assets (sr_state r) + ap_positive_loss_assets p"
    by (auto simp: recorded_action_def)
  with assms(1) show ?thesis by (simp add: run_record_def Let_def)
qed

definition run_caps ::
  "exact_vault_snapshot \<Rightarrow> validated_vault_config \<Rightarrow> simulation_state \<Rightarrow> v2_action list \<Rightarrow>
     simulation_run \<Rightarrow> bool" where
  "run_caps snapshot config s as r \<longleftrightarrow>
     caps_kept config s (sr_state r) \<and>
     (sr_allocation_phase r = (\<exists>a \<in> set as. is_allocation a)) \<and>
     (\<forall>a \<in> set as. is_allocation a \<longrightarrow> (\<forall>c \<in> set (action_caps config s a).
        \<exists>cap f v. map_of (sn_caps snapshot) c = Some cap \<and>
          ss_first_total_assets (sr_state r) = Some f \<and>
          map_of (ss_cap_ledger (sr_state r)) c = Some v \<and> cap_admits cap f v))"

lemma run_caps_step:
  assumes "run_caps snapshot config s as r"
    and "simulate_step lib snapshot projection config r a = Inr r'"
  shows "run_caps snapshot config s (as @ [a]) r'"
proof -
  note e = simulate_step_effect [OF assms(2)]
  have kept: "caps_kept config s (sr_state r')"
    using e assms(1) by (auto simp: run_caps_def caps_kept_def)
  have phase: "sr_allocation_phase r' = (\<exists>b \<in> set (as @ [a]). is_allocation b)"
    using e assms(1) by (auto simp: run_caps_def)
  show ?thesis
  proof (cases "is_allocation a")
    case False
    then have "\<not> (\<exists>b \<in> set (as @ [a]). is_allocation b)"
      using e assms(1) by (auto simp: run_caps_def)
    then show ?thesis using kept phase by (simp add: run_caps_def)
  next
    case True
    have refs: "action_caps config (sr_state r) a = action_caps config s a"
      using assms(1) by (simp add: run_caps_def caps_kept_def)
    from e True obtain f where f: "ss_first_total_assets (sr_state r') = Some f"
      "ss_first_total_assets (sr_state r) \<in> {None, Some f}"
      "\<forall>c \<in> set (action_caps config s a). \<exists>cap v. map_of (sn_caps snapshot) c = Some cap \<and>
         map_of (ss_cap_ledger (sr_state r')) c = Some v \<and> cap_admits cap f v"
      "\<forall>c. c \<notin> set (action_caps config s a) \<longrightarrow>
         map_of (ss_cap_ledger (sr_state r')) c = map_of (ss_cap_ledger (sr_state r)) c"
      unfolding caps_admitted_def refs by auto
    have "\<exists>cap v. map_of (sn_caps snapshot) c = Some cap \<and>
        map_of (ss_cap_ledger (sr_state r')) c = Some v \<and> cap_admits cap f v"
      if "b \<in> set (as @ [a])" "is_allocation b" "c \<in> set (action_caps config s b)" for b c
    proof (cases "c \<in> set (action_caps config s a)")
      case True
      then show ?thesis using f(3) by blast
    next
      case False
      then have "b \<in> set as" using that by auto
      then show ?thesis
        using assms(1) that(2,3) f(2) f(4) False by (fastforce simp: run_caps_def)
    qed
    then show ?thesis using kept phase f(1) by (auto simp: run_caps_def)
  qed
qed

lemma sum_locks_from:
  "try_fold (\<lambda>t lock. ok_or (checked_add t (ls_remaining_assets lock)) SimArithmetic) k locks = Inr n \<Longrightarrow>
     n = k + sum_list (map ls_remaining_assets locks)"
  by (induction locks arbitrary: k) (fastforce simp: result_simps checked_ops)+

lemma register_fold_wf:
  assumes "try_fold (\<lambda>ledger market. map_err SimLiquidity (register ledger (g market) (h market))) l ms
      = Inr l'" and "bt_wf l"
  shows "bt_wf l'"
  using assms
  by (rule try_fold_invariant)
    (auto simp: register_def result_simps bt_wf_insert split: option.splits if_splits)

lemma from_projection_Inr:
  assumes "from_projection snapshot projection = Inr s"
  shows "ss_vault_idle s = pv_idle_assets (sn_parent snapshot) \<and>
    ss_locked_idle s = sum_list (map ls_remaining_assets (ll_locks (sn_idle_locks snapshot))) \<and>
    ss_locked_idle s \<le> ss_vault_idle s \<and> bt_wf (ss_shared_liquidity s) \<and>
    ss_first_total_assets s = None \<and> ss_actions s = [] \<and> ss_immediate_loss_assets s = 0 \<and>
    ll_verified (sn_idle_locks snapshot)"
  using assms
  by (auto simp: from_projection_def sum_locks_def result_simps not_less
      dest: sum_locks_from intro: register_fold_wf)

lemma simulate_actions_run:
  assumes "simulate_actions lib snapshot projection config as = Inr t"
  obtains s r where "from_projection snapshot projection = Inr s" and "sr_state r = t"
    and "run_grammar as r" and "run_balance s as r" and "run_record as r"
    and "run_caps snapshot config s as r"
proof -
  let ?step = "simulate_step lib snapshot projection config"
  from assms obtain s r where s: "from_projection snapshot projection = Inr s" and t: "sr_state r = t"
    and run: "try_fold ?step \<lparr> sr_state = s, sr_allocation_phase = False, sr_touched = [] \<rparr> as = Inr r"
    by (auto simp: simulate_actions_def result_simps)
  note s0 = from_projection_Inr [OF s]
  have "run_grammar as r" using run
    by (rule try_fold_prefix_induct [of ?step _ _ _ "run_grammar"])
      (simp add: run_grammar_def action_grammar_def, rule run_grammar_step)
  moreover have "run_balance s as r" using run
    by (rule try_fold_prefix_induct [of ?step _ _ _ "run_balance s"])
      (use s0 in \<open>simp add: run_balance_def\<close>, rule run_balance_step)
  moreover have "run_record as r" using run
    by (rule try_fold_prefix_induct [of ?step _ _ _ "run_record"])
      (use s0 in \<open>simp add: run_record_def\<close>, rule run_record_step)
  moreover have "run_caps snapshot config s as r" using run
    by (rule try_fold_prefix_induct [of ?step _ _ _ "run_caps snapshot config s"])
      (simp add: run_caps_def caps_kept_def, rule run_caps_step)
  ultimately show thesis using that s t by blast
qed

subsection \<open>What the service floors secure\<close>

lemma position_service_fold:
  assumes "try_fold (validate_position_service lib s snapshot config) g cs = Inr h"
  shows "(\<forall>c \<in> set cs. \<exists>p old. map_of (ss_positions s) (po_position_key c) = Some p \<and>
        map_of (sn_positions snapshot) (po_position_key c) = Some old \<and>
        (ps_expected_assets p = 0 \<or> po_minimum_position_assets c \<le> ps_expected_assets p) \<and>
        ps_expected_assets p \<le> po_maximum_position_assets c \<and>
        (dp_internal_supply_shares old \<noteq> 0 \<and> ps_internal_shares p = 0 \<longrightarrow>
           complete_exit_allowed lib s snapshot config c p)) \<and>
    fst h = fst g + sum_list (map (\<lambda>c. case map_of (ss_positions s) (po_position_key c) of
        None \<Rightarrow> 0 | Some p \<Rightarrow> ps_expected_assets p) cs)"
  using assms
proof (induction cs arbitrary: g)
  case (Cons c cs)
  from Cons.prems obtain g' where g': "validate_position_service lib s snapshot config g c = Inr g'"
    "try_fold (validate_position_service lib s snapshot config) g' cs = Inr h"
    by (auto simp: result_simps)
  have "\<exists>p old. map_of (ss_positions s) (po_position_key c) = Some p \<and>
        map_of (sn_positions snapshot) (po_position_key c) = Some old \<and>
        (ps_expected_assets p = 0 \<or> po_minimum_position_assets c \<le> ps_expected_assets p) \<and>
        ps_expected_assets p \<le> po_maximum_position_assets c \<and>
        (dp_internal_supply_shares old \<noteq> 0 \<and> ps_internal_shares p = 0 \<longrightarrow>
           complete_exit_allowed lib s snapshot config c p) \<and>
        fst g' = fst g + ps_expected_assets p"
    using g'(1) by (auto simp: validate_position_service_def result_simps checked_ops not_less)
  then show ?case
    using Cons.IH [OF g'(2)] by auto
qed simp

text \<open>The vault can pay out this amount at once through its liquidity adapter.\<close>

definition exit_executes ::
  "evm_lib \<Rightarrow> simulation_state \<Rightarrow> exact_vault_snapshot \<Rightarrow> validated_vault_config \<Rightarrow> u256 \<Rightarrow> bool" where
  "exit_executes lib s snapshot config x \<longleftrightarrow>
     (case ss_liquidity_adapter s of
        Some l \<Rightarrow> x \<le> lq_max_withdraw l \<and> x \<le> lq_real_assets l
      | None \<Rightarrow> \<exists>c p market stored balance.
          is_liquidity_config lib snapshot c \<and> c \<in> set (va_positions config) \<and>
          map_of (ss_positions s) (po_position_key c) = Some p \<and>
          map_of (ss_markets s) (ps_market p) = Some market \<and>
          map_of (sn_markets snapshot) (ps_market p) = Some stored \<and>
          map_of (ss_shared_liquidity s) (mp_loan_token (sm_params stored)) = Some balance \<and>
          is_ok (deallocate market (ps_internal_shares p) x (ps_recorded_market_allocation p) balance
            (sm_fee stored) (ps_affected_caps p)))"

lemma atomic_exit_coverage_executes:
  assumes "atomic_exit_coverage lib s snapshot config = Inr coverage"
  shows "\<exists>x. coverage = ss_vault_idle s + x \<and> (x = 0 \<or> exit_executes lib s snapshot config x)"
proof (cases "ss_liquidity_adapter s")
  case (Some l)
  then show ?thesis
    using assms by (auto simp: atomic_exit_coverage_def exit_executes_def result_simps checked_ops)
next
  case None
  from assms None obtain x where x: "coverage = ss_vault_idle s + x"
    "x = 0 \<or> (\<exists>c p market stored balance.
       find (is_liquidity_config lib snapshot) (va_positions config) = Some c \<and>
       map_of (ss_positions s) (po_position_key c) = Some p \<and>
       map_of (ss_markets s) (ps_market p) = Some market \<and>
       map_of (sn_markets snapshot) (ps_market p) = Some stored \<and>
       map_of (ss_shared_liquidity s) (mp_loan_token (sm_params stored)) = Some balance \<and>
       monotone_maximum SimArithmetic
         (min (min (ps_expected_assets p) (pm_accounting_liquidity market)) balance)
         (\<lambda>a. Inr (is_ok (deallocate market (ps_internal_shares p) a
            (ps_recorded_market_allocation p) balance (sm_fee stored) (ps_affected_caps p)))) = Inr x)"
    by (simp add: atomic_exit_coverage_def remaining_liquidity_def result_simps checked_ops
        split: if_splits) blast+
  show ?thesis
  proof (cases "x = 0")
    case False
    with x(2) obtain c p market stored balance where
      c: "find (is_liquidity_config lib snapshot) (va_positions config) = Some c"
      "map_of (ss_positions s) (po_position_key c) = Some p"
      "map_of (ss_markets s) (ps_market p) = Some market"
      "map_of (sn_markets snapshot) (ps_market p) = Some stored"
      "map_of (ss_shared_liquidity s) (mp_loan_token (sm_params stored)) = Some balance"
      and m: "monotone_maximum SimArithmetic
         (min (min (ps_expected_assets p) (pm_accounting_liquidity market)) balance)
         (\<lambda>a. Inr (is_ok (deallocate market (ps_internal_shares p) a
            (ps_recorded_market_allocation p) balance (sm_fee stored) (ps_affected_caps p)))) = Inr x"
      by blast
    have "is_liquidity_config lib snapshot c \<and> c \<in> set (va_positions config)"
      using c(1) by (auto simp: find_Some_iff)
    moreover have "is_ok (deallocate market (ps_internal_shares p) x
        (ps_recorded_market_allocation p) balance (sm_fee stored) (ps_affected_caps p))"
      using monotone_maximum_boundary [OF m] False by simp
    ultimately have "exit_executes lib s snapshot config x"
      using c(2-5) None unfolding exit_executes_def by auto
    then show ?thesis using x(1) by blast
  qed (use x(1) in simp)
qed
subsection \<open>Properties\<close>

definition witness_v1_snapshot :: exact_vault_snapshot where
  "witness_v1_snapshot = witness_snapshot
     \<lparr> sn_liquidity_adapter := Some witness_v1,
       sn_caps := [(CapRef 10 32, (witness_cap 32) \<lparr> cs_recorded_allocation := 500000 \<rparr>),
         (CapRef 10 50, witness_cap 50), (CapRef 10 51, witness_cap 51),
         (CapRef 10 52, witness_cap 52)] \<rparr>"

definition witness_view :: projected_vault_view where
  "witness_view =
     \<lparr> vw_base_snapshot_hash = 99, vw_head = witness_head, vw_markets = [(1, witness_projected)],
       vw_adapter_real_assets = [(30, 500000), (40, 500000000000)],
       vw_vault = \<lparr> pj_timestamp = 1000, pj_parent_total_assets = 500001000000,
         pj_projected_total_supply = 9000000000000,
         pj_fee_shares = \<lparr> fs_performance_fee_shares = 0,
           fs_management_fee_shares = 0 \<rparr>,
         pj_position_expected_assets = [(100, 500000000000)], pj_cap_catch_up = [],
         pj_max_executable_deposit_assets = 0, pj_atomic_exit_coverage_assets = 1000000 \<rparr>,
       vw_deposit_headroom_satisfied = True, vw_atomic_exit_coverage_satisfied = True,
       vw_source_constraints_satisfied = True \<rparr>"

lemmas evaluate_simulator =
  simulate_actions_def simulate_step_def simulate_deallocation_def simulate_allocation_def
  liquidity_deallocation_def direct_deallocation_def liquidity_allocation_def direct_allocation_def
  establish_first_total_assets_def admit_cap_def push_action_def owned_liquidity_adapter_def
  liquidity_configured_def liquidity_action_checked_def configured_position_def release_caps_def
  updated_position_def apply_v1_transition_def adapter_real_assets_def add_adapter_assets_def
  from_projection_def simulation_position_def sum_locks_def unreserved_idle_def register_def
  consume_def credit_def remaining_liquidity_def apply_delta_def is_allocation_def

lemma witness_plan_simulates:
  "is_ok (simulate_actions witness_lib witness_v1_snapshot witness_view witness_v1_config witness_actions)"
  by (simp add: evaluate_simulator evaluate_projection evaluate_v1 evaluate_caps virtual_shares_eq
      witness_v1_snapshot_def witness_v1_config_def witness_view_def witness_actions_def witness_v1_def
      witness_projected_def witness_data bt_values_def sgn_if less_cap_ref_def)

text \<open>
  C24. A simulated plan moves assets and creates none: the final idle balance plus what was allocated
  is the initial idle balance plus what was deallocated, the loan tokens held by the vault and by the
  shared market balances stay constant in total, and the idle assets under lock are never touched
  (the final idle balance still covers every lock of the snapshot).
\<close>

theorem simulation_conserves_assets:
  assumes "simulate_actions lib snapshot projection config actions = Inr t"
  shows "ss_vault_idle t + allocated_assets actions
      = pv_idle_assets (sn_parent snapshot) + deallocated_assets actions \<and>
    (\<exists>s. from_projection snapshot projection = Inr s \<and> token_holdings t = token_holdings s) \<and>
    sum_list (map ls_remaining_assets (ll_locks (sn_idle_locks snapshot))) \<le> ss_vault_idle t \<and>
    ll_verified (sn_idle_locks snapshot)"
proof -
  obtain s r where s: "from_projection snapshot projection = Inr s" and t: "sr_state r = t"
    and b: "run_balance s actions r"
    using assms by (rule simulate_actions_run)
  from from_projection_Inr [OF s] b show ?thesis
    using s t by (auto simp: run_balance_def Let_def)
qed

theorem simulation_conserves_assets_witness:
  "\<exists>t. simulate_actions witness_lib witness_v1_snapshot witness_view witness_v1_config witness_actions
      = Inr t \<and> ss_vault_idle t = 500000"
proof -
  obtain t where t: "simulate_actions witness_lib witness_v1_snapshot witness_view witness_v1_config
      witness_actions = Inr t"
    using witness_plan_simulates by (auto simp: is_ok_iff)
  then show ?thesis
    using simulation_conserves_assets [OF t]
    by (simp add: witness_actions_def allocated_assets_def deallocated_assets_def is_allocation_def
        witness_v1_snapshot_def witness_data)
qed

text \<open>
  C26. The simulator accepts only the plan grammar (deallocations before allocations, no position
  twice, no empty movement), records one projection per action in order, and reports as immediate
  loss exactly the sum of the positive losses of the actions.
\<close>

theorem simulation_enforces_grammar:
  assumes "simulate_actions lib snapshot projection config actions = Inr t"
  shows "action_grammar actions \<and>
    map (\<lambda>p. (ap_position p, ap_requested_assets p)) (ss_actions t)
      = map (\<lambda>a. (act_position a, act_requested_assets a)) actions \<and>
    ss_immediate_loss_assets t = sum_list (map ap_positive_loss_assets (ss_actions t))"
proof -
  obtain s r where "sr_state r = t" "run_grammar actions r" "run_record actions r"
    using assms by (rule simulate_actions_run)
  then show ?thesis by (auto simp: run_grammar_def run_record_def Let_def)
qed

theorem simulation_enforces_grammar_witness:
  "\<exists>t. simulate_actions witness_lib witness_v1_snapshot witness_view witness_v1_config witness_actions
      = Inr t \<and> length (ss_actions t) = 2"
proof -
  obtain t where t: "simulate_actions witness_lib witness_v1_snapshot witness_view witness_v1_config
      witness_actions = Inr t"
    using witness_plan_simulates by (auto simp: is_ok_iff)
  have "length (map (\<lambda>p. (ap_position p, ap_requested_assets p)) (ss_actions t)) = 2"
    using simulation_enforces_grammar [OF t] by (simp add: witness_actions_def)
  then show ?thesis using t by simp
qed

text \<open>
  C25. After a simulated plan every cap that an allocation charges admits its final recorded
  allocation against one first total of assets: caps shared by several allocations hold for their
  sum, and the total is fixed by the first allocation.
\<close>

theorem simulation_respects_caps:
  assumes "simulate_actions lib snapshot projection config actions = Inr t"
    and "from_projection snapshot projection = Inr s"
    and "a \<in> set actions" and "is_allocation a" and "c \<in> set (action_caps config s a)"
  shows "\<exists>cap f v. map_of (sn_caps snapshot) c = Some cap \<and> ss_first_total_assets t = Some f \<and>
    map_of (ss_cap_ledger t) c = Some v \<and> cap_admits cap f v"
proof -
  obtain s' r where "from_projection snapshot projection = Inr s'" "sr_state r = t"
    "run_caps snapshot config s' actions r"
    using assms(1) by (rule simulate_actions_run)
  then show ?thesis using assms(2-5) by (auto simp: run_caps_def)
qed

theorem simulation_respects_caps_witness:
  "\<exists>t f v. simulate_actions witness_lib witness_v1_snapshot witness_view witness_v1_config
      witness_actions = Inr t \<and> ss_first_total_assets t = Some f \<and>
    map_of (ss_cap_ledger t) (CapRef 10 51) = Some v \<and> cap_admits (witness_cap 51) f v"
proof -
  obtain t where t: "simulate_actions witness_lib witness_v1_snapshot witness_view witness_v1_config
      witness_actions = Inr t"
    using witness_plan_simulates by (auto simp: is_ok_iff)
  have caps: "is_ok (from_projection witness_v1_snapshot witness_view) \<and>
      (\<forall>s. from_projection witness_v1_snapshot witness_view = Inr s \<longrightarrow>
        CapRef 10 51 \<in> set (action_caps witness_v1_config s (witness_actions ! 1)))"
    by (simp add: from_projection_def simulation_position_def sum_locks_def register_def
        action_caps_def liquidity_configured_def Let_def witness_v1_snapshot_def witness_v1_config_def
        witness_view_def witness_actions_def witness_data bt_values_def evaluate_arith)
  then obtain s where s: "from_projection witness_v1_snapshot witness_view = Inr s"
    by (auto simp: is_ok_iff)
  have "witness_actions ! 1 \<in> set witness_actions" "is_allocation (witness_actions ! 1)"
    by (simp_all add: witness_actions_def is_allocation_def)
  then show ?thesis
    using simulation_respects_caps [OF t s] caps s t
    by (fastforce simp: witness_v1_snapshot_def witness_snapshot_def)
qed

lemmas evaluate_service =
  validate_service_constraints_def validate_position_service_def parent_total_assets_def
  maximum_executable_deposit_def atomic_exit_coverage_def complete_exit_allowed_def

end
