(* ===== verification/Episodes.thy ===== *)
theory Episodes
  imports Domain
begin

text \<open>
  Rate-signal episodes (\<open>src/planner/episodes.rs\<close>): a frozen direction of movement, its short
  confirmation, and the cumulative budget that plans reserve from, release and confirm.

  A method on \<open>&mut self\<close> returns the episode it leaves behind together with its result, because a
  \<open>?\<close> after an assignment keeps the assignment. \<open>BTreeSet\<close> is the sorted list of its members. The
  lemmas give the invariant of every reachable episode, and show that on such an episode the
  movement operations behave as an account without overflow.
\<close>

subsection \<open>Data\<close>

datatype rate_episode_state = Detecting | Immediate | Persistent | Complete

datatype rate_episode_stop_reason =
    TargetReached | ConfigOrTopologyChanged | StopDirectionChanged | ExpiredStalled
  | StopNonConsecutiveObservation | HigherPriorityPlan

record independent_rate_event =
  ie_transaction_hash :: b256
  ie_block :: block_ref

record rate_signal_episode =
  re_episode_id :: episode_id
  re_vault :: vault_address
  re_rate_group :: rate_group_id
  re_state :: rate_episode_state
  re_stop_reason :: "rate_episode_stop_reason option"
  re_objective_branch :: rate_objective_branch
  re_detection_block :: block_ref
  re_confirmation_block :: "block_ref option"
  re_last_observation_block :: "block_ref option"
  re_consecutive_observations :: u64
  re_config_revision :: b256
  re_topology_revision :: b256
  re_evaluation_markets :: "market_id list"
  re_controllable_markets :: "market_id list"
  re_source_markets :: "market_id list"
  re_destination_markets :: "market_id list"
  re_direction_hash :: b256
  re_baseline_desired_movement :: u256
  re_immediate_budget :: u256
  re_confirmed_movement :: u256
  re_pending_movement :: u256
  re_independent_events :: "independent_rate_event list"
  re_started_at :: u64
  re_expires_at :: u64

datatype episode_error =
    InvalidDirection | InvalidBudget | BudgetExceeded | DirectionChanged | EpisodeComplete
  | NonConsecutiveObservation | ObservationOverflow

type_synonym 'a episode_result = "rate_signal_episode \<times> (episode_error + 'a)"

subsection \<open>Operations\<close>

definition b256_bytes :: "b256 \<Rightarrow> bytes" where
  "b256_bytes h = be_bytes 32 (unat h)"

definition episode_direction ::
  "rate_objective_branch \<Rightarrow> b256 \<Rightarrow> b256 \<Rightarrow> market_id list \<Rightarrow> market_id list \<Rightarrow> bytes" where
  "episode_direction branch config_revision topology_revision sources destinations =
     concat (map (\<lambda>market. 0 # b256_bytes market) sources)
     @ concat (map (\<lambda>market. 1 # b256_bytes market) destinations)
     @ [word_of_nat (stable_code branch)]
     @ b256_bytes config_revision @ b256_bytes topology_revision"

definition episode_start ::
  "evm_lib \<Rightarrow> vault_address \<Rightarrow> rate_group_id \<Rightarrow> rate_objective_branch \<Rightarrow> block_ref \<Rightarrow> b256 \<Rightarrow> b256
    \<Rightarrow> market_id list \<Rightarrow> market_id list \<Rightarrow> market_id list \<Rightarrow> market_id list \<Rightarrow> u64 \<Rightarrow> u64
    \<Rightarrow> episode_error + rate_signal_episode" where
  "episode_start lib vault rate_group objective_branch detection_block config_revision
       topology_revision evaluation_markets controllable_markets source_markets
       destination_markets started_at expires_at =
     (if source_markets = [] \<or> destination_markets = []
         \<or> \<not> set source_markets \<inter> set destination_markets = {} \<or> expires_at \<le> started_at
      then Inl InvalidDirection
      else
        let direction = episode_direction objective_branch config_revision topology_revision
              source_markets destination_markets;
            identity = direction @ address_bytes vault @ b256_bytes rate_group
              @ be_bytes 8 (br_number detection_block)
        in Inr \<lparr>re_episode_id = keccak256 lib identity,
             re_vault = vault, re_rate_group = rate_group, re_state = Detecting,
             re_stop_reason = None, re_objective_branch = objective_branch,
             re_detection_block = detection_block, re_confirmation_block = None,
             re_last_observation_block = Some detection_block,
             re_consecutive_observations = 1,
             re_config_revision = config_revision, re_topology_revision = topology_revision,
             re_evaluation_markets = evaluation_markets,
             re_controllable_markets = controllable_markets,
             re_source_markets = source_markets, re_destination_markets = destination_markets,
             re_direction_hash = keccak256 lib direction,
             re_baseline_desired_movement = 0, re_immediate_budget = 0,
             re_confirmed_movement = 0, re_pending_movement = 0,
             re_independent_events = [], re_started_at = started_at, re_expires_at = expires_at\<rparr>)"

definition confirm_short :: "rate_signal_episode \<Rightarrow> block_ref \<Rightarrow> u256 \<Rightarrow> unit episode_result" where
  "confirm_short e block baseline =
     (if re_state e = Complete then (e, Inl EpisodeComplete)
      else if re_state e \<noteq> Detecting \<or> baseline = 0 then (e, Inl InvalidBudget)
      else (e\<lparr>re_baseline_desired_movement := baseline, re_immediate_budget := baseline,
              re_confirmation_block := Some block, re_last_observation_block := Some block,
              re_state := Immediate\<rparr>, Inr ()))"

definition observe_short_confirmation ::
  "rate_signal_episode \<Rightarrow> block_ref \<Rightarrow> u64 \<Rightarrow> u256 \<Rightarrow> bool episode_result" where
  "observe_short_confirmation e block required_opportunities baseline =
     (if re_state e = Complete then (e, Inl EpisodeComplete)
      else if re_state e \<noteq> Detecting then (e, Inr True)
      else
        let required_span = max required_opportunities 1;
            confirmed = (\<lambda>e. case confirm_short e block baseline of
              (e', Inl err) \<Rightarrow> (e', Inl err) | (e', Inr _) \<Rightarrow> (e', Inr True));
            previous = (case re_last_observation_block e of
              None \<Rightarrow> re_detection_block e | Some b \<Rightarrow> b)
        in if required_span \<le> re_consecutive_observations e then confirmed e
        else if block = previous then (e, Inr False)
        else if br_number block \<le> br_number previous
            \<or> br_timestamp block < br_timestamp previous
            \<or> br_number block = saturating_add64 (br_number previous) 1
              \<and> br_parent_hash block \<noteq> br_hash previous
        then (e, Inl NonConsecutiveObservation)
        else
          let e' = e\<lparr>re_last_observation_block := Some block\<rparr>
          in case Option.bind (checked_sub (br_number block) (br_number (re_detection_block e)))
               (\<lambda>distance. checked_add64 distance 1) of
            None \<Rightarrow> (e', Inl ObservationOverflow)
          | Some n \<Rightarrow>
              let e'' = e'\<lparr>re_consecutive_observations := n\<rparr>
              in if required_span \<le> n then confirmed e'' else (e'', Inr False))"

definition available_budget :: "rate_signal_episode \<Rightarrow> episode_error + u256" where
  "available_budget e =
     ok_or (Option.bind
       (checked_sub
         (case re_state e of
            Detecting \<Rightarrow> 0 | Complete \<Rightarrow> 0
          | Immediate \<Rightarrow> re_immediate_budget e
          | Persistent \<Rightarrow> re_baseline_desired_movement e)
         (re_confirmed_movement e))
       (\<lambda>v. checked_sub v (re_pending_movement e))) BudgetExceeded"

definition remaining_budget :: "rate_signal_episode \<Rightarrow> episode_error + u256" where
  "remaining_budget e =
     ok_or (Option.bind (checked_sub (re_baseline_desired_movement e) (re_confirmed_movement e))
       (\<lambda>v. checked_sub v (re_pending_movement e))) BudgetExceeded"

definition reserve_pending :: "rate_signal_episode \<Rightarrow> u256 \<Rightarrow> unit episode_result" where
  "reserve_pending e movement =
     (case available_budget e of
        Inl err \<Rightarrow> (e, Inl err)
      | Inr available \<Rightarrow>
          if available < movement then (e, Inl BudgetExceeded)
          else (case checked_add (re_pending_movement e) movement of
              None \<Rightarrow> (e, Inl BudgetExceeded)
            | Some pending \<Rightarrow> (e\<lparr>re_pending_movement := pending\<rparr>, Inr ())))"

definition release_pending :: "rate_signal_episode \<Rightarrow> u256 \<Rightarrow> unit episode_result" where
  "release_pending e movement =
     (case checked_sub (re_pending_movement e) movement of
        None \<Rightarrow> (e, Inl BudgetExceeded)
      | Some pending \<Rightarrow> (e\<lparr>re_pending_movement := pending\<rparr>, Inr ()))"

definition confirm_pending :: "rate_signal_episode \<Rightarrow> u256 \<Rightarrow> unit episode_result" where
  "confirm_pending e movement =
     (case checked_sub (re_pending_movement e) movement of
        None \<Rightarrow> (e, Inl BudgetExceeded)
      | Some pending \<Rightarrow>
          let e' = e\<lparr>re_pending_movement := pending\<rparr>
          in case checked_add (re_confirmed_movement e') movement of
            None \<Rightarrow> (e', Inl BudgetExceeded)
          | Some confirmed \<Rightarrow> (e'\<lparr>re_confirmed_movement := confirmed\<rparr>, Inr ()))"

definition reopen_confirmed :: "rate_signal_episode \<Rightarrow> u256 \<Rightarrow> u256 \<Rightarrow> unit episode_result" where
  "reopen_confirmed e movement budget_before =
     (case checked_sub (re_confirmed_movement e) movement of
        None \<Rightarrow> (e, Inl BudgetExceeded)
      | Some confirmed \<Rightarrow>
          let e1 = e\<lparr>re_confirmed_movement := confirmed\<rparr>
          in case checked_add (re_pending_movement e1) movement of
            None \<Rightarrow> (e1, Inl BudgetExceeded)
          | Some pending \<Rightarrow>
              let e2 = e1\<lparr>re_pending_movement := pending\<rparr>
              in case checked_sub (re_immediate_budget e2) (re_confirmed_movement e2) of
                None \<Rightarrow> (e2, Inl BudgetExceeded)
              | Some immediate_available_before \<Rightarrow>
                  (e2\<lparr>re_state := (if budget_before \<le> immediate_available_before then Immediate
                                   else Persistent),
                      re_stop_reason := None\<rparr>, Inr ()))"

definition unlock_persistent :: "rate_signal_episode \<Rightarrow> unit episode_result" where
  "unlock_persistent e =
     (if re_state e = Complete then (e, Inl EpisodeComplete)
      else (e\<lparr>re_state := Persistent\<rparr>, Inr ()))"

definition record_independent_event ::
  "rate_signal_episode \<Rightarrow> independent_rate_event \<Rightarrow> bool episode_result" where
  "record_independent_event e event =
     (if re_state e = Complete then (e, Inl EpisodeComplete)
      else case re_confirmation_block e of
        None \<Rightarrow> (e, Inl NonConsecutiveObservation)
      | Some confirmation \<Rightarrow>
          if br_number (ie_block event) \<le> br_number confirmation
          then (e, Inl NonConsecutiveObservation)
          else if \<exists>recorded \<in> set (re_independent_events e).
              ie_transaction_hash recorded = ie_transaction_hash event
          then (e, Inr False)
          else if re_independent_events e \<noteq> []
              \<and> (let last_block = ie_block (last (re_independent_events e)) in
                 br_number (ie_block event) < br_number last_block
                 \<or> br_number (ie_block event) = br_number last_block
                   \<and> br_hash (ie_block event) \<noteq> br_hash last_block
                 \<or> br_timestamp (ie_block event) < br_timestamp last_block)
          then (e, Inl NonConsecutiveObservation)
          else (e\<lparr>re_independent_events := re_independent_events e @ [event]\<rparr>, Inr True))"

definition independent_confirmation_ready :: "rate_signal_episode \<Rightarrow> nat \<Rightarrow> u64 \<Rightarrow> bool" where
  "independent_confirmation_ready e minimum_events minimum_span_seconds =
     (case re_independent_events e of
        [] \<Rightarrow> False
      | first # _ \<Rightarrow>
          length (re_independent_events e) < 2 ^ 32
          \<and> minimum_events \<le> length (re_independent_events e)
          \<and> minimum_span_seconds \<le> saturating_sub
              (br_timestamp (ie_block (last (re_independent_events e))))
              (br_timestamp (ie_block first)))"

definition rewind_independent_events :: "rate_signal_episode \<Rightarrow> block_ref \<Rightarrow> rate_signal_episode" where
  "rewind_independent_events e ancestor =
     e\<lparr>re_independent_events := filter (\<lambda>event.
         br_number (ie_block event) < br_number ancestor
         \<or> br_number (ie_block event) = br_number ancestor
           \<and> br_hash (ie_block event) = br_hash ancestor) (re_independent_events e)\<rparr>"

definition validate_direction ::
  "rate_signal_episode \<Rightarrow> rate_objective_branch \<Rightarrow> market_id list \<Rightarrow> market_id list
    \<Rightarrow> episode_error + unit" where
  "validate_direction e branch sources destinations =
     (if branch \<noteq> re_objective_branch e
         \<or> \<not> set sources \<subseteq> set (re_source_markets e)
         \<or> \<not> set destinations \<subseteq> set (re_destination_markets e)
         \<or> \<not> set sources \<inter> set destinations = {}
      then Inl DirectionChanged else Inr ())"

definition episode_complete ::
  "rate_signal_episode \<Rightarrow> rate_episode_stop_reason \<Rightarrow> rate_signal_episode" where
  "episode_complete e reason = e\<lparr>re_state := Complete, re_stop_reason := Some reason\<rparr>"


subsection \<open>The invariant of an episode\<close>

definition frozen_direction ::
  "rate_signal_episode \<Rightarrow> episode_id \<times> vault_address \<times> rate_group_id \<times> rate_objective_branch
    \<times> block_ref \<times> b256 \<times> b256 \<times> market_id list \<times> market_id list \<times> market_id list \<times> market_id list
    \<times> b256 \<times> u64 \<times> u64" where
  "frozen_direction e =
     (re_episode_id e, re_vault e, re_rate_group e, re_objective_branch e, re_detection_block e,
      re_config_revision e, re_topology_revision e, re_evaluation_markets e,
      re_controllable_markets e, re_source_markets e, re_destination_markets e,
      re_direction_hash e, re_started_at e, re_expires_at e)"

definition follows_event :: "independent_rate_event \<Rightarrow> independent_rate_event \<Rightarrow> bool" where
  "follows_event a b \<longleftrightarrow>
     ie_transaction_hash a \<noteq> ie_transaction_hash b
     \<and> br_number (ie_block a) \<le> br_number (ie_block b)
     \<and> br_timestamp (ie_block a) \<le> br_timestamp (ie_block b)
     \<and> (br_number (ie_block a) = br_number (ie_block b) \<longrightarrow>
          br_hash (ie_block a) = br_hash (ie_block b))"

definition budget_inv :: "rate_signal_episode \<Rightarrow> bool" where
  "budget_inv e \<longleftrightarrow>
     re_confirmed_movement e + re_pending_movement e \<le> re_baseline_desired_movement e
     \<and> re_baseline_desired_movement e < two256
     \<and> re_immediate_budget e = re_baseline_desired_movement e
     \<and> (re_state e = Detecting \<longrightarrow> re_baseline_desired_movement e = 0)"

definition event_inv :: "rate_signal_episode \<Rightarrow> bool" where
  "event_inv e \<longleftrightarrow>
     (re_state e = Detecting \<longrightarrow> re_confirmation_block e = None)
     \<and> (re_state e = Complete \<longleftrightarrow> re_stop_reason e \<noteq> None)
     \<and> sorted_wrt follows_event (re_independent_events e)
     \<and> (\<forall>v \<in> set (re_independent_events e).
          \<exists>c. re_confirmation_block e = Some c \<and> br_number c < br_number (ie_block v))"

definition episode_inv :: "rate_signal_episode \<Rightarrow> bool" where
  "episode_inv e \<longleftrightarrow> budget_inv e \<and> event_inv e"

text \<open>One call of a client, whatever its outcome; \<open>baseline\<close> is a \<open>U256\<close>.\<close>

inductive episode_step :: "rate_signal_episode \<Rightarrow> rate_signal_episode \<Rightarrow> bool" where
  Confirm_short: "baseline < two256 \<Longrightarrow> episode_step e (fst (confirm_short e block baseline))"
| Observe: "baseline < two256 \<Longrightarrow>
    episode_step e (fst (observe_short_confirmation e block required baseline))"
| Reserve: "episode_step e (fst (reserve_pending e movement))"
| Release: "episode_step e (fst (release_pending e movement))"
| Confirm: "episode_step e (fst (confirm_pending e movement))"
| Reopen: "episode_step e (fst (reopen_confirmed e movement budget_before))"
| Unlock: "episode_step e (fst (unlock_persistent e))"
| Record: "episode_step e (fst (record_independent_event e event))"
| Rewind: "episode_step e (rewind_independent_events e ancestor)"
| Finish: "episode_step e (episode_complete e reason)"

abbreviation episode_reachable :: "rate_signal_episode \<Rightarrow> rate_signal_episode \<Rightarrow> bool" where
  "episode_reachable \<equiv> rtranclp episode_step"

lemmas movement_defs =
  reserve_pending_def release_pending_def confirm_pending_def reopen_confirmed_def
  unlock_persistent_def available_budget_def Let_def

lemma confirm_short_keeps:
  "episode_inv e \<Longrightarrow> baseline < two256 \<Longrightarrow> episode_inv (fst (confirm_short e block baseline))"
  "frozen_direction (fst (confirm_short e block baseline)) = frozen_direction e"
  by (auto simp: confirm_short_def episode_inv_def budget_inv_def event_inv_def
      frozen_direction_def)

lemma observation_keeps:
  "episode_inv e \<Longrightarrow> episode_inv (e\<lparr>re_last_observation_block := b\<rparr>)"
  "episode_inv e \<Longrightarrow> episode_inv (e\<lparr>re_consecutive_observations := n\<rparr>)"
  by (simp_all add: episode_inv_def budget_inv_def event_inv_def)

lemma fst_mapped_result:
  "fst (case r of (e', Inl err) \<Rightarrow> (e', Inl err) | (e', Inr _) \<Rightarrow> (e', Inr v)) = fst r"
  by (cases r, cases "snd r") auto

lemma observe_short_confirmation_keeps:
  "episode_inv e \<Longrightarrow> baseline < two256 \<Longrightarrow>
     episode_inv (fst (observe_short_confirmation e block required baseline))"
  "frozen_direction (fst (observe_short_confirmation e block required baseline))
     = frozen_direction e"
  by (simp_all add: observe_short_confirmation_def Let_def fst_mapped_result observation_keeps
      confirm_short_keeps split: option.split) (simp_all add: frozen_direction_def)

lemma movement_keeps_inv:
  assumes "episode_inv e"
  shows "episode_inv (fst (reserve_pending e movement))"
    and "episode_inv (fst (release_pending e movement))"
    and "episode_inv (fst (confirm_pending e movement))"
    and "episode_inv (fst (reopen_confirmed e movement budget_before))"
    and "episode_inv (fst (unlock_persistent e))"
  using assms
  by (auto simp: movement_defs episode_inv_def budget_inv_def event_inv_def checked_ops
      result_simps bind_eq_Some_conv
      split: option.splits sum.splits rate_episode_state.splits)

lemma movement_keeps_direction:
  "frozen_direction (fst (reserve_pending e movement)) = frozen_direction e"
  "frozen_direction (fst (release_pending e movement)) = frozen_direction e"
  "frozen_direction (fst (confirm_pending e movement)) = frozen_direction e"
  "frozen_direction (fst (reopen_confirmed e movement budget_before)) = frozen_direction e"
  "frozen_direction (fst (unlock_persistent e)) = frozen_direction e"
  by (simp_all add: movement_defs frozen_direction_def split: option.split sum.split)


lemma follows_event_trans: "follows_event a b \<Longrightarrow> ie_transaction_hash a \<noteq> ie_transaction_hash c \<Longrightarrow>
  follows_event b c \<Longrightarrow> follows_event a c"
  by (auto simp: follows_event_def)

lemma append_event_ordered:
  assumes s: "sorted_wrt follows_event es" and l: "es \<noteq> [] \<longrightarrow> follows_event (last es) v"
    and d: "\<forall>r \<in> set es. ie_transaction_hash r \<noteq> ie_transaction_hash v"
  shows "sorted_wrt follows_event (es @ [v])"
proof (cases es rule: rev_cases)
  case (snoc xs x)
  then have "\<forall>r \<in> set xs. follows_event r x" and "follows_event x v"
    using s l by (auto simp: sorted_wrt_append)
  then have "\<forall>r \<in> set xs. follows_event r v"
    using d snoc by (auto intro: follows_event_trans)
  with s l snoc show ?thesis by (auto simp: sorted_wrt_append)
qed simp

lemma record_independent_event_changes:
  assumes ch: "fst (record_independent_event e v) \<noteq> e"
  shows "\<exists>c. re_confirmation_block e = Some c \<and> br_number c < br_number (ie_block v)"
    and "\<forall>r \<in> set (re_independent_events e). ie_transaction_hash r \<noteq> ie_transaction_hash v"
    and "re_independent_events e \<noteq> [] \<longrightarrow> follows_event (last (re_independent_events e)) v"
    and "fst (record_independent_event e v)
      = e\<lparr>re_independent_events := re_independent_events e @ [v]\<rparr>"
proof -
  have "re_state e \<noteq> Complete"
    using ch by (auto simp: record_independent_event_def)
  note ch1 = ch [unfolded record_independent_event_def if_not_P [OF this]]
  then obtain c where c: "re_confirmation_block e = Some c"
    by (cases "re_confirmation_block e") simp_all
  have b: "br_number c < br_number (ie_block v)"
    by (rule ccontr) (use ch1 c in simp)
  show "\<exists>c. re_confirmation_block e = Some c \<and> br_number c < br_number (ie_block v)"
    using b c by blast
  show new: "\<forall>r \<in> set (re_independent_events e). ie_transaction_hash r \<noteq> ie_transaction_hash v"
    by (rule ccontr) (use ch1 c in \<open>simp split: if_splits\<close>)
  show "re_independent_events e \<noteq> [] \<longrightarrow> follows_event (last (re_independent_events e)) v"
  proof (rule ccontr)
    assume "\<not> ?thesis"
    then have "re_independent_events e \<noteq> []" "\<not> follows_event (last (re_independent_events e)) v"
      by simp_all
    moreover from this new have "ie_transaction_hash (last (re_independent_events e)) \<noteq> ie_transaction_hash v"
      by (blast intro: last_in_set)
    ultimately have "re_independent_events e \<noteq> []
        \<and> (let last_block = ie_block (last (re_independent_events e)) in
             br_number (ie_block v) < br_number last_block
             \<or> br_number (ie_block v) = br_number last_block \<and> br_hash (ie_block v) \<noteq> br_hash last_block
             \<or> br_timestamp (ie_block v) < br_timestamp last_block)"
      by (simp add: follows_event_def not_le) metis
    from ch1 [unfolded if_P [OF this] c option.case] show False
      by simp
  qed
  show "fst (record_independent_event e v)
      = e\<lparr>re_independent_events := re_independent_events e @ [v]\<rparr>"
    using ch1 c b new \<open>re_state e \<noteq> Complete\<close>
    by (simp add: record_independent_event_def split: if_splits)
qed

lemma record_independent_event_keeps:
  "episode_inv e \<Longrightarrow> episode_inv (fst (record_independent_event e v))"
  "frozen_direction (fst (record_independent_event e v)) = frozen_direction e"
proof -
  assume e: "episode_inv e"
  show "episode_inv (fst (record_independent_event e v))"
  proof (cases "fst (record_independent_event e v) = e")
    case False
    note ch = record_independent_event_changes [OF False]
    have "sorted_wrt follows_event (re_independent_events e @ [v])"
      by (rule append_event_ordered [OF _ ch(3,2)]) (use e in \<open>simp add: episode_inv_def event_inv_def\<close>)
    then show ?thesis
      using e ch(1) by (auto simp: ch(4) episode_inv_def event_inv_def budget_inv_def)
  qed (use e in simp)
next
  show "frozen_direction (fst (record_independent_event e v)) = frozen_direction e"
  proof (cases "fst (record_independent_event e v) = e")
    case False
    show ?thesis
      unfolding record_independent_event_changes(4) [OF False] by (simp add: frozen_direction_def)
  qed simp
qed

lemma rewind_complete_keep:
  "episode_inv e \<Longrightarrow> episode_inv (rewind_independent_events e ancestor)"
  "episode_inv e \<Longrightarrow> episode_inv (episode_complete e reason)"
  "frozen_direction (rewind_independent_events e ancestor) = frozen_direction e"
  "frozen_direction (episode_complete e reason) = frozen_direction e"
  by (auto simp: rewind_independent_events_def episode_complete_def frozen_direction_def
      episode_inv_def budget_inv_def event_inv_def sorted_wrt_filter)

lemma episode_start_inv:
  "episode_start lib vault rate_group branch block config topology evaluation controllable sources
     destinations started expires = Inr e \<Longrightarrow> episode_inv e"
  by (auto simp: episode_start_def Let_def episode_inv_def budget_inv_def event_inv_def
      split: if_splits)

lemma episode_step_keeps:
  "episode_step e e' \<Longrightarrow> episode_inv e \<Longrightarrow> episode_inv e' \<and> frozen_direction e' = frozen_direction e"
  by (induction rule: episode_step.induct)
    (simp_all add: confirm_short_keeps observe_short_confirmation_keeps movement_keeps_inv
      movement_keeps_direction record_independent_event_keeps rewind_complete_keep)

lemma episode_reachable_keeps:
  "episode_reachable e e' \<Longrightarrow> episode_inv e \<Longrightarrow> episode_inv e' \<and> frozen_direction e' = frozen_direction e"
  by (induction rule: rtranclp_induct) (auto dest: episode_step_keeps)

subsection \<open>The movement account\<close>

text \<open>
  What an episode promises about movement: a limit frozen once, amounts that only pass between
  unreserved, pending and confirmed, and no reservation after completion.
\<close>

record movement_account =
  ma_limit :: nat
  ma_confirmed :: nat
  ma_pending :: nat
  ma_closed :: bool

datatype movement_command =
    ReserveMovement u256 | ReleaseMovement u256 | ConfirmMovement u256
  | ReopenMovement u256 u256 | UnlockMovement | CloseMovement rate_episode_stop_reason

definition account_step :: "movement_account \<Rightarrow> movement_command \<Rightarrow> movement_account option" where
  "account_step a c =
     (case c of
        ReserveMovement m \<Rightarrow>
          if ma_confirmed a + ma_pending a + m \<le> (if ma_closed a then 0 else ma_limit a)
          then Some (a\<lparr>ma_pending := ma_pending a + m\<rparr>) else None
      | ReleaseMovement m \<Rightarrow>
          if m \<le> ma_pending a then Some (a\<lparr>ma_pending := ma_pending a - m\<rparr>) else None
      | ConfirmMovement m \<Rightarrow>
          if m \<le> ma_pending a
          then Some (a\<lparr>ma_pending := ma_pending a - m, ma_confirmed := ma_confirmed a + m\<rparr>) else None
      | ReopenMovement m b \<Rightarrow>
          if m \<le> ma_confirmed a
          then Some (a\<lparr>ma_pending := ma_pending a + m, ma_confirmed := ma_confirmed a - m,
                       ma_closed := False\<rparr>) else None
      | UnlockMovement \<Rightarrow> if ma_closed a then None else Some a
      | CloseMovement r \<Rightarrow> Some (a\<lparr>ma_closed := True\<rparr>))"

text \<open>A durable owner works on a copy and drops it when the call fails.\<close>

definition settled :: "'a episode_result \<Rightarrow> episode_error + rate_signal_episode" where
  "settled r = map_sum id (\<lambda>_. fst r) (snd r)"

definition movement_step ::
  "rate_signal_episode \<Rightarrow> movement_command \<Rightarrow> episode_error + rate_signal_episode" where
  "movement_step e c =
     (case c of
        ReserveMovement m \<Rightarrow> settled (reserve_pending e m)
      | ReleaseMovement m \<Rightarrow> settled (release_pending e m)
      | ConfirmMovement m \<Rightarrow> settled (confirm_pending e m)
      | ReopenMovement m b \<Rightarrow> settled (reopen_confirmed e m b)
      | UnlockMovement \<Rightarrow> settled (unlock_persistent e)
      | CloseMovement r \<Rightarrow> Inr (episode_complete e r))"

definition episode_account :: "rate_signal_episode \<Rightarrow> movement_account" where
  "episode_account e =
     \<lparr>ma_limit = re_baseline_desired_movement e, ma_confirmed = re_confirmed_movement e,
      ma_pending = re_pending_movement e, ma_closed = (re_state e = Complete)\<rparr>"

lemma settled_eq_Inr [result_simps]: "settled r = Inr e \<longleftrightarrow> (\<exists>v. snd r = Inr v) \<and> e = fst r"
  by (cases "snd r") (auto simp: settled_def)

lemma movement_step_inv: "episode_inv e \<Longrightarrow> movement_step e c = Inr e' \<Longrightarrow> episode_inv e'"
  by (cases c) (auto simp: movement_step_def result_simps movement_keeps_inv rewind_complete_keep)

text \<open>Within the invariant the overflow checks never decide: each result is the account's.\<close>

lemma settled_reserve:
  assumes "budget_inv e"
  shows "settled (reserve_pending e m) =
    (if re_confirmed_movement e + re_pending_movement e + m
          \<le> (if re_state e = Complete then 0 else re_baseline_desired_movement e)
     then Inr (e\<lparr>re_pending_movement := re_pending_movement e + m\<rparr>) else Inl BudgetExceeded)"
  using assms
  by (cases "re_state e")
    (auto simp: settled_def reserve_pending_def available_budget_def budget_inv_def
      checked_sub_def checked_add_bound_def)

lemma settled_release:
  "settled (release_pending e m) =
    (if m \<le> re_pending_movement e
     then Inr (e\<lparr>re_pending_movement := re_pending_movement e - m\<rparr>) else Inl BudgetExceeded)"
  by (simp add: settled_def release_pending_def checked_sub_def)

lemma settled_confirm:
  assumes "budget_inv e"
  shows "settled (confirm_pending e m) =
    (if m \<le> re_pending_movement e
     then Inr (e\<lparr>re_pending_movement := re_pending_movement e - m,
                 re_confirmed_movement := re_confirmed_movement e + m\<rparr>)
     else Inl BudgetExceeded)"
  using assms
  by (simp add: settled_def confirm_pending_def Let_def budget_inv_def checked_sub_def
      checked_add_bound_def)

lemma settled_reopen:
  assumes "budget_inv e"
  shows "settled (reopen_confirmed e m b) =
    (if m \<le> re_confirmed_movement e
     then Inr (e\<lparr>re_confirmed_movement := re_confirmed_movement e - m,
                 re_pending_movement := re_pending_movement e + m,
                 re_state := (if b \<le> re_immediate_budget e - (re_confirmed_movement e - m)
                              then Immediate else Persistent),
                 re_stop_reason := None\<rparr>)
     else Inl BudgetExceeded)"
  using assms
  by (auto simp: settled_def reopen_confirmed_def Let_def budget_inv_def checked_sub_def
      checked_add_bound_def)

lemma settled_unlock:
  "settled (unlock_persistent e) =
    (if re_state e = Complete then Inl EpisodeComplete else Inr (e\<lparr>re_state := Persistent\<rparr>))"
  by (simp add: settled_def unlock_persistent_def)

lemma movement_step_simulates:
  assumes "episode_inv e"
  shows "map_option episode_account (to_option (movement_step e c)) = account_step (episode_account e) c"
proof -
  have b: "budget_inv e" using assms by (simp add: episode_inv_def)
  show ?thesis
    by (cases c)
      (simp_all add: movement_step_def account_step_def episode_account_def settled_reserve [OF b]
        settled_release settled_confirm [OF b] settled_reopen [OF b] settled_unlock
        episode_complete_def)
qed

interpretation episode_machine:
  machine_refinement movement_step "\<lambda>_. True" episode_inv episode_account account_step
  by unfold_locales (auto intro: movement_step_inv movement_step_simulates)


subsection \<open>Properties\<close>

text \<open>
  C6. Whatever calls an episode receives after it starts, failed ones included, its identity, markets,
  branch and revisions stay as frozen; what is confirmed and pending together never exceeds the
  baseline; it has a stop reason exactly when it is complete; and its independent events come from
  distinct transactions after the confirmation block, in canonical order.
\<close>

theorem episode_stays_within_budget:
  assumes "episode_start lib vault rate_group branch block config topology evaluation controllable
      sources destinations started expires = Inr e\<^sub>0"
    and "episode_reachable e\<^sub>0 e"
  shows "frozen_direction e = frozen_direction e\<^sub>0
    \<and> re_confirmed_movement e + re_pending_movement e \<le> re_baseline_desired_movement e
    \<and> (re_state e = Complete \<longleftrightarrow> re_stop_reason e \<noteq> None)
    \<and> sorted_wrt follows_event (re_independent_events e)
    \<and> (\<forall>v \<in> set (re_independent_events e).
         \<exists>c. re_confirmation_block e = Some c \<and> br_number c < br_number (ie_block v))"
  using episode_reachable_keeps [OF assms(2) episode_start_inv [OF assms(1)]]
  by (simp add: episode_inv_def budget_inv_def event_inv_def)

definition witness_block :: "nat \<Rightarrow> block_ref" where
  "witness_block n = \<lparr>br_number = n, br_hash = word_of_nat n, br_parent_hash = word_of_nat (n - 1),
     br_timestamp = 12 * n, br_gas_limit = 30000000\<rparr>"

definition witness_episode :: rate_signal_episode where
  "witness_episode = projr (episode_start witness_lib 1 2 Portfolio (witness_block 10) 3 4
     [5, 6] [5, 6] [5] [6] 120 7200)"

text \<open>The witness episode after confirmation with a budget of 100 and a reservation of 40.\<close>

definition witness_reserved :: rate_signal_episode where
  "witness_reserved =
     fst (reserve_pending (fst (observe_short_confirmation witness_episode (witness_block 11) 2 100)) 40)"

lemma witness_episode_start:
  "episode_start witness_lib 1 2 Portfolio (witness_block 10) 3 4 [5, 6] [5, 6] [5] [6] 120 7200
     = Inr witness_episode"
  by (simp add: witness_episode_def episode_start_def Let_def)

lemma witness_reserved_reachable: "episode_reachable witness_episode witness_reserved"
proof -
  have "episode_step witness_episode
      (fst (observe_short_confirmation witness_episode (witness_block 11) 2 100))"
    by (rule episode_step.Observe) (simp add: two_powers)
  then show ?thesis
    unfolding witness_reserved_def by (auto intro: rtranclp_trans episode_step.Reserve)
qed

lemma witness_reserved_values:
  "re_baseline_desired_movement witness_reserved = 100" "re_pending_movement witness_reserved = 40"
  "re_confirmed_movement witness_reserved = 0" "re_state witness_reserved = Immediate"
  by (simp_all add: witness_reserved_def witness_episode_def episode_start_def
      observe_short_confirmation_def confirm_short_def reserve_pending_def available_budget_def
      witness_block_def Let_def evaluate_arith)

theorem episode_stays_within_budget_witness:
  "re_pending_movement witness_reserved = 40
   \<and> re_confirmed_movement witness_reserved + re_pending_movement witness_reserved
       \<le> re_baseline_desired_movement witness_reserved"
  using episode_stays_within_budget [OF witness_episode_start witness_reserved_reachable]
  by (simp add: witness_reserved_values)



end
