(* ===== verification/StorageModel.thy ===== *)
theory StorageModel
  imports Episodes
begin

text \<open>
  The durable records of the storage actor (\<open>src/storage/models.rs\<close>, the row and state structures of
  \<open>src/storage/actor.rs\<close>, the topology index of \<open>src/state/topology.rs\<close> and the strategy memory of
  \<open>src/planner/top_k_apy.rs\<close>), with the lifecycle graph of a transaction. Each structure is a record
  whose fields carry a prefix.
\<close>

subsection \<open>Canonical chain\<close>

record canonical_block_record =
  cb_chain_id :: u64
  cb_block :: block_ref

record canonical_log_record =
  cl_chain_id :: u64
  cl_block_number :: u64
  cl_block_hash :: b256
  cl_transaction_hash :: b256
  cl_transaction_index :: u64
  cl_log_index :: u64
  cl_address :: address
  cl_topics :: "b256 option list"
  cl_data :: bytes

record canonical_receipt_record =
  cc_chain_id :: u64
  cc_transaction_hash :: b256
  cc_block_number :: u64
  cc_block_hash :: b256
  cc_transaction_index :: u64
  cc_status :: "u64 option"
  cc_gas_used :: u64
  cc_logs :: "canonical_log_record list"

subsection \<open>Expected effects and evidence\<close>

datatype expected_action_kind = ExpectedAllocate | ExpectedDeallocate

datatype expected_adapter_kind = DirectMarket | MorphoVaultV1Idle

record expected_action_record =
  ea_kind :: expected_action_kind
  ea_adapter_kind :: expected_adapter_kind
  ea_position :: position_key
  ea_adapter :: adapter_address
  ea_intermediary :: "address option"
  ea_market :: market_id
  ea_requested_assets :: u256
  ea_changed_shares :: u256
  ea_expected_assets_after :: u256
  ea_returned_cap_ids :: "b256 list"
  ea_allocation_change :: i256
  ea_positive_loss_assets :: u256

record conformance_record =
  cf_transaction_id :: transaction_id
  cf_transaction_hash :: b256
  cf_block_number :: u64
  cf_block_hash :: b256
  cf_action_count :: u64
  cf_movement_assets :: u256
  cf_positive_loss_assets :: u256
  cf_report_hash :: b256
  cf_validated_at :: u64

record reconciliation_record =
  rr_transaction_id :: transaction_id
  rr_snapshot_hash :: b256
  rr_block :: block_ref
  rr_current_rate_spread :: u256
  rr_service_constraints_met :: bool
  rr_next_plan_needed :: bool
  rr_pending_deployment_resolved :: bool
  rr_report_hash :: b256
  rr_reconciled_at :: u64

subsection \<open>The lifecycle of a transaction\<close>

datatype transaction_state =
    NonceReserved | AbortedBeforeSigning | Signed | Submitted | Replaced | CancellationSubmitted
  | Included | Confirmed | Reverted | Orphaned | ConformanceValidated | Reconciled | Failed
  | ForeignNonceConsumed | Cancelled | ReplacementSigned | CancellationSigned
  | ReconciliationPending

fun is_unresolved :: "transaction_state \<Rightarrow> bool" where
  "is_unresolved NonceReserved = True"
| "is_unresolved Signed = True"
| "is_unresolved Submitted = True"
| "is_unresolved Replaced = True"
| "is_unresolved ReplacementSigned = True"
| "is_unresolved CancellationSigned = True"
| "is_unresolved CancellationSubmitted = True"
| "is_unresolved Included = True"
| "is_unresolved Confirmed = True"
| "is_unresolved Orphaned = True"
| "is_unresolved ConformanceValidated = True"
| "is_unresolved ForeignNonceConsumed = True"
| "is_unresolved _ = False"

definition requires_reconciliation :: "transaction_state \<Rightarrow> bool" where
  "requires_reconciliation s \<longleftrightarrow> s = ConformanceValidated \<or> s = ReconciliationPending"

definition is_active_lifecycle :: "transaction_state \<Rightarrow> bool" where
  "is_active_lifecycle s \<longleftrightarrow> is_unresolved s \<or> s = ReconciliationPending"

definition permits :: "transaction_state \<Rightarrow> transaction_state \<Rightarrow> bool" where
  "permits s t =
     (case s of
        NonceReserved \<Rightarrow> t \<in> {AbortedBeforeSigning, Signed, Failed}
      | Signed \<Rightarrow> t \<in> {Submitted, CancellationSigned, CancellationSubmitted, ForeignNonceConsumed,
          Failed}
      | Submitted \<Rightarrow> t \<in> {ReplacementSigned, CancellationSigned, Replaced, CancellationSubmitted,
          Included, Reverted, ForeignNonceConsumed, Failed}
      | Replaced \<Rightarrow> t \<in> {ReplacementSigned, CancellationSigned, Replaced, CancellationSubmitted,
          Included, Reverted, Orphaned, ForeignNonceConsumed, Failed}
      | CancellationSubmitted \<Rightarrow> t \<in> {Included, Reverted, ForeignNonceConsumed, Failed, Cancelled}
      | ReplacementSigned \<Rightarrow> t \<in> {Replaced, Failed}
      | CancellationSigned \<Rightarrow> t \<in> {CancellationSubmitted, Failed}
      | Included \<Rightarrow> t \<in> {Confirmed, Reverted, Orphaned, Failed}
      | Confirmed \<Rightarrow> t \<in> {ConformanceValidated, Failed}
      | Orphaned \<Rightarrow> t \<in> {Submitted, CancellationSigned, CancellationSubmitted, Included, Reverted,
          ForeignNonceConsumed, Failed}
      | ConformanceValidated \<Rightarrow> t \<in> {Reconciled, Failed}
      | ReconciliationPending \<Rightarrow> t \<in> {Reconciled, Failed}
      | _ \<Rightarrow> False)"

record nonce_reservation =
  nr_transaction_id :: transaction_id
  nr_plan_id :: "plan_id option"
  nr_vault :: vault_address
  nr_signer :: address
  nr_nonce :: u64
  nr_calldata :: bytes
  nr_calldata_hash :: b256
  nr_max_fee_per_gas :: u256
  nr_max_priority_fee_per_gas :: u256
  nr_gas_limit :: u64
  nr_movement_assets :: u256
  nr_created_block :: u64
  nr_created_at :: u64

datatype rate_movement_reservation_state = MovementPending | MovementReleased | MovementConfirmed

record rate_movement_reservation_record =
  rm_reservation_id :: b256
  rm_transaction_id :: transaction_id
  rm_plan_id :: plan_id
  rm_episode_id :: episode_id
  rm_movement_assets :: u256
  rm_budget_before :: u256
  rm_budget_after :: u256
  rm_state :: rate_movement_reservation_state

record final_preflight_record =
  fp_preflight_id :: b256
  fp_plan_id :: plan_id
  fp_head :: block_ref
  fp_simulation_before_hash :: b256
  fp_simulation_after_hash :: b256
  fp_event_cursor_number :: u64
  fp_calldata_hash :: b256
  fp_gas_estimate :: u64
  fp_signed_gas_limit :: u64
  fp_expected_actions :: "expected_action_record list"
  fp_completed_monotonic_nanos :: u64
  fp_created_at :: u64

record signed_transaction_record =
  st_transaction_id :: transaction_id
  st_transaction_hash :: b256
  st_raw_signed_transaction :: bytes
  st_updated_at :: u64

datatype transaction_attempt_kind = Initial | Replacement | Cancellation

record signed_attempt_record =
  sa_transaction_id :: transaction_id
  sa_kind :: transaction_attempt_kind
  sa_transaction_hash :: b256
  sa_raw_signed_transaction :: bytes
  sa_max_fee_per_gas :: u256
  sa_max_priority_fee_per_gas :: u256
  sa_signed_at :: u64
  sa_signed_block :: u64
  sa_broadcast_at :: "u64 option"
  sa_last_broadcast_block :: "u64 option"

record transaction_transition =
  tt_transaction_id :: transaction_id
  tt_expected_state :: transaction_state
  tt_next_state :: transaction_state
  tt_transaction_hash :: "b256 option"
  tt_submitted_at :: "u64 option"
  tt_included_block :: "u64 option"
  tt_included_block_hash :: "b256 option"
  tt_updated_at :: u64

subsection \<open>Views\<close>

record pending_conformance =
  pc_reservation :: nonce_reservation
  pc_known_transaction_hashes :: "b256 list"
  pc_included_block :: u64
  pc_included_block_hash :: b256
  pc_inclusion_head :: block_ref
  pc_snapshot :: exact_vault_snapshot
  pc_plan :: v2_plan
  pc_expected_actions :: "expected_action_record list"

record pending_reconciliation_context =
  rc_plan_reason :: plan_reason
  rc_rate_movement :: "rate_movement_reservation_record option"
  rc_rate_episode :: "rate_signal_episode option"

record unresolved_transaction =
  ut_transaction_id :: transaction_id
  ut_vault :: vault_address
  ut_signer :: address
  ut_nonce :: u64
  ut_state :: transaction_state
  ut_transaction_hash :: "b256 option"
  ut_included_block :: "u64 option"
  ut_included_block_hash :: "b256 option"
  ut_raw_signed_transaction :: "bytes option"
  ut_calldata :: bytes
  ut_calldata_hash :: b256
  ut_known_transaction_hashes :: "b256 list"
  ut_current_max_fee_per_gas :: u256
  ut_current_max_priority_fee_per_gas :: u256
  ut_original_max_fee_per_gas :: u256
  ut_original_max_priority_fee_per_gas :: u256
  ut_gas_limit :: u64
  ut_plan :: "v2_plan option"
  ut_created_block :: u64
  ut_last_attempt_block :: u64
  ut_last_broadcast_block :: "u64 option"
  ut_last_attempt_kind :: transaction_attempt_kind

record pending_reconciliation_transaction =
  pr_transaction_id :: transaction_id
  pr_vault :: vault_address
  pr_signer :: address
  pr_nonce :: u64
  pr_state :: transaction_state
  pr_transaction_hash :: "b256 option"
  pr_included_block :: u64
  pr_included_block_hash :: b256

record durable_transaction_summary =
  ds_vault :: vault_address
  ds_transaction_hash :: b256
  ds_state :: transaction_state
  ds_included_block :: "u64 option"

record rewind_result =
  rw_blocks_orphaned :: u64
  rw_logs_orphaned :: u64
  rw_transactions_orphaned :: u64

subsection \<open>Topology and strategy memory\<close>

record adapter_topology =
  at_first_seen_block :: u64
  at_removed_at_block :: "u64 option"
  at_currently_enabled :: bool
  at_current_market_ids :: "market_id list"
  at_historical_market_ids :: "market_id list"
  at_sync_required_market_ids :: "market_id list"
  at_observed_external_donation_shares :: "(market_id, u256) btree_map"

record cap_id_data_entry =
  ci_id_data :: bytes
  ci_first_seen_block :: u64
  ci_last_seen_block :: u64

record configured_position_topology =
  ct_adapter :: adapter_address
  ct_market_id :: market_id

record topology_index =
  ti_vault :: vault_address
  ti_adapters :: "(adapter_address, adapter_topology) btree_map"
  ti_cap_id_data :: "(cap_id, cap_id_data_entry) btree_map"
  ti_pending_operations :: "(b256, pending_admin_operation) btree_map"
  ti_configured_positions :: "(position_key, configured_position_topology) btree_map"
  ti_receive_shares_gate :: address
  ti_send_shares_gate :: address
  ti_receive_assets_gate :: address
  ti_send_assets_gate :: address
  ti_performance_fee_recipient :: address
  ti_management_fee_recipient :: address

record top_k_apy_memory =
  tk_last_observed_block :: u64
  tk_last_observed_timestamp :: u64
  tk_generation :: u64
  tk_selected_markets :: "market_id list"
  tk_smoothed_rate_by_market :: "(market_id, u256) btree_map"
  tk_pending_selected_markets :: "market_id list"
  tk_pending_selection_since_timestamp :: "u64 option"
  tk_last_reconciled_rebalance_timestamp :: u64

subsection \<open>Durable state\<close>

record timed_snapshot =
  ts_snapshot :: exact_vault_snapshot
  ts_created_at :: u64

record timed_plan =
  tp_plan :: v2_plan
  tp_created_at :: u64

record topology_revision =
  tv_topology :: topology_index
  tv_block :: block_ref

record timed_episode =
  te_episode :: rate_signal_episode
  te_updated_at :: u64

record timed_top_k_apy_memory =
  tm_vault :: vault_address
  tm_memory :: top_k_apy_memory
  tm_updated_at :: u64

record transaction_row =
  tr_reservation :: nonce_reservation
  tr_state :: transaction_state
  tr_transaction_hash :: "b256 option"
  tr_raw_signed_transaction :: "bytes option"
  tr_submitted_at :: "u64 option"
  tr_included_block :: "u64 option"
  tr_included_block_hash :: "b256 option"
  tr_updated_at :: u64

record json_state =
  js_format_version :: nat
  js_revision :: u64
  js_canonical_blocks :: "canonical_block_record list"
  js_canonical_logs :: "canonical_log_record list"
  js_canonical_receipts :: "canonical_receipt_record list"
  js_chain_cursors :: "(u64, block_ref) btree_map"
  js_exact_snapshots :: "timed_snapshot list"
  js_plans :: "timed_plan list"
  js_final_preflights :: "final_preflight_record list"
  js_transactions :: "transaction_row list"
  js_rate_movement_reservations :: "rate_movement_reservation_record list"
  js_transaction_attempts :: "signed_attempt_record list"
  js_conformance_records :: "conformance_record list"
  js_reconciliation_records :: "reconciliation_record list"
  js_topology_history :: "topology_revision list"
  js_rate_episodes :: "timed_episode list"
  js_top_k_apy_memory :: "timed_top_k_apy_memory list"

definition JSON_FORMAT_VERSION :: nat where "JSON_FORMAT_VERSION = 4"

definition json_state_default :: json_state where
  "json_state_default =
     \<lparr>js_format_version = JSON_FORMAT_VERSION, js_revision = 0, js_canonical_blocks = [],
      js_canonical_logs = [], js_canonical_receipts = [], js_chain_cursors = [],
      js_exact_snapshots = [], js_plans = [], js_final_preflights = [], js_transactions = [],
      js_rate_movement_reservations = [], js_transaction_attempts = [],
      js_conformance_records = [], js_reconciliation_records = [], js_topology_history = [],
      js_rate_episodes = [], js_top_k_apy_memory = []\<rparr>"

datatype storage_error =
    Io | Json | FormatVersion nat nat | DatabaseLocked | ActorStopped | CommandTimeout
  | InputTooLarge string u64 u64 | ActorPanicked | StorageInvariant string | NumericRange string
  | UnresolvedLane address | MultipleUnresolved address
  | InvalidTransition transaction_state transaction_state | StaleTransition

subsection \<open>The lifecycle graph\<close>

text \<open>
  A permitted edge never leaves a state that is final for the transaction, and an edge into a
  state that owns the signer's lane starts from one that owns it: the lane is released once.
\<close>

lemma permits_from_lane: "permits s t \<Longrightarrow> is_unresolved t \<Longrightarrow> is_unresolved s"
  by (cases s) (auto simp: permits_def)

lemma permits_source_active: "permits s t \<Longrightarrow> is_active_lifecycle s"
  by (cases s) (auto simp: permits_def is_active_lifecycle_def)

text \<open>Every state with a permitted successor can be abandoned.\<close>

lemma permits_Failed: "permits s t \<Longrightarrow> permits s Failed"
  by (cases s) (auto simp: permits_def)

end
