(* ===== verification/Storage.thy ===== *)
theory Storage
  imports StorageModel "HOL-Library.Product_Lexorder"
begin

text \<open>
  The storage actor (\<open>src/storage/actor.rs\<close>): every durable mutation, the commit that surrounds it,
  compaction and migration, and the queries of the actor's mailbox.

  A mutation runs on a clone of the state that \<open>commit\<close> drops when the mutation fails, so a mutation
  is a function to \<open>storage_error + json_state\<close>. Files, fsync and JSON patches are outside the model:
  \<open>commit\<close> takes their outcome as an argument. \<open>BTreeSet\<close> is the sorted list of its members.
\<close>

subsection \<open>Lists\<close>

primrec update_first :: "('a \<Rightarrow> bool) \<Rightarrow> ('a \<Rightarrow> 'a) \<Rightarrow> 'a list \<Rightarrow> 'a list" where
  "update_first p f [] = []"
| "update_first p f (x # xs) = (if p x then f x # xs else x # update_first p f xs)"

text \<open>\<open>Iterator::max_by_key\<close> keeps the last of several maximal elements.\<close>

primrec max_by_key :: "('a \<Rightarrow> 'k::linorder) \<Rightarrow> 'a list \<Rightarrow> 'a option" where
  "max_by_key f [] = None"
| "max_by_key f (x # xs) =
     (case max_by_key f xs of
        None \<Rightarrow> Some x | Some y \<Rightarrow> Some (if f x \<le> f y then y else x))"

definition bset :: "'a::linorder list \<Rightarrow> 'a list" where
  "bset xs = sort (remdups xs)"

definition min_of :: "'a::linorder list \<Rightarrow> 'a option" where
  "min_of xs = (if xs = [] then None else Some (Min (set xs)))"

definition max_of :: "'a::linorder list \<Rightarrow> 'a option" where
  "max_of xs = (if xs = [] then None else Some (Max (set xs)))"

lemma set_bset [simp]: "set (bset xs) = set xs"
  by (simp add: bset_def)

subsection \<open>Canonical chain\<close>

definition log_of_receipt :: "canonical_receipt_record \<Rightarrow> canonical_log_record \<Rightarrow> bool" where
  "log_of_receipt receipt l \<longleftrightarrow>
     cl_chain_id l = cc_chain_id receipt \<and> cl_block_number l = cc_block_number receipt
     \<and> cl_block_hash l = cc_block_hash receipt
     \<and> cl_transaction_hash l = cc_transaction_hash receipt
     \<and> cl_transaction_index l = cc_transaction_index receipt"

definition apply_block ::
  "json_state \<Rightarrow> canonical_block_record \<Rightarrow> canonical_log_record list
    \<Rightarrow> canonical_receipt_record list \<Rightarrow> storage_error + json_state" where
  "apply_block s block logs receipts =
     (if \<exists>l \<in> set logs. cl_chain_id l \<noteq> cb_chain_id block
           \<or> cl_block_number l \<noteq> br_number (cb_block block)
           \<or> cl_block_hash l \<noteq> br_hash (cb_block block)
      then Inl (StorageInvariant ''canonical log does not belong to block'')
      else if \<exists>r \<in> set receipts. cc_chain_id r \<noteq> cb_chain_id block
           \<or> cc_block_number r \<noteq> br_number (cb_block block)
           \<or> cc_block_hash r \<noteq> br_hash (cb_block block)
           \<or> (\<exists>l \<in> set (cc_logs r). \<not> log_of_receipt r l)
      then Inl (StorageInvariant ''canonical receipt does not belong to block'')
      else if \<not> successively (\<lambda>a b. cc_transaction_index a < cc_transaction_index b) receipts
      then Inl (StorageInvariant ''canonical receipts are not strictly ordered'')
      else Inr (s\<lparr>
        js_canonical_blocks := filter (\<lambda>x. cb_chain_id x \<noteq> cb_chain_id block
            \<or> br_number (cb_block x) \<noteq> br_number (cb_block block)) (js_canonical_blocks s) @ [block],
        js_canonical_logs := filter (\<lambda>x. cl_chain_id x \<noteq> cb_chain_id block
            \<or> cl_block_number x \<noteq> br_number (cb_block block)) (js_canonical_logs s) @ logs,
        js_canonical_receipts := filter (\<lambda>x. cc_chain_id x \<noteq> cb_chain_id block
            \<or> cc_block_number x \<noteq> br_number (cb_block block)) (js_canonical_receipts s) @ receipts,
        js_chain_cursors := bt_insert (cb_chain_id block) (cb_block block) (js_chain_cursors s)\<rparr>))"

definition persist_canonical_receipt ::
  "json_state \<Rightarrow> canonical_receipt_record \<Rightarrow> storage_error + json_state" where
  "persist_canonical_receipt s receipt =
     (if \<not> (\<exists>b \<in> set (js_canonical_blocks s). cb_chain_id b = cc_chain_id receipt
            \<and> br_number (cb_block b) = cc_block_number receipt
            \<and> br_hash (cb_block b) = cc_block_hash receipt)
         \<or> (\<exists>l \<in> set (cc_logs receipt). \<not> log_of_receipt receipt l)
         \<or> \<not> successively (\<lambda>a b. cl_log_index a < cl_log_index b) (cc_logs receipt)
      then Inl (StorageInvariant ''direct receipt is not bound to a canonical block'')
      else case find (\<lambda>x. cc_transaction_hash x = cc_transaction_hash receipt)
          (js_canonical_receipts s) of
        Some existing \<Rightarrow>
          if existing = receipt then Inr s
          else Inl (StorageInvariant ''canonical receipt identity changed'')
      | None \<Rightarrow>
          if \<exists>x \<in> set (js_canonical_receipts s). cc_chain_id x = cc_chain_id receipt
              \<and> cc_block_number x = cc_block_number receipt
              \<and> cc_transaction_index x = cc_transaction_index receipt
          then Inl (StorageInvariant ''canonical receipt transaction index is duplicated'')
          else Inr (s\<lparr>js_canonical_receipts := js_canonical_receipts s @ [receipt]\<rparr>))"

subsection \<open>Snapshots, plans, preflights, topology, episodes and strategy memory\<close>

definition push_snapshot :: "json_state \<Rightarrow> exact_vault_snapshot \<Rightarrow> u64 \<Rightarrow> json_state" where
  "push_snapshot s snapshot created_at =
     (if \<forall>entry \<in> set (js_exact_snapshots s).
           sn_snapshot_hash (ts_snapshot entry) \<noteq> sn_snapshot_hash snapshot
      then s\<lparr>js_exact_snapshots := js_exact_snapshots s
             @ [\<lparr>ts_snapshot = snapshot, ts_created_at = created_at\<rparr>]\<rparr>
      else s)"

definition persist_snapshot ::
  "json_state \<Rightarrow> exact_vault_snapshot \<Rightarrow> u64 \<Rightarrow> storage_error + json_state" where
  "persist_snapshot s snapshot created_at = Inr (push_snapshot s snapshot created_at)"

definition find_plan :: "json_state \<Rightarrow> plan_id \<Rightarrow> v2_plan option" where
  "find_plan s plan_id =
     map_option tp_plan (find (\<lambda>entry. pl_plan_id (tp_plan entry) = plan_id) (js_plans s))"

definition persist_plan :: "json_state \<Rightarrow> v2_plan \<Rightarrow> u64 \<Rightarrow> storage_error + json_state" where
  "persist_plan s plan created_at =
     (if \<not> (\<exists>entry \<in> set (js_exact_snapshots s).
            let snapshot = ts_snapshot entry; context = sn_context snapshot in
            pv_vault (sn_parent snapshot) = pl_vault plan
            \<and> br_number (sc_block context) = br_number (sc_block (pl_snapshot plan))
            \<and> br_hash (sc_block context) = br_hash (sc_block (pl_snapshot plan))
            \<and> sc_static_config_revision context = pl_config_revision plan
            \<and> sc_dynamic_topology_revision context = pl_topology_revision plan)
      then Inl (StorageInvariant ''plan references a snapshot that is not durable'')
      else case find_plan s (pl_plan_id plan) of
        Some existing \<Rightarrow>
          if existing = plan then Inr s
          else Inl (StorageInvariant ''conflicting plan identity'')
      | None \<Rightarrow> Inr (s\<lparr>js_plans := js_plans s
                      @ [\<lparr>tp_plan = plan, tp_created_at = created_at\<rparr>]\<rparr>))"

definition persist_final_preflight ::
  "json_state \<Rightarrow> final_preflight_record \<Rightarrow> storage_error + json_state" where
  "persist_final_preflight s record =
     (if \<not> (\<exists>entry \<in> set (js_plans s). pl_plan_id (tp_plan entry) = fp_plan_id record)
      then Inl (StorageInvariant ''preflight references unknown plan'')
      else case find (\<lambda>x. fp_preflight_id x = fp_preflight_id record) (js_final_preflights s) of
        Some existing \<Rightarrow>
          if existing = record then Inr s
          else Inl (StorageInvariant ''conflicting preflight identity'')
      | None \<Rightarrow> Inr (s\<lparr>js_final_preflights := js_final_preflights s @ [record]\<rparr>))"

definition persist_topology ::
  "json_state \<Rightarrow> topology_index \<Rightarrow> block_ref \<Rightarrow> storage_error + json_state" where
  "persist_topology s topology block =
     Inr (s\<lparr>js_topology_history :=
       filter (\<lambda>entry. ti_vault (tv_topology entry) \<noteq> ti_vault topology
         \<or> br_hash (tv_block entry) \<noteq> br_hash block) (js_topology_history s)
       @ [\<lparr>tv_topology = topology, tv_block = block\<rparr>]\<rparr>)"

definition persist_episode ::
  "json_state \<Rightarrow> rate_signal_episode \<Rightarrow> u64 \<Rightarrow> storage_error + json_state" where
  "persist_episode s episode updated_at =
     (if re_state episode \<noteq> Complete
         \<and> (\<exists>entry \<in> set (js_rate_episodes s).
              re_vault (te_episode entry) = re_vault episode
              \<and> re_rate_group (te_episode entry) = re_rate_group episode
              \<and> re_state (te_episode entry) \<noteq> Complete
              \<and> re_episode_id (te_episode entry) \<noteq> re_episode_id episode)
      then Inl (StorageInvariant ''multiple active rate episodes'')
      else
        let fresh = \<lparr>te_episode = episode, te_updated_at = updated_at\<rparr>;
            same = (\<lambda>entry. re_episode_id (te_episode entry) = re_episode_id episode)
        in Inr (s\<lparr>js_rate_episodes :=
          (if find same (js_rate_episodes s) \<noteq> None
           then update_first same (\<lambda>_. fresh) (js_rate_episodes s)
           else js_rate_episodes s @ [fresh])\<rparr>))"

definition persist_top_k_apy_memory ::
  "json_state \<Rightarrow> vault_address \<Rightarrow> top_k_apy_memory \<Rightarrow> u64 \<Rightarrow> storage_error + json_state" where
  "persist_top_k_apy_memory s vault memory updated_at =
     (if updated_at < tk_last_observed_timestamp memory
      then Inl (StorageInvariant ''top-K memory timestamp exceeds durable update timestamp'')
      else Inr (s\<lparr>js_top_k_apy_memory :=
        sort_key (\<lambda>entry. (tm_vault entry, tk_last_observed_block (tm_memory entry),
            tm_updated_at entry))
          (filter (\<lambda>entry. tm_vault entry \<noteq> vault
             \<or> tk_last_observed_block (tm_memory entry) \<noteq> tk_last_observed_block memory)
             (js_top_k_apy_memory s)
           @ [\<lparr>tm_vault = vault, tm_memory = memory, tm_updated_at = updated_at\<rparr>])\<rparr>))"


subsection \<open>Reservations\<close>

definition has_id :: "transaction_id \<Rightarrow> transaction_row \<Rightarrow> bool" where
  "has_id tid row \<longleftrightarrow> nr_transaction_id (tr_reservation row) = tid"

definition find_row :: "json_state \<Rightarrow> transaction_id \<Rightarrow> transaction_row option" where
  "find_row s tid = find (has_id tid) (js_transactions s)"

definition update_row ::
  "transaction_id \<Rightarrow> (transaction_row \<Rightarrow> transaction_row) \<Rightarrow> json_state \<Rightarrow> json_state" where
  "update_row tid f s = s\<lparr>js_transactions := update_first (has_id tid) f (js_transactions s)\<rparr>"

definition reserve_nonce ::
  "evm_lib \<Rightarrow> json_state \<Rightarrow> nonce_reservation \<Rightarrow> storage_error + json_state" where
  "reserve_nonce lib s r =
     (if nr_calldata_hash r \<noteq> keccak256 lib (nr_calldata r)
      then Inl (StorageInvariant ''nonce reservation calldata hash mismatch'')
      else if \<exists>row \<in> set (js_transactions s).
          nr_signer (tr_reservation row) = nr_signer r \<and> is_unresolved (tr_state row)
      then Inl (UnresolvedLane (nr_signer r))
      else if \<exists>row \<in> set (js_transactions s). has_id (nr_transaction_id r) row
      then Inl (StorageInvariant ''duplicate transaction identity'')
      else Inr (s\<lparr>js_transactions := js_transactions s
        @ [\<lparr>tr_reservation = r, tr_state = NonceReserved, tr_transaction_hash = None,
             tr_raw_signed_transaction = None, tr_submitted_at = None, tr_included_block = None,
             tr_included_block_hash = None, tr_updated_at = nr_created_at r\<rparr>]\<rparr>))"

definition episode_entry :: "episode_id \<Rightarrow> timed_episode \<Rightarrow> bool" where
  "episode_entry eid entry \<longleftrightarrow> re_episode_id (te_episode entry) = eid"

definition set_episode :: "rate_signal_episode \<Rightarrow> timed_episode \<Rightarrow> timed_episode" where
  "set_episode e entry = entry\<lparr>te_episode := e\<rparr>"

definition reserve_rate_movement_and_nonce ::
  "evm_lib \<Rightarrow> json_state \<Rightarrow> nonce_reservation \<Rightarrow> episode_id \<Rightarrow> u256
    \<Rightarrow> storage_error + json_state \<times> rate_movement_reservation_record" where
  "reserve_rate_movement_and_nonce lib s r eid movement =
     try_let (ok_or (nr_plan_id r) (StorageInvariant ''rate reservation has no plan'')) (\<lambda>plan_id.
     try_let (ok_or (find_plan s plan_id)
         (StorageInvariant ''rate reservation plan is not durable'')) (\<lambda>plan.
     if pl_episode_id plan \<noteq> Some eid \<or> pp_movement_assets (pl_projection plan) \<noteq> movement
         \<or> movement = 0
     then Inl (StorageInvariant ''rate reservation differs from durable plan'')
     else if \<exists>x \<in> set (js_rate_movement_reservations s).
         rm_transaction_id x = nr_transaction_id r \<or> rm_plan_id x = plan_id
         \<or> rm_state x = MovementPending \<and> rm_episode_id x = eid
     then Inl (StorageInvariant ''rate movement is already reserved'')
     else
     try_let (ok_or (find (episode_entry eid) (js_rate_episodes s))
         (StorageInvariant ''rate episode is not durable'')) (\<lambda>entry.
     try_let (map_err (\<lambda>_. StorageInvariant ''rate episode budget is invalid'')
         (available_budget (te_episode entry))) (\<lambda>budget_before.
     try_let (map_err (\<lambda>_. StorageInvariant ''rate episode budget is insufficient'')
         (settled (reserve_pending (te_episode entry) movement))) (\<lambda>episode.
     try_let (map_err (\<lambda>_. StorageInvariant ''rate episode budget is invalid'')
         (available_budget episode)) (\<lambda>budget_after.
     let record = \<lparr>rm_reservation_id = keccak256 lib
             (b256_bytes (nr_transaction_id r) @ b256_bytes plan_id @ b256_bytes eid),
           rm_transaction_id = nr_transaction_id r, rm_plan_id = plan_id, rm_episode_id = eid,
           rm_movement_assets = movement, rm_budget_before = budget_before,
           rm_budget_after = budget_after, rm_state = MovementPending\<rparr>
     in
     try_let (reserve_nonce lib
         (s\<lparr>js_rate_episodes := update_first (episode_entry eid) (set_episode episode)
              (js_rate_episodes s)\<rparr>) r) (\<lambda>s'.
     Inr (s'\<lparr>js_rate_movement_reservations := js_rate_movement_reservations s' @ [record]\<rparr>,
       record))))))))"

subsection \<open>Signing and broadcast\<close>

definition persist_signed ::
  "evm_lib \<Rightarrow> json_state \<Rightarrow> signed_transaction_record \<Rightarrow> storage_error + json_state" where
  "persist_signed lib s tx =
     (if st_raw_signed_transaction tx = []
      then Inl (StorageInvariant ''signed transaction bytes are empty'')
      else if keccak256 lib (st_raw_signed_transaction tx) \<noteq> st_transaction_hash tx
      then Inl (StorageInvariant ''signed transaction hash mismatch'')
      else
      try_let (ok_or (find_row s (st_transaction_id tx)) StaleTransition) (\<lambda>row.
      if tr_state row \<noteq> NonceReserved then Inl StaleTransition
      else
        let s' = update_row (st_transaction_id tx) (\<lambda>row. row\<lparr>tr_state := Signed,
              tr_transaction_hash := Some (st_transaction_hash tx),
              tr_raw_signed_transaction := Some (st_raw_signed_transaction tx),
              tr_updated_at := st_updated_at tx\<rparr>) s
        in Inr (s'\<lparr>js_transaction_attempts := js_transaction_attempts s'
          @ [\<lparr>sa_transaction_id = st_transaction_id tx, sa_kind = Initial,
               sa_transaction_hash = st_transaction_hash tx,
               sa_raw_signed_transaction = st_raw_signed_transaction tx,
               sa_max_fee_per_gas = nr_max_fee_per_gas (tr_reservation row),
               sa_max_priority_fee_per_gas = nr_max_priority_fee_per_gas (tr_reservation row),
               sa_signed_at = st_updated_at tx,
               sa_signed_block = nr_created_block (tr_reservation row),
               sa_broadcast_at = None, sa_last_broadcast_block = None\<rparr>]\<rparr>)))"

definition signed_attempt_state ::
  "transaction_attempt_kind \<Rightarrow> transaction_state \<Rightarrow> transaction_state option" where
  "signed_attempt_state kind st =
     (if kind = Replacement \<and> st \<in> {Submitted, Replaced} then Some ReplacementSigned
      else if kind = Cancellation \<and> st \<in> {Signed, Submitted, Replaced, Orphaned}
      then Some CancellationSigned
      else None)"

definition persist_signed_attempt ::
  "evm_lib \<Rightarrow> json_state \<Rightarrow> signed_attempt_record \<Rightarrow> storage_error + json_state" where
  "persist_signed_attempt lib s attempt =
     (if sa_kind attempt = Initial
      then Inl (StorageInvariant ''additional signed attempt cannot be initial'')
      else if sa_raw_signed_transaction attempt = []
         \<or> keccak256 lib (sa_raw_signed_transaction attempt) \<noteq> sa_transaction_hash attempt
         \<or> sa_broadcast_at attempt \<noteq> None
      then Inl (StorageInvariant ''invalid signed attempt'')
      else if \<exists>x \<in> set (js_transaction_attempts s).
          sa_transaction_hash x = sa_transaction_hash attempt
      then Inl (StorageInvariant ''duplicate signed attempt'')
      else
      try_let (ok_or (find_row s (sa_transaction_id attempt)) StaleTransition) (\<lambda>row.
      try_let (ok_or (signed_attempt_state (sa_kind attempt) (tr_state row)) StaleTransition)
        (\<lambda>signed_state.
        let s' = update_row (sa_transaction_id attempt) (\<lambda>row. row\<lparr>tr_state := signed_state,
              tr_transaction_hash := Some (sa_transaction_hash attempt),
              tr_raw_signed_transaction := Some (sa_raw_signed_transaction attempt),
              tr_updated_at := sa_signed_at attempt\<rparr>) s
        in Inr (s'\<lparr>js_transaction_attempts := js_transaction_attempts s' @ [attempt]\<rparr>))))"

definition attempt_matches :: "transaction_id \<Rightarrow> b256 \<Rightarrow> signed_attempt_record \<Rightarrow> bool" where
  "attempt_matches tid h attempt \<longleftrightarrow>
     sa_transaction_id attempt = tid \<and> sa_transaction_hash attempt = h"

definition record_attempt_broadcast ::
  "json_state \<Rightarrow> transaction_id \<Rightarrow> b256 \<Rightarrow> u64 \<Rightarrow> u64 \<Rightarrow> storage_error + json_state" where
  "record_attempt_broadcast s tid h broadcast_at broadcast_block =
     try_let (ok_or (find (attempt_matches tid h) (js_transaction_attempts s)) StaleTransition)
     (\<lambda>attempt.
     if broadcast_block < sa_signed_block attempt
        \<or> (case sa_last_broadcast_block attempt of
             None \<Rightarrow> False | Some previous \<Rightarrow> broadcast_block < previous)
     then Inl StaleTransition
     else Inr (s\<lparr>js_transaction_attempts := update_first (attempt_matches tid h)
         (\<lambda>a. a\<lparr>sa_broadcast_at := Some broadcast_at,
                sa_last_broadcast_block := Some broadcast_block\<rparr>) (js_transaction_attempts s)\<rparr>))"

subsection \<open>Transitions\<close>

definition owns_pending_movement ::
  "transaction_id \<Rightarrow> rate_movement_reservation_record \<Rightarrow> bool" where
  "owns_pending_movement tid r \<longleftrightarrow> rm_transaction_id r = tid \<and> rm_state r = MovementPending"

definition release_rate_movement ::
  "json_state \<Rightarrow> transaction_id \<Rightarrow> storage_error + json_state" where
  "release_rate_movement s tid =
     (case filter (owns_pending_movement tid) (js_rate_movement_reservations s) of
        [] \<Rightarrow> Inr s
      | [reservation] \<Rightarrow>
          let eid = rm_episode_id reservation in
          try_let (ok_or (find (episode_entry eid) (js_rate_episodes s))
            (StorageInvariant ''reserved rate episode disappeared'')) (\<lambda>entry.
          try_let (map_err (\<lambda>_. StorageInvariant ''pending rate movement cannot be released'')
            (settled (release_pending (te_episode entry) (rm_movement_assets reservation))))
            (\<lambda>episode.
          Inr (s\<lparr>js_rate_episodes := update_first (episode_entry eid) (set_episode episode)
                  (js_rate_episodes s),
                js_rate_movement_reservations := update_first (owns_pending_movement tid)
                  (\<lambda>r. r\<lparr>rm_state := MovementReleased\<rparr>) (js_rate_movement_reservations s)\<rparr>)))
      | _ \<Rightarrow> Inl (StorageInvariant ''transaction owns multiple pending rate movements''))"

definition transitioned_row :: "transaction_transition \<Rightarrow> transaction_row \<Rightarrow> transaction_row" where
  "transitioned_row t row = row\<lparr>tr_state := tt_next_state t,
     tr_transaction_hash := (case tt_transaction_hash t of
       None \<Rightarrow> tr_transaction_hash row | Some h \<Rightarrow> Some h),
     tr_submitted_at := (if tt_submitted_at t \<noteq> None then tt_submitted_at t else tr_submitted_at row),
     tr_included_block :=
       (if tt_included_block t \<noteq> None then tt_included_block t else tr_included_block row),
     tr_included_block_hash :=
       (if tt_included_block_hash t \<noteq> None then tt_included_block_hash t
        else tr_included_block_hash row),
     tr_updated_at := tt_updated_at t\<rparr>"

definition record_transition_broadcast ::
  "json_state \<Rightarrow> transaction_transition \<Rightarrow> storage_error + json_state" where
  "record_transition_broadcast s t =
     (if tt_next_state t \<in> {Submitted, Replaced, CancellationSubmitted} then
        try_let (ok_or (tt_transaction_hash t)
          (StorageInvariant ''broadcast transition has no transaction hash'')) (\<lambda>h.
        try_let (ok_or (tt_submitted_at t)
          (StorageInvariant ''broadcast transition has no submission timestamp'')) (\<lambda>submitted_at.
        try_let (ok_or (find (attempt_matches (tt_transaction_id t) h) (js_transaction_attempts s))
          (StorageInvariant ''broadcast transition has no durable signed attempt'')) (\<lambda>_.
        Inr (s\<lparr>js_transaction_attempts := update_first (attempt_matches (tt_transaction_id t) h)
            (\<lambda>a. a\<lparr>sa_broadcast_at := Some submitted_at\<rparr>) (js_transaction_attempts s)\<rparr>))))
      else Inr s)"

definition transition_transaction ::
  "json_state \<Rightarrow> transaction_transition \<Rightarrow> storage_error + json_state" where
  "transition_transaction s t =
     (if tt_next_state t \<in> {ConformanceValidated, Reconciled}
      then Inl (StorageInvariant ''terminal validation state requires an atomic evidence record'')
      else if \<not> permits (tt_expected_state t) (tt_next_state t)
      then Inl (InvalidTransition (tt_expected_state t) (tt_next_state t))
      else
      try_let (ok_or (find_row s (tt_transaction_id t)) StaleTransition) (\<lambda>row.
      if tr_state row \<noteq> tt_expected_state t then Inl StaleTransition
      else
      try_let (record_transition_broadcast s t) (\<lambda>s'.
      let s'' = update_row (tt_transaction_id t) (transitioned_row t) s' in
      if tt_next_state t \<in> {AbortedBeforeSigning, Reverted, Cancelled, Failed}
      then release_rate_movement s'' (tt_transaction_id t)
      else Inr s'')))"


subsection \<open>Conformance and reconciliation\<close>

definition persist_conformance ::
  "json_state \<Rightarrow> conformance_record \<Rightarrow> storage_error + json_state" where
  "persist_conformance s record =
     (if cf_report_hash record = 0
         \<or> (\<exists>x \<in> set (js_conformance_records s). cf_transaction_id x = cf_transaction_id record)
      then Inl (StorageInvariant ''invalid or duplicate conformance record'')
      else if \<not> (\<exists>a \<in> set (js_transaction_attempts s).
          attempt_matches (cf_transaction_id record) (cf_transaction_hash record) a)
      then Inl (StorageInvariant ''conformance hash is not a durable signed attempt'')
      else
      try_let (ok_or (find_row s (cf_transaction_id record)) StaleTransition) (\<lambda>row.
      if tr_state row \<noteq> Confirmed \<or> tr_included_block row \<noteq> Some (cf_block_number record)
         \<or> tr_included_block_hash row \<noteq> Some (cf_block_hash record)
      then Inl StaleTransition
      else
        let s' = update_row (cf_transaction_id record) (\<lambda>row. row\<lparr>tr_state := ConformanceValidated,
              tr_transaction_hash := Some (cf_transaction_hash record),
              tr_updated_at := cf_validated_at record\<rparr>) s
        in Inr (s'\<lparr>js_conformance_records := js_conformance_records s' @ [record]\<rparr>)))"

definition owns_movement :: "transaction_id \<Rightarrow> rate_movement_reservation_record \<Rightarrow> bool" where
  "owns_movement tid r \<longleftrightarrow> rm_transaction_id r = tid"

definition canonical_block_known :: "json_state \<Rightarrow> u64 \<Rightarrow> u64 \<Rightarrow> b256 \<Rightarrow> bool" where
  "canonical_block_known s chain_id n h \<longleftrightarrow>
     (\<exists>c \<in> set (js_canonical_blocks s).
        cb_chain_id c = chain_id \<and> br_number (cb_block c) = n \<and> br_hash (cb_block c) = h)"

definition settle_failed_movement ::
  "json_state \<Rightarrow> transaction_state \<Rightarrow> v2_plan \<Rightarrow> conformance_record
    \<Rightarrow> rate_movement_reservation_record \<Rightarrow> storage_error + json_state" where
  "settle_failed_movement s expected plan conformance reservation =
     (if pl_episode_id plan \<noteq> Some (rm_episode_id reservation)
         \<or> pp_movement_assets (pl_projection plan) \<noteq> rm_movement_assets reservation
         \<or> cf_movement_assets conformance \<noteq> rm_movement_assets reservation
      then Inl (StorageInvariant ''conformed rate movement does not match its plan or receipt'')
      else
      try_let (ok_or (find (episode_entry (rm_episode_id reservation)) (js_rate_episodes s))
        (StorageInvariant ''reserved rate episode disappeared'')) (\<lambda>entry.
      case expected of
        ConformanceValidated \<Rightarrow>
          if rm_state reservation \<noteq> MovementPending
          then Inl (StorageInvariant ''new conformance failure has no pending rate movement'')
          else
          try_let (map_err (\<lambda>_. StorageInvariant ''conformed rate movement cannot be confirmed'')
            (settled (confirm_pending (te_episode entry) (rm_movement_assets reservation))))
            (\<lambda>episode.
          Inr (s\<lparr>js_rate_episodes := update_first (episode_entry (rm_episode_id reservation))
                  (set_episode episode) (js_rate_episodes s),
                js_rate_movement_reservations :=
                  update_first (owns_movement (rm_transaction_id reservation))
                    (\<lambda>r. r\<lparr>rm_state := MovementConfirmed\<rparr>) (js_rate_movement_reservations s)\<rparr>))
      | ReconciliationPending \<Rightarrow>
          if rm_state reservation \<noteq> MovementConfirmed
             \<or> re_confirmed_movement (te_episode entry) < rm_movement_assets reservation
          then Inl (StorageInvariant ''revalidation failure lost its confirmed rate movement'')
          else Inr s
      | _ \<Rightarrow> Inl (InvalidTransition expected Failed)))"

definition settle_failed_movements ::
  "json_state \<Rightarrow> transaction_id \<Rightarrow> transaction_state \<Rightarrow> v2_plan \<Rightarrow> conformance_record
    \<Rightarrow> storage_error + json_state" where
  "settle_failed_movements s tid expected plan conformance =
     (let movements = filter (owns_movement tid) (js_rate_movement_reservations s) in
      if 1 < length movements
      then Inl (StorageInvariant ''transaction owns multiple rate movements'')
      else if (pl_reason plan = RateRebalance) \<noteq> (movements \<noteq> [])
      then Inl (StorageInvariant ''conformed plan and rate movement disagree'')
      else case movements of
        [] \<Rightarrow> Inr s
      | reservation # _ \<Rightarrow> settle_failed_movement s expected plan conformance reservation)"

definition finalize_conformed_post_state_failure ::
  "json_state \<Rightarrow> transaction_id \<Rightarrow> transaction_state \<Rightarrow> u64 \<Rightarrow> storage_error + json_state" where
  "finalize_conformed_post_state_failure s tid expected updated_at =
     (if \<not> requires_reconciliation expected \<or> \<not> permits expected Failed
      then Inl (InvalidTransition expected Failed)
      else
      try_let (ok_or (find_row s tid) StaleTransition) (\<lambda>row.
      if tr_state row \<noteq> expected then Inl StaleTransition
      else
      try_let (ok_or (nr_plan_id (tr_reservation row))
        (StorageInvariant ''conformed transaction has no plan'')) (\<lambda>plan_id.
      try_let (ok_or (tr_included_block row)
        (StorageInvariant ''conformed transaction has no inclusion block'')) (\<lambda>included_block.
      try_let (ok_or (tr_included_block_hash row)
        (StorageInvariant ''conformed transaction has no inclusion hash'')) (\<lambda>included_hash.
      try_let (ok_or (tr_transaction_hash row)
        (StorageInvariant ''conformed transaction has no included attempt hash'')) (\<lambda>h.
      try_let (ok_or (find_plan s plan_id)
        (StorageInvariant ''conformed transaction has no durable plan'')) (\<lambda>plan.
      if \<not> canonical_block_known s (sc_chain_id (pl_snapshot plan)) included_block included_hash
      then Inl StaleTransition
      else case filter (\<lambda>x. cf_transaction_id x = tid) (js_conformance_records s) of
        [conformance] \<Rightarrow>
          if cf_transaction_hash conformance \<noteq> h \<or> cf_block_number conformance \<noteq> included_block
             \<or> cf_block_hash conformance \<noteq> included_hash
          then Inl (StorageInvariant ''post-state failure conformance identity mismatch'')
          else
          try_let (settle_failed_movements s tid expected plan conformance)
            (\<lambda>s'. Inr (update_row tid
              (\<lambda>row. row\<lparr>tr_state := Failed, tr_updated_at := updated_at\<rparr>) s'))
      | _ \<Rightarrow> Inl (StorageInvariant ''post-state failure requires one conformance record''))))))))"

definition check_reconciled_movement ::
  "json_state \<Rightarrow> transaction_state \<Rightarrow> rate_movement_reservation_state
    \<Rightarrow> rate_movement_reservation_record list \<Rightarrow> rate_signal_episode option
    \<Rightarrow> storage_error + unit" where
  "check_reconciled_movement s lifecycle expected_movement_state movements confirmed_episode =
     (case (movements, confirmed_episode) of
        (reservation # _, Some confirmed) \<Rightarrow>
          if re_episode_id confirmed \<noteq> rm_episode_id reservation
          then Inl (StorageInvariant ''reconciliation confirms the wrong rate episode'')
          else if rm_state reservation \<noteq> expected_movement_state
          then Inl (StorageInvariant ''reconciliation lifecycle and rate movement state disagree'')
          else
          try_let (ok_or (find (episode_entry (rm_episode_id reservation)) (js_rate_episodes s))
            (StorageInvariant ''reserved rate episode disappeared'')) (\<lambda>entry.
          try_let (if lifecycle = ConformanceValidated
              then map_err (\<lambda>_. StorageInvariant ''rate movement cannot be confirmed'')
                (settled (confirm_pending (te_episode entry) (rm_movement_assets reservation)))
              else Inr (te_episode entry)) (\<lambda>expected.
          if expected \<noteq> confirmed
          then Inl (StorageInvariant ''confirmed rate episode does not match reserved movement'')
          else Inr ()))
      | ([], None) \<Rightarrow> Inr ()
      | _ \<Rightarrow> Inl (StorageInvariant ''reconciliation rate movement evidence is incomplete''))"

definition reconciled_movement_state ::
  "transaction_state \<Rightarrow> rate_movement_reservation_state option" where
  "reconciled_movement_state st =
     (case st of ConformanceValidated \<Rightarrow> Some MovementPending
      | ReconciliationPending \<Rightarrow> Some MovementConfirmed | _ \<Rightarrow> None)"

definition persist_reconciliation ::
  "json_state \<Rightarrow> reconciliation_record \<Rightarrow> exact_vault_snapshot \<Rightarrow> rate_signal_episode option
    \<Rightarrow> storage_error + json_state" where
  "persist_reconciliation s record snapshot confirmed_episode =
     (let tid = rr_transaction_id record in
      if rr_report_hash record = 0 \<or> sn_snapshot_hash snapshot \<noteq> rr_snapshot_hash record
         \<or> sc_block (sn_context snapshot) \<noteq> rr_block record
         \<or> (\<exists>x \<in> set (js_reconciliation_records s). rr_transaction_id x = tid)
         \<or> \<not> (\<exists>x \<in> set (js_conformance_records s). cf_transaction_id x = tid)
      then Inl (StorageInvariant ''invalid or duplicate reconciliation record'')
      else if \<not> (\<exists>c \<in> set (js_canonical_blocks s).
          cb_chain_id c = sc_chain_id (sn_context snapshot) \<and> cb_block c = rr_block record)
      then Inl StaleTransition
      else
      try_let (ok_or (find_row s tid) StaleTransition) (\<lambda>row.
      try_let (ok_or (reconciled_movement_state (tr_state row)) StaleTransition)
        (\<lambda>expected_movement_state.
      if (case tr_included_block row of
            None \<Rightarrow> True | Some included \<Rightarrow> br_number (rr_block record) < included)
      then Inl StaleTransition
      else
      let movements = filter (owns_movement tid) (js_rate_movement_reservations s) in
      if 1 < length movements
      then Inl (StorageInvariant ''transaction owns multiple rate movements'')
      else
      try_let (check_reconciled_movement s (tr_state row) expected_movement_state movements
        confirmed_episode) (\<lambda>_.
      let s1 = push_snapshot (update_row tid (\<lambda>row. row\<lparr>tr_state := Reconciled,
            tr_updated_at := rr_reconciled_at record\<rparr>) s) snapshot (rr_reconciled_at record) in
      try_let (case confirmed_episode of
          None \<Rightarrow> Inr s1
        | Some episode \<Rightarrow> persist_episode s1 episode (rr_reconciled_at record)) (\<lambda>s2.
      Inr (s2\<lparr>js_rate_movement_reservations :=
            (if tr_state row = ConformanceValidated \<and> movements \<noteq> []
             then update_first (owns_movement tid) (\<lambda>r. r\<lparr>rm_state := MovementConfirmed\<rparr>)
               (js_rate_movement_reservations s2)
             else js_rate_movement_reservations s2),
          js_reconciliation_records := js_reconciliation_records s2 @ [record]\<rparr>))))))"

subsection \<open>Rewind\<close>

definition rewindable :: "transaction_state \<Rightarrow> bool" where
  "rewindable st \<longleftrightarrow> st \<in> {Included, Confirmed, Reverted, Cancelled, ForeignNonceConsumed,
     ConformanceValidated, ReconciliationPending, Reconciled, Failed}"

text \<open>Removal of everything observed above the ancestor.\<close>

definition drop_above :: "u64 \<Rightarrow> block_ref \<Rightarrow> json_state \<Rightarrow> json_state" where
  "drop_above chain_id ancestor s = s\<lparr>
     js_canonical_blocks := filter (\<lambda>x. cb_chain_id x \<noteq> chain_id
       \<or> br_number (cb_block x) \<le> br_number ancestor) (js_canonical_blocks s),
     js_canonical_logs := filter (\<lambda>x. cl_chain_id x \<noteq> chain_id
       \<or> cl_block_number x \<le> br_number ancestor) (js_canonical_logs s),
     js_canonical_receipts := filter (\<lambda>x. cc_chain_id x \<noteq> chain_id
       \<or> cc_block_number x \<le> br_number ancestor) (js_canonical_receipts s),
     js_conformance_records := filter (\<lambda>x. cf_block_number x \<le> br_number ancestor)
       (js_conformance_records s),
     js_reconciliation_records := filter (\<lambda>x. br_number (rr_block x) \<le> br_number ancestor)
       (js_reconciliation_records s),
     js_topology_history := filter (\<lambda>x. br_number (tv_block x) \<le> br_number ancestor)
       (js_topology_history s),
     js_exact_snapshots := filter (\<lambda>x. sc_chain_id (sn_context (ts_snapshot x)) \<noteq> chain_id
       \<or> br_number (sc_block (sn_context (ts_snapshot x))) \<le> br_number ancestor)
       (js_exact_snapshots s)\<rparr>"

definition receipt_orphaned_ids :: "u64 \<Rightarrow> block_ref \<Rightarrow> json_state \<Rightarrow> transaction_id list" where
  "receipt_orphaned_ids chain_id ancestor s =
     (let hashes = map cc_transaction_hash (filter (\<lambda>r. cc_chain_id r = chain_id
            \<and> br_number ancestor < cc_block_number r) (js_canonical_receipts s))
      in bset (map sa_transaction_id
           (filter (\<lambda>a. sa_transaction_hash a \<in> set hashes) (js_transaction_attempts s))))"

definition orphaned_row :: "transaction_id list \<Rightarrow> block_ref \<Rightarrow> transaction_row \<Rightarrow> bool" where
  "orphaned_row receipt_orphaned ancestor row \<longleftrightarrow>
     ((case tr_included_block row of None \<Rightarrow> False | Some n \<Rightarrow> br_number ancestor < n)
      \<or> nr_transaction_id (tr_reservation row) \<in> set receipt_orphaned)
     \<and> rewindable (tr_state row)"

definition classify_lost_reconciliation ::
  "json_state \<Rightarrow> u64 \<Rightarrow> transaction_id list \<times> transaction_id list \<Rightarrow> transaction_id
    \<Rightarrow> storage_error + transaction_id list \<times> transaction_id list" where
  "classify_lost_reconciliation s chain_id acc tid =
     (case acc of (orphaned, revalidation) \<Rightarrow>
      if tid \<in> set orphaned then Inr acc
      else
      try_let (ok_or (find_row s tid)
        (StorageInvariant ''orphaned reconciliation lost its transaction'')) (\<lambda>row.
      if tr_state row \<noteq> Reconciled
      then Inl (StorageInvariant ''reconciliation record belongs to a non-reconciled transaction'')
      else if (case (tr_included_block row, tr_included_block_hash row) of
            (Some n, Some h) \<Rightarrow> canonical_block_known s chain_id n h
              \<and> (\<exists>x \<in> set (js_conformance_records s).
                   cf_transaction_id x = tid \<and> cf_block_number x = n \<and> cf_block_hash x = h)
          | _ \<Rightarrow> False)
      then Inr (orphaned, tid # revalidation)
      else Inr (tid # orphaned, revalidation)))"

definition rewind_movement ::
  "transaction_id list \<Rightarrow> timed_episode list \<times> rate_movement_reservation_record list
    \<Rightarrow> rate_movement_reservation_record
    \<Rightarrow> storage_error + timed_episode list \<times> rate_movement_reservation_record list" where
  "rewind_movement orphaned acc r =
     (case acc of (episodes, seen) \<Rightarrow>
      if rm_state r = MovementConfirmed \<and> rm_transaction_id r \<in> set orphaned then
        case find (episode_entry (rm_episode_id r)) episodes of
          None \<Rightarrow> Inl (StorageInvariant ''confirmed rate movement lost its episode during rewind'')
        | Some entry \<Rightarrow>
            try_let (map_err (\<lambda>_. StorageInvariant ''confirmed rate movement cannot be rewound'')
              (settled (reopen_confirmed (te_episode entry) (rm_movement_assets r)
                (rm_budget_before r)))) (\<lambda>episode.
            Inr (update_first (episode_entry (rm_episode_id r)) (set_episode episode) episodes,
                 seen @ [r\<lparr>rm_state := MovementPending\<rparr>]))
      else Inr (episodes, seen @ [r]))"

definition above_ancestor :: "block_ref \<Rightarrow> rate_signal_episode \<Rightarrow> bool" where
  "above_ancestor ancestor e \<longleftrightarrow>
     br_number ancestor < br_number (re_detection_block e)
     \<or> (case re_confirmation_block e of None \<Rightarrow> False | Some b \<Rightarrow> br_number ancestor < br_number b)"

definition rewind_episode :: "block_ref \<Rightarrow> timed_episode \<Rightarrow> timed_episode" where
  "rewind_episode ancestor entry =
     (let e = rewind_independent_events (te_episode entry) ancestor
      in set_episode (if above_ancestor ancestor e
           then episode_complete e StopNonConsecutiveObservation else e) entry)"

definition rewind_row ::
  "transaction_id list \<Rightarrow> transaction_id list \<Rightarrow> block_ref \<Rightarrow> transaction_row \<Rightarrow> transaction_row" where
  "rewind_row orphaned revalidation ancestor row =
     (let tid = nr_transaction_id (tr_reservation row);
          row' = (if tid \<in> set revalidation
            then row\<lparr>tr_state := ReconciliationPending, tr_updated_at := br_timestamp ancestor\<rparr>
            else row)
      in if tid \<in> set orphaned \<and> rewindable (tr_state row')
         then row'\<lparr>tr_state := Orphaned, tr_included_block := None, tr_included_block_hash := None\<rparr>
         else row')"

definition rewound ::
  "u64 \<Rightarrow> block_ref \<Rightarrow> transaction_id list \<Rightarrow> transaction_id list \<Rightarrow> timed_episode list
    \<Rightarrow> rate_movement_reservation_record list \<Rightarrow> json_state \<Rightarrow> json_state" where
  "rewound chain_id ancestor orphaned revalidation episodes movements s =
     (let pending = bset (map rm_episode_id (filter (\<lambda>r. rm_state r = MovementPending) movements))
      in s\<lparr>
        js_rate_movement_reservations := movements,
        js_rate_episodes := filter (\<lambda>entry. re_episode_id (te_episode entry) \<in> set pending
            \<or> \<not> above_ancestor ancestor (te_episode entry))
          (map (rewind_episode ancestor) episodes),
        js_top_k_apy_memory := filter (\<lambda>entry.
            tk_last_observed_block (tm_memory entry) \<le> br_number ancestor) (js_top_k_apy_memory s),
        js_transactions := map (rewind_row orphaned revalidation ancestor) (js_transactions s),
        js_chain_cursors := bt_insert chain_id ancestor (js_chain_cursors s)\<rparr>)"

text \<open>\<open>s\<close> is the state before the rewind and \<open>s1\<close> the state without the orphaned observations.\<close>

definition rewound_result ::
  "transaction_id list \<Rightarrow> transaction_id list \<Rightarrow> json_state \<Rightarrow> json_state \<Rightarrow> rewind_result" where
  "rewound_result orphaned revalidation s s1 = \<lparr>
     rw_blocks_orphaned = min (two64 - 1)
       (length (js_canonical_blocks s) - length (js_canonical_blocks s1)),
     rw_logs_orphaned = min (two64 - 1)
       (length (js_canonical_logs s) - length (js_canonical_logs s1)),
     rw_transactions_orphaned = min (two64 - 1) (length (filter (\<lambda>row.
         nr_transaction_id (tr_reservation row) \<in> set orphaned
         \<and> rewindable (if nr_transaction_id (tr_reservation row) \<in> set revalidation
              then ReconciliationPending else tr_state row)) (js_transactions s1)))\<rparr>"

definition lost_reconciliations :: "block_ref \<Rightarrow> json_state \<Rightarrow> transaction_id list" where
  "lost_reconciliations ancestor s =
     bset (map rr_transaction_id (filter (\<lambda>x. br_number ancestor < br_number (rr_block x))
       (js_reconciliation_records s)))"

definition orphaned_ids :: "u64 \<Rightarrow> block_ref \<Rightarrow> json_state \<Rightarrow> transaction_id list" where
  "orphaned_ids chain_id ancestor s =
     bset (map (nr_transaction_id \<circ> tr_reservation)
       (filter (orphaned_row (receipt_orphaned_ids chain_id ancestor s) ancestor)
         (js_transactions s)))"

definition rewind_state ::
  "json_state \<Rightarrow> u64 \<Rightarrow> block_ref \<Rightarrow> storage_error + json_state \<times> rewind_result" where
  "rewind_state s chain_id ancestor =
     (let s1 = drop_above chain_id ancestor s in
      try_let (try_fold (classify_lost_reconciliation s1 chain_id)
          (orphaned_ids chain_id ancestor s, []) (lost_reconciliations ancestor s))
        (\<lambda>(orphaned, revalidation).
      try_let (try_fold (rewind_movement orphaned) (js_rate_episodes s1, [])
          (js_rate_movement_reservations s1)) (\<lambda>(episodes, movements).
      Inr (rewound chain_id ancestor orphaned revalidation episodes movements s1,
           rewound_result orphaned revalidation s s1))))"

subsection \<open>Compaction\<close>

definition JOURNAL_SEGMENT_EVENTS :: nat where "JOURNAL_SEGMENT_EVENTS = 128"
definition HOT_BLOCK_RETENTION :: nat where "HOT_BLOCK_RETENTION = 512"
definition HOT_SNAPSHOT_RETENTION :: nat where "HOT_SNAPSHOT_RETENTION = 32"
definition HOT_PLAN_RETENTION :: nat where "HOT_PLAN_RETENTION = 32"
definition MAX_DURABLE_REORG_RESCAN_BLOCKS :: nat where "MAX_DURABLE_REORG_RESCAN_BLOCKS = 256"
definition HOT_TOPOLOGY_RETENTION_PER_VAULT :: nat where "HOT_TOPOLOGY_RETENTION_PER_VAULT = 257"
definition HOT_TOP_K_MEMORY_RETENTION_PER_VAULT :: nat where
  "HOT_TOP_K_MEMORY_RETENTION_PER_VAULT = 257"
definition HOT_TRANSACTION_RETENTION :: nat where "HOT_TRANSACTION_RETENTION = 1024"
definition ROLLING_POLICY_RETENTION_SECONDS :: nat where
  "ROLLING_POLICY_RETENTION_SECONDS = 172800"

definition compact_lifecycle_history :: "json_state \<Rightarrow> json_state" where
  "compact_lifecycle_history s =
     (let latest = (case max_of (map (br_timestamp \<circ> cb_block) (js_canonical_blocks s)) of
            None \<Rightarrow> 0 | Some t \<Rightarrow> t);
          cutoff = saturating_sub latest ROLLING_POLICY_RETENTION_SECONDS;
          terminal = sort (map (\<lambda>row. (nr_created_at (tr_reservation row),
              nr_transaction_id (tr_reservation row)))
            (filter (\<lambda>row. \<not> is_active_lifecycle (tr_state row)) (js_transactions s)));
          retained_terminal = map snd
            (drop (saturating_sub (length terminal) HOT_TRANSACTION_RETENTION) terminal);
          rows = filter (\<lambda>row. is_active_lifecycle (tr_state row)
              \<or> cutoff \<le> nr_created_at (tr_reservation row)
              \<or> nr_transaction_id (tr_reservation row) \<in> set retained_terminal) (js_transactions s);
          retained = map (nr_transaction_id \<circ> tr_reservation) rows
      in s\<lparr>js_transactions := rows,
           js_transaction_attempts := filter (\<lambda>a. sa_transaction_id a \<in> set retained)
             (js_transaction_attempts s),
           js_conformance_records := filter (\<lambda>x. cf_transaction_id x \<in> set retained)
             (js_conformance_records s),
           js_reconciliation_records := filter (\<lambda>x. rr_transaction_id x \<in> set retained)
             (js_reconciliation_records s),
           js_rate_movement_reservations := filter (\<lambda>x. rm_state x = MovementPending
               \<or> rm_transaction_id x \<in> set retained) (js_rate_movement_reservations s)\<rparr>)"

text \<open>The newest \<open>n\<close> entries of each vault, vaults in order: \<open>BTreeMap<VaultAddress, Vec<_>>\<close>.\<close>

definition keep_newest_per_vault ::
  "nat \<Rightarrow> ('a \<Rightarrow> vault_address) \<Rightarrow> ('a \<Rightarrow> 'k::linorder) \<Rightarrow> 'a list \<Rightarrow> 'a list" where
  "keep_newest_per_vault n vault key xs =
     (let by_vault = foldl (\<lambda>m x. bt_insert (vault x) (or_insert m (vault x) [] @ [x]) m) [] xs;
          trim = (\<lambda>ys. drop (saturating_sub (length ys) n) (sort_key key ys))
      in concat (map trim (bt_values by_vault)))"

definition compact_topology :: "json_state \<Rightarrow> json_state" where
  "compact_topology s = s\<lparr>js_topology_history :=
     sort_key (\<lambda>r. (br_number (tv_block r), ti_vault (tv_topology r)))
       (keep_newest_per_vault HOT_TOPOLOGY_RETENTION_PER_VAULT (\<lambda>r. ti_vault (tv_topology r))
         (\<lambda>r. (br_number (tv_block r), br_hash (tv_block r))) (js_topology_history s))\<rparr>"

definition compact_top_k_memory :: "json_state \<Rightarrow> json_state" where
  "compact_top_k_memory s = s\<lparr>js_top_k_apy_memory :=
     sort_key (\<lambda>e. (tm_vault e, tk_last_observed_block (tm_memory e), tm_updated_at e))
       (keep_newest_per_vault HOT_TOP_K_MEMORY_RETENTION_PER_VAULT tm_vault
         (\<lambda>e. (tk_last_observed_block (tm_memory e), tm_updated_at e)) (js_top_k_apy_memory s))\<rparr>"

definition active_episodes :: "json_state \<Rightarrow> rate_signal_episode list" where
  "active_episodes s = filter (\<lambda>e. re_state e \<noteq> Complete) (map te_episode (js_rate_episodes s))"

definition compact_logs_and_receipts :: "json_state \<Rightarrow> json_state" where
  "compact_logs_and_receipts s =
     (let topology_from = (case js_topology_history s of
            [] \<Rightarrow> [] | r # _ \<Rightarrow> [br_number (tv_block r)]);
          episode_from = (case min_of (map (br_number \<circ> re_detection_block) (active_episodes s)) of
            None \<Rightarrow> [] | Some n \<Rightarrow> [n])
      in case min_of (topology_from @ episode_from) of
           None \<Rightarrow> s
         | Some checkpoint_from \<Rightarrow>
             let replay_from = saturating_sub checkpoint_from MAX_DURABLE_REORG_RESCAN_BLOCKS;
                 hashes = List.map_filter tr_transaction_hash (js_transactions s)
                   @ map sa_transaction_hash (js_transaction_attempts s)
             in s\<lparr>js_canonical_logs := filter (\<lambda>l. replay_from \<le> cl_block_number l)
                    (js_canonical_logs s),
                  js_canonical_receipts := filter (\<lambda>r. replay_from \<le> cc_block_number r
                      \<or> cc_transaction_hash r \<in> set hashes) (js_canonical_receipts s)\<rparr>)"

definition pinned_blocks :: "v2_plan list \<Rightarrow> json_state \<Rightarrow> u64 list" where
  "pinned_blocks referenced_plans s =
     concat (map (\<lambda>row. nr_created_block (tr_reservation row)
         # (case tr_included_block row of None \<Rightarrow> [] | Some n \<Rightarrow> [n]))
       (filter (\<lambda>row. is_active_lifecycle (tr_state row)) (js_transactions s)))
     @ map (\<lambda>plan. br_number (sc_block (pl_snapshot plan))) referenced_plans
     @ map cc_block_number (js_canonical_receipts s)
     @ map (br_number \<circ> tv_block) (js_topology_history s)
     @ concat (map (\<lambda>e. br_number (re_detection_block e)
         # (case re_confirmation_block e of None \<Rightarrow> [] | Some b \<Rightarrow> [br_number b])
         @ map (br_number \<circ> ie_block) (re_independent_events e)) (active_episodes s))"

definition compact_blocks :: "v2_plan list \<Rightarrow> json_state \<Rightarrow> json_state" where
  "compact_blocks referenced_plans s =
     (case max_of (map (br_number \<circ> cb_block) (js_canonical_blocks s)) of
        None \<Rightarrow> s
      | Some latest \<Rightarrow>
          let retain_from = saturating_sub latest (saturating_sub HOT_BLOCK_RETENTION 1)
          in s\<lparr>js_canonical_blocks := filter (\<lambda>x. retain_from \<le> br_number (cb_block x)
                 \<or> br_number (cb_block x) \<in> set (pinned_blocks referenced_plans s))
               (js_canonical_blocks s)\<rparr>)"

definition keep_tail :: "nat \<Rightarrow> nat \<Rightarrow> ('a \<Rightarrow> bool) \<Rightarrow> 'a list \<Rightarrow> 'a list" where
  "keep_tail n referenced keep xs =
     (if n < length xs then
        let start = saturating_sub (length xs) (saturating_sub n referenced)
        in map snd (filter (\<lambda>(i, x). start \<le> i \<or> keep x) (enumerate 0 xs))
      else xs)"

definition referenced_plan_ids :: "json_state \<Rightarrow> plan_id list" where
  "referenced_plan_ids s = bset (List.map_filter (nr_plan_id \<circ> tr_reservation)
     (filter (\<lambda>row. is_active_lifecycle (tr_state row)) (js_transactions s)))"

definition compact_snapshots_and_plans :: "v2_plan list \<Rightarrow> plan_id list \<Rightarrow> json_state \<Rightarrow> json_state" where
  "compact_snapshots_and_plans referenced_plans referenced_ids s =
     (let plans = keep_tail HOT_PLAN_RETENTION (length referenced_ids)
            (\<lambda>entry. pl_plan_id (tp_plan entry) \<in> set referenced_ids) (js_plans s)
      in s\<lparr>js_exact_snapshots := keep_tail HOT_SNAPSHOT_RETENTION (length referenced_plans)
             (\<lambda>entry. \<exists>plan \<in> set referenced_plans.
                pv_vault (sn_parent (ts_snapshot entry)) = pl_vault plan
                \<and> sn_context (ts_snapshot entry) = pl_snapshot plan) (js_exact_snapshots s),
           js_plans := plans,
           js_final_preflights := filter (\<lambda>x. fp_plan_id x
               \<in> set (map (pl_plan_id \<circ> tp_plan) plans)) (js_final_preflights s)\<rparr>)"

definition compact_hot_state :: "json_state \<Rightarrow> json_state" where
  "compact_hot_state s =
     (let s1 = compact_lifecycle_history s;
          referenced_ids = referenced_plan_ids s1;
          referenced_plans = map tp_plan
            (filter (\<lambda>entry. pl_plan_id (tp_plan entry) \<in> set referenced_ids) (js_plans s1));
          s2 = compact_logs_and_receipts (compact_top_k_memory (compact_topology s1))
      in compact_snapshots_and_plans referenced_plans referenced_ids
           (compact_blocks referenced_plans s2))"

subsection \<open>Migration\<close>

definition consumes_rolling_budget :: "transaction_state \<Rightarrow> bool" where
  "consumes_rolling_budget st \<longleftrightarrow>
     st \<notin> {NonceReserved, AbortedBeforeSigning, Cancelled, Reverted}"

definition migrate_v1_to_v2 :: "json_state \<Rightarrow> storage_error + json_state" where
  "migrate_v1_to_v2 s =
     (if \<exists>row \<in> set (js_transactions s). is_unresolved (tr_state row)
      then Inl (StorageInvariant ''format-1 state with an unresolved nonce cannot be migrated safely'')
      else
        let rows = map (\<lambda>row. row\<lparr>tr_reservation := (tr_reservation row)\<lparr>nr_created_block :=
              (case Option.bind (nr_plan_id (tr_reservation row)) (find_plan s) of
                 None \<Rightarrow> 0 | Some plan \<Rightarrow> br_number (sc_block (pl_snapshot plan)))\<rparr>\<rparr>)
              (js_transactions s);
            attempts = map (\<lambda>a. a\<lparr>sa_signed_block :=
              (case find (has_id (sa_transaction_id a)) rows of
                 None \<Rightarrow> 0 | Some row \<Rightarrow> nr_created_block (tr_reservation row))\<rparr>)
              (js_transaction_attempts s)
        in Inr (s\<lparr>js_transactions := rows, js_transaction_attempts := attempts,
                 js_format_version := 2\<rparr>))"

definition migrated_movement :: "json_state \<Rightarrow> nonce_reservation \<Rightarrow> u256 option" where
  "migrated_movement s r =
     (case Option.bind (nr_plan_id r) (find_plan s) of
        Some plan \<Rightarrow> Some (pp_movement_assets (pl_projection plan))
      | None \<Rightarrow>
        (case find (owns_movement (nr_transaction_id r)) (js_rate_movement_reservations s) of
           Some x \<Rightarrow> Some (rm_movement_assets x)
         | None \<Rightarrow> map_option cf_movement_assets
             (find (\<lambda>x. cf_transaction_id x = nr_transaction_id r) (js_conformance_records s))))"

definition migrate_row :: "json_state \<Rightarrow> u64 \<Rightarrow> transaction_row \<Rightarrow> storage_error + transaction_row" where
  "migrate_row s window_start row =
     (if nr_movement_assets (tr_reservation row) \<noteq> 0 then Inr row
      else case migrated_movement s (tr_reservation row) of
        Some movement \<Rightarrow>
          Inr (row\<lparr>tr_reservation := (tr_reservation row)\<lparr>nr_movement_assets := movement\<rparr>\<rparr>)
      | None \<Rightarrow>
          if consumes_rolling_budget (tr_state row) \<and> window_start \<le> nr_created_at (tr_reservation row)
          then Inl (StorageInvariant
            ''recent transaction lacks movement evidence required for format migration'')
          else Inr row)"

definition migrate_v2_to_v3 :: "json_state \<Rightarrow> u64 \<Rightarrow> storage_error + json_state" where
  "migrate_v2_to_v3 s initialization_timestamp =
     try_let (try_fold (\<lambda>rows row.
         try_let (migrate_row s (saturating_sub initialization_timestamp 86400) row)
           (\<lambda>row'. Inr (rows @ [row']))) [] (js_transactions s)) (\<lambda>rows.
     Inr (s\<lparr>js_transactions := rows, js_format_version := JSON_FORMAT_VERSION\<rparr>))"

subsection \<open>Commands and commit\<close>

datatype storage_command =
    ApplyCanonicalBlock canonical_block_record "canonical_log_record list"
      "canonical_receipt_record list"
  | RewindToAncestor u64 block_ref
  | PersistSnapshot exact_vault_snapshot u64
  | PersistCanonicalReceipt canonical_receipt_record
  | PersistPlan v2_plan u64
  | PersistFinalPreflight final_preflight_record
  | ReserveNonce nonce_reservation
  | ReserveRateMovementAndNonce nonce_reservation episode_id u256
  | PersistSignedTransaction signed_transaction_record
  | PersistSignedAttempt signed_attempt_record
  | RecordAttemptBroadcast transaction_id b256 u64 u64
  | TransitionTransaction transaction_transition
  | PersistConformance conformance_record
  | PersistReconciliation reconciliation_record exact_vault_snapshot "rate_signal_episode option"
  | FinalizeConformedPostStateFailure transaction_id transaction_state u64
  | PersistTopology topology_index block_ref
  | PersistRateEpisode rate_signal_episode u64
  | PersistTopKApyMemory vault_address top_k_apy_memory u64

definition storage_mutation ::
  "evm_lib \<Rightarrow> json_state \<Rightarrow> storage_command \<Rightarrow> storage_error + json_state" where
  "storage_mutation lib s c =
     (case c of
        ApplyCanonicalBlock block logs receipts \<Rightarrow> apply_block s block logs receipts
      | RewindToAncestor chain_id ancestor \<Rightarrow>
          try_let (rewind_state s chain_id ancestor) (\<lambda>(s', _). Inr s')
      | PersistSnapshot snapshot created_at \<Rightarrow> persist_snapshot s snapshot created_at
      | PersistCanonicalReceipt receipt \<Rightarrow> persist_canonical_receipt s receipt
      | PersistPlan plan created_at \<Rightarrow> persist_plan s plan created_at
      | PersistFinalPreflight record \<Rightarrow> persist_final_preflight s record
      | ReserveNonce reservation \<Rightarrow> reserve_nonce lib s reservation
      | ReserveRateMovementAndNonce reservation eid movement \<Rightarrow>
          try_let (reserve_rate_movement_and_nonce lib s reservation eid movement)
            (\<lambda>(s', _). Inr s')
      | PersistSignedTransaction tx \<Rightarrow> persist_signed lib s tx
      | PersistSignedAttempt attempt \<Rightarrow> persist_signed_attempt lib s attempt
      | RecordAttemptBroadcast tid h broadcast_at broadcast_block \<Rightarrow>
          record_attempt_broadcast s tid h broadcast_at broadcast_block
      | TransitionTransaction transition \<Rightarrow> transition_transaction s transition
      | PersistConformance record \<Rightarrow> persist_conformance s record
      | PersistReconciliation record snapshot episode \<Rightarrow>
          persist_reconciliation s record snapshot episode
      | FinalizeConformedPostStateFailure tid expected updated_at \<Rightarrow>
          finalize_conformed_post_state_failure s tid expected updated_at
      | PersistTopology topology block \<Rightarrow> persist_topology s topology block
      | PersistRateEpisode episode updated_at \<Rightarrow> persist_episode s episode updated_at
      | PersistTopKApyMemory vault memory updated_at \<Rightarrow>
          persist_top_k_apy_memory s vault memory updated_at)"

definition next_state ::
  "evm_lib \<Rightarrow> json_state \<Rightarrow> storage_command \<Rightarrow> storage_error + json_state" where
  "next_state lib s c =
     try_let (storage_mutation lib s c) (\<lambda>s'.
     try_let (ok_or (checked_add64 (js_revision s') 1)
       (StorageInvariant ''JSON state revision overflow'')) (\<lambda>revision.
     let s'' = s'\<lparr>js_revision := revision\<rparr>
     in Inr (if revision mod JOURNAL_SEGMENT_EVENTS = 0 then compact_hot_state s'' else s'')))"

text \<open>
  What the files did with one commit: encoding or the journal append failed, the journal record is
  durable but a derived file failed, or all succeeded. The append is the commit point.
\<close>

datatype journal_outcome = AppendFailed storage_error | MaintenanceFailed storage_error | Durable

definition commit ::
  "evm_lib \<Rightarrow> json_state \<Rightarrow> storage_command \<times> journal_outcome \<Rightarrow> json_state \<times> (storage_error + unit)"
where
  "commit lib s = (\<lambda>(c, outcome).
     case next_state lib s c of
       Inl e \<Rightarrow> (s, Inl e)
     | Inr next \<Rightarrow>
        (case outcome of
           AppendFailed e \<Rightarrow> (s, Inl e)
         | MaintenanceFailed e \<Rightarrow> (next, Inl e)
         | Durable \<Rightarrow> (next, Inr ())))"


subsection \<open>Queries\<close>

definition load_exact_snapshot ::
  "json_state \<Rightarrow> vault_address \<Rightarrow> block_ref \<Rightarrow> exact_vault_snapshot option" where
  "load_exact_snapshot s vault block =
     (let matching = filter (\<lambda>x. pv_vault (sn_parent x) = vault \<and> sc_block (sn_context x) = block)
            (map ts_snapshot (rev (js_exact_snapshots s)))
      in case find (\<lambda>x. ll_verified (sn_idle_locks x)) matching of
           Some x \<Rightarrow> Some x
         | None \<Rightarrow> (case matching of [] \<Rightarrow> None | x # _ \<Rightarrow> Some x))"

definition load_latest_exact_snapshot_in_range ::
  "json_state \<Rightarrow> vault_address \<Rightarrow> u64 \<Rightarrow> u64 \<Rightarrow> exact_vault_snapshot option" where
  "load_latest_exact_snapshot_in_range s vault minimum_block maximum_block =
     (let snapshots = map ts_snapshot (js_exact_snapshots s);
          number = (\<lambda>x. br_number (sc_block (sn_context x)))
      in case max_of (map number (filter (\<lambda>x. pv_vault (sn_parent x) = vault
             \<and> minimum_block \<le> number x \<and> number x \<le> maximum_block) snapshots)) of
           None \<Rightarrow> None
         | Some latest \<Rightarrow>
             let matching = filter (\<lambda>x. pv_vault (sn_parent x) = vault \<and> number x = latest)
                   (rev snapshots)
             in case find (\<lambda>x. ll_verified (sn_idle_locks x)) matching of
                  Some x \<Rightarrow> Some x
                | None \<Rightarrow> (case matching of [] \<Rightarrow> None | x # _ \<Rightarrow> Some x))"

definition load_pending_conformance ::
  "json_state \<Rightarrow> transaction_id \<Rightarrow> storage_error + pending_conformance option" where
  "load_pending_conformance s tid =
     (case find_row s tid of
        None \<Rightarrow> Inr None
      | Some row \<Rightarrow>
          if tr_state row \<noteq> Confirmed then Inr None
          else
          try_let (ok_or (nr_plan_id (tr_reservation row))
            (StorageInvariant ''routine transaction has no plan'')) (\<lambda>plan_id.
          try_let (ok_or (find (\<lambda>x. fp_plan_id x = plan_id) (js_final_preflights s))
            (StorageInvariant ''confirmed transaction has no final preflight'')) (\<lambda>preflight.
          try_let (ok_or (find_plan s plan_id)
            (StorageInvariant ''confirmed transaction has no durable plan'')) (\<lambda>plan.
          try_let (ok_or (find (\<lambda>x. pv_vault (sn_parent x) = pl_vault plan
                \<and> sn_context x = pl_snapshot plan) (map ts_snapshot (js_exact_snapshots s)))
            (StorageInvariant ''confirmed transaction has no exact preflight snapshot'')) (\<lambda>snapshot.
          try_let (ok_or (tr_included_block row)
            (StorageInvariant ''confirmed transaction has no included block'')) (\<lambda>included_block.
          try_let (ok_or (tr_included_block_hash row)
            (StorageInvariant ''confirmed transaction has no included block hash'')) (\<lambda>included_hash.
          try_let (ok_or (find (\<lambda>c. cb_chain_id c = sc_chain_id (pl_snapshot plan)
                \<and> br_number (cb_block c) = included_block \<and> br_hash (cb_block c) = included_hash)
              (js_canonical_blocks s))
            (StorageInvariant ''confirmed transaction inclusion block is not canonical'')) (\<lambda>head.
          Inr (Some \<lparr>pc_reservation = tr_reservation row,
            pc_known_transaction_hashes = map sa_transaction_hash
              (filter (\<lambda>a. sa_transaction_id a = tid) (js_transaction_attempts s)),
            pc_included_block = included_block, pc_included_block_hash = included_hash,
            pc_inclusion_head = cb_block head, pc_snapshot = snapshot, pc_plan = plan,
            pc_expected_actions = fp_expected_actions preflight\<rparr>)))))))))"

definition load_pending_reconciliation_context ::
  "json_state \<Rightarrow> transaction_id \<Rightarrow> storage_error + pending_reconciliation_context option" where
  "load_pending_reconciliation_context s tid =
     (case find_row s tid of
        None \<Rightarrow> Inr None
      | Some row \<Rightarrow>
        (case reconciled_movement_state (tr_state row) of
          None \<Rightarrow> Inr None
        | Some expected \<Rightarrow>
          try_let (ok_or (nr_plan_id (tr_reservation row))
            (StorageInvariant ''routine transaction has no plan'')) (\<lambda>plan_id.
          try_let (ok_or (find_plan s plan_id)
            (StorageInvariant ''conformance-validated transaction has no durable plan'')) (\<lambda>plan.
          let movements = filter (\<lambda>r. rm_transaction_id r = tid \<and> rm_state r = expected)
                (js_rate_movement_reservations s)
          in if 1 < length movements
          then Inl (StorageInvariant ''transaction owns multiple pending rate movements'')
          else
          try_let (case movements of
              [] \<Rightarrow> Inr (None, None)
            | r # _ \<Rightarrow> try_let (ok_or (find (episode_entry (rm_episode_id r)) (js_rate_episodes s))
                (StorageInvariant ''reserved rate episode disappeared''))
                (\<lambda>entry. Inr (Some r, Some (te_episode entry)))) (\<lambda>(movement, episode).
          if (pl_reason plan = RateRebalance) \<noteq> (movement \<noteq> None)
             \<or> (movement \<noteq> None) \<noteq> (episode \<noteq> None)
          then Inl (StorageInvariant ''reconciliation plan and rate movement disagree'')
          else Inr (Some \<lparr>rc_plan_reason = pl_reason plan, rc_rate_movement = movement,
                          rc_rate_episode = episode\<rparr>))))))"

definition MAX_PENDING_RECONCILIATIONS_PER_LOAD :: nat where
  "MAX_PENDING_RECONCILIATIONS_PER_LOAD = 1024"

definition pending_reconciliation_row ::
  "json_state \<Rightarrow> transaction_row \<Rightarrow> storage_error + pending_reconciliation_transaction" where
  "pending_reconciliation_row s row =
     try_let (ok_or (tr_included_block row)
       (StorageInvariant ''reconciliation-pending transaction lost its inclusion block'')) (\<lambda>n.
     try_let (ok_or (tr_included_block_hash row)
       (StorageInvariant ''reconciliation-pending transaction lost its inclusion hash'')) (\<lambda>h.
     if \<not> (\<exists>x \<in> set (js_conformance_records s).
         cf_transaction_id x = nr_transaction_id (tr_reservation row)
         \<and> cf_block_number x = n \<and> cf_block_hash x = h)
     then Inl (StorageInvariant ''reconciliation-pending transaction lost conformance evidence'')
     else Inr \<lparr>pr_transaction_id = nr_transaction_id (tr_reservation row),
       pr_vault = nr_vault (tr_reservation row), pr_signer = nr_signer (tr_reservation row),
       pr_nonce = nr_nonce (tr_reservation row), pr_state = tr_state row,
       pr_transaction_hash = tr_transaction_hash row, pr_included_block = n,
       pr_included_block_hash = h\<rparr>))"

definition load_pending_reconciliations ::
  "json_state \<Rightarrow> storage_error + pending_reconciliation_transaction list" where
  "load_pending_reconciliations s =
     (let rows = sort_key (\<lambda>row. (nr_signer (tr_reservation row), nr_nonce (tr_reservation row),
            nr_transaction_id (tr_reservation row)))
          (filter (\<lambda>row. tr_state row = ReconciliationPending) (js_transactions s))
      in if MAX_PENDING_RECONCILIATIONS_PER_LOAD < length rows
         then Inl (StorageInvariant ''pending reconciliation set exceeds bounded executor capacity'')
         else try_fold (\<lambda>acc row. try_let (pending_reconciliation_row s row)
           (\<lambda>x. Inr (acc @ [x]))) [] rows)"

definition lane_rows :: "json_state \<Rightarrow> address \<Rightarrow> transaction_row list" where
  "lane_rows s signer =
     filter (\<lambda>row. nr_signer (tr_reservation row) = signer \<and> is_unresolved (tr_state row))
       (js_transactions s)"

definition unresolved_view ::
  "json_state \<Rightarrow> address \<Rightarrow> transaction_row \<Rightarrow> unresolved_transaction" where
  "unresolved_view s signer row =
     (let r = tr_reservation row;
          attempts = filter (\<lambda>a. sa_transaction_id a = nr_transaction_id r)
            (js_transaction_attempts s);
          latest = (if attempts = [] then None else Some (last attempts))
      in \<lparr>ut_transaction_id = nr_transaction_id r, ut_vault = nr_vault r, ut_signer = signer,
          ut_nonce = nr_nonce r, ut_state = tr_state row,
          ut_transaction_hash = tr_transaction_hash row,
          ut_included_block = tr_included_block row,
          ut_included_block_hash = tr_included_block_hash row,
          ut_raw_signed_transaction = tr_raw_signed_transaction row,
          ut_calldata = nr_calldata r, ut_calldata_hash = nr_calldata_hash r,
          ut_known_transaction_hashes = map sa_transaction_hash attempts,
          ut_current_max_fee_per_gas =
            (case latest of None \<Rightarrow> nr_max_fee_per_gas r | Some a \<Rightarrow> sa_max_fee_per_gas a),
          ut_current_max_priority_fee_per_gas = (case latest of
            None \<Rightarrow> nr_max_priority_fee_per_gas r | Some a \<Rightarrow> sa_max_priority_fee_per_gas a),
          ut_original_max_fee_per_gas = nr_max_fee_per_gas r,
          ut_original_max_priority_fee_per_gas = nr_max_priority_fee_per_gas r,
          ut_gas_limit = nr_gas_limit r,
          ut_plan = Option.bind (nr_plan_id r) (find_plan s),
          ut_created_block = nr_created_block r,
          ut_last_attempt_block =
            (case latest of None \<Rightarrow> nr_created_block r | Some a \<Rightarrow> sa_signed_block a),
          ut_last_broadcast_block = Option.bind latest sa_last_broadcast_block,
          ut_last_attempt_kind = (case latest of None \<Rightarrow> Initial | Some a \<Rightarrow> sa_kind a)\<rparr>)"

definition load_unresolved ::
  "json_state \<Rightarrow> address \<Rightarrow> storage_error + unresolved_transaction option" where
  "load_unresolved s signer =
     (case lane_rows s signer of
        [] \<Rightarrow> Inr None
      | [row] \<Rightarrow> Inr (Some (unresolved_view s signer row))
      | _ \<Rightarrow> Inl (MultipleUnresolved signer))"

definition load_all_unresolved :: "json_state \<Rightarrow> storage_error + unresolved_transaction list" where
  "load_all_unresolved s =
     try_fold (\<lambda>acc signer.
       try_let (load_unresolved s signer) (\<lambda>view.
       try_let (ok_or view (StorageInvariant ''unresolved signer index disappeared''))
         (\<lambda>x. Inr (acc @ [x])))) []
       (bset (map (nr_signer \<circ> tr_reservation)
         (filter (\<lambda>row. is_unresolved (tr_state row)) (js_transactions s))))"

definition load_transaction_summaries :: "json_state \<Rightarrow> durable_transaction_summary list" where
  "load_transaction_summaries s = sort_key ds_transaction_hash
     (List.map_filter (\<lambda>row. map_option (\<lambda>h. \<lparr>ds_vault = nr_vault (tr_reservation row),
         ds_transaction_hash = h, ds_state = tr_state row, ds_included_block = tr_included_block row\<rparr>)
       (tr_transaction_hash row)) (js_transactions s))"

definition load_cursor :: "json_state \<Rightarrow> u64 \<Rightarrow> block_ref option" where
  "load_cursor s chain_id = map_of (js_chain_cursors s) chain_id"

definition load_canonical_block :: "json_state \<Rightarrow> u64 \<Rightarrow> u64 \<Rightarrow> block_ref option" where
  "load_canonical_block s chain_id n = map_option cb_block
     (find (\<lambda>c. cb_chain_id c = chain_id \<and> br_number (cb_block c) = n) (js_canonical_blocks s))"

definition load_canonical_blocks ::
  "json_state \<Rightarrow> u64 \<Rightarrow> u64 \<Rightarrow> u64 \<Rightarrow> storage_error + block_ref list" where
  "load_canonical_blocks s chain_id from_block to_block =
     (if to_block < from_block then Inl (StorageInvariant ''canonical block range is reversed'')
      else Inr (sort_key br_number (map cb_block (filter (\<lambda>c. cb_chain_id c = chain_id
        \<and> from_block \<le> br_number (cb_block c) \<and> br_number (cb_block c) \<le> to_block)
        (js_canonical_blocks s)))))"

definition count_execution_opportunities ::
  "json_state \<Rightarrow> u64 \<Rightarrow> u64 \<Rightarrow> u64 \<Rightarrow> u64 option \<Rightarrow> storage_error + u64" where
  "count_execution_opportunities s chain_id from_exclusive to_inclusive required_gas_limit =
     (if to_inclusive < from_exclusive
      then Inl (StorageInvariant ''execution opportunity range is reversed'')
      else
        let n = length (filter (\<lambda>c. cb_chain_id c = chain_id
              \<and> from_exclusive < br_number (cb_block c) \<and> br_number (cb_block c) \<le> to_inclusive
              \<and> (case required_gas_limit of None \<Rightarrow> True | Some l \<Rightarrow> br_gas_limit (cb_block c) = l))
              (js_canonical_blocks s))
        in if n < two64 then Inr n
           else Inl (StorageInvariant ''execution opportunity count exceeds u64''))"

definition count_transactions_since :: "json_state \<Rightarrow> address \<Rightarrow> u64 \<Rightarrow> storage_error + u64" where
  "count_transactions_since s signer since =
     (let n = length (filter (\<lambda>row. nr_signer (tr_reservation row) = signer
            \<and> since \<le> nr_created_at (tr_reservation row)
            \<and> (\<exists>a \<in> set (js_transaction_attempts s).
                 sa_transaction_id a = nr_transaction_id (tr_reservation row)
                 \<and> sa_kind a = Initial)) (js_transactions s))
      in if n < two64 then Inr n else Inl (StorageInvariant ''transaction count exceeds u64''))"

definition movement_since :: "json_state \<Rightarrow> vault_address \<Rightarrow> u64 \<Rightarrow> storage_error + u256" where
  "movement_since s vault since =
     try_fold (\<lambda>total row. ok_or (checked_add total (nr_movement_assets (tr_reservation row)))
         (StorageInvariant ''rolling movement sum overflow'')) 0
       (filter (\<lambda>row. nr_vault (tr_reservation row) = vault
         \<and> since \<le> nr_created_at (tr_reservation row) \<and> consumes_rolling_budget (tr_state row))
         (js_transactions s))"

definition receipt_gas_cost ::
  "json_state \<Rightarrow> u64 \<Rightarrow> u64 \<Rightarrow> canonical_receipt_record \<Rightarrow> storage_error + u256" where
  "receipt_gas_cost s chain_id since receipt =
     (case filter (\<lambda>a. sa_transaction_hash a = cc_transaction_hash receipt)
         (js_transaction_attempts s) of
        [] \<Rightarrow> Inr 0
      | [attempt] \<Rightarrow>
          let timestamp = (case find (\<lambda>c. cb_chain_id c = chain_id
                  \<and> br_number (cb_block c) = cc_block_number receipt
                  \<and> br_hash (cb_block c) = cc_block_hash receipt) (js_canonical_blocks s) of
                Some c \<Rightarrow> br_timestamp (cb_block c)
              | None \<Rightarrow> (case find (\<lambda>row. has_id (sa_transaction_id attempt) row
                    \<and> tr_included_block row = Some (cc_block_number receipt)
                    \<and> tr_included_block_hash row = Some (cc_block_hash receipt))
                    (js_transactions s) of
                  None \<Rightarrow> sa_signed_at attempt | Some row \<Rightarrow> tr_updated_at row))
          in if timestamp < since then Inr 0
             else ok_or (checked_mul (cc_gas_used receipt) (sa_max_fee_per_gas attempt))
               (StorageInvariant ''confirmed gas cost overflow'')
      | _ \<Rightarrow> Inl (StorageInvariant ''canonical transaction hash maps to multiple attempts''))"

definition confirmed_gas_spend_since :: "json_state \<Rightarrow> u64 \<Rightarrow> u64 \<Rightarrow> storage_error + u256" where
  "confirmed_gas_spend_since s chain_id since =
     try_fold (\<lambda>spend receipt.
       try_let (receipt_gas_cost s chain_id since receipt) (\<lambda>cost.
       ok_or (checked_add spend cost) (StorageInvariant ''confirmed gas spend overflow''))) 0
       (filter (\<lambda>r. cc_chain_id r = chain_id) (js_canonical_receipts s))"

definition load_canonical_receipts :: "json_state \<Rightarrow> u64 \<Rightarrow> u64 \<Rightarrow> canonical_receipt_record list" where
  "load_canonical_receipts s chain_id n = sort_key cc_transaction_index
     (filter (\<lambda>r. cc_chain_id r = chain_id \<and> cc_block_number r = n) (js_canonical_receipts s))"

definition load_canonical_receipt ::
  "json_state \<Rightarrow> u64 \<Rightarrow> b256 list \<Rightarrow> storage_error + canonical_receipt_record option" where
  "load_canonical_receipt s chain_id hashes =
     (case filter (\<lambda>r. cc_chain_id r = chain_id \<and> cc_transaction_hash r \<in> set hashes)
         (js_canonical_receipts s) of
        [] \<Rightarrow> Inr None
      | [receipt] \<Rightarrow> Inr (Some receipt)
      | _ \<Rightarrow> Inl (StorageInvariant ''multiple known attempts have canonical receipts''))"

definition is_known_transaction_hash :: "json_state \<Rightarrow> b256 \<Rightarrow> bool" where
  "is_known_transaction_hash s h \<longleftrightarrow>
     (\<exists>a \<in> set (js_transaction_attempts s). sa_transaction_hash a = h)"

definition known_transaction_vaults ::
  "json_state \<Rightarrow> b256 list \<Rightarrow> storage_error + vault_address list" where
  "known_transaction_vaults s hashes =
     (let ownership = bset (map (\<lambda>a. (sa_transaction_hash a, sa_transaction_id a))
            (filter (\<lambda>a. sa_transaction_hash a \<in> set hashes) (js_transaction_attempts s)))
      in try_fold (\<lambda>vaults (h, tid).
           if \<exists>(other_hash, other_id) \<in> set ownership. other_hash = h \<and> other_id \<noteq> tid
           then Inl (StorageInvariant ''transaction hash belongs to multiple lifecycle rows'')
           else case filter (has_id tid) (js_transactions s) of
             [row] \<Rightarrow> Inr (bs_insert (nr_vault (tr_reservation row)) vaults)
           | [] \<Rightarrow> Inl (StorageInvariant ''known transaction attempt has no lifecycle row'')
           | _ \<Rightarrow> Inl (StorageInvariant ''known transaction attempt has multiple lifecycle rows''))
           [] ownership)"

definition load_conformance ::
  "json_state \<Rightarrow> transaction_id \<Rightarrow> storage_error + conformance_record option" where
  "load_conformance s tid =
     (case filter (\<lambda>x. cf_transaction_id x = tid) (js_conformance_records s) of
        [] \<Rightarrow> Inr None
      | [record] \<Rightarrow> Inr (Some record)
      | _ \<Rightarrow> Inl (StorageInvariant ''transaction has multiple conformance records''))"

definition load_canonical_logs :: "json_state \<Rightarrow> u64 \<Rightarrow> u64 \<Rightarrow> u64 \<Rightarrow> canonical_log_record list" where
  "load_canonical_logs s chain_id from_block to_block =
     sort_key (\<lambda>l. (cl_block_number l, cl_transaction_index l, cl_log_index l))
       (filter (\<lambda>l. cl_chain_id l = chain_id \<and> from_block \<le> cl_block_number l
         \<and> cl_block_number l \<le> to_block) (js_canonical_logs s))"

definition load_topology_revision :: "json_state \<Rightarrow> vault_address \<Rightarrow> u64 \<Rightarrow> topology_revision option" where
  "load_topology_revision s vault through_block =
     max_by_key (br_number \<circ> tv_block) (filter (\<lambda>r. ti_vault (tv_topology r) = vault
       \<and> br_number (tv_block r) \<le> through_block) (js_topology_history s))"

definition load_topology :: "json_state \<Rightarrow> vault_address \<Rightarrow> u64 \<Rightarrow> topology_index option" where
  "load_topology s vault through_block =
     map_option tv_topology (max_by_key (br_number \<circ> tv_block)
       (filter (\<lambda>r. ti_vault (tv_topology r) = vault \<and> br_number (tv_block r) \<le> through_block)
         (js_topology_history s)))"

definition load_active_rate_episode ::
  "json_state \<Rightarrow> vault_address \<Rightarrow> rate_group_id \<Rightarrow> storage_error + rate_signal_episode option" where
  "load_active_rate_episode s vault rate_group =
     (case filter (\<lambda>e. re_vault e = vault \<and> re_rate_group e = rate_group \<and> re_state e \<noteq> Complete)
         (map te_episode (js_rate_episodes s)) of
        [] \<Rightarrow> Inr None
      | [e] \<Rightarrow> Inr (Some e)
      | _ \<Rightarrow> Inl (StorageInvariant ''multiple active rate episodes''))"

definition load_top_k_apy_memory :: "json_state \<Rightarrow> vault_address \<Rightarrow> top_k_apy_memory option" where
  "load_top_k_apy_memory s vault = map_option tm_memory
     (max_by_key (\<lambda>e. (tk_last_observed_block (tm_memory e), tm_updated_at e))
       (filter (\<lambda>e. tm_vault e = vault) (js_top_k_apy_memory s)))"

end
