(* ===== verification/StorageLane.thy ===== *)
theory StorageLane
  imports Storage
begin

text \<open>
  Transaction rows of the store: what each mutation does to them, that every command except a rewind
  moves rows along the lifecycle graph, and that a signer then owns at most one unresolved row.
\<close>

subsection \<open>Updating the first match\<close>

lemma update_first_find:
  "find p xs = Some x \<Longrightarrow> update_first p f xs = update_first p (\<lambda>_. f x) xs"
  by (induction xs) (auto split: if_splits)

lemma update_first_split:
  "find p xs = Some x \<Longrightarrow>
     \<exists>ys zs. xs = ys @ x # zs \<and> p x \<and> (\<forall>y \<in> set ys. \<not> p y) \<and> update_first p f xs = ys @ f x # zs"
proof (induction xs)
  case (Cons a xs)
  show ?case
  proof (cases "p a")
    case True
    with Cons.prems show ?thesis by (intro exI [of _ "[]"] exI [of _ xs]) auto
  next
    case False
    with Cons obtain ys zs where "xs = ys @ x # zs" "p x" "\<forall>y \<in> set ys. \<not> p y"
      "update_first p f xs = ys @ f x # zs" by auto
    with False show ?thesis by (intro exI [of _ "a # ys"] exI [of _ zs]) auto
  qed
qed simp

lemma find_None_update_first: "find p xs = None \<Longrightarrow> update_first p f xs = xs"
  by (induction xs) (auto split: if_splits)

lemma map_update_first: "(\<And>x. p x \<Longrightarrow> g (f x) = g x) \<Longrightarrow> map g (update_first p f xs) = map g xs"
  by (induction xs) auto

lemma length_filter_update_first:
  "find p xs = Some x \<Longrightarrow> (q (f x) \<longrightarrow> q x) \<Longrightarrow> length (filter q (update_first p f xs)) \<le> length (filter q xs)"
  by (drule update_first_split [of _ _ _ f]) auto

lemma in_update_first: "y \<in> set (update_first p f xs) \<Longrightarrow> y \<in> set xs \<or> (\<exists>x. find p xs = Some x \<and> y = f x)"
  by (induction xs) (auto split: if_splits)

subsection \<open>Steps of the rows\<close>

definition row_id :: "transaction_row \<Rightarrow> transaction_id" where
  "row_id row = nr_transaction_id (tr_reservation row)"

definition lane_free :: "transaction_row list \<Rightarrow> address \<Rightarrow> bool" where
  "lane_free rows signer \<longleftrightarrow>
     (\<forall>row \<in> set rows. nr_signer (tr_reservation row) = signer \<longrightarrow> \<not> is_unresolved (tr_state row))"

text \<open>
  A command leaves the rows, reserves a lane that is free under a fresh identity, or moves one row
  along an edge of the lifecycle graph and keeps its reservation.
\<close>

inductive row_step :: "transaction_row list \<Rightarrow> transaction_row list \<Rightarrow> bool" where
  Same: "row_step rows rows"
| Reserved: "lane_free rows (nr_signer (tr_reservation row)) \<Longrightarrow> row_id row \<notin> row_id ` set rows \<Longrightarrow>
    tr_state row = NonceReserved \<Longrightarrow> row_step rows (rows @ [row])"
| Moved: "find (has_id tid) rows = Some row \<Longrightarrow> tr_reservation (f row) = tr_reservation row \<Longrightarrow>
    permits (tr_state row) (tr_state (f row)) \<Longrightarrow> row_step rows (update_first (has_id tid) f rows)"

lemma update_row_rows [simp]:
  "js_transactions (update_row tid f s) = update_first (has_id tid) f (js_transactions s)"
  "js_rate_episodes (update_row tid f s) = js_rate_episodes s"
  "js_rate_movement_reservations (update_row tid f s) = js_rate_movement_reservations s"
  "js_conformance_records (update_row tid f s) = js_conformance_records s"
  "js_reconciliation_records (update_row tid f s) = js_reconciliation_records s"
  "js_transaction_attempts (update_row tid f s) = js_transaction_attempts s"
  by (simp_all add: update_row_def)

lemma push_snapshot_simps [simp]:
  "js_transactions (push_snapshot s snapshot t) = js_transactions s"
  "js_rate_episodes (push_snapshot s snapshot t) = js_rate_episodes s"
  "js_rate_movement_reservations (push_snapshot s snapshot t) = js_rate_movement_reservations s"
  "js_conformance_records (push_snapshot s snapshot t) = js_conformance_records s"
  "js_reconciliation_records (push_snapshot s snapshot t) = js_reconciliation_records s"
  by (simp_all add: push_snapshot_def)

lemma reserve_nonce_Inr:
  assumes "reserve_nonce lib s r = Inr s'"
  obtains row where "s' = s\<lparr>js_transactions := js_transactions s @ [row]\<rparr>"
    "tr_state row = NonceReserved" "tr_reservation row = r"
    "lane_free (js_transactions s) (nr_signer r)" "row_id row \<notin> row_id ` set (js_transactions s)"
proof
  let ?row = "\<lparr>tr_reservation = r, tr_state = NonceReserved, tr_transaction_hash = None,
    tr_raw_signed_transaction = None, tr_submitted_at = None, tr_included_block = None,
    tr_included_block_hash = None, tr_updated_at = nr_created_at r\<rparr>"
  show "s' = s\<lparr>js_transactions := js_transactions s @ [?row]\<rparr>"
    using assms by (auto simp: reserve_nonce_def split: if_splits)
  show "lane_free (js_transactions s) (nr_signer r)"
    using assms by (auto simp: reserve_nonce_def lane_free_def split: if_splits)
  show "row_id ?row \<notin> row_id ` set (js_transactions s)"
    using assms by (fastforce simp: reserve_nonce_def has_id_def row_id_def split: if_splits)
qed simp_all

lemma reserve_nonce_rows:
  assumes "reserve_nonce lib s r = Inr s'"
  shows "row_step (js_transactions s) (js_transactions s')"
  using assms by (rule reserve_nonce_Inr) (auto intro: row_step.Reserved)

lemma reserve_rate_movement_Inr:
  assumes "reserve_rate_movement_and_nonce lib s r eid movement = Inr (s', m)"
  obtains entry e t where
    "find (episode_entry eid) (js_rate_episodes s) = Some entry"
    "settled (reserve_pending (te_episode entry) movement) = Inr e"
    "\<forall>x \<in> set (js_rate_movement_reservations s). rm_transaction_id x \<noteq> nr_transaction_id r"
    "reserve_nonce lib (s\<lparr>js_rate_episodes :=
        update_first (episode_entry eid) (set_episode e) (js_rate_episodes s)\<rparr>) r = Inr t"
    "s' = t\<lparr>js_rate_movement_reservations := js_rate_movement_reservations t @ [m]\<rparr>"
    "rm_transaction_id m = nr_transaction_id r" "rm_episode_id m = eid"
    "rm_movement_assets m = movement" "rm_state m = MovementPending"
  using assms
  by (auto simp: reserve_rate_movement_and_nonce_def result_simps Let_def split: if_splits)

lemma release_rate_movement_Inr:
  assumes "release_rate_movement s tid = Inr s'"
  shows "\<exists>eps ms. s' = s\<lparr>js_rate_episodes := eps, js_rate_movement_reservations := ms\<rparr>"
proof -
  consider "s' = s"
    | eps ms where "s' = s\<lparr>js_rate_episodes := eps, js_rate_movement_reservations := ms\<rparr>"
    using assms by (auto simp: release_rate_movement_def result_simps Let_def split: list.splits)
  then show ?thesis
  proof cases
    case 1
    then show ?thesis
      by (intro exI [of _ "js_rate_episodes s"] exI [of _ "js_rate_movement_reservations s"]) simp
  qed blast
qed

lemma record_transition_broadcast_Inr:
  assumes "record_transition_broadcast s t = Inr s'"
  shows "\<exists>as. s' = s\<lparr>js_transaction_attempts := as\<rparr>"
proof -
  consider "s' = s" | as where "s' = s\<lparr>js_transaction_attempts := as\<rparr>"
    using assms by (auto simp: record_transition_broadcast_def result_simps split: if_splits)
  then show ?thesis
  proof cases
    case 1
    then show ?thesis by (intro exI [of _ "js_transaction_attempts s"]) simp
  qed blast
qed


lemma transition_transaction_Inr:
  assumes "transition_transaction s t = Inr s'"
  obtains row as s'' where
    "find_row s (tt_transaction_id t) = Some row" "tr_state row = tt_expected_state t"
    "permits (tr_state row) (tt_next_state t)" "tt_next_state t \<notin> {ConformanceValidated, Reconciled}"
    "s'' = update_row (tt_transaction_id t) (transitioned_row t) (s\<lparr>js_transaction_attempts := as\<rparr>)"
    "s' = s'' \<or> release_rate_movement s'' (tt_transaction_id t) = Inr s'"
proof -
  from assms have n: "tt_next_state t \<notin> {ConformanceValidated, Reconciled}"
    by (auto simp: transition_transaction_def)
  from assms n have p: "permits (tt_expected_state t) (tt_next_state t)"
    by (auto simp: transition_transaction_def split: if_splits)
  from assms n p obtain row u where row: "find_row s (tt_transaction_id t) = Some row"
      "tr_state row = tt_expected_state t"
    and u: "record_transition_broadcast s t = Inr u"
    and s': "s' = update_row (tt_transaction_id t) (transitioned_row t) u \<or>
      release_rate_movement (update_row (tt_transaction_id t) (transitioned_row t) u)
        (tt_transaction_id t) = Inr s'"
    by (auto simp: transition_transaction_def result_simps Let_def split: if_splits)
  from record_transition_broadcast_Inr [OF u] obtain as where "u = s\<lparr>js_transaction_attempts := as\<rparr>"
    by blast
  with row p n s' show ?thesis by (intro that [of row]) simp_all
qed

lemma transitioned_row_simps [simp]:
  "tr_reservation (transitioned_row t row) = tr_reservation row"
  "tr_state (transitioned_row t row) = tt_next_state t"
  by (simp_all add: transitioned_row_def)

lemma transition_transaction_rows:
  assumes "transition_transaction s t = Inr s'"
  shows "row_step (js_transactions s) (js_transactions s')"
  using assms
proof (rule transition_transaction_Inr)
  fix row as s''
  assume row: "find_row s (tt_transaction_id t) = Some row" "permits (tr_state row) (tt_next_state t)"
    and s'': "s'' = update_row (tt_transaction_id t) (transitioned_row t) (s\<lparr>js_transaction_attempts := as\<rparr>)"
    and s': "s' = s'' \<or> release_rate_movement s'' (tt_transaction_id t) = Inr s'"
  from s' have "js_transactions s' = js_transactions s''"
    by (auto dest: release_rate_movement_Inr)
  then show ?thesis
    using row by (auto simp: s'' find_row_def intro: row_step.Moved)
qed

lemma persist_signed_Inr:
  assumes "persist_signed lib s tx = Inr s'"
  obtains row h b t as where "find_row s (st_transaction_id tx) = Some row"
    "tr_state row = NonceReserved"
    "s' = (update_row (st_transaction_id tx) (\<lambda>row. row\<lparr>tr_state := Signed,
      tr_transaction_hash := Some h, tr_raw_signed_transaction := Some b, tr_updated_at := t\<rparr>) s)
      \<lparr>js_transaction_attempts := as\<rparr>"
  using assms by (auto simp: persist_signed_def result_simps Let_def split: if_splits)

lemma persist_signed_rows:
  assumes "persist_signed lib s tx = Inr s'"
  shows "row_step (js_transactions s) (js_transactions s')"
  using assms
  by (rule persist_signed_Inr) (auto simp: find_row_def permits_def intro!: row_step.Moved)

lemma signed_attempt_state_permits:
  "signed_attempt_state kind st = Some st' \<Longrightarrow> permits st st' \<and> st' \<in> {ReplacementSigned, CancellationSigned}"
  by (auto simp: signed_attempt_state_def permits_def split: if_splits)

lemma persist_signed_attempt_Inr:
  assumes "persist_signed_attempt lib s attempt = Inr s'"
  obtains row st h b t as where "find_row s (sa_transaction_id attempt) = Some row"
    "permits (tr_state row) st" "st \<in> {ReplacementSigned, CancellationSigned}"
    "s' = (update_row (sa_transaction_id attempt) (\<lambda>row. row\<lparr>tr_state := st,
      tr_transaction_hash := Some h, tr_raw_signed_transaction := Some b, tr_updated_at := t\<rparr>) s)
      \<lparr>js_transaction_attempts := as\<rparr>"
proof -
  from assms obtain row st where "find_row s (sa_transaction_id attempt) = Some row"
      "signed_attempt_state (sa_kind attempt) (tr_state row) = Some st"
    and "s' = (update_row (sa_transaction_id attempt) (\<lambda>row. row\<lparr>tr_state := st,
        tr_transaction_hash := Some (sa_transaction_hash attempt),
        tr_raw_signed_transaction := Some (sa_raw_signed_transaction attempt),
        tr_updated_at := sa_signed_at attempt\<rparr>) s)
        \<lparr>js_transaction_attempts := js_transaction_attempts s @ [attempt]\<rparr>"
    by (auto simp: persist_signed_attempt_def result_simps Let_def split: if_splits)
  then show ?thesis
    using signed_attempt_state_permits by (intro that [of row st]) auto
qed

lemma persist_signed_attempt_rows:
  assumes "persist_signed_attempt lib s attempt = Inr s'"
  shows "row_step (js_transactions s) (js_transactions s')"
  using assms
  by (rule persist_signed_attempt_Inr) (auto simp: find_row_def intro!: row_step.Moved)

lemma persist_conformance_Inr:
  assumes "persist_conformance s record = Inr s'"
  obtains row where "find_row s (cf_transaction_id record) = Some row" "tr_state row = Confirmed"
    "tr_included_block row = Some (cf_block_number record)"
    "tr_included_block_hash row = Some (cf_block_hash record)"
    "s' = (update_row (cf_transaction_id record) (\<lambda>row. row\<lparr>tr_state := ConformanceValidated,
        tr_transaction_hash := Some (cf_transaction_hash record),
        tr_updated_at := cf_validated_at record\<rparr>) s)
      \<lparr>js_conformance_records := js_conformance_records s @ [record]\<rparr>"
  using assms by (auto simp: persist_conformance_def result_simps Let_def split: if_splits)

lemma persist_conformance_rows:
  assumes "persist_conformance s record = Inr s'"
  shows "row_step (js_transactions s) (js_transactions s')"
  using assms
  by (rule persist_conformance_Inr) (auto simp: find_row_def permits_def intro!: row_step.Moved)

lemma settle_failed_movement_Inr:
  assumes "settle_failed_movement s expected plan cf r = Inr s'"
  obtains "s' = s"
  | entry e where "find (episode_entry (rm_episode_id r)) (js_rate_episodes s) = Some entry"
    "settled (confirm_pending (te_episode entry) (rm_movement_assets r)) = Inr e"
    "rm_state r = MovementPending" "expected = ConformanceValidated"
    "s' = s\<lparr>js_rate_episodes := update_first (episode_entry (rm_episode_id r)) (set_episode e)
            (js_rate_episodes s),
          js_rate_movement_reservations := update_first (owns_movement (rm_transaction_id r))
            (\<lambda>r. r\<lparr>rm_state := MovementConfirmed\<rparr>) (js_rate_movement_reservations s)\<rparr>"
proof -
  from assms obtain entry where entry:
      "find (episode_entry (rm_episode_id r)) (js_rate_episodes s) = Some entry"
    by (cases "find (episode_entry (rm_episode_id r)) (js_rate_episodes s)")
      (auto simp: settle_failed_movement_def split: if_splits)
  have step: "settle_failed_movement s expected plan cf r = Inr s' \<Longrightarrow>
      expected \<noteq> ConformanceValidated \<Longrightarrow> s' = s"
    by (cases expected) (auto simp: settle_failed_movement_def entry split: if_splits)
  show ?thesis
  proof (cases "expected = ConformanceValidated")
    case True
    with assms entry show ?thesis
      by (auto simp: settle_failed_movement_def result_simps intro: that(2) split: if_splits)
  qed (use step [OF assms] that(1) in blast)
qed

lemma settle_failed_movements_Inr:
  assumes "settle_failed_movements s tid expected plan cf = Inr s'"
  obtains "s' = s"
  | r where "filter (owns_movement tid) (js_rate_movement_reservations s) = [r]"
    "settle_failed_movement s expected plan cf r = Inr s'"
  using assms
  by (cases "filter (owns_movement tid) (js_rate_movement_reservations s)")
    (auto simp: settle_failed_movements_def Let_def split: if_splits)

lemma finalize_Inr:
  assumes "finalize_conformed_post_state_failure s tid expected t = Inr s'"
  obtains row plan cf s'' where "find_row s tid = Some row" "requires_reconciliation expected"
    "permits expected Failed" "tr_state row = expected"
    "settle_failed_movements s tid expected plan cf = Inr s''"
    "s' = update_row tid (\<lambda>row. row\<lparr>tr_state := Failed, tr_updated_at := t\<rparr>) s''"
proof (cases "filter (\<lambda>x. cf_transaction_id x = tid) (js_conformance_records s)")
  case (Cons cf cfs)
  show ?thesis
  proof (cases cfs)
    case Nil
    with assms Cons show ?thesis
      unfolding finalize_conformed_post_state_failure_def
      by (simp add: result_simps) (elim conjE exE, rule that, assumption+, rule sym, assumption)
  next
    case (Cons cf' cfs')
    with assms \<open>filter _ _ = cf # cfs\<close> show ?thesis
      by (simp add: finalize_conformed_post_state_failure_def result_simps)
  qed
qed (use assms in \<open>simp add: finalize_conformed_post_state_failure_def result_simps\<close>)


lemma finalize_rows:
  assumes "finalize_conformed_post_state_failure s tid expected t = Inr s'"
  shows "row_step (js_transactions s) (js_transactions s')"
  using assms
proof (rule finalize_Inr)
  fix row plan cf s''
  assume row: "find_row s tid = Some row" "permits expected Failed" "tr_state row = expected"
    and s'': "settle_failed_movements s tid expected plan cf = Inr s''"
    and s': "s' = update_row tid (\<lambda>row. row\<lparr>tr_state := Failed, tr_updated_at := t\<rparr>) s''"
  from s'' have "js_transactions s'' = js_transactions s"
    by (elim settle_failed_movements_Inr) (auto elim: settle_failed_movement_Inr)
  then show ?thesis
    using row by (auto simp: s' find_row_def intro!: row_step.Moved)
qed

lemma persist_reconciliation_Inr:
  assumes "persist_reconciliation s record snapshot confirmed = Inr s'"
  obtains row ms s1 s2 where "find_row s (rr_transaction_id record) = Some row"
    "reconciled_movement_state (tr_state row) = Some ms"
    "\<exists>x \<in> set (js_conformance_records s). cf_transaction_id x = rr_transaction_id record"
    "length (filter (owns_movement (rr_transaction_id record)) (js_rate_movement_reservations s)) \<le> 1"
    "check_reconciled_movement s (tr_state row) ms
      (filter (owns_movement (rr_transaction_id record)) (js_rate_movement_reservations s)) confirmed
      = Inr ()"
    "s1 = push_snapshot (update_row (rr_transaction_id record) (\<lambda>row. row\<lparr>tr_state := Reconciled,
      tr_updated_at := rr_reconciled_at record\<rparr>) s) snapshot (rr_reconciled_at record)"
    "(case confirmed of None \<Rightarrow> Inr s1
      | Some e \<Rightarrow> persist_episode s1 e (rr_reconciled_at record)) = Inr s2"
    "s' = s2\<lparr>js_rate_movement_reservations :=
        (if tr_state row = ConformanceValidated
            \<and> filter (owns_movement (rr_transaction_id record)) (js_rate_movement_reservations s) \<noteq> []
         then update_first (owns_movement (rr_transaction_id record))
           (\<lambda>r. r\<lparr>rm_state := MovementConfirmed\<rparr>) (js_rate_movement_reservations s2)
         else js_rate_movement_reservations s2),
      js_reconciliation_records := js_reconciliation_records s2 @ [record]\<rparr>"
  using assms unfolding persist_reconciliation_def Let_def
  by (simp only: result_simps not_less de_Morgan_disj not_not)
    (elim conjE exE, rule that, assumption+, (rule refl | assumption | simp)+)

lemma persist_episode_Inr:
  assumes "persist_episode s e t = Inr s'"
  shows "\<exists>eps. s' = s\<lparr>js_rate_episodes := eps\<rparr>"
  using assms by (auto simp: persist_episode_def Let_def split: if_splits)

lemma reconciled_permits:
  "reconciled_movement_state st = Some ms \<Longrightarrow> permits st Reconciled"
  by (cases st) (auto simp: reconciled_movement_state_def permits_def)

lemma persist_reconciliation_rows:
  assumes "persist_reconciliation s record snapshot confirmed = Inr s'"
  shows "row_step (js_transactions s) (js_transactions s')"
  using assms
proof (rule persist_reconciliation_Inr)
  fix row ms s1 s2
  assume row: "find_row s (rr_transaction_id record) = Some row"
      "reconciled_movement_state (tr_state row) = Some ms"
    and s1: "s1 = push_snapshot (update_row (rr_transaction_id record) (\<lambda>row. row\<lparr>tr_state := Reconciled,
      tr_updated_at := rr_reconciled_at record\<rparr>) s) snapshot (rr_reconciled_at record)"
    and s2: "(case confirmed of None \<Rightarrow> Inr s1
      | Some e \<Rightarrow> persist_episode s1 e (rr_reconciled_at record)) = Inr s2"
    and s': "s' = s2\<lparr>js_rate_movement_reservations :=
        (if tr_state row = ConformanceValidated
            \<and> filter (owns_movement (rr_transaction_id record)) (js_rate_movement_reservations s) \<noteq> []
         then update_first (owns_movement (rr_transaction_id record))
           (\<lambda>r. r\<lparr>rm_state := MovementConfirmed\<rparr>) (js_rate_movement_reservations s2)
         else js_rate_movement_reservations s2),
      js_reconciliation_records := js_reconciliation_records s2 @ [record]\<rparr>"
  from s2 have "js_transactions s2 = js_transactions s1"
    by (cases confirmed) (auto dest: persist_episode_Inr)
  then show ?thesis
    using row reconciled_permits [OF row(2)] by (auto simp: s' s1 find_row_def intro!: row_step.Moved)
qed


text \<open>Commands that do not touch the rows at all.\<close>

lemma unrelated_commands:
  "apply_block s block logs receipts = Inr s' \<Longrightarrow> js_transactions s' = js_transactions s"
  "persist_canonical_receipt s receipt = Inr s' \<Longrightarrow> js_transactions s' = js_transactions s"
  "persist_snapshot s snapshot t = Inr s' \<Longrightarrow> js_transactions s' = js_transactions s"
  "persist_plan s plan t = Inr s' \<Longrightarrow> js_transactions s' = js_transactions s"
  "persist_final_preflight s fp = Inr s' \<Longrightarrow> js_transactions s' = js_transactions s"
  "record_attempt_broadcast s tid h t b = Inr s' \<Longrightarrow> js_transactions s' = js_transactions s"
  "persist_topology s topology head = Inr s' \<Longrightarrow> js_transactions s' = js_transactions s"
  "persist_episode s e t = Inr s' \<Longrightarrow> js_transactions s' = js_transactions s"
  "persist_top_k_apy_memory s vault memory t = Inr s' \<Longrightarrow> js_transactions s' = js_transactions s"
  by (auto simp: apply_block_def persist_canonical_receipt_def persist_snapshot_def persist_plan_def
      persist_final_preflight_def record_attempt_broadcast_def persist_topology_def
      persist_top_k_apy_memory_def result_simps split: if_splits option.splits
      dest: persist_episode_Inr)

lemma row_step_same: "js_transactions s' = js_transactions s \<Longrightarrow> row_step (js_transactions s) (js_transactions s')"
  by (simp add: row_step.Same)

lemmas unrelated_rows = unrelated_commands [THEN row_step_same]

definition not_rewind :: "storage_command \<Rightarrow> bool" where
  "not_rewind c \<longleftrightarrow> (\<forall>chain_id ancestor. c \<noteq> RewindToAncestor chain_id ancestor)"

lemma storage_mutation_rows:
  assumes "storage_mutation lib s c = Inr s'" and "not_rewind c"
  shows "row_step (js_transactions s) (js_transactions s')"
proof (cases c)
  case (ReserveRateMovementAndNonce r eid movement)
  with assms(1) obtain m where "reserve_rate_movement_and_nonce lib s r eid movement = Inr (s', m)"
    by (auto simp: storage_mutation_def result_simps)
  then show ?thesis
    by (rule reserve_rate_movement_Inr) (auto dest: reserve_nonce_rows)
qed (use assms in \<open>auto simp: storage_mutation_def not_rewind_def
  intro: reserve_nonce_rows persist_signed_rows persist_signed_attempt_rows unrelated_rows
    transition_transaction_rows persist_conformance_rows persist_reconciliation_rows
    finalize_rows\<close>)

subsection \<open>One lane per signer\<close>

definition lane_inv :: "json_state \<Rightarrow> bool" where
  "lane_inv s \<longleftrightarrow> distinct (map row_id (js_transactions s))
     \<and> (\<forall>signer. length (lane_rows s signer) \<le> 1)"

lemma row_step_ids:
  assumes "row_step rows rows'" "distinct (map row_id rows)"
  shows "distinct (map row_id rows')"
  using assms
proof (induction rule: row_step.induct)
  case (Moved tid rows row f)
  have "map row_id (update_first (has_id tid) f rows) = map row_id rows"
    using update_first_split [OF Moved(1), of f] Moved(2) by (auto simp: row_id_def)
  with Moved show ?case by simp
qed auto

lemma row_step_lane:
  assumes "row_step rows rows'"
    and "length (filter (\<lambda>row. nr_signer (tr_reservation row) = signer \<and> is_unresolved (tr_state row))
      rows) \<le> 1"
  shows "length (filter (\<lambda>row. nr_signer (tr_reservation row) = signer \<and> is_unresolved (tr_state row))
      rows') \<le> 1"
  using assms
proof (induction rule: row_step.induct)
  case (Reserved rows row)
  then show ?case
    by (cases "nr_signer (tr_reservation row) = signer")
      (auto simp: lane_free_def filter_empty_conv)
next
  case (Moved tid rows row f)
  have "length (filter (\<lambda>row. nr_signer (tr_reservation row) = signer \<and> is_unresolved (tr_state row))
      (update_first (has_id tid) f rows))
    \<le> length (filter (\<lambda>row. nr_signer (tr_reservation row) = signer \<and> is_unresolved (tr_state row)) rows)"
    by (rule length_filter_update_first [OF Moved(1)]) (use Moved permits_from_lane in auto)
  with Moved show ?case by simp
qed

lemma compact_topology_frame [simp]:
  "js_transactions (compact_topology s) = js_transactions s"
  "js_conformance_records (compact_topology s) = js_conformance_records s"
  "js_reconciliation_records (compact_topology s) = js_reconciliation_records s"
  "js_rate_movement_reservations (compact_topology s) = js_rate_movement_reservations s"
  "js_rate_episodes (compact_topology s) = js_rate_episodes s"
  by (simp_all add: compact_topology_def Let_def split: option.split)

lemma compact_top_k_memory_frame [simp]:
  "js_transactions (compact_top_k_memory s) = js_transactions s"
  "js_conformance_records (compact_top_k_memory s) = js_conformance_records s"
  "js_reconciliation_records (compact_top_k_memory s) = js_reconciliation_records s"
  "js_rate_movement_reservations (compact_top_k_memory s) = js_rate_movement_reservations s"
  "js_rate_episodes (compact_top_k_memory s) = js_rate_episodes s"
  by (simp_all add: compact_top_k_memory_def Let_def split: option.split)

lemma compact_logs_and_receipts_frame [simp]:
  "js_transactions (compact_logs_and_receipts s) = js_transactions s"
  "js_conformance_records (compact_logs_and_receipts s) = js_conformance_records s"
  "js_reconciliation_records (compact_logs_and_receipts s) = js_reconciliation_records s"
  "js_rate_movement_reservations (compact_logs_and_receipts s) = js_rate_movement_reservations s"
  "js_rate_episodes (compact_logs_and_receipts s) = js_rate_episodes s"
  by (simp_all add: compact_logs_and_receipts_def Let_def split: option.split)

lemma compact_blocks_frame [simp]:
  "js_transactions (compact_blocks plans s) = js_transactions s"
  "js_conformance_records (compact_blocks plans s) = js_conformance_records s"
  "js_reconciliation_records (compact_blocks plans s) = js_reconciliation_records s"
  "js_rate_movement_reservations (compact_blocks plans s) = js_rate_movement_reservations s"
  "js_rate_episodes (compact_blocks plans s) = js_rate_episodes s"
  by (simp_all add: compact_blocks_def Let_def split: option.split)

lemma compact_snapshots_and_plans_frame [simp]:
  "js_transactions (compact_snapshots_and_plans plans ids s) = js_transactions s"
  "js_conformance_records (compact_snapshots_and_plans plans ids s) = js_conformance_records s"
  "js_reconciliation_records (compact_snapshots_and_plans plans ids s) = js_reconciliation_records s"
  "js_rate_movement_reservations (compact_snapshots_and_plans plans ids s) = js_rate_movement_reservations s"
  "js_rate_episodes (compact_snapshots_and_plans plans ids s) = js_rate_episodes s"
  by (simp_all add: compact_snapshots_and_plans_def Let_def split: option.split)

lemma compact_hot_state_frame [simp]:
  "js_transactions (compact_hot_state s) = js_transactions (compact_lifecycle_history s)"
  "js_conformance_records (compact_hot_state s) = js_conformance_records (compact_lifecycle_history s)"
  "js_reconciliation_records (compact_hot_state s) = js_reconciliation_records (compact_lifecycle_history s)"
  "js_rate_movement_reservations (compact_hot_state s) = js_rate_movement_reservations (compact_lifecycle_history s)"
  "js_rate_episodes (compact_hot_state s) = js_rate_episodes (compact_lifecycle_history s)"
  by (simp_all add: compact_hot_state_def Let_def)

lemma compaction_rows:
  "\<exists>P. js_transactions (compact_hot_state s) = filter P (js_transactions s)
     \<and> (\<forall>row. is_active_lifecycle (tr_state row) \<longrightarrow> P row)"
  unfolding compact_hot_state_frame compact_lifecycle_history_def Let_def
  by (rule exI, rule conjI, simp, simp)

lemma length_filter_le_filter: "length (filter q (filter P xs)) \<le> length (filter q xs)"
  by (induction xs) auto

lemma lane_inv_next:
  assumes "lane_inv s" "not_rewind c" "next_state lib s c = Inr s'"
  shows "lane_inv s'"
proof -
  from assms(3) obtain t n where t: "storage_mutation lib s c = Inr t"
    and s': "s' = (if n mod JOURNAL_SEGMENT_EVENTS = 0 then compact_hot_state (t\<lparr>js_revision := n\<rparr>)
      else t\<lparr>js_revision := n\<rparr>)"
    by (auto simp: next_state_def result_simps Let_def)
  note rows = storage_mutation_rows [OF t assms(2)]
  have inv: "lane_inv (t\<lparr>js_revision := n\<rparr>)"
    using row_step_ids [OF rows] row_step_lane [OF rows] assms(1)
    by (simp add: lane_inv_def lane_rows_def)
  obtain P where P: "js_transactions (compact_hot_state (t\<lparr>js_revision := n\<rparr>))
      = filter P (js_transactions (t\<lparr>js_revision := n\<rparr>))"
    using compaction_rows by blast
  have "lane_inv (compact_hot_state (t\<lparr>js_revision := n\<rparr>))"
    unfolding lane_inv_def lane_rows_def P
  proof (intro conjI allI)
    show "distinct (map row_id (filter P (js_transactions (t\<lparr>js_revision := n\<rparr>))))"
      using inv by (simp add: lane_inv_def distinct_map_filter)
  qed (rule le_trans [OF length_filter_le_filter], use inv in \<open>simp add: lane_inv_def lane_rows_def\<close>)
  with inv show ?thesis by (simp add: s')
qed

interpretation lane: fallible_machine "next_state lib" not_rewind lane_inv for lib
  by unfold_locales (rule lane_inv_next)


subsection \<open>Runs of the actor\<close>

definition storage_run ::
  "evm_lib \<Rightarrow> json_state \<Rightarrow> (storage_command \<times> journal_outcome) list \<Rightarrow> json_state" where
  "storage_run lib = foldl (\<lambda>s x. fst (commit lib s x))"

lemma storage_run_simps [simp]:
  "storage_run lib s [] = s" "storage_run lib s (x # xs) = storage_run lib (fst (commit lib s x)) xs"
  by (simp_all add: storage_run_def)

text \<open>Whatever the files do, a commit leaves the state or replaces it by the next one.\<close>

lemma commit_state:
  "fst (commit lib s x) = s \<or> next_state lib s (fst x) = Inr (fst (commit lib s x))"
  by (cases x) (auto simp: commit_def split: sum.splits journal_outcome.splits)

lemma storage_run_invariant:
  assumes "I s" and "list_all P cs"
    and "\<And>s x s'. I s \<Longrightarrow> P x \<Longrightarrow> next_state lib s (fst x) = Inr s' \<Longrightarrow> I s'"
  shows "I (storage_run lib s cs)"
  using assms(1,2)
proof (induction cs arbitrary: s)
  case (Cons x xs)
  then have "I (fst (commit lib s x))"
    using commit_state [of lib s x] assms(3) [of s x] by auto
  with Cons show ?case by simp
qed simp

lemma lane_inv_default: "lane_inv json_state_default"
  by (simp add: lane_inv_def lane_rows_def json_state_default_def)

subsection \<open>Properties\<close>

text \<open>
  C2. As long as no canonical rewind happens, a signer never owns two unresolved transactions: after
  any sequence of commands, accepted or rejected and with any outcome of the files, the recovery
  query of a signer returns at most one transaction and never reports several.
\<close>

theorem signer_lane_exclusive:
  assumes "list_all (not_rewind \<circ> fst) cs"
  shows "\<exists>view. load_unresolved (storage_run lib json_state_default cs) signer = Inr view"
proof -
  have "lane_inv (storage_run lib json_state_default cs)"
    by (rule storage_run_invariant [of lane_inv, OF lane_inv_default assms]) (auto intro: lane.step_inv)
  then have "length (lane_rows (storage_run lib json_state_default cs) signer) \<le> 1"
    by (simp add: lane_inv_def)
  then show ?thesis
    by (auto simp: load_unresolved_def split: list.splits)
qed

definition witness_reservation :: "nat \<Rightarrow> nonce_reservation" where
  "witness_reservation n = \<lparr>nr_transaction_id = word_of_nat n, nr_plan_id = None, nr_vault = 1,
     nr_signer = 7, nr_nonce = n, nr_calldata = [], nr_calldata_hash = 0, nr_max_fee_per_gas = 30,
     nr_max_priority_fee_per_gas = 2, nr_gas_limit = 100000, nr_movement_assets = 5,
     nr_created_block = 9, nr_created_at = 100 + n\<rparr>"

definition witness_signed :: "nat \<Rightarrow> signed_transaction_record" where
  "witness_signed n = \<lparr>st_transaction_id = word_of_nat n, st_transaction_hash = 1,
     st_raw_signed_transaction = [1], st_updated_at = 110\<rparr>"

definition witness_transition ::
  "nat \<Rightarrow> transaction_state \<Rightarrow> transaction_state \<Rightarrow> u64 option \<Rightarrow> transaction_transition" where
  "witness_transition n st st' block = \<lparr>tt_transaction_id = word_of_nat n, tt_expected_state = st,
     tt_next_state = st', tt_transaction_hash = Some 1, tt_submitted_at = Some 111,
     tt_included_block = block, tt_included_block_hash = map_option word_of_nat block,
     tt_updated_at = 112\<rparr>"

theorem signer_lane_exclusive_witness:
  "length (js_transactions (storage_run witness_lib json_state_default
     [(ReserveNonce (witness_reservation 1), Durable), (ReserveNonce (witness_reservation 2), Durable)]))
     = 1
   \<and> (\<exists>view. load_unresolved (storage_run witness_lib json_state_default
     [(ReserveNonce (witness_reservation 1), Durable), (ReserveNonce (witness_reservation 2), Durable)]) 7
     = Inr view)"
proof
  show "\<exists>view. load_unresolved (storage_run witness_lib json_state_default
     [(ReserveNonce (witness_reservation 1), Durable), (ReserveNonce (witness_reservation 2), Durable)]) 7
     = Inr view"
    by (rule signer_lane_exclusive) (simp add: not_rewind_def)
qed (simp add: commit_def next_state_def storage_mutation_def reserve_nonce_def has_id_def
    json_state_default_def witness_reservation_def witness_lib_def JOURNAL_SEGMENT_EVENTS_def
    evaluate_arith)


lemma row_step_members:
  assumes "row_step rows rows'" "row' \<in> set rows'"
  shows "(\<exists>row \<in> set rows. tr_reservation row' = tr_reservation row
        \<and> (tr_state row' = tr_state row \<or> permits (tr_state row) (tr_state row')))
    \<or> tr_state row' = NonceReserved \<and> row_id row' \<notin> row_id ` set rows
        \<and> lane_free rows (nr_signer (tr_reservation row'))"
  using assms
proof (induction rule: row_step.induct)
  case (Moved tid rows row f)
  then have "row \<in> set rows" and "row' \<in> set rows \<or> row' = f row"
    using in_update_first [of row' "has_id tid" f rows] by (auto dest: update_first_split [of _ _ _ f])
  then consider "row' \<in> set rows" | "row' = f row" "row \<in> set rows"
    by blast
  then show ?case
    using Moved by cases auto
qed auto

lemma next_state_rows:
  assumes "next_state lib s c = Inr s'"
  obtains t where "storage_mutation lib s c = Inr t" "set (js_transactions s') \<subseteq> set (js_transactions t)"
proof -
  from assms obtain t n where t: "storage_mutation lib s c = Inr t"
    and s': "s' = (if n mod JOURNAL_SEGMENT_EVENTS = 0 then compact_hot_state (t\<lparr>js_revision := n\<rparr>)
      else t\<lparr>js_revision := n\<rparr>)"
    by (auto simp: next_state_def result_simps Let_def)
  have "set (js_transactions s') \<subseteq> set (js_transactions t)"
    using compaction_rows [of "t\<lparr>js_revision := n\<rparr>"] by (auto simp: s')
  with t show ?thesis by (rule that)
qed


definition witness_lane :: json_state where
  "witness_lane = storage_run witness_lib json_state_default
     [(ReserveNonce (witness_reservation 1), Durable),
      (PersistSignedTransaction (witness_signed 1), Durable),
      (TransitionTransaction (witness_transition 1 Signed Submitted None), Durable)]"

lemmas evaluate_storage =
  commit_def next_state_def storage_mutation_def reserve_nonce_def has_id_def find_row_def
  update_row_def persist_signed_def transition_transaction_def record_transition_broadcast_def
  release_rate_movement_def transitioned_row_def attempt_matches_def permits_def
  json_state_default_def witness_reservation_def witness_signed_def witness_transition_def
  witness_lib_def JOURNAL_SEGMENT_EVENTS_def Let_def evaluate_arith

lemma witness_lane_eval: "map tr_state (js_transactions witness_lane) = [Submitted]"
  by (simp add: witness_lane_def evaluate_storage)



text \<open>
  With a rewind the lane is not exclusive. A reverted transaction and its included successor, both
  above the ancestor, become orphaned together, and the recovery query of the signer reports the
  state it documents as impossible.
\<close>

theorem rewind_reopens_two_lanes:
  "load_unresolved (storage_run witness_lib json_state_default
     [(ReserveNonce (witness_reservation 1), Durable),
      (PersistSignedTransaction (witness_signed 1), Durable),
      (TransitionTransaction (witness_transition 1 Signed Submitted None), Durable),
      (TransitionTransaction (witness_transition 1 Submitted Reverted (Some 10)), Durable),
      (ReserveNonce (witness_reservation 2), Durable),
      (PersistSignedTransaction (witness_signed 2), Durable),
      (TransitionTransaction (witness_transition 2 Signed Submitted None), Durable),
      (TransitionTransaction (witness_transition 2 Submitted Included (Some 11)), Durable),
      (RewindToAncestor 1 (witness_block 9), Durable)]) 7
   = Inl (MultipleUnresolved 7)"
  by (simp add: evaluate_storage rewind_state_def rewound_def rewound_result_def
      lost_reconciliations_def orphaned_ids_def receipt_orphaned_ids_def drop_above_def bset_def
      orphaned_row_def rewindable_def rewind_row_def load_unresolved_def lane_rows_def
      witness_block_def)

end
