(* ===== verification/StorageEvidence.thy ===== *)
theory StorageEvidence
  imports StorageLane
begin

text \<open>
  Evidence behind the final states of a transaction: a row is validated or reconciled only with a
  durable conformance record for its inclusion, and reconciled only with a reconciliation record.
  Every command keeps this, rewinds and compaction included.
\<close>

definition evidence_required :: "transaction_state \<Rightarrow> bool" where
  "evidence_required st \<longleftrightarrow> st \<in> {ConformanceValidated, ReconciliationPending, Reconciled}"

definition evidenced :: "conformance_record list \<Rightarrow> transaction_row \<Rightarrow> bool" where
  "evidenced cfs row \<longleftrightarrow> (\<exists>x \<in> set cfs. cf_transaction_id x = row_id row
     \<and> tr_included_block row = Some (cf_block_number x)
     \<and> tr_included_block_hash row = Some (cf_block_hash x))"

definition evidence_inv :: "json_state \<Rightarrow> bool" where
  "evidence_inv s \<longleftrightarrow> distinct (map row_id (js_transactions s))
     \<and> (\<forall>row \<in> set (js_transactions s).
          (evidence_required (tr_state row) \<longrightarrow> evidenced (js_conformance_records s) row)
          \<and> (tr_state row = Reconciled \<longrightarrow>
               row_id row \<in> rr_transaction_id ` set (js_reconciliation_records s)))"

subsection \<open>Commands without rewind\<close>

lemma find_rowD: "find_row s tid = Some row \<Longrightarrow> row \<in> set (js_transactions s) \<and> row_id row = tid"
  by (auto simp: find_row_def find_Some_iff has_id_def row_id_def)

lemma evidence_invI:
  assumes "evidence_inv s" "row_step (js_transactions s) (js_transactions s')"
    and "set (js_conformance_records s) \<subseteq> set (js_conformance_records s')"
    and "set (js_reconciliation_records s) \<subseteq> set (js_reconciliation_records s')"
    and "\<And>row. row \<in> set (js_transactions s') \<Longrightarrow> evidence_required (tr_state row) \<Longrightarrow>
      row \<in> set (js_transactions s) \<or> evidenced (js_conformance_records s') row
        \<and> (tr_state row = Reconciled \<longrightarrow>
             row_id row \<in> rr_transaction_id ` set (js_reconciliation_records s'))"
  shows "evidence_inv s'"
proof -
  have mono: "evidenced (js_conformance_records s) row \<Longrightarrow> evidenced (js_conformance_records s') row" for row
    using assms(3) by (auto simp: evidenced_def)
  have "distinct (map row_id (js_transactions s'))"
    using row_step_ids [OF assms(2)] assms(1) by (simp add: evidence_inv_def)
  moreover have "(evidence_required (tr_state row) \<longrightarrow> evidenced (js_conformance_records s') row)
      \<and> (tr_state row = Reconciled \<longrightarrow> row_id row \<in> rr_transaction_id ` set (js_reconciliation_records s'))"
    if "row \<in> set (js_transactions s')" for row
    using assms(1) assms(5) [OF that] mono [of row] image_mono [OF assms(4), of rr_transaction_id]
    by (fastforce simp: evidence_inv_def evidence_required_def)
  ultimately show ?thesis by (simp add: evidence_inv_def)
qed

lemma moved_unvalidated:
  assumes "js_transactions s' = update_first (has_id tid) f (js_transactions s)"
    and "\<And>row. \<not> evidence_required (tr_state (f row))"
    and "row \<in> set (js_transactions s')" "evidence_required (tr_state row)"
  shows "row \<in> set (js_transactions s)"
  using assms in_update_first [of row "has_id tid" f "js_transactions s"] by auto

lemma transition_keeps_evidence:
  assumes "evidence_inv s" "transition_transaction s t = Inr s'"
  shows "evidence_inv s'"
  using assms(2)
proof (rule transition_transaction_Inr)
  fix row as s''
  assume n: "tt_next_state t \<notin> {ConformanceValidated, Reconciled}"
    and p: "permits (tr_state row) (tt_next_state t)"
    and s'': "s'' = update_row (tt_transaction_id t) (transitioned_row t) (s\<lparr>js_transaction_attempts := as\<rparr>)"
    and s': "s' = s'' \<or> release_rate_movement s'' (tt_transaction_id t) = Inr s'"
  have e: "js_transactions s' = update_first (has_id (tt_transaction_id t)) (transitioned_row t)
        (js_transactions s)"
      "js_conformance_records s' = js_conformance_records s"
      "js_reconciliation_records s' = js_reconciliation_records s"
    using s' by (auto simp: s'' dest: release_rate_movement_Inr)
  have "\<not> evidence_required (tt_next_state t)"
    using n p by (cases "tr_state row") (auto simp: evidence_required_def permits_def)
  then show ?thesis
    by (intro evidence_invI [OF assms(1) transition_transaction_rows [OF assms(2)]])
      (auto simp: e(2,3) dest: moved_unvalidated [OF e(1), rotated])
qed

lemma conformance_keeps_evidence:
  assumes "evidence_inv s" "persist_conformance s record = Inr s'"
  shows "evidence_inv s'"
  using assms(2)
proof (rule persist_conformance_Inr)
  fix row0
  assume row0: "find_row s (cf_transaction_id record) = Some row0"
      "tr_included_block row0 = Some (cf_block_number record)"
      "tr_included_block_hash row0 = Some (cf_block_hash record)"
    and s': "s' = (update_row (cf_transaction_id record) (\<lambda>row. row\<lparr>tr_state := ConformanceValidated,
        tr_transaction_hash := Some (cf_transaction_hash record),
        tr_updated_at := cf_validated_at record\<rparr>) s)
      \<lparr>js_conformance_records := js_conformance_records s @ [record]\<rparr>"
  have id: "row_id row0 = cf_transaction_id record"
    using find_rowD [OF row0(1)] by simp
  show ?thesis
  proof (rule evidence_invI [OF assms(1) persist_conformance_rows [OF assms(2)]])
    fix row
    assume "row \<in> set (js_transactions s')"
    then consider "row \<in> set (js_transactions s)"
      | "row = row0\<lparr>tr_state := ConformanceValidated,
          tr_transaction_hash := Some (cf_transaction_hash record),
          tr_updated_at := cf_validated_at record\<rparr>"
      using in_update_first row0(1) by (fastforce simp: s' find_row_def)
    then show "row \<in> set (js_transactions s) \<or> evidenced (js_conformance_records s') row
        \<and> (tr_state row = Reconciled \<longrightarrow>
             row_id row \<in> rr_transaction_id ` set (js_reconciliation_records s'))"
      using row0 id by cases (auto simp: evidenced_def s' row_id_def)
  qed (auto simp: s')
qed

lemma reconciliation_keeps_evidence:
  assumes "evidence_inv s" "persist_reconciliation s record snapshot confirmed = Inr s'"
  shows "evidence_inv s'"
  using assms(2)
proof (rule persist_reconciliation_Inr)
  fix row0 ms s1 s2
  assume row0: "find_row s (rr_transaction_id record) = Some row0"
      "reconciled_movement_state (tr_state row0) = Some ms"
    and s1: "s1 = push_snapshot (update_row (rr_transaction_id record) (\<lambda>row. row\<lparr>tr_state := Reconciled,
      tr_updated_at := rr_reconciled_at record\<rparr>) s) snapshot (rr_reconciled_at record)"
    and s2: "(case confirmed of None \<Rightarrow> Inr s1
      | Some e \<Rightarrow> persist_episode s1 e (rr_reconciled_at record)) = Inr s2"
    and s': "s' = s2\<lparr>js_rate_movement_reservations :=
        (if tr_state row0 = ConformanceValidated
            \<and> filter (owns_movement (rr_transaction_id record)) (js_rate_movement_reservations s) \<noteq> []
         then update_first (owns_movement (rr_transaction_id record))
           (\<lambda>r. r\<lparr>rm_state := MovementConfirmed\<rparr>) (js_rate_movement_reservations s2)
         else js_rate_movement_reservations s2),
      js_reconciliation_records := js_reconciliation_records s2 @ [record]\<rparr>"
  obtain eps where "s2 = s1\<lparr>js_rate_episodes := eps\<rparr>"
  proof (cases confirmed)
    case None
    with s2 show ?thesis by (intro that [of "js_rate_episodes s1"]) simp
  qed (use s2 persist_episode_Inr that in fastforce)
  then have e: "js_transactions s' = update_first (has_id (rr_transaction_id record))
        (\<lambda>row. row\<lparr>tr_state := Reconciled, tr_updated_at := rr_reconciled_at record\<rparr>) (js_transactions s)"
      "js_conformance_records s' = js_conformance_records s"
      "js_reconciliation_records s' = js_reconciliation_records s @ [record]"
    by (simp_all add: s' s1)
  have id: "row_id row0 = rr_transaction_id record" and mem: "row0 \<in> set (js_transactions s)"
    using find_rowD [OF row0(1)] by simp_all
  have "evidence_required (tr_state row0)"
    using row0(2) by (cases "tr_state row0") (auto simp: reconciled_movement_state_def evidence_required_def)
  then have ev: "evidenced (js_conformance_records s) row0"
    using assms(1) mem by (simp add: evidence_inv_def)
  show ?thesis
  proof (rule evidence_invI [OF assms(1) persist_reconciliation_rows [OF assms(2)]])
    fix row
    assume "row \<in> set (js_transactions s')"
    then consider "row \<in> set (js_transactions s)"
      | "row = row0\<lparr>tr_state := Reconciled, tr_updated_at := rr_reconciled_at record\<rparr>"
      using in_update_first row0(1) by (fastforce simp: e(1) find_row_def)
    then show "row \<in> set (js_transactions s) \<or> evidenced (js_conformance_records s') row
        \<and> (tr_state row = Reconciled \<longrightarrow>
             row_id row \<in> rr_transaction_id ` set (js_reconciliation_records s'))"
      using ev id by cases (auto simp: evidenced_def e row_id_def)
  qed (auto simp: e)
qed


lemma evidence_same:
  assumes "evidence_inv s" "js_transactions s' = js_transactions s"
    "js_conformance_records s' = js_conformance_records s"
    "js_reconciliation_records s' = js_reconciliation_records s"
  shows "evidence_inv s'"
  using assms by (simp add: evidence_inv_def)

lemma unrelated_evidence:
  "apply_block s block logs receipts = Inr s' \<Longrightarrow> evidence_inv s \<Longrightarrow> evidence_inv s'"
  "persist_canonical_receipt s receipt = Inr s' \<Longrightarrow> evidence_inv s \<Longrightarrow> evidence_inv s'"
  "persist_snapshot s snapshot t = Inr s' \<Longrightarrow> evidence_inv s \<Longrightarrow> evidence_inv s'"
  "persist_plan s plan t = Inr s' \<Longrightarrow> evidence_inv s \<Longrightarrow> evidence_inv s'"
  "persist_final_preflight s fp = Inr s' \<Longrightarrow> evidence_inv s \<Longrightarrow> evidence_inv s'"
  "record_attempt_broadcast s tid h t b = Inr s' \<Longrightarrow> evidence_inv s \<Longrightarrow> evidence_inv s'"
  "persist_topology s topology head = Inr s' \<Longrightarrow> evidence_inv s \<Longrightarrow> evidence_inv s'"
  "persist_episode s e t = Inr s' \<Longrightarrow> evidence_inv s \<Longrightarrow> evidence_inv s'"
  "persist_top_k_apy_memory s vault memory t = Inr s' \<Longrightarrow> evidence_inv s \<Longrightarrow> evidence_inv s'"
  by (erule evidence_same; auto simp: apply_block_def persist_canonical_receipt_def
      persist_snapshot_def persist_plan_def persist_final_preflight_def record_attempt_broadcast_def
      persist_topology_def persist_top_k_apy_memory_def result_simps split: if_splits option.splits
      dest: persist_episode_Inr)+

lemma reservation_keeps_evidence:
  assumes "evidence_inv s" "reserve_nonce lib s r = Inr s'"
  shows "evidence_inv s'"
  using assms(2)
proof (rule reserve_nonce_Inr)
  fix row
  assume s': "s' = s\<lparr>js_transactions := js_transactions s @ [row]\<rparr>" and row: "tr_state row = NonceReserved"
  show ?thesis
    by (rule evidence_invI [OF assms(1) reserve_nonce_rows [OF assms(2)]])
      (use row in \<open>auto simp: s' evidence_required_def\<close>)
qed

lemma movement_reservation_keeps_evidence:
  assumes "evidence_inv s" "reserve_rate_movement_and_nonce lib s r eid movement = Inr (s', m)"
  shows "evidence_inv s'"
  using assms(2)
proof (rule reserve_rate_movement_Inr)
  fix e t
  assume t: "reserve_nonce lib (s\<lparr>js_rate_episodes :=
        update_first (episode_entry eid) (set_episode e) (js_rate_episodes s)\<rparr>) r = Inr t"
    and s': "s' = t\<lparr>js_rate_movement_reservations := js_rate_movement_reservations t @ [m]\<rparr>"
  have "evidence_inv t"
    by (rule reservation_keeps_evidence [OF _ t]) (rule evidence_same [OF assms(1)], simp_all)
  then show ?thesis by (rule evidence_same) (simp_all add: s')
qed

lemma signing_keeps_evidence:
  assumes "evidence_inv s" "row_step (js_transactions s) (js_transactions s')"
    and s': "s' = (update_row tid (\<lambda>row. row\<lparr>tr_state := st, tr_transaction_hash := Some h,
        tr_raw_signed_transaction := Some b, tr_updated_at := t\<rparr>) s)\<lparr>js_transaction_attempts := as\<rparr>"
    and "\<not> evidence_required st"
  shows "evidence_inv s'"
proof (rule evidence_invI [OF assms(1,2)])
  have e: "js_transactions s' = update_first (has_id tid) (\<lambda>row. row\<lparr>tr_state := st,
      tr_transaction_hash := Some h, tr_raw_signed_transaction := Some b, tr_updated_at := t\<rparr>)
      (js_transactions s)"
    by (simp add: s')
  show "row \<in> set (js_transactions s) \<or> evidenced (js_conformance_records s') row
        \<and> (tr_state row = Reconciled \<longrightarrow>
             row_id row \<in> rr_transaction_id ` set (js_reconciliation_records s'))"
    if "row \<in> set (js_transactions s')" "evidence_required (tr_state row)" for row
    using moved_unvalidated [OF e _ that] assms(4) by simp
qed (simp_all add: s')

lemma signed_keeps_evidence:
  "evidence_inv s \<Longrightarrow> persist_signed lib s tx = Inr s' \<Longrightarrow> evidence_inv s'"
  "evidence_inv s \<Longrightarrow> persist_signed_attempt lib s attempt = Inr s' \<Longrightarrow> evidence_inv s'"
  by (frule persist_signed_rows, elim persist_signed_Inr, erule (2) signing_keeps_evidence,
      simp add: evidence_required_def)
    (frule persist_signed_attempt_rows, elim persist_signed_attempt_Inr,
      erule (2) signing_keeps_evidence, auto simp: evidence_required_def)

lemma failure_keeps_evidence:
  assumes "evidence_inv s" "finalize_conformed_post_state_failure s tid expected t = Inr s'"
  shows "evidence_inv s'"
  using assms(2)
proof (rule finalize_Inr)
  fix plan cf s''
  assume s'': "settle_failed_movements s tid expected plan cf = Inr s''"
    and s': "s' = update_row tid (\<lambda>row. row\<lparr>tr_state := Failed, tr_updated_at := t\<rparr>) s''"
  have e: "js_transactions s'' = js_transactions s" "js_conformance_records s'' = js_conformance_records s"
      "js_reconciliation_records s'' = js_reconciliation_records s"
    using s'' by (elim settle_failed_movements_Inr settle_failed_movement_Inr; auto)+
  show ?thesis
    by (rule evidence_invI [OF assms(1) finalize_rows [OF assms(2)]])
      (auto simp: s' e evidence_required_def dest: in_update_first)
qed


subsection \<open>Rewind\<close>

lemma drop_above_frame [simp]:
  "js_transactions (drop_above chain_id ancestor s) = js_transactions s"
  "js_rate_episodes (drop_above chain_id ancestor s) = js_rate_episodes s"
  "js_rate_movement_reservations (drop_above chain_id ancestor s) = js_rate_movement_reservations s"
  "js_conformance_records (drop_above chain_id ancestor s) =
     filter (\<lambda>x. cf_block_number x \<le> br_number ancestor) (js_conformance_records s)"
  "js_reconciliation_records (drop_above chain_id ancestor s) =
     filter (\<lambda>x. br_number (rr_block x) \<le> br_number ancestor) (js_reconciliation_records s)"
  by (simp_all add: drop_above_def)

lemma rewound_frame [simp]:
  "js_transactions (rewound chain_id ancestor orphaned revalidation episodes movements s)
     = map (rewind_row orphaned revalidation ancestor) (js_transactions s)"
  "js_rate_movement_reservations (rewound chain_id ancestor orphaned revalidation episodes movements s)
     = movements"
  "js_rate_episodes (rewound chain_id ancestor orphaned revalidation episodes movements s)
     = filter (\<lambda>entry. re_episode_id (te_episode entry)
          \<in> rm_episode_id ` set (filter (\<lambda>r. rm_state r = MovementPending) movements)
        \<or> \<not> above_ancestor ancestor (te_episode entry)) (map (rewind_episode ancestor) episodes)"
  "js_conformance_records (rewound chain_id ancestor orphaned revalidation episodes movements s)
     = js_conformance_records s"
  "js_reconciliation_records (rewound chain_id ancestor orphaned revalidation episodes movements s)
     = js_reconciliation_records s"
  by (simp_all add: rewound_def Let_def)

lemma rewind_state_Inr:
  assumes "rewind_state s chain_id ancestor = Inr (s', result)"
  obtains orphaned revalidation episodes movements where
    "try_fold (classify_lost_reconciliation (drop_above chain_id ancestor s) chain_id)
       (orphaned_ids chain_id ancestor s, []) (lost_reconciliations ancestor s)
       = Inr (orphaned, revalidation)"
    "try_fold (rewind_movement orphaned) (js_rate_episodes s, [])
       (js_rate_movement_reservations s) = Inr (episodes, movements)"
    "s' = rewound chain_id ancestor orphaned revalidation episodes movements
       (drop_above chain_id ancestor s)"
  using assms by (auto simp: rewind_state_def Let_def result_simps)

lemma classify_fold:
  assumes "try_fold (classify_lost_reconciliation s chain_id) (orphaned\<^sub>0, []) lost
    = Inr (orphaned, revalidation)"
  shows "set orphaned\<^sub>0 \<subseteq> set orphaned \<and> set lost \<subseteq> set orphaned \<union> set revalidation
    \<and> (\<forall>tid \<in> set revalidation. \<exists>row. find_row s tid = Some row \<and> tr_state row = Reconciled
         \<and> evidenced (js_conformance_records s) row)"
proof -
  let ?P = "\<lambda>ys (o', r'). set orphaned\<^sub>0 \<subseteq> set o' \<and> set ys \<subseteq> set o' \<union> set r'
    \<and> (\<forall>tid \<in> set r'. \<exists>row. find_row s tid = Some row \<and> tr_state row = Reconciled
         \<and> evidenced (js_conformance_records s) row)"
  have "?P lost (orphaned, revalidation)"
    using assms
  proof (induction rule: try_fold_prefix_induct)
    case (snoc ys y u v)
    obtain o' r' where u: "u = (o', r')" by (cases u)
    show ?case
    proof (cases "y \<in> set o'")
      case True
      with snoc show ?thesis by (auto simp: u classify_lost_reconciliation_def)
    next
      case False
      with snoc(2) obtain row where row: "find_row s y = Some row" "tr_state row = Reconciled"
        and v: "v = (o', y # r') \<and> evidenced (js_conformance_records s) row \<or> v = (y # o', r')"
        using find_rowD [of s y]
        by (auto simp: u classify_lost_reconciliation_def result_simps evidenced_def
            split: if_splits option.splits)
      from v snoc(1) row show ?thesis by (auto simp: u)
    qed
  qed simp
  then show ?thesis by simp
qed

lemma rewind_keeps_evidence:
  assumes inv: "evidence_inv s" and r: "rewind_state s chain_id ancestor = Inr (s', result)"
  shows "evidence_inv s'"
  using r
proof (rule rewind_state_Inr)
  fix orphaned revalidation episodes movements
  let ?s1 = "drop_above chain_id ancestor s"
  assume f: "try_fold (classify_lost_reconciliation ?s1 chain_id)
       (orphaned_ids chain_id ancestor s, []) (lost_reconciliations ancestor s)
       = Inr (orphaned, revalidation)"
    and s': "s' = rewound chain_id ancestor orphaned revalidation episodes movements ?s1"
  have rows: "js_transactions s' = map (rewind_row orphaned revalidation ancestor) (js_transactions s)"
    and cfs: "js_conformance_records s' =
       filter (\<lambda>x. cf_block_number x \<le> br_number ancestor) (js_conformance_records s)"
    and recs: "js_reconciliation_records s' =
       filter (\<lambda>x. br_number (rr_block x) \<le> br_number ancestor) (js_reconciliation_records s)"
    by (simp_all add: s')
  note c = classify_fold [OF f]
  have d: "distinct (map row_id (js_transactions s))"
    using inv by (simp add: evidence_inv_def)
  have id: "row_id (rewind_row orphaned revalidation ancestor row) = row_id row" for row
    by (simp add: rewind_row_def row_id_def Let_def)
  have ids: "distinct (map row_id (js_transactions s'))"
    using d by (simp add: rows comp_def id)
  have "(evidence_required (tr_state row') \<longrightarrow> evidenced (js_conformance_records s') row')
      \<and> (tr_state row' = Reconciled \<longrightarrow> row_id row' \<in> rr_transaction_id ` set (js_reconciliation_records s'))"
    if "row' \<in> set (js_transactions s')" for row'
  proof -
    from that obtain row where row: "row \<in> set (js_transactions s)"
      and row': "row' = rewind_row orphaned revalidation ancestor row"
      by (auto simp: rows)
    show ?thesis
    proof (cases "row_id row \<in> set orphaned \<and> evidence_required (tr_state row)")
      case True
      then have "tr_state row' = Orphaned"
        by (auto simp: row' rewind_row_def Let_def row_id_def rewindable_def evidence_required_def)
      then show ?thesis by (simp add: evidence_required_def)
    next
      case False
      show ?thesis
      proof (cases "evidence_required (tr_state row)")
        case True
        with False have no: "row_id row \<notin> set orphaned" by simp
        then have keep: "tr_reservation row' = tr_reservation row"
            "tr_included_block row' = tr_included_block row"
            "tr_included_block_hash row' = tr_included_block_hash row"
          and st: "tr_state row' = (if row_id row \<in> set revalidation then ReconciliationPending
            else tr_state row)"
          by (auto simp: row' rewind_row_def Let_def row_id_def)
        obtain x where x: "x \<in> set (js_conformance_records s)" "cf_transaction_id x = row_id row"
            "tr_included_block row = Some (cf_block_number x)"
            "tr_included_block_hash row = Some (cf_block_hash x)"
          using inv row True by (auto simp: evidence_inv_def evidenced_def)
        have "\<not> orphaned_row (receipt_orphaned_ids chain_id ancestor s) ancestor row"
          using c no row by (auto simp: row_id_def orphaned_ids_def)
        then have "cf_block_number x \<le> br_number ancestor"
          using True x(3) by (auto simp: orphaned_row_def evidence_required_def rewindable_def)
        then have "evidenced (js_conformance_records s') row'"
          using x keep by (auto simp: evidenced_def cfs row_id_def)
        moreover have "row_id row' \<in> rr_transaction_id ` set (js_reconciliation_records s')"
          if "tr_state row' = Reconciled"
        proof -
          from that st have "row_id row \<notin> set revalidation" "tr_state row = Reconciled"
            by (auto split: if_splits)
          with inv row no c show ?thesis
            by (fastforce simp: evidence_inv_def recs keep row_id_def lost_reconciliations_def)
        qed
        ultimately show ?thesis by blast
      next
        case unv: False
        have "row_id row \<notin> set revalidation"
        proof
          assume "row_id row \<in> set revalidation"
          with c obtain row2 where "find_row ?s1 (row_id row) = Some row2" "tr_state row2 = Reconciled"
            by blast
          then have "row2 \<in> set (js_transactions s)" "row_id row2 = row_id row" "evidence_required (tr_state row2)"
            using find_rowD [of ?s1] by (auto simp: drop_above_def evidence_required_def)
          with d row unv show False by (auto simp: distinct_map dest: inj_onD)
        qed
        with unv show ?thesis
          by (auto simp: row' rewind_row_def Let_def row_id_def evidence_required_def)
      qed
    qed
  qed
  with ids show ?thesis by (simp add: evidence_inv_def)
qed


subsection \<open>Compaction and whole commands\<close>

lemma compact_lifecycle_fields:
  "js_conformance_records (compact_lifecycle_history s) = filter (\<lambda>x. cf_transaction_id x
     \<in> row_id ` set (js_transactions (compact_lifecycle_history s))) (js_conformance_records s)"
  "js_reconciliation_records (compact_lifecycle_history s) = filter (\<lambda>x. rr_transaction_id x
     \<in> row_id ` set (js_transactions (compact_lifecycle_history s))) (js_reconciliation_records s)"
  "js_rate_movement_reservations (compact_lifecycle_history s) = filter (\<lambda>x. rm_state x = MovementPending
     \<or> rm_transaction_id x \<in> row_id ` set (js_transactions (compact_lifecycle_history s)))
     (js_rate_movement_reservations s)"
  "js_rate_episodes (compact_lifecycle_history s) = js_rate_episodes s"
  unfolding compact_lifecycle_history_def Let_def
  by (simp_all add: row_id_def [abs_def] image_image comp_def)

lemma compaction_keeps_evidence:
  assumes "evidence_inv s"
  shows "evidence_inv (compact_hot_state s)"
proof -
  obtain P where P: "js_transactions (compact_lifecycle_history s) = filter P (js_transactions s)"
    using compaction_rows [of s] by auto
  have "distinct (map row_id (js_transactions (compact_hot_state s)))"
    using assms by (simp add: P evidence_inv_def distinct_map_filter)
  moreover have "(evidence_required (tr_state row) \<longrightarrow> evidenced (js_conformance_records (compact_hot_state s)) row)
      \<and> (tr_state row = Reconciled \<longrightarrow>
           row_id row \<in> rr_transaction_id ` set (js_reconciliation_records (compact_hot_state s)))"
    if row: "row \<in> set (js_transactions (compact_hot_state s))" for row
  proof -
    from row have "row \<in> set (js_transactions s)" by (auto simp: P)
    with assms have "(evidence_required (tr_state row) \<longrightarrow> evidenced (js_conformance_records s) row)
        \<and> (tr_state row = Reconciled \<longrightarrow>
             row_id row \<in> rr_transaction_id ` set (js_reconciliation_records s))"
      by (simp add: evidence_inv_def)
    moreover have "row_id row \<in> row_id ` set (js_transactions (compact_lifecycle_history s))"
      using row by simp
    ultimately show ?thesis
      by (auto simp: evidenced_def compact_lifecycle_fields intro!: rev_image_eqI)
  qed
  ultimately show ?thesis by (simp add: evidence_inv_def)
qed

lemma mutation_keeps_evidence:
  assumes "evidence_inv s" "storage_mutation lib s c = Inr s'"
  shows "evidence_inv s'"
  using assms
  by (cases c)
    (auto simp: storage_mutation_def result_simps intro: unrelated_evidence rewind_keeps_evidence
      reservation_keeps_evidence movement_reservation_keeps_evidence signed_keeps_evidence
      transition_keeps_evidence conformance_keeps_evidence reconciliation_keeps_evidence
      failure_keeps_evidence)

lemma next_state_keeps_evidence:
  assumes "evidence_inv s" "next_state lib s c = Inr s'"
  shows "evidence_inv s'"
proof -
  from assms(2) obtain t n where t: "storage_mutation lib s c = Inr t"
    and s': "s' = (if n mod JOURNAL_SEGMENT_EVENTS = 0 then compact_hot_state (t\<lparr>js_revision := n\<rparr>)
      else t\<lparr>js_revision := n\<rparr>)"
    by (auto simp: next_state_def result_simps Let_def)
  have "evidence_inv (t\<lparr>js_revision := n\<rparr>)"
    by (rule evidence_same [OF mutation_keeps_evidence [OF assms(1) t]]) simp_all
  then show ?thesis
    by (simp add: s' compaction_keeps_evidence)
qed

interpretation evidence: fallible_machine "next_state lib" "\<lambda>_. True" evidence_inv for lib
  by unfold_locales (rule next_state_keeps_evidence)

lemma storage_run_evidence: "evidence_inv (storage_run lib json_state_default cs)"
proof (rule storage_run_invariant [of evidence_inv _ "\<lambda>_. True"])
  show "evidence_inv json_state_default"
    by (simp add: evidence_inv_def json_state_default_def)
qed (auto intro: evidence.step_inv simp: list.pred_True)

lemma try_fold_append_total:
  assumes "\<And>x. x \<in> set xs \<Longrightarrow> \<exists>y. f x = Inr y"
  shows "\<exists>ys. try_fold (\<lambda>acc x. try_let (f x) (\<lambda>y. Inr (acc @ [y]))) acc xs = Inr ys"
  using assms by (induction xs arbitrary: acc) force+

text \<open>
  C3. After any sequence of commands, rewinds and compactions included, a transaction that is
  validated, reconciled or waiting for reconciliation has a durable conformance record for exactly
  the block that includes it, and a reconciled one has a reconciliation record. The recovery query
  for pending reconciliations therefore fails only when more rows wait than it may return.
\<close>

theorem final_states_have_evidence:
  assumes "s = storage_run lib json_state_default cs"
  shows "(\<forall>row \<in> set (js_transactions s).
      (evidence_required (tr_state row) \<longrightarrow> evidenced (js_conformance_records s) row)
      \<and> (tr_state row = Reconciled \<longrightarrow>
           row_id row \<in> rr_transaction_id ` set (js_reconciliation_records s)))
    \<and> ((\<exists>views. load_pending_reconciliations s = Inr views)
       \<or> MAX_PENDING_RECONCILIATIONS_PER_LOAD
           < length (filter (\<lambda>row. tr_state row = ReconciliationPending) (js_transactions s)))"
proof -
  have e: "evidence_inv s" unfolding assms by (rule storage_run_evidence)
  have "\<exists>y. pending_reconciliation_row s row = Inr y"
    if "row \<in> set (js_transactions s)" "tr_state row = ReconciliationPending" for row
  proof -
    from e that have "evidenced (js_conformance_records s) row"
      by (simp add: evidence_inv_def evidence_required_def)
    then show ?thesis
      by (fastforce simp: pending_reconciliation_row_def evidenced_def row_id_def)
  qed
  then have "(\<exists>views. load_pending_reconciliations s = Inr views)
      \<or> MAX_PENDING_RECONCILIATIONS_PER_LOAD
          < length (filter (\<lambda>row. tr_state row = ReconciliationPending) (js_transactions s))"
    by (auto simp: load_pending_reconciliations_def Let_def intro!: try_fold_append_total)
  with e show ?thesis by (simp add: evidence_inv_def)
qed

definition witness_conformance :: conformance_record where
  "witness_conformance = \<lparr>cf_transaction_id = 1, cf_transaction_hash = 1, cf_block_number = 11,
     cf_block_hash = 11, cf_action_count = 1, cf_movement_assets = 5, cf_positive_loss_assets = 0,
     cf_report_hash = 1, cf_validated_at = 120\<rparr>"

definition witness_validated :: json_state where
  "witness_validated = storage_run witness_lib json_state_default
     [(ReserveNonce (witness_reservation 1), Durable),
      (PersistSignedTransaction (witness_signed 1), Durable),
      (TransitionTransaction (witness_transition 1 Signed Submitted None), Durable),
      (TransitionTransaction (witness_transition 1 Submitted Included (Some 11)), Durable),
      (TransitionTransaction (witness_transition 1 Included Confirmed None), Durable),
      (PersistConformance witness_conformance, Durable)]"

theorem final_states_have_evidence_witness:
  "\<exists>row \<in> set (js_transactions witness_validated).
     tr_state row = ConformanceValidated \<and> evidenced (js_conformance_records witness_validated) row"
proof -
  have "map tr_state (js_transactions witness_validated) = [ConformanceValidated]"
    by (simp add: witness_validated_def witness_conformance_def persist_conformance_def evaluate_storage)
  then obtain row where row: "js_transactions witness_validated = [row]"
      "tr_state row = ConformanceValidated"
    by (auto simp: map_eq_Cons_conv)
  with final_states_have_evidence [OF witness_validated_def] show ?thesis
    by (auto simp: evidence_required_def)
qed

end
