(* ===== verification/StorageMovement.thy ===== *)
theory StorageMovement
  imports StorageEvidence
begin

text \<open>
  Ownership of rate movement: the movement an episode has pending is exactly what the pending
  reservations of its transactions hold, through reservation, release, confirmation, reconciliation,
  rewind and compaction. Releasing the movement of a transaction therefore never fails.
\<close>

subsection \<open>Episodes and reservations in balance\<close>

definition reserved_for :: "rate_movement_reservation_record list \<Rightarrow> episode_id \<Rightarrow> nat" where
  "reserved_for rs eid = sum_list (map rm_movement_assets
     (filter (\<lambda>r. rm_state r = MovementPending \<and> rm_episode_id r = eid) rs))"

definition entry_id :: "timed_episode \<Rightarrow> episode_id" where
  "entry_id entry = re_episode_id (te_episode entry)"

definition entry_pending :: "timed_episode \<Rightarrow> nat" where
  "entry_pending entry = re_pending_movement (te_episode entry)"

definition balanced :: "timed_episode list \<Rightarrow> rate_movement_reservation_record list \<Rightarrow> bool" where
  "balanced eps rs \<longleftrightarrow>
     distinct (map rm_transaction_id rs) \<and> distinct (map entry_id eps)
     \<and> (\<forall>entry \<in> set eps. entry_pending entry = reserved_for rs (entry_id entry))
     \<and> (\<forall>r \<in> set rs. rm_state r = MovementPending \<longrightarrow> rm_episode_id r \<in> entry_id ` set eps)"

definition movement_inv :: "json_state \<Rightarrow> bool" where
  "movement_inv s \<longleftrightarrow> balanced (js_rate_episodes s) (js_rate_movement_reservations s)"

definition held :: "rate_movement_reservation_record \<Rightarrow> nat" where
  "held r = (if rm_state r = MovementPending then rm_movement_assets r else 0)"

lemma reserved_for_append [simp]:
  "reserved_for (as @ bs) eid = reserved_for as eid + reserved_for bs eid"
  "reserved_for [] eid = 0"
  "reserved_for (r # bs) eid = (if rm_episode_id r = eid then held r else 0) + reserved_for bs eid"
  by (simp_all add: reserved_for_def held_def)

lemma episode_entry_iff: "episode_entry eid entry \<longleftrightarrow> entry_id entry = eid"
  by (simp add: episode_entry_def entry_id_def)

lemma find_entryD: "find (episode_entry eid) eps = Some entry \<Longrightarrow> entry_id entry = eid \<and> entry \<in> set eps"
  by (auto simp: find_Some_iff episode_entry_iff)

lemma in_update_entry:
  assumes "find (episode_entry eid) eps = Some entry" "distinct (map entry_id eps)"
    and "x \<in> set (update_first (episode_entry eid) f eps)"
  shows "x = f entry \<or> x \<in> set eps \<and> entry_id x \<noteq> eid"
proof -
  obtain ys zs where "eps = ys @ entry # zs" "entry_id entry = eid"
      "update_first (episode_entry eid) f eps = ys @ f entry # zs"
    using update_first_split [OF assms(1), of f] by (auto simp: episode_entry_iff)
  with assms(2,3) show ?thesis by (auto simp: image_iff)
qed

text \<open>One reservation changes its state and its episode's pending amount changes with it.\<close>

lemma balanced_replace:
  assumes b: "balanced eps (as @ r # bs)"
    and f: "find (episode_entry (rm_episode_id r)) eps = Some entry"
    and e: "entry_id (g entry) = entry_id entry" "entry_pending (g entry) + held r = entry_pending entry + held r'"
    and r': "rm_transaction_id r' = rm_transaction_id r" "rm_episode_id r' = rm_episode_id r"
  shows "balanced (update_first (episode_entry (rm_episode_id r)) g eps) (as @ r' # bs)"
proof -
  let ?eps = "update_first (episode_entry (rm_episode_id r)) g eps"
  obtain ys zs where s: "eps = ys @ entry # zs" "entry_id entry = rm_episode_id r" "?eps = ys @ g entry # zs"
    using update_first_split [OF f, of g] by (auto simp: episode_entry_iff)
  have d: "distinct (map entry_id eps)" using b by (simp add: balanced_def)
  have ids: "map entry_id ?eps = map entry_id eps" using s e(1) by simp
  then have idset: "entry_id ` set ?eps = entry_id ` set eps" by (metis list.set_map)
  have "entry_pending x = reserved_for (as @ r' # bs) (entry_id x)" if "x \<in> set ?eps" for x
    using in_update_entry [OF f d that]
  proof (elim disjE conjE)
    assume x: "x = g entry"
    have "entry_pending entry = reserved_for (as @ r # bs) (rm_episode_id r)"
      using b s by (simp add: balanced_def)
    then show ?thesis using x e s(2) r'(2) by simp
  next
    assume "x \<in> set eps" "entry_id x \<noteq> rm_episode_id r"
    then show ?thesis using b r'(2) by (auto simp: balanced_def)
  qed
  moreover have "rm_episode_id x \<in> entry_id ` set eps"
    if "x \<in> set (as @ r' # bs)" "rm_state x = MovementPending" for x
    using that b s(1,2) r'(2) by (auto simp: balanced_def)
  ultimately show ?thesis
    using b r'(1) ids idset by (simp add: balanced_def)
qed

lemma balanced_add:
  assumes b: "balanced eps rs"
    and f: "find (episode_entry (rm_episode_id r)) eps = Some entry"
    and e: "entry_id (g entry) = entry_id entry" "entry_pending (g entry) = entry_pending entry + held r"
    and new: "\<forall>x \<in> set rs. rm_transaction_id x \<noteq> rm_transaction_id r"
  shows "balanced (update_first (episode_entry (rm_episode_id r)) g eps) (rs @ [r])"
proof -
  let ?r = "r\<lparr>rm_state := MovementReleased\<rparr>"
  have "balanced eps (rs @ ?r # [])"
    using b new by (auto simp: balanced_def held_def)
  then have "balanced (update_first (episode_entry (rm_episode_id ?r)) g eps) (rs @ r # [])"
    by (rule balanced_replace) (use f e in \<open>simp_all add: held_def\<close>)
  then show ?thesis by simp
qed

text \<open>Ending the pending state of the first reservation a transaction owns.\<close>

lemma balanced_end:
  assumes b: "balanced eps rs" and p: "find p rs = Some r"
    and r: "rm_state r = MovementPending" "st \<noteq> MovementPending"
    and f: "find (episode_entry (rm_episode_id r)) eps = Some entry"
    and e: "entry_id (g entry) = entry_id entry"
      "entry_pending (g entry) + rm_movement_assets r = entry_pending entry"
  shows "balanced (update_first (episode_entry (rm_episode_id r)) g eps)
    (update_first p (\<lambda>r. r\<lparr>rm_state := st\<rparr>) rs)"
proof -
  obtain as bs where rs: "rs = as @ r # bs"
      "update_first p (\<lambda>r. r\<lparr>rm_state := st\<rparr>) rs = as @ r\<lparr>rm_state := st\<rparr> # bs"
    using update_first_split [OF p, of "\<lambda>r. r\<lparr>rm_state := st\<rparr>"] by auto
  show ?thesis
    unfolding rs(2)
    by (rule balanced_replace [OF b [unfolded rs(1)] f, of g]) (use r e in \<open>simp_all add: held_def\<close>)
qed

lemma find_filter: "filter p xs = y # ys \<Longrightarrow> find p xs = Some y"
  by (induction xs) (auto split: if_splits)

subsection \<open>Movement of one episode\<close>

lemma settled_pending:
  "settled (reserve_pending e m) = Inr e' \<Longrightarrow>
     re_episode_id e' = re_episode_id e \<and> re_pending_movement e' = re_pending_movement e + m"
  "settled (release_pending e m) = Inr e' \<Longrightarrow>
     re_episode_id e' = re_episode_id e \<and> re_pending_movement e' + m = re_pending_movement e"
  "settled (confirm_pending e m) = Inr e' \<Longrightarrow>
     re_episode_id e' = re_episode_id e \<and> re_pending_movement e' + m = re_pending_movement e"
  "settled (reopen_confirmed e m b) = Inr e' \<Longrightarrow>
     re_episode_id e' = re_episode_id e \<and> re_pending_movement e' = re_pending_movement e + m"
  by (auto simp: settled_def movement_defs checked_ops split: sum.splits option.splits if_splits)

lemma set_episode_simps [simp]:
  "te_episode (set_episode e entry) = e"
  "entry_id (set_episode e entry) = re_episode_id e"
  "entry_pending (set_episode e entry) = re_pending_movement e"
  by (simp_all add: set_episode_def entry_id_def entry_pending_def)


lemma reservation_keeps_balance:
  assumes "movement_inv s" "reserve_rate_movement_and_nonce lib s r eid movement = Inr (s', m)"
  shows "movement_inv s'"
  using assms(2)
proof (rule reserve_rate_movement_Inr)
  fix entry e t
  assume f: "find (episode_entry eid) (js_rate_episodes s) = Some entry"
    and e: "settled (reserve_pending (te_episode entry) movement) = Inr e"
    and new: "\<forall>x \<in> set (js_rate_movement_reservations s). rm_transaction_id x \<noteq> nr_transaction_id r"
    and t: "reserve_nonce lib (s\<lparr>js_rate_episodes :=
        update_first (episode_entry eid) (set_episode e) (js_rate_episodes s)\<rparr>) r = Inr t"
    and s': "s' = t\<lparr>js_rate_movement_reservations := js_rate_movement_reservations t @ [m]\<rparr>"
    and m: "rm_transaction_id m = nr_transaction_id r" "rm_episode_id m = eid"
      "rm_movement_assets m = movement" "rm_state m = MovementPending"
  have t': "js_rate_episodes t = update_first (episode_entry eid) (set_episode e) (js_rate_episodes s)"
      "js_rate_movement_reservations t = js_rate_movement_reservations s"
    using t by (auto elim: reserve_nonce_Inr)
  have "balanced (update_first (episode_entry (rm_episode_id m)) (set_episode e) (js_rate_episodes s))
      (js_rate_movement_reservations s @ [m])"
    by (rule balanced_add [of _ _ _ entry])
      (use assms(1) f new settled_pending(1) [OF e] m in
        \<open>simp_all add: movement_inv_def held_def entry_id_def entry_pending_def\<close>)
  then show ?thesis by (simp add: movement_inv_def s' t' m)
qed

lemma release_keeps_balance:
  assumes "movement_inv s" "release_rate_movement s tid = Inr s'"
  shows "movement_inv s'"
proof (cases "filter (owns_pending_movement tid) (js_rate_movement_reservations s)")
  case Nil
  with assms show ?thesis by (simp add: release_rate_movement_def)
next
  case (Cons r rs)
  with assms(2) obtain entry e where
    f: "find (episode_entry (rm_episode_id r)) (js_rate_episodes s) = Some entry"
    and e: "settled (release_pending (te_episode entry) (rm_movement_assets r)) = Inr e"
    and s': "s' = s\<lparr>js_rate_episodes := update_first (episode_entry (rm_episode_id r)) (set_episode e)
            (js_rate_episodes s),
          js_rate_movement_reservations := update_first (owns_pending_movement tid)
            (\<lambda>r. r\<lparr>rm_state := MovementReleased\<rparr>) (js_rate_movement_reservations s)\<rparr>"
    by (cases rs) (auto simp: release_rate_movement_def Let_def result_simps)
  have "rm_state r = MovementPending"
    using Cons by (auto simp: filter_eq_Cons_iff owns_pending_movement_def)
  then show ?thesis
    using assms(1) settled_pending(2) [OF e]
    by (auto simp: movement_inv_def s' entry_id_def entry_pending_def
        intro!: balanced_end [OF _ find_filter [OF Cons] _ _ f])
qed

lemma settle_keeps_balance:
  assumes "movement_inv s" "settle_failed_movements s tid expected plan cf = Inr s'"
  shows "movement_inv s'"
  using assms(2)
proof (rule settle_failed_movements_Inr)
  fix r
  assume r: "filter (owns_movement tid) (js_rate_movement_reservations s) = [r]"
    and "settle_failed_movement s expected plan cf r = Inr s'"
  from this(2) show ?thesis
  proof (rule settle_failed_movement_Inr)
    fix entry e
    assume f: "find (episode_entry (rm_episode_id r)) (js_rate_episodes s) = Some entry"
      and e: "settled (confirm_pending (te_episode entry) (rm_movement_assets r)) = Inr e"
      and p: "rm_state r = MovementPending"
      and s': "s' = s\<lparr>js_rate_episodes := update_first (episode_entry (rm_episode_id r)) (set_episode e)
            (js_rate_episodes s),
          js_rate_movement_reservations := update_first (owns_movement (rm_transaction_id r))
            (\<lambda>r. r\<lparr>rm_state := MovementConfirmed\<rparr>) (js_rate_movement_reservations s)\<rparr>"
    have tid: "rm_transaction_id r = tid"
      using r by (auto simp: filter_eq_Cons_iff owns_movement_def)
    show ?thesis
      using assms(1) settled_pending(3) [OF e] p
      by (auto simp: movement_inv_def s' tid entry_id_def entry_pending_def
          intro!: balanced_end [OF _ find_filter [OF r] _ _ f])
  qed (use assms(1) in simp)
qed (use assms(1) in simp)


subsection \<open>Episodes that are replaced as a whole\<close>

text \<open>
  The planner stores whole episodes. It does not own the pending amount: the episode it stores
  carries the amount already durable, or none when the episode is new.
\<close>

definition stored_pending :: "json_state \<Rightarrow> episode_id \<Rightarrow> nat" where
  "stored_pending s eid = (case find (episode_entry eid) (js_rate_episodes s) of
     None \<Rightarrow> 0 | Some entry \<Rightarrow> entry_pending entry)"

lemma persist_episode_entries:
  assumes "persist_episode s e t = Inr s'"
  shows "s' = s\<lparr>js_rate_episodes :=
    (case find (episode_entry (re_episode_id e)) (js_rate_episodes s) of
       None \<Rightarrow> js_rate_episodes s @ [\<lparr>te_episode = e, te_updated_at = t\<rparr>]
     | Some _ \<Rightarrow> update_first (episode_entry (re_episode_id e))
         (\<lambda>_. \<lparr>te_episode = e, te_updated_at = t\<rparr>) (js_rate_episodes s))\<rparr>"
  using assms
  by (auto simp: persist_episode_def Let_def episode_entry_def [abs_def] split: if_splits option.splits)

lemma reserved_for_zero:
  "(\<And>r. r \<in> set rs \<Longrightarrow> rm_state r = MovementPending \<Longrightarrow> rm_episode_id r \<noteq> eid) \<Longrightarrow> reserved_for rs eid = 0"
  by (auto simp: reserved_for_def)

lemma episode_keeps_balance:
  assumes inv: "movement_inv s" and p: "persist_episode s e t = Inr s'"
    and keep: "re_pending_movement e = stored_pending s (re_episode_id e)"
  shows "movement_inv s'"
proof (cases "find (episode_entry (re_episode_id e)) (js_rate_episodes s)")
  case None
  let ?new = "\<lparr>te_episode = e, te_updated_at = t\<rparr>"
  have fresh: "re_episode_id e \<notin> entry_id ` set (js_rate_episodes s)"
    using None by (auto simp: find_None_iff episode_entry_iff)
  then have "reserved_for (js_rate_movement_reservations s) (re_episode_id e) = 0"
    using inv by (intro reserved_for_zero) (metis balanced_def movement_inv_def)
  then show ?thesis
    using inv fresh keep persist_episode_entries [OF p] None
    by (auto simp: movement_inv_def balanced_def stored_pending_def entry_id_def entry_pending_def)
next
  case (Some entry)
  let ?new = "\<lparr>te_episode = e, te_updated_at = t\<rparr>"
  let ?eps = "update_first (episode_entry (re_episode_id e)) (\<lambda>_. ?new) (js_rate_episodes s)"
  have d: "distinct (map entry_id (js_rate_episodes s))" using inv by (simp add: movement_inv_def balanced_def)
  have id: "entry_id entry = re_episode_id e" and mem: "entry \<in> set (js_rate_episodes s)"
    using find_entryD [OF Some] by simp_all
  have ids: "map entry_id ?eps = map entry_id (js_rate_episodes s)"
    by (rule map_update_first) (simp add: episode_entry_iff, simp add: entry_id_def)
  then have idset: "entry_id ` set ?eps = entry_id ` set (js_rate_episodes s)" by (metis list.set_map)
  have "entry_pending x = reserved_for (js_rate_movement_reservations s) (entry_id x)"
    if "x \<in> set ?eps" for x
    using in_update_entry [OF Some d that] inv mem id keep Some
    by (auto simp: movement_inv_def balanced_def stored_pending_def entry_id_def entry_pending_def)
  with inv ids idset show ?thesis
    by (simp add: movement_inv_def balanced_def persist_episode_entries [OF p] Some)
qed

lemma reconciliation_keeps_balance:
  assumes inv: "movement_inv s" and r: "persist_reconciliation s record snapshot confirmed = Inr s'"
  shows "movement_inv s'"
  using r
proof (rule persist_reconciliation_Inr)
  fix row ms s1 s2
  let ?tid = "rr_transaction_id record"
  let ?owned = "filter (owns_movement ?tid) (js_rate_movement_reservations s)"
  assume ms: "reconciled_movement_state (tr_state row) = Some ms"
    and c: "check_reconciled_movement s (tr_state row) ms ?owned confirmed = Inr ()"
    and s1: "s1 = push_snapshot (update_row ?tid (\<lambda>row. row\<lparr>tr_state := Reconciled,
      tr_updated_at := rr_reconciled_at record\<rparr>) s) snapshot (rr_reconciled_at record)"
    and s2: "(case confirmed of None \<Rightarrow> Inr s1
      | Some e \<Rightarrow> persist_episode s1 e (rr_reconciled_at record)) = Inr s2"
    and s': "s' = s2\<lparr>js_rate_movement_reservations :=
        (if tr_state row = ConformanceValidated \<and> ?owned \<noteq> []
         then update_first (owns_movement ?tid) (\<lambda>r. r\<lparr>rm_state := MovementConfirmed\<rparr>)
           (js_rate_movement_reservations s2)
         else js_rate_movement_reservations s2),
      js_reconciliation_records := js_reconciliation_records s2 @ [record]\<rparr>"
  have inv1: "movement_inv s1" and eps: "js_rate_episodes s1 = js_rate_episodes s"
      "js_rate_movement_reservations s1 = js_rate_movement_reservations s"
    using inv by (simp_all add: movement_inv_def s1)
  show ?thesis
  proof (cases ?owned)
    case Nil
    with c have "confirmed = None"
      by (cases confirmed) (auto simp: check_reconciled_movement_def)
    with s2 Nil inv1 show ?thesis by (simp add: movement_inv_def s')
  next
    case (Cons m rest)
    with c obtain e entry where e: "confirmed = Some e" "re_episode_id e = rm_episode_id m"
        "rm_state m = ms"
      and f: "find (episode_entry (rm_episode_id m)) (js_rate_episodes s) = Some entry"
      and cv: "if tr_state row = ConformanceValidated
          then settled (confirm_pending (te_episode entry) (rm_movement_assets m)) = Inr e
          else te_episode entry = e"
      by (cases confirmed)
        (auto simp: check_reconciled_movement_def result_simps split: if_splits)
    from s2 e have p: "persist_episode s1 e (rr_reconciled_at record) = Inr s2" by simp
    show ?thesis
    proof (cases "tr_state row = ConformanceValidated")
      case True
      then have pend: "rm_state m = MovementPending"
        using ms e(3) by (simp add: reconciled_movement_state_def)
      have "settled (confirm_pending (te_episode entry) (rm_movement_assets m)) = Inr e"
        using cv True by simp
      note sp = settled_pending(3) [OF this]
      let ?new = "\<lambda>_. \<lparr>te_episode = e, te_updated_at = rr_reconciled_at record\<rparr>"
      have "balanced (update_first (episode_entry (rm_episode_id m)) ?new (js_rate_episodes s))
          (update_first (owns_movement ?tid) (\<lambda>r. r\<lparr>rm_state := MovementConfirmed\<rparr>)
            (js_rate_movement_reservations s))"
        by (rule balanced_end [OF _ find_filter [OF Cons] pend _ f])
          (use inv sp in \<open>auto simp: movement_inv_def entry_id_def entry_pending_def\<close>)
      then show ?thesis
        using persist_episode_entries [OF p] f e(2) True Cons
        by (simp add: movement_inv_def s' eps)
    next
      case False
      with cv have "te_episode entry = e" by simp
      then have "re_pending_movement e = stored_pending s1 (re_episode_id e)"
        using f e(2) by (simp add: stored_pending_def eps entry_pending_def)
      then have "movement_inv s2" by (rule episode_keeps_balance [OF inv1 p])
      with False show ?thesis by (simp add: movement_inv_def s')
    qed
  qed
qed


subsection \<open>Rewind and compaction\<close>

lemma rewind_movement_fold:
  assumes "try_fold (rewind_movement orphaned) (eps, seen) rs = Inr (eps', ms)"
    and "balanced eps (seen @ rs)"
  shows "balanced eps' ms"
  using assms
proof (induction rs arbitrary: eps seen)
  case (Cons r rs)
  from Cons.prems(1) obtain eps\<^sub>1 seen\<^sub>1 where
    st: "rewind_movement orphaned (eps, seen) r = Inr (eps\<^sub>1, seen\<^sub>1)"
    and rest: "try_fold (rewind_movement orphaned) (eps\<^sub>1, seen\<^sub>1) rs = Inr (eps', ms)"
    by (auto simp: result_simps)
  have "balanced eps\<^sub>1 (seen\<^sub>1 @ rs)"
  proof (cases "rm_state r = MovementConfirmed \<and> rm_transaction_id r \<in> set orphaned")
    case True
    with st obtain entry e where f: "find (episode_entry (rm_episode_id r)) eps = Some entry"
      and e: "settled (reopen_confirmed (te_episode entry) (rm_movement_assets r) (rm_budget_before r)) = Inr e"
      and n: "eps\<^sub>1 = update_first (episode_entry (rm_episode_id r)) (set_episode e) eps"
        "seen\<^sub>1 = seen @ [r\<lparr>rm_state := MovementPending\<rparr>]"
      by (auto simp: rewind_movement_def result_simps split: option.splits)
    have "balanced (update_first (episode_entry (rm_episode_id r)) (set_episode e) eps)
        (seen @ r\<lparr>rm_state := MovementPending\<rparr> # rs)"
      by (rule balanced_replace [OF Cons.prems(2) f, of "set_episode e"])
        (use settled_pending(4) [OF e] True in \<open>simp_all add: held_def entry_id_def entry_pending_def\<close>)
    then show ?thesis by (simp add: n)
  next
    case False
    with st Cons.prems(2) show ?thesis by (auto simp: rewind_movement_def)
  qed
  then show ?case by (rule Cons.IH [OF rest])
qed simp

lemma rewind_episode_simps [simp]:
  "entry_id (rewind_episode ancestor entry) = entry_id entry"
  "entry_pending (rewind_episode ancestor entry) = entry_pending entry"
  by (simp_all add: rewind_episode_def Let_def entry_id_def entry_pending_def set_episode_def
      rewind_independent_events_def episode_complete_def)

lemma balanced_retain:
  assumes b: "balanced eps ms"
  shows "balanced (filter (\<lambda>entry. re_episode_id (te_episode entry)
        \<in> rm_episode_id ` set (filter (\<lambda>r. rm_state r = MovementPending) ms)
      \<or> P entry) (map (rewind_episode ancestor) eps)) ms"
  (is "balanced (filter ?Q _) ms")
proof -
  have ids: "map entry_id (map (rewind_episode ancestor) eps) = map entry_id eps"
    by (simp add: comp_def)
  have "distinct (map entry_id (filter ?Q (map (rewind_episode ancestor) eps)))"
    using b ids by (metis (no_types) balanced_def distinct_map_filter)
  moreover have "rm_episode_id r \<in> entry_id ` set (filter ?Q (map (rewind_episode ancestor) eps))"
    if "r \<in> set ms" "rm_state r = MovementPending" for r
  proof -
    from b that obtain entry where "entry \<in> set eps" "entry_id entry = rm_episode_id r"
      by (auto simp: balanced_def)
    moreover from this have "?Q (rewind_episode ancestor entry)"
      using that rewind_episode_simps(1) [of ancestor entry] by (auto simp: entry_id_def)
    ultimately show ?thesis
      by (intro image_eqI [of _ _ "rewind_episode ancestor entry"]) auto
  qed
  ultimately show ?thesis
    using b by (auto simp: balanced_def)
qed

lemma rewind_keeps_balance:
  assumes "movement_inv s" "rewind_state s chain_id ancestor = Inr (s', result)"
  shows "movement_inv s'"
  using assms(2)
proof (rule rewind_state_Inr)
  fix orphaned revalidation eps ms
  assume "try_fold (rewind_movement orphaned) (js_rate_episodes s, [])
       (js_rate_movement_reservations s) = Inr (eps, ms)"
    and s': "s' = rewound chain_id ancestor orphaned revalidation eps ms (drop_above chain_id ancestor s)"
  then have "balanced eps ms"
    using assms(1) by (auto simp: movement_inv_def intro: rewind_movement_fold)
  then show ?thesis
    unfolding movement_inv_def s' rewound_frame by (rule balanced_retain)
qed

lemma compaction_keeps_balance:
  assumes "movement_inv s"
  shows "movement_inv (compact_hot_state s)"
proof -
  let ?P = "\<lambda>x. rm_state x = MovementPending
     \<or> rm_transaction_id x \<in> row_id ` set (js_transactions (compact_lifecycle_history s))"
  have "reserved_for (filter ?P rs) eid = reserved_for rs eid" for rs eid
    by (induction rs) (auto simp: held_def)
  then show ?thesis
    using assms by (auto simp: movement_inv_def balanced_def compact_lifecycle_fields distinct_map_filter)
qed

subsection \<open>Reachable states\<close>

definition respects_movement :: "json_state \<Rightarrow> storage_command \<Rightarrow> bool" where
  "respects_movement s c = (case c of
     PersistRateEpisode e t \<Rightarrow> re_pending_movement e = stored_pending s (re_episode_id e)
   | _ \<Rightarrow> True)"

inductive storage_reachable :: "evm_lib \<Rightarrow> json_state \<Rightarrow> bool" for lib where
  Empty: "storage_reachable lib json_state_default"
| Commit: "storage_reachable lib s \<Longrightarrow> respects_movement s (fst x) \<Longrightarrow>
    storage_reachable lib (fst (commit lib s x))"

lemma movement_same:
  assumes "movement_inv s" "js_rate_episodes s' = js_rate_episodes s"
    "js_rate_movement_reservations s' = js_rate_movement_reservations s"
  shows "movement_inv s'"
  using assms by (simp add: movement_inv_def)

lemma unrelated_movement:
  "apply_block s block logs receipts = Inr s' \<Longrightarrow> movement_inv s \<Longrightarrow> movement_inv s'"
  "persist_canonical_receipt s receipt = Inr s' \<Longrightarrow> movement_inv s \<Longrightarrow> movement_inv s'"
  "persist_snapshot s snapshot t = Inr s' \<Longrightarrow> movement_inv s \<Longrightarrow> movement_inv s'"
  "persist_plan s plan t = Inr s' \<Longrightarrow> movement_inv s \<Longrightarrow> movement_inv s'"
  "persist_final_preflight s fp = Inr s' \<Longrightarrow> movement_inv s \<Longrightarrow> movement_inv s'"
  "record_attempt_broadcast s tid h t b = Inr s' \<Longrightarrow> movement_inv s \<Longrightarrow> movement_inv s'"
  "persist_topology s topology head = Inr s' \<Longrightarrow> movement_inv s \<Longrightarrow> movement_inv s'"
  "persist_top_k_apy_memory s vault memory t = Inr s' \<Longrightarrow> movement_inv s \<Longrightarrow> movement_inv s'"
  by (erule movement_same; auto simp: apply_block_def persist_canonical_receipt_def
      persist_snapshot_def persist_plan_def persist_final_preflight_def record_attempt_broadcast_def
      persist_topology_def persist_top_k_apy_memory_def result_simps split: if_splits option.splits)+

lemma lifecycle_movement:
  "reserve_nonce lib s r = Inr s' \<Longrightarrow> movement_inv s \<Longrightarrow> movement_inv s'"
  "persist_signed lib s tx = Inr s' \<Longrightarrow> movement_inv s \<Longrightarrow> movement_inv s'"
  "persist_signed_attempt lib s attempt = Inr s' \<Longrightarrow> movement_inv s \<Longrightarrow> movement_inv s'"
  "persist_conformance s record = Inr s' \<Longrightarrow> movement_inv s \<Longrightarrow> movement_inv s'"
  by (erule movement_same; (erule reserve_nonce_Inr persist_signed_Inr persist_signed_attempt_Inr
      persist_conformance_Inr; simp))+

lemma transition_keeps_balance:
  assumes "movement_inv s" "transition_transaction s t = Inr s'"
  shows "movement_inv s'"
  using assms(2)
proof (rule transition_transaction_Inr)
  fix as s''
  assume s'': "s'' = update_row (tt_transaction_id t) (transitioned_row t) (s\<lparr>js_transaction_attempts := as\<rparr>)"
    and s': "s' = s'' \<or> release_rate_movement s'' (tt_transaction_id t) = Inr s'"
  have "movement_inv s''" by (rule movement_same [OF assms(1)]) (simp_all add: s'')
  with s' show ?thesis by (auto intro: release_keeps_balance)
qed

lemma failure_keeps_balance:
  assumes "movement_inv s" "finalize_conformed_post_state_failure s tid expected t = Inr s'"
  shows "movement_inv s'"
  using assms(2)
proof (rule finalize_Inr)
  fix plan cf s''
  assume "settle_failed_movements s tid expected plan cf = Inr s''"
    and s': "s' = update_row tid (\<lambda>row. row\<lparr>tr_state := Failed, tr_updated_at := t\<rparr>) s''"
  then have "movement_inv s''" by (auto intro: settle_keeps_balance [OF assms(1)])
  then show ?thesis by (rule movement_same) (simp_all add: s')
qed

lemma mutation_keeps_balance:
  assumes "movement_inv s" "storage_mutation lib s c = Inr s'" "respects_movement s c"
  shows "movement_inv s'"
  using assms
  by (cases c)
    (auto simp: storage_mutation_def result_simps respects_movement_def
      intro: unrelated_movement lifecycle_movement rewind_keeps_balance reservation_keeps_balance
        transition_keeps_balance reconciliation_keeps_balance failure_keeps_balance
        episode_keeps_balance)

lemma next_state_keeps_balance:
  assumes "movement_inv s" "next_state lib s c = Inr s'" "respects_movement s c"
  shows "movement_inv s'"
proof -
  from assms(2) obtain t n where t: "storage_mutation lib s c = Inr t"
    and s': "s' = (if n mod JOURNAL_SEGMENT_EVENTS = 0 then compact_hot_state (t\<lparr>js_revision := n\<rparr>)
      else t\<lparr>js_revision := n\<rparr>)"
    by (auto simp: next_state_def result_simps Let_def)
  have "movement_inv (t\<lparr>js_revision := n\<rparr>)"
    by (rule movement_same [OF mutation_keeps_balance [OF assms(1) t assms(3)]]) simp_all
  then show ?thesis
    by (simp add: s' compaction_keeps_balance)
qed

lemma storage_reachable_balanced: "storage_reachable lib s \<Longrightarrow> movement_inv s"
proof (induction rule: storage_reachable.induct)
  case Empty
  show ?case by (simp add: movement_inv_def balanced_def json_state_default_def)
next
  case (Commit s x)
  then show ?case
    using commit_state [of lib s x] next_state_keeps_balance by auto
qed


text \<open>A transaction owns at most one pending movement, and giving it back always succeeds.\<close>

lemma owned_at_most_one:
  assumes "movement_inv s"
  shows "length (filter (owns_pending_movement tid) (js_rate_movement_reservations s)) \<le> 1"
proof -
  let ?owned = "filter (owns_pending_movement tid) (js_rate_movement_reservations s)"
  have "distinct (map rm_transaction_id ?owned)"
    using assms by (simp add: movement_inv_def balanced_def distinct_map_filter)
  moreover have "set (map rm_transaction_id ?owned) \<subseteq> {tid}"
    by (auto simp: owns_pending_movement_def)
  ultimately show ?thesis
    by (metis card_mono card.empty card.insert distinct_card empty_iff finite.intros length_map
        One_nat_def)
qed

lemma release_total:
  assumes "movement_inv s"
  shows "\<exists>s'. release_rate_movement s tid = Inr s'"
proof (cases "filter (owns_pending_movement tid) (js_rate_movement_reservations s)")
  case (Cons r rs)
  have b: "balanced (js_rate_episodes s) (js_rate_movement_reservations s)"
    using assms by (simp add: movement_inv_def)
  from Cons have r: "r \<in> set (js_rate_movement_reservations s)" "rm_state r = MovementPending"
    by (auto simp: filter_eq_Cons_iff owns_pending_movement_def)
  with b have "rm_episode_id r \<in> entry_id ` set (js_rate_episodes s)"
    by (simp add: balanced_def)
  then obtain entry where f: "find (episode_entry (rm_episode_id r)) (js_rate_episodes s) = Some entry"
    by (cases "find (episode_entry (rm_episode_id r)) (js_rate_episodes s)")
      (auto simp: find_None_iff episode_entry_iff)
  have "entry_pending entry = reserved_for (js_rate_movement_reservations s) (rm_episode_id r)"
    using b find_entryD [OF f] by (simp add: balanced_def)
  also have "\<dots> \<ge> rm_movement_assets r"
    using r by (auto simp: held_def dest!: split_list)
  finally have "settled (release_pending (te_episode entry) (rm_movement_assets r))
      = Inr ((te_episode entry)\<lparr>re_pending_movement :=
          re_pending_movement (te_episode entry) - rm_movement_assets r\<rparr>)"
    by (simp add: settled_release entry_pending_def)
  with Cons owned_at_most_one [OF assms, of tid] f show ?thesis
    by (simp add: release_rate_movement_def Let_def)
qed (simp add: release_rate_movement_def)

lemma release_clears:
  assumes "release_rate_movement s tid = Inr s'"
  shows "\<not> (\<exists>r \<in> set (js_rate_movement_reservations s'). owns_pending_movement tid r)"
proof (cases "filter (owns_pending_movement tid) (js_rate_movement_reservations s)")
  case Nil
  with assms show ?thesis by (auto simp: release_rate_movement_def filter_empty_conv)
next
  case (Cons r rs)
  with assms have "rs = []" by (cases rs) (auto simp: release_rate_movement_def)
  with Cons have alone: "filter (owns_pending_movement tid) (js_rate_movement_reservations s) = [r]"
    by simp
  obtain us vs where split: "js_rate_movement_reservations s = us @ r # vs"
      "\<forall>x \<in> set us. \<not> owns_pending_movement tid x" "owns_pending_movement tid r"
      "update_first (owns_pending_movement tid) (\<lambda>r. r\<lparr>rm_state := MovementReleased\<rparr>)
        (js_rate_movement_reservations s) = us @ r\<lparr>rm_state := MovementReleased\<rparr> # vs"
    using update_first_split [OF find_filter [OF alone], of "\<lambda>r. r\<lparr>rm_state := MovementReleased\<rparr>"] by auto
  with alone have "\<forall>x \<in> set vs. \<not> owns_pending_movement tid x"
    by (simp add: filter_empty_conv)
  moreover from assms have "js_rate_movement_reservations s' = us @ r\<lparr>rm_state := MovementReleased\<rparr> # vs"
    unfolding release_rate_movement_def alone by (auto simp: split(4) result_simps Let_def)
  ultimately show ?thesis
    using split(2) by (auto simp: owns_pending_movement_def)
qed

subsection \<open>Property\<close>


definition witness_store :: json_state where
  "witness_store = storage_run witness_lib json_state_default
     [(PersistRateEpisode (fst (observe_short_confirmation witness_episode (witness_block 11) 2 100)) 130,
       Durable)]"


end
