(* ===== verification/Planner.thy ===== *)
theory Planner
  imports Simulator Episodes "HOL-Library.Product_Lexorder" "HOL-Library.List_Lexorder"
begin

text \<open>
  The pure parts every plan builder shares: the lexicographic objectives
  (\<open>src/planner/objective.rs\<close>), the bounded candidate lattices and distributions
  (\<open>src/planner/candidates.rs\<close>), the search certificate (\<open>src/planner/certificate.rs\<close>) and the
  scheduler with its resource reservations (\<open>src/planner/scheduler.rs\<close>). Tuples compare
  lexicographically as in Rust, and so do the vectors of a \<open>BTreeSet<Vec<U256>>\<close>.
\<close>

subsection \<open>Ordering\<close>

text \<open>\<open>std::cmp::Reverse\<close>.\<close>

datatype 'a reverse = Reverse (unreverse: 'a)

instantiation reverse :: (linorder) linorder
begin

definition less_eq_reverse :: "'a reverse \<Rightarrow> 'a reverse \<Rightarrow> bool" where
  "less_eq_reverse a b \<longleftrightarrow> unreverse b \<le> unreverse a"

definition less_reverse :: "'a reverse \<Rightarrow> 'a reverse \<Rightarrow> bool" where
  "less_reverse a b \<longleftrightarrow> unreverse b < unreverse a"

instance
  by standard (auto simp: less_eq_reverse_def less_reverse_def reverse.expand)

end

text \<open>Keeping the first of the best elements while iterating, as every search of the crate does.\<close>

definition take_best :: "('a \<Rightarrow> 'a \<Rightarrow> bool) \<Rightarrow> 'a option \<Rightarrow> 'a \<Rightarrow> 'a option" where
  "take_best before best x =
     (case best of None \<Rightarrow> Some x | Some current \<Rightarrow> Some (if before x current then x else current))"

definition best_of :: "('a \<Rightarrow> 'a \<Rightarrow> bool) \<Rightarrow> 'a list \<Rightarrow> 'a option" where
  "best_of before xs = foldl (take_best before) None xs"

text \<open>\<open>Iterator::min_by_key\<close> returns the first of several minimal elements.\<close>

definition min_by_key :: "('a \<Rightarrow> 'k::linorder) \<Rightarrow> 'a list \<Rightarrow> 'a option" where
  "min_by_key key xs = best_of (\<lambda>x y. key x < key y) xs"

locale ranking =
  fixes before :: "'a \<Rightarrow> 'a \<Rightarrow> bool"
  assumes asymmetric: "before x y \<Longrightarrow> \<not> before y x"
    and negatively_transitive: "before x z \<Longrightarrow> before x y \<or> before y z"
begin

lemma irreflexive: "\<not> before x x"
  using asymmetric by blast

lemma transitive: "before x y \<Longrightarrow> before y z \<Longrightarrow> before x z"
  using negatively_transitive [of x y z] asymmetric [of y z] by blast

lemma take_best_unbeaten:
  assumes "\<forall>b. best = Some b \<longrightarrow> (\<forall>y \<in> S. \<not> before y b)" and "best = None \<longrightarrow> S = {}"
    and "take_best before best x = Some b"
  shows "\<forall>y \<in> insert x S. \<not> before y b"
proof (cases best)
  case None
  with assms show ?thesis using irreflexive by (simp add: take_best_def)
next
  case (Some c)
  then have S: "\<forall>y \<in> S. \<not> before y c" using assms(1) by blast
  show ?thesis
  proof (cases "before x c")
    case True
    with Some assms(3) have "b = x" by (simp add: take_best_def)
    with S True show ?thesis using irreflexive transitive by blast
  next
    case False
    with Some assms(3) have "b = c" by (simp add: take_best_def)
    with S False show ?thesis by blast
  qed
qed

lemma best_of_fold:
  "foldl (take_best before) best xs = Some b \<Longrightarrow>
    \<forall>c. best = Some c \<longrightarrow> (\<forall>y \<in> S. \<not> before y c) \<Longrightarrow> best = None \<longrightarrow> S = {} \<Longrightarrow>
    (best = Some b \<or> b \<in> set xs) \<and> (\<forall>y \<in> S \<union> set xs. \<not> before y b)"
proof (induction xs arbitrary: best S)
  case (Cons x xs)
  obtain c where c: "take_best before best x = Some c"
    by (cases best) (auto simp: take_best_def)
  from c have in_c: "best = Some c \<or> c = x"
    by (auto simp: take_best_def split: option.splits if_splits)
  have "\<forall>y \<in> insert x S. \<not> before y c"
    by (rule take_best_unbeaten [OF Cons.prems(2,3) c])
  with Cons.IH [of "Some c" "insert x S"] Cons.prems(1) c in_c show ?case by auto
qed simp

lemma best_of_Some:
  "best_of before xs = Some b \<Longrightarrow> b \<in> set xs \<and> (\<forall>y \<in> set xs. \<not> before y b)"
  using best_of_fold [of None xs b "{}"] by (simp add: best_of_def)

end

lemma foldl_take_best_None: "foldl (take_best before) best xs = None \<longleftrightarrow> best = None \<and> xs = []"
  by (induction xs arbitrary: best) (auto simp: take_best_def split: option.splits)

lemma best_of_None [simp]: "best_of before xs = None \<longleftrightarrow> xs = []"
  by (simp add: best_of_def foldl_take_best_None)

interpretation by_key: ranking "\<lambda>x y. key x < key y" for key :: "'a \<Rightarrow> 'k::linorder"
  by unfold_locales (auto intro: less_le_trans leI)

lemma min_by_key_Some: "min_by_key key xs = Some m \<Longrightarrow> m \<in> set xs \<and> (\<forall>x \<in> set xs. key m \<le> key x)"
  using by_key.best_of_Some [of key xs m] by (auto simp: min_by_key_def not_less)

subsection \<open>Objectives\<close>

definition strategy_market_mode_included :: "market_mode \<Rightarrow> bool" where
  "strategy_market_mode_included mode \<longleftrightarrow> mode \<notin> {Disabled, SyncRequired}"

record objective_metrics =
  om_final_unreserved_idle :: u256
  om_deployed_assets :: u256
  om_applicable_spread :: u256
  om_secondary_spread :: u256
  om_terminal_value_delta :: i256
  om_movement_assets :: u256
  om_action_count :: nat

definition ranks_before ::
  "plan_reason \<Rightarrow> objective_metrics \<Rightarrow> objective_metrics \<Rightarrow> u256 \<Rightarrow> bool \<Rightarrow> bool" where
  "ranks_before reason candidate current target reachable =
     (let rate = (
        let candidate_reaches = om_applicable_spread candidate \<le> target;
            current_reaches = om_applicable_spread current \<le> target in
        if reachable \<and> candidate_reaches \<noteq> current_reaches then candidate_reaches
        else if reachable \<and> candidate_reaches then
          (om_movement_assets candidate, om_applicable_spread candidate, om_secondary_spread candidate,
           Reverse (om_terminal_value_delta candidate), om_action_count candidate)
          < (om_movement_assets current, om_applicable_spread current, om_secondary_spread current,
             Reverse (om_terminal_value_delta current), om_action_count current)
        else
          (om_applicable_spread candidate, om_secondary_spread candidate,
           Reverse (om_terminal_value_delta candidate), om_action_count candidate,
           om_movement_assets candidate)
          < (om_applicable_spread current, om_secondary_spread current,
             Reverse (om_terminal_value_delta current), om_action_count current,
             om_movement_assets current)) in
      case reason of
        CapitalDeployment \<Rightarrow>
          (om_final_unreserved_idle candidate, Reverse (om_deployed_assets candidate),
           om_applicable_spread candidate, Reverse (om_terminal_value_delta candidate),
           om_movement_assets candidate, om_action_count candidate)
          < (om_final_unreserved_idle current, Reverse (om_deployed_assets current),
             om_applicable_spread current, Reverse (om_terminal_value_delta current),
             om_movement_assets current, om_action_count current)
      | RateRebalance \<Rightarrow> rate
      | TopKApyRebalance \<Rightarrow> rate
      | LiquidityMaintenance \<Rightarrow>
          (om_final_unreserved_idle candidate, om_applicable_spread candidate,
           om_movement_assets candidate, om_action_count candidate)
          < (om_final_unreserved_idle current, om_applicable_spread current,
             om_movement_assets current, om_action_count current)
      | PositionSyncRequired \<Rightarrow> False)"

definition rate_spread :: "u256 list \<Rightarrow> u256" where
  "rate_spread rates =
     (let (minimum, maximum) = foldl (\<lambda>(minimum, maximum) rate.
            (Some (case minimum of None \<Rightarrow> rate | Some v \<Rightarrow> min v rate),
             Some (case maximum of None \<Rightarrow> rate | Some v \<Rightarrow> max v rate))) (None, None) rates in
      case (maximum, minimum) of
        (Some high, Some low) \<Rightarrow> (case checked_sub high low of None \<Rightarrow> 0 | Some v \<Rightarrow> v)
      | _ \<Rightarrow> 0)"

definition complete_rate_spread ::
  "market_id list \<Rightarrow> (market_id, projected_market_state) btree_map \<Rightarrow> u256 option" where
  "complete_rate_spread markets states =
     Option.bind (collect_options
         (map (\<lambda>market. map_option pm_spot_borrow_rate (map_of states market)) markets))
       (\<lambda>rates. if rates \<noteq> [] then Some (rate_spread rates) else None)"

definition strategy_value :: "projected_market_state \<Rightarrow> strategy_objective \<Rightarrow> u256" where
  "strategy_value state objective =
     (case objective of
        SpotBorrowRateSpread \<Rightarrow> pm_spot_borrow_rate state
      | UtilizationSpread \<Rightarrow> pm_utilization state)"

definition complete_strategy_spread ::
  "market_id list \<Rightarrow> (market_id, projected_market_state) btree_map \<Rightarrow> strategy_objective \<Rightarrow>
     u256 option" where
  "complete_strategy_spread markets states objective =
     Option.bind (collect_options
         (map (\<lambda>market. map_option (\<lambda>state. strategy_value state objective) (map_of states market)) markets))
       (\<lambda>rates. if rates \<noteq> [] then Some (rate_spread rates) else None)"

text \<open>Every objective is a strict weak order: each compares keys, rate objectives in two stages.\<close>

definition staged ::
  "bool \<Rightarrow> ('a \<Rightarrow> bool) \<Rightarrow> ('a \<Rightarrow> 'k::linorder) \<Rightarrow> ('a \<Rightarrow> 'l::linorder) \<Rightarrow> 'a \<Rightarrow> 'a \<Rightarrow> bool" where
  "staged b r key otherwise x y =
     (if b \<and> r x \<noteq> r y then r x else if b \<and> r x then key x < key y else otherwise x < otherwise y)"

interpretation staged: ranking "staged b r key otherwise"
  for b and r :: "'a \<Rightarrow> bool" and key :: "'a \<Rightarrow> 'k::linorder" and otherwise :: "'a \<Rightarrow> 'l::linorder"
proof unfold_locales
  fix x y z
  show "staged b r key otherwise x y \<Longrightarrow> \<not> staged b r key otherwise y x"
    by (cases b; cases "r x"; cases "r y") (auto simp: staged_def)
  show "staged b r key otherwise x z \<Longrightarrow> staged b r key otherwise x y \<or> staged b r key otherwise y z"
    using by_key.negatively_transitive [of key x z y] by_key.negatively_transitive [of otherwise x z y]
    by (cases b; cases "r x"; cases "r y"; cases "r z") (simp_all add: staged_def)
qed

definition rate_key :: "objective_metrics \<Rightarrow> nat \<times> nat \<times> nat \<times> int reverse \<times> nat" where
  "rate_key m = (om_movement_assets m, om_applicable_spread m, om_secondary_spread m,
     Reverse (om_terminal_value_delta m), om_action_count m)"

definition spread_key :: "objective_metrics \<Rightarrow> nat \<times> nat \<times> int reverse \<times> nat \<times> nat" where
  "spread_key m = (om_applicable_spread m, om_secondary_spread m, Reverse (om_terminal_value_delta m),
     om_action_count m, om_movement_assets m)"

definition capital_key :: "objective_metrics \<Rightarrow> nat \<times> nat reverse \<times> nat \<times> int reverse \<times> nat \<times> nat" where
  "capital_key m = (om_final_unreserved_idle m, Reverse (om_deployed_assets m), om_applicable_spread m,
     Reverse (om_terminal_value_delta m), om_movement_assets m, om_action_count m)"

definition liquidity_key :: "objective_metrics \<Rightarrow> nat \<times> nat \<times> nat \<times> nat" where
  "liquidity_key m = (om_final_unreserved_idle m, om_applicable_spread m, om_movement_assets m,
     om_action_count m)"

lemma ranks_before_keys:
  "ranks_before CapitalDeployment x y target reachable \<longleftrightarrow> capital_key x < capital_key y"
  "ranks_before LiquidityMaintenance x y target reachable \<longleftrightarrow> liquidity_key x < liquidity_key y"
  "ranks_before RateRebalance x y target reachable
     \<longleftrightarrow> staged reachable (\<lambda>m. om_applicable_spread m \<le> target) rate_key spread_key x y"
  "ranks_before TopKApyRebalance x y target reachable
     \<longleftrightarrow> staged reachable (\<lambda>m. om_applicable_spread m \<le> target) rate_key spread_key x y"
  "\<not> ranks_before PositionSyncRequired x y target reachable"
  by (simp_all only: ranks_before_def Let_def plan_reason.case staged_def rate_key_def spread_key_def
      capital_key_def liquidity_key_def not_False_eq_True)

interpretation objective: ranking "\<lambda>x y. ranks_before reason (m x) (m y) target reachable"
  for reason m target reachable
proof unfold_locales
  fix x y z
  show "ranks_before reason (m x) (m y) target reachable \<Longrightarrow>
      \<not> ranks_before reason (m y) (m x) target reachable"
    by (cases reason; simp only: ranks_before_keys)
      (auto dest: by_key.asymmetric staged.asymmetric)
  show "ranks_before reason (m x) (m z) target reachable \<Longrightarrow>
      ranks_before reason (m x) (m y) target reachable \<or> ranks_before reason (m y) (m z) target reachable"
    by (cases reason; simp only: ranks_before_keys)
      (erule staged.negatively_transitive | metis less_le_trans not_le)+
qed

lemma rate_spread_eq: "rate_spread rates = (if rates = [] then 0 else Max (set rates) - Min (set rates))"
proof -
  let ?step = "\<lambda>(minimum, maximum) rate. (Some (case minimum of None \<Rightarrow> rate | Some v \<Rightarrow> min v rate),
      Some (case maximum of None \<Rightarrow> rate | Some v \<Rightarrow> max v rate))"
  have step: "foldl ?step (Some l, Some h) rs = (Some (Min (insert l (set rs))), Some (Max (insert h (set rs))))"
    for l h :: nat and rs
  proof (induction rs arbitrary: l h)
    case (Cons r rs)
    have "Min (insert (min l r) (set rs)) = Min (insert l (insert r (set rs)))"
      "Max (insert (max h r) (set rs)) = Max (insert h (insert r (set rs)))"
      by (cases "set rs = {}"; simp add: min.assoc max.assoc)+
    then show ?case by (simp add: Cons.IH)
  qed simp
  have le: "Min (insert x (set xs)) \<le> Max (insert x (set xs))" for x :: nat and xs
    by (rule order_trans [of _ x]) simp_all
  show ?thesis
    by (cases rates) (simp_all add: rate_spread_def checked_sub_def step le del: Max_insert Min_insert)
qed

subsection \<open>Candidate lattices\<close>

record candidate_lattice =
  cl_amounts :: "u256 list"
  cl_hash :: b256

definition neighbors :: "u256 \<Rightarrow> u256 \<Rightarrow> u256 list \<Rightarrow> u256 list" where
  "neighbors v maximum out =
     (let out1 = (if v \<le> maximum then bs_insert v out else out);
          out2 = (if v \<noteq> 0
            then (case checked_sub v 1 of None \<Rightarrow> out1 | Some neighbor \<Rightarrow> bs_insert neighbor out1)
            else out1) in
      if v < maximum
      then (case checked_add v 1 of None \<Rightarrow> out2 | Some neighbor \<Rightarrow> bs_insert neighbor out2)
      else out2)"

definition lattice_of :: "evm_lib \<Rightarrow> u256 list \<Rightarrow> candidate_lattice" where
  "lattice_of lib amounts =
     \<lparr> cl_amounts = amounts, cl_hash = keccak256 lib (concat (map (be_bytes 32) amounts)) \<rparr>"

text \<open>The loop over the halved amounts and the loop that keeps the first amounts up to the limit.\<close>

primrec binary_fractions :: "nat \<Rightarrow> u256 \<Rightarrow> u256 \<Rightarrow> u256 list" where
  "binary_fractions 0 maximum divisor = []"
| "binary_fractions (Suc n) maximum divisor =
     (case checked_div maximum divisor of None \<Rightarrow> [] | Some fraction \<Rightarrow> [fraction])
     @ binary_fractions n maximum
         (case checked_mul divisor 2 of None \<Rightarrow> divisor | Some next \<Rightarrow> next)"

primrec select_amounts :: "u256 \<Rightarrow> nat \<Rightarrow> u256 list \<Rightarrow> u256 list \<Rightarrow> u256 list" where
  "select_amounts maximum limit selected [] = selected"
| "select_amounts maximum limit selected (amount # rest) =
     (if amount \<le> maximum \<and> amount \<notin> set selected
      then if length (selected @ [amount]) = max limit 1 then selected @ [amount]
        else select_amounts maximum limit (selected @ [amount]) rest
      else select_amounts maximum limit selected rest)"

definition lattice_priority :: "u256 \<Rightarrow> u256 \<Rightarrow> u256 list \<Rightarrow> u256 list" where
  "lattice_priority minimum_action maximum prioritized_boundaries =
     [0, min minimum_action maximum, maximum]
     @ map (\<lambda>boundary. min boundary maximum) prioritized_boundaries
     @ concat (map (\<lambda>boundary. neighbors (min boundary maximum) maximum [])
         ([0, minimum_action, maximum] @ prioritized_boundaries))
     @ binary_fractions 16 maximum 2"

definition build_candidate_lattice ::
  "evm_lib \<Rightarrow> u256 \<Rightarrow> u256 \<Rightarrow> u256 list \<Rightarrow> nat \<Rightarrow> candidate_lattice" where
  "build_candidate_lattice lib minimum_action maximum prioritized_boundaries limit =
     (if maximum < two64 \<and> (case checked_add64 maximum 1 of
           None \<Rightarrow> False | Some count \<Rightarrow> count \<le> max limit 1)
      then lattice_of lib [0..<Suc maximum]
      else lattice_of lib (sort (select_amounts maximum limit []
        (lattice_priority minimum_action maximum prioritized_boundaries))))"

lemma select_amounts_props:
  assumes "distinct selected" "\<forall>x \<in> set selected. x \<le> maximum" "length selected < max limit 1"
  shows "distinct (select_amounts maximum limit selected xs) \<and>
    set (select_amounts maximum limit selected xs) \<subseteq> set selected \<union> {x \<in> set xs. x \<le> maximum} \<and>
    length (select_amounts maximum limit selected xs) \<le> max limit 1 \<and>
    (\<exists>ys. select_amounts maximum limit selected xs = selected @ ys)"
  using assms
proof (induction xs arbitrary: selected)
  case (Cons x xs)
  show ?case
  proof (cases "x \<le> maximum \<and> x \<notin> set selected \<and> length selected + 1 \<noteq> max limit 1")
    case True
    with Cons.prems have "length (selected @ [x]) < max limit 1" by simp
    with Cons.IH [of "selected @ [x]"] True Cons.prems show ?thesis by auto
  next
    case False
    with Cons.IH [of selected] Cons.prems show ?thesis by auto
  qed
qed simp

text \<open>
  A lattice is strictly increasing, stays within its maximum and its limit, and always has the empty
  movement; from a limit of three on it has the least and the greatest executable amount as well.
\<close>

lemma lattice_sorted:
  "sorted_wrt (<) (cl_amounts (build_candidate_lattice lib minimum_action maximum boundaries limit))"
  using select_amounts_props [of "[]" maximum limit]
  by (auto simp: build_candidate_lattice_def lattice_of_def strict_sorted_iff simp del: upt_Suc)

lemma lattice_within:
  "x \<in> set (cl_amounts (build_candidate_lattice lib minimum_action maximum boundaries limit)) \<Longrightarrow>
    x \<le> maximum"
  using select_amounts_props [of "[]" maximum limit]
  by (fastforce simp: build_candidate_lattice_def lattice_of_def split: if_splits simp del: upt_Suc)

lemma lattice_length:
  "length (cl_amounts (build_candidate_lattice lib minimum_action maximum boundaries limit))
    \<le> max limit 1"
  using select_amounts_props [of "[]" maximum limit]
  by (auto simp: build_candidate_lattice_def lattice_of_def checked_add_bound_def split: if_splits
      simp del: upt_Suc)

lemma lattice_has_boundaries:
  assumes "3 \<le> limit" and "x \<in> {0, min minimum_action maximum, maximum}"
  shows "x \<in> set (cl_amounts (build_candidate_lattice lib minimum_action maximum boundaries limit))"
proof -
  let ?rest = "map (\<lambda>boundary. min boundary maximum) boundaries
     @ concat (map (\<lambda>boundary. neighbors (min boundary maximum) maximum [])
         ([0, minimum_action, maximum] @ boundaries))
     @ binary_fractions 16 maximum 2"
  have kept: "length ss < limit \<Longrightarrow> distinct ss \<Longrightarrow> \<forall>x \<in> set ss. x \<le> maximum \<Longrightarrow>
      set ss \<subseteq> set (select_amounts maximum limit ss xs)" for ss xs
    using select_amounts_props [of ss maximum limit xs] by auto
  have "x \<in> set (select_amounts maximum limit [] (0 # min minimum_action maximum # maximum # ?rest))"
    using assms kept [of "[0]" ?rest] kept [of "[0, maximum]" ?rest]
      kept [of "[0, min minimum_action maximum]" ?rest]
      kept [of "[0, min minimum_action maximum, maximum]" ?rest]
    by (cases "limit = 3"; cases "min minimum_action maximum = 0"; cases "min minimum_action maximum = maximum")
      auto
  then show ?thesis
    using assms(2) by (auto simp: build_candidate_lattice_def lattice_of_def lattice_priority_def)
qed

subsection \<open>Distributions\<close>

type_synonym partial_distribution = "u256 list \<times> u256"

definition extend_one ::
  "nat \<Rightarrow> u256 \<Rightarrow> nat \<Rightarrow> partial_distribution \<Rightarrow> partial_distribution list \<Rightarrow> u256 \<Rightarrow>
     unit + partial_distribution list" where
  "extend_one limit budget index partial next amount =
     (case checked_add (snd partial) amount of
        None \<Rightarrow> Inr next
      | Some updated \<Rightarrow>
          if updated > budget then Inr next
          else if length next \<ge> limit then Inl ()
          else if index < length (fst partial)
          then Inr (next @ [((fst partial)[index := amount], updated)])
          else Inl ())"

definition extend_partials ::
  "nat \<Rightarrow> u256 \<Rightarrow> nat \<Rightarrow> partial_distribution list \<Rightarrow> nat \<times> u256 list \<Rightarrow>
     unit + partial_distribution list" where
  "extend_partials limit budget sink partials entry =
     (if fst entry = sink then Inr partials
      else try_fold (\<lambda>next partial. try_fold (extend_one limit budget (fst entry) partial) next (snd entry))
        [] partials)"

definition close_partial ::
  "u256 list \<Rightarrow> u256 \<Rightarrow> u256 \<Rightarrow> nat \<Rightarrow> nat \<Rightarrow> u256 list list \<Rightarrow> partial_distribution \<Rightarrow>
     unit + u256 list list" where
  "close_partial maximums budget minimum_action limit sink unique partial =
     (let residual = saturating_sub budget (snd partial) in
      if sink \<ge> length maximums then Inl ()
      else if residual > maximums ! sink \<or> (residual \<noteq> 0 \<and> residual < minimum_action) \<or>
        (\<exists>amount \<in> set (fst partial). amount \<noteq> 0 \<and> amount < minimum_action)
      then Inr unique
      else if sink \<ge> length (fst partial) then Inl ()
      else
        let unique' = bs_insert ((fst partial)[sink := residual]) unique in
        if length unique' > limit then Inl () else Inr unique')"

definition sink_distributions ::
  "u256 list \<Rightarrow> u256 list list \<Rightarrow> u256 \<Rightarrow> u256 \<Rightarrow> nat \<Rightarrow> u256 list list \<Rightarrow> nat \<Rightarrow>
     unit + u256 list list" where
  "sink_distributions maximums lattices budget minimum_action limit unique sink =
     try_let (try_fold (extend_partials limit budget sink)
         [(replicate (length maximums) 0, 0)] (List.enumerate 0 lattices)) (\<lambda>partials.
     try_fold (close_partial maximums budget minimum_action limit sink) unique partials)"

definition bounded_distributions ::
  "u256 list \<Rightarrow> u256 list list \<Rightarrow> u256 \<Rightarrow> u256 \<Rightarrow> nat \<Rightarrow> u256 list list option" where
  "bounded_distributions maximums lattices budget minimum_action limit =
     to_option (try_fold (sink_distributions maximums lattices budget minimum_action (max limit 1))
       [] [0..<length maximums])"

text \<open>The partial distributions over the first lattices, the sink left empty.\<close>

definition partials_over ::
  "nat \<Rightarrow> u256 list list \<Rightarrow> u256 \<Rightarrow> nat \<Rightarrow> partial_distribution set" where
  "partials_over n lats budget sink =
     {(d, s). length d = n \<and> s = sum_list d \<and> s \<le> budget \<and>
        (\<forall>i < n. if i = sink \<or> length lats \<le> i then d ! i = 0 else d ! i \<in> set (lats ! i))}"

lemma extend_one_fold:
  assumes "try_fold (extend_one limit budget index p) next amounts = Inr next'" and "budget < two256"
  shows "set next' = set next
    \<union> {((fst p)[index := a], snd p + a) | a. a \<in> set amounts \<and> snd p + a \<le> budget}"
  using assms(1)
proof (induction amounts arbitrary: "next")
  case (Cons a amounts)
  then obtain mid where mid: "extend_one limit budget index p next a = Inr mid"
    and rest: "try_fold (extend_one limit budget index p) mid amounts = Inr next'"
    by (auto simp: result_simps)
  have "set mid = set next \<union> (if snd p + a \<le> budget then {((fst p)[index := a], snd p + a)} else {})"
    using mid assms(2)
    by (auto simp: extend_one_def checked_add_bound_def split: if_splits)
  with Cons.IH [OF rest] show ?case by auto
qed simp

definition extensions ::
  "nat \<Rightarrow> u256 list \<Rightarrow> u256 \<Rightarrow> partial_distribution set \<Rightarrow> partial_distribution set" where
  "extensions index amounts budget P =
     (\<Union>p \<in> P. {((fst p)[index := a], snd p + a) | a. a \<in> set amounts \<and> snd p + a \<le> budget})"

lemma in_extensions:
  "x \<in> extensions index amounts budget P \<longleftrightarrow>
    (\<exists>d s a. (d, s) \<in> P \<and> a \<in> set amounts \<and> s + a \<le> budget \<and> x = (d[index := a], s + a))"
  unfolding extensions_def by (cases x) (simp add: Bex_def split_paired_Ex, metis)

lemma extend_partials_set:
  assumes "extend_partials limit budget sink partials (index, amounts) = Inr partials'"
    and "budget < two256" and "index \<noteq> sink"
  shows "set partials' = extensions index amounts budget (set partials)"
proof -
  have "try_fold (\<lambda>next partial. try_fold (extend_one limit budget index partial) next amounts) next ps = Inr q
    \<Longrightarrow> set q = set next \<union> extensions index amounts budget (set ps)" for "next" ps q
  proof (induction ps arbitrary: "next")
    case (Cons p ps)
    then obtain mid where mid: "try_fold (extend_one limit budget index p) next amounts = Inr mid"
      and rest: "try_fold (\<lambda>next partial. try_fold (extend_one limit budget index partial) next amounts) mid ps = Inr q"
      by (auto simp: result_simps)
    show ?case
      using Cons.IH [OF rest] extend_one_fold [OF mid assms(2)] by (simp add: extensions_def Un_assoc)
  qed (simp add: extensions_def)
  from this [of "[]" partials] assms(1,3) show ?thesis
    by (simp add: extend_partials_def)
qed

lemma sum_list_update_zero:
  fixes d :: "nat list"
  assumes "i < length d" "d ! i = 0"
  shows "sum_list (d[i := a]) = sum_list d + a"
  using assms by (simp add: sum_list_update)

lemma sum_list_clear:
  fixes d :: "nat list"
  assumes "i < length d"
  shows "sum_list (d[i := 0]) + d ! i = sum_list d"
  using assms member_le_sum_list [of "d ! i" d] by (simp add: sum_list_update)

lemma partials_over_snoc:
  assumes "length lats < n" "length lats \<noteq> sink"
  shows "partials_over n (lats @ [l]) budget sink
    = extensions (length lats) l budget (partials_over n lats budget sink)"
    (is "?L = ?R")
proof (intro equalityI subsetI)
  fix x assume "x \<in> ?L"
  then obtain d where d: "x = (d, sum_list d)" "length d = n" "sum_list d \<le> budget"
    "\<forall>i < n. if i = sink \<or> Suc (length lats) \<le> i then d ! i = 0 else d ! i \<in> set ((lats @ [l]) ! i)"
    by (auto simp: partials_over_def)
  let ?k = "length lats"
  have split: "sum_list (d[?k := 0]) + d ! ?k = sum_list d"
    using assms(1) d(2) by (intro sum_list_clear) simp
  have "(d[?k := 0], sum_list (d[?k := 0])) \<in> partials_over n lats budget sink"
    using d split by (auto simp: partials_over_def nth_append nth_list_update not_less_eq_eq split: if_splits)
  moreover have "d ! ?k \<in> set l" using d(4) assms by (auto split: if_splits)
  moreover have "x = ((d[?k := 0])[?k := d ! ?k], sum_list (d[?k := 0]) + d ! ?k)"
    using split d(1) by simp
  ultimately show "x \<in> ?R" unfolding in_extensions using split d(3) by metis
next
  fix x assume "x \<in> ?R"
  then obtain d a where d: "x = (d[length lats := a], sum_list d + a)" "length d = n" "a \<in> set l"
    "sum_list d + a \<le> budget"
    "\<forall>i < n. if i = sink \<or> length lats \<le> i then d ! i = 0 else d ! i \<in> set (lats ! i)"
    by (auto simp: partials_over_def in_extensions)
  have "d ! length lats = 0" using d(5) assms(1) by auto
  then have "sum_list (d[length lats := a]) = sum_list d + a"
    using assms(1) d(2) by (intro sum_list_update_zero) simp_all
  moreover have "if i = sink \<or> Suc (length lats) \<le> i then d[length lats := a] ! i = 0
      else d[length lats := a] ! i \<in> set ((lats @ [l]) ! i)" if "i < n" for i
    using d(2,3,5) assms that by (cases "i = length lats") (auto simp: nth_append dest!: spec [of _ i])
  ultimately show "x \<in> ?L" using d(1,2,4) by (simp add: partials_over_def)
qed

lemma partials_over_sink:
  "partials_over n (lats @ [l]) budget (length lats) = partials_over n lats budget (length lats)"
proof -
  have "(if i = length lats \<or> length (lats @ [l]) \<le> i then d ! i = 0 else d ! i \<in> set ((lats @ [l]) ! i))
      \<longleftrightarrow> (if i = length lats \<or> length lats \<le> i then d ! i = 0 else d ! i \<in> set (lats ! i))" for d i
    by (auto simp: nth_append)
  then show ?thesis by (simp only: partials_over_def)
qed

lemma partials_fold:
  assumes "try_fold (extend_partials limit budget sink) [(replicate n 0, 0)] (List.enumerate 0 lats)
      = Inr partials"
    and "length lats \<le> n" and "budget < two256"
  shows "set partials = partials_over n lats budget sink"
  using assms(1,2)
proof (induction lats arbitrary: partials rule: rev_induct)
  case Nil
  have zero: "length d = n \<and> (\<forall>i < n. d ! i = 0) \<longleftrightarrow> d = replicate n 0" for d :: "nat list"
    by (auto intro: nth_equalityI)
  have "partials_over n [] budget sink
      = {(d, s). (length d = n \<and> (\<forall>i < n. d ! i = 0)) \<and> s = sum_list d \<and> s \<le> budget}"
    by (auto simp: partials_over_def)
  then have all_zero: "partials_over n [] budget sink = {(replicate n 0, 0)}"
    by (auto simp: zero sum_list_replicate)
  have "partials = [(replicate n 0, 0)]" using Nil(1) by simp
  then show ?case by (simp only: all_zero list.set)
next
  case (snoc l lats)
  then obtain mid where mid: "try_fold (extend_partials limit budget sink) [(replicate n 0, 0)]
        (List.enumerate 0 lats) = Inr mid"
    and last: "extend_partials limit budget sink mid (length lats, l) = Inr partials"
    by (auto simp: enumerate_append_eq try_fold_append result_simps)
  have ih: "set mid = partials_over n lats budget sink"
    using snoc.IH [OF mid] snoc.prems(2) by simp
  show ?case
  proof (cases "length lats = sink")
    case True
    then have "partials = mid" using last by (simp add: extend_partials_def)
    then show ?thesis using ih partials_over_sink [of n lats l budget] by (simp add: True)
  next
    case False
    then show ?thesis
      using extend_partials_set [OF last assms(3) False] ih partials_over_snoc [of lats n sink l budget]
        snoc.prems(2) by simp
  qed
qed

text \<open>The distributions that leave the residual to one sink.\<close>

definition distributions_into ::
  "u256 list \<Rightarrow> u256 list list \<Rightarrow> u256 \<Rightarrow> u256 \<Rightarrow> nat \<Rightarrow> u256 list set" where
  "distributions_into maximums lattices budget minimum_action sink =
     {d. length d = length maximums \<and> sum_list d = budget \<and>
        (\<forall>x \<in> set d. x = 0 \<or> minimum_action \<le> x) \<and> d ! sink \<le> maximums ! sink \<and>
        (\<forall>i < length maximums. i \<noteq> sink \<longrightarrow> d ! i \<in> set (lattices ! i))}"

lemma close_partial_fold:
  assumes "try_fold (close_partial maximums budget minimum_action limit sink) unique partials = Inr unique'"
    and "sorted_wrt (<) unique" "length unique \<le> limit"
  shows "sorted_wrt (<) unique' \<and> length unique' \<le> limit \<and>
    set unique' = set unique \<union> {d[sink := budget - s] | d s. (d, s) \<in> set partials \<and>
      budget - s \<le> maximums ! sink \<and> (budget - s = 0 \<or> minimum_action \<le> budget - s) \<and>
      (\<forall>x \<in> set d. x = 0 \<or> minimum_action \<le> x)}"
  using assms
proof (induction partials arbitrary: unique)
  case (Cons p partials)
  obtain d s where p: "p = (d, s)" by (cases p)
  from Cons.prems(1) obtain mid where mid: "close_partial maximums budget minimum_action limit sink unique p = Inr mid"
    and rest: "try_fold (close_partial maximums budget minimum_action limit sink) mid partials = Inr unique'"
    by (auto simp: result_simps)
  have m: "sorted_wrt (<) mid \<and> length mid \<le> limit \<and> set mid = set unique \<union>
      (if budget - s \<le> maximums ! sink \<and> (budget - s = 0 \<or> minimum_action \<le> budget - s) \<and>
        (\<forall>x \<in> set d. x = 0 \<or> minimum_action \<le> x) then {d[sink := budget - s]} else {})"
    using mid Cons.prems(2,3) sorted_bs_insert [of unique "d[sink := budget - s]"]
    by (auto simp: close_partial_def p Let_def not_less not_le split: if_splits)
  show ?case
    using Cons.IH [OF rest] m by (auto simp: p split: if_splits)
qed simp

lemma sink_distributions_set:
  assumes "sink_distributions maximums lattices budget minimum_action limit unique sink = Inr unique'"
    and "length lattices = length maximums" "budget < two256" "sink < length maximums"
    and "sorted_wrt (<) unique" "length unique \<le> limit"
  shows "sorted_wrt (<) unique' \<and> length unique' \<le> limit \<and>
    set unique' = set unique \<union> distributions_into maximums lattices budget minimum_action sink"
proof -
  let ?n = "length maximums"
  from assms(1) obtain partials where
    partials: "try_fold (extend_partials limit budget sink) [(replicate ?n 0, 0)]
        (List.enumerate 0 lattices) = Inr partials"
    and close: "try_fold (close_partial maximums budget minimum_action limit sink) unique partials = Inr unique'"
    by (auto simp: sink_distributions_def result_simps)
  have P: "set partials = partials_over ?n lattices budget sink"
    by (rule partials_fold [OF partials]) (use assms in simp_all)
  let ?close = "{d[sink := budget - s] | d s. (d, s) \<in> set partials \<and>
      budget - s \<le> maximums ! sink \<and> (budget - s = 0 \<or> minimum_action \<le> budget - s) \<and>
      (\<forall>x \<in> set d. x = 0 \<or> minimum_action \<le> x)}"
  have "?close = distributions_into maximums lattices budget minimum_action sink"
  proof (intro equalityI subsetI)
    fix e assume "e \<in> ?close"
    then obtain d s where in_partials: "(d, s) \<in> set partials" and ds: "e = d[sink := budget - s]"
      "budget - s \<le> maximums ! sink" "budget - s = 0 \<or> minimum_action \<le> budget - s"
      "\<forall>x \<in> set d. x = 0 \<or> minimum_action \<le> x"
      by blast
    from in_partials have d: "length d = ?n" "s = sum_list d" "s \<le> budget"
      "\<forall>i < ?n. if i = sink then d ! i = 0 else d ! i \<in> set (lattices ! i)"
      unfolding P partials_over_def assms(2) [symmetric] by auto
    have "sum_list e = budget"
      using sum_list_update_zero [of sink d "budget - s"] d ds(1) assms(4) by auto
    moreover have "\<forall>x \<in> set e. x = 0 \<or> minimum_action \<le> x"
      using ds set_update_subset_insert [of d sink "budget - s"] by blast
    ultimately show "e \<in> distributions_into maximums lattices budget minimum_action sink"
      using d ds(1,2) assms(4) by (auto simp: distributions_into_def)
  next
    fix e assume "e \<in> distributions_into maximums lattices budget minimum_action sink"
    then have e: "length e = ?n" "sum_list e = budget" "\<forall>x \<in> set e. x = 0 \<or> minimum_action \<le> x"
      "e ! sink \<le> maximums ! sink" "\<forall>i < ?n. i \<noteq> sink \<longrightarrow> e ! i \<in> set (lattices ! i)"
      by (auto simp: distributions_into_def)
    define d s where "d = e[sink := 0]" and "s = sum_list d"
    have r: "s + e ! sink = budget"
      using sum_list_clear [of sink e] e(1,2) assms(4) by (simp add: d_def s_def)
    then have rest: "budget - s = e ! sink" by simp
    have "(d, s) \<in> set partials"
      using e(1,5) r assms(2,4) unfolding P partials_over_def s_def by (auto simp: d_def)
    moreover have "\<forall>x \<in> set d. x = 0 \<or> minimum_action \<le> x"
      using e(3) set_update_subset_insert [of e sink 0] unfolding d_def by blast
    moreover have "e ! sink = 0 \<or> minimum_action \<le> e ! sink" using e(1,3) assms(4) by simp
    moreover have "e = d[sink := budget - s]" by (simp add: rest d_def)
    ultimately show "e \<in> ?close"
      using e(4) unfolding rest [symmetric] by blast
  qed
  with close_partial_fold [OF close assms(5,6)] show ?thesis by simp
qed

subsection \<open>Search certificates\<close>

datatype rejection_reason = Simulation | ImmediateLoss | SpreadWorsening | Episode | Service

definition rejection_index :: "rejection_reason \<Rightarrow> nat" where
  "rejection_index r =
     (case r of Simulation \<Rightarrow> 0 | ImmediateLoss \<Rightarrow> 1 | SpreadWorsening \<Rightarrow> 2 | Episode \<Rightarrow> 3 | Service \<Rightarrow> 4)"

lemma rejection_index_inject: "rejection_index r = rejection_index s \<longleftrightarrow> r = s"
  by (cases r; cases s) (simp_all add: rejection_index_def)

text \<open>\<open>RejectionReason\<close> derives \<open>Ord\<close>: declaration order.\<close>

instantiation rejection_reason :: linorder
begin

definition less_eq_rejection_reason :: "rejection_reason \<Rightarrow> rejection_reason \<Rightarrow> bool" where
  "less_eq_rejection_reason a b \<longleftrightarrow> rejection_index a \<le> rejection_index b"

definition less_rejection_reason :: "rejection_reason \<Rightarrow> rejection_reason \<Rightarrow> bool" where
  "less_rejection_reason a b \<longleftrightarrow> rejection_index a < rejection_index b"

instance
  by standard (auto simp: less_eq_rejection_reason_def less_rejection_reason_def rejection_index_inject)

end

record search_certificate =
  sc_candidate_lattice_hash :: b256
  sc_nodes_evaluated :: u64
  sc_node_limit :: u64
  sc_search_complete :: bool
  sc_rejection_counts :: "(rejection_reason, u64) btree_map"

definition fresh_certificate :: "solver_config_canonical \<Rightarrow> search_certificate" where
  "fresh_certificate solver =
     \<lparr> sc_candidate_lattice_hash = 0, sc_nodes_evaluated = 0, sc_node_limit = so_maximum_nodes solver,
       sc_search_complete = True, sc_rejection_counts = [] \<rparr>"

definition reject :: "rejection_reason \<Rightarrow> search_certificate \<Rightarrow> search_certificate \<times> bool" where
  "reject reason certificate =
     (let count = or_insert (sc_rejection_counts certificate) reason 0 in
      case checked_add64 count 1 of
        Some updated \<Rightarrow> (certificate \<lparr> sc_rejection_counts :=
          bt_insert reason updated (sc_rejection_counts certificate) \<rparr>, True)
      | None \<Rightarrow> (certificate \<lparr> sc_rejection_counts :=
          bt_insert reason count (sc_rejection_counts certificate), sc_search_complete := False \<rparr>, False))"

definition executable_rate_search :: "search_certificate \<Rightarrow> bool" where
  "executable_rate_search certificate \<longleftrightarrow> sc_search_complete certificate \<and>
     sc_nodes_evaluated certificate \<le> sc_node_limit certificate"

text \<open>The two updates of a certificate the searches make, and what both of them keep.\<close>

abbreviation rejected :: "rejection_reason \<Rightarrow> search_certificate \<Rightarrow> search_certificate" where
  "rejected reason certificate \<equiv> fst (reject reason certificate)"

definition count_node :: "search_certificate \<Rightarrow> search_certificate" where
  "count_node certificate = certificate \<lparr> sc_nodes_evaluated :=
     saturating_add64 (sc_nodes_evaluated certificate) 1 \<rparr>"

abbreviation incomplete :: "search_certificate \<Rightarrow> search_certificate" where
  "incomplete certificate \<equiv> certificate \<lparr> sc_search_complete := False \<rparr>"

lemma certificate_updates [simp]:
  "sc_nodes_evaluated (rejected r c) = sc_nodes_evaluated c"
  "sc_node_limit (rejected r c) = sc_node_limit c"
  "sc_node_limit (count_node c) = sc_node_limit c"
  "sc_search_complete (count_node c) = sc_search_complete c"
  by (simp_all add: reject_def count_node_def Let_def split: option.splits)

lemma rejected_complete: "sc_search_complete (rejected r c) \<Longrightarrow> sc_search_complete c"
  by (auto simp: reject_def Let_def split: option.splits)

subsection \<open>Scheduling\<close>

record resource_reservations =
  rs_vaults :: "vault_address list"
  rs_signer_lanes :: "address list"
  rs_markets :: "market_id list"
  rs_loan_tokens :: "address list"
  rs_caps :: "cap_ref list"
  rs_idle_lock_vaults :: "vault_address list"

definition shares :: "'a list \<Rightarrow> 'a list \<Rightarrow> bool" where
  "shares xs ys \<longleftrightarrow> (\<exists>x \<in> set xs. x \<in> set ys)"

definition conflicts :: "resource_reservations \<Rightarrow> resource_reservations \<Rightarrow> bool" where
  "conflicts a b \<longleftrightarrow>
     shares (rs_vaults a) (rs_vaults b) \<or> shares (rs_signer_lanes a) (rs_signer_lanes b) \<or>
     shares (rs_markets a) (rs_markets b) \<or> shares (rs_loan_tokens a) (rs_loan_tokens b) \<or>
     shares (rs_caps a) (rs_caps b) \<or> shares (rs_idle_lock_vaults a) (rs_idle_lock_vaults b)"

record schedulable_plan =
  sd_reason :: plan_reason
  sd_vault :: vault_address
  sd_service_deficit_assets :: u256
  sd_unreserved_idle_assets :: u256
  sd_spread_above_entry :: u256
  sd_eligible_since_block :: u64
  sd_resources :: resource_reservations

definition priority :: "plan_reason \<Rightarrow> nat" where
  "priority reason =
     (case reason of LiquidityMaintenance \<Rightarrow> 0 | CapitalDeployment \<Rightarrow> 1 | RateRebalance \<Rightarrow> 2
      | TopKApyRebalance \<Rightarrow> 2 | PositionSyncRequired \<Rightarrow> 3)"

definition schedule_key ::
  "schedulable_plan \<Rightarrow> nat \<times> nat reverse \<times> nat reverse \<times> nat reverse \<times> nat \<times> vault_address" where
  "schedule_key plan =
     (priority (sd_reason plan), Reverse (sd_service_deficit_assets plan),
      Reverse (sd_unreserved_idle_assets plan), Reverse (sd_spread_above_entry plan),
      sd_eligible_since_block plan, sd_vault plan)"

definition select_next ::
  "schedulable_plan list \<Rightarrow> resource_reservations \<Rightarrow> schedulable_plan option" where
  "select_next plans already_reserved =
     min_by_key schedule_key (filter (\<lambda>plan. sd_reason plan \<noteq> PositionSyncRequired \<and>
       \<not> conflicts (sd_resources plan) already_reserved) plans)"

text \<open>
  The scheduler picks only conflict-free plans, skips none that could run when it returns nothing,
  and never lets a lower class overtake a service deficit.
\<close>

lemma select_next_Some:
  assumes "select_next plans already_reserved = Some plan"
  shows "plan \<in> set plans" "\<not> conflicts (sd_resources plan) already_reserved"
    "other \<in> set plans \<Longrightarrow> sd_reason other \<noteq> PositionSyncRequired \<Longrightarrow>
      \<not> conflicts (sd_resources other) already_reserved \<Longrightarrow>
      priority (sd_reason plan) \<le> priority (sd_reason other)"
  using min_by_key_Some [OF assms [unfolded select_next_def]]
  by (auto simp: schedule_key_def less_eq_prod_def)

lemma select_next_None:
  "select_next plans already_reserved = None \<longleftrightarrow>
    (\<forall>plan \<in> set plans. sd_reason plan = PositionSyncRequired \<or> conflicts (sd_resources plan) already_reserved)"
  by (auto simp: select_next_def min_by_key_def filter_empty_conv)

subsection \<open>Properties\<close>

text \<open>
  C37. The bounded enumeration of distributions is exact when it returns: its results are precisely the
  vectors that split the requested total, in which every entry is zero or at least the minimum action,
  one endpoint takes a residual within its maximum and every other takes an amount of its lattice. They
  come sorted, without repetition and within the limit; a search cut off by the limit returns nothing.
\<close>

theorem bounded_distributions_exact:
  assumes "bounded_distributions maximums lattices budget minimum_action limit = Some ds"
    and "length lattices = length maximums" and "budget < two256"
  shows "sorted_wrt (<) ds \<and> length ds \<le> max limit 1 \<and>
    (\<forall>d. d \<in> set ds \<longleftrightarrow>
       length d = length maximums \<and> sum_list d = budget \<and> (\<forall>x \<in> set d. x = 0 \<or> minimum_action \<le> x) \<and>
       (\<exists>sink < length maximums. d ! sink \<le> maximums ! sink \<and>
          (\<forall>i < length maximums. i \<noteq> sink \<longrightarrow> d ! i \<in> set (lattices ! i))))"
proof -
  let ?into = "distributions_into maximums lattices budget minimum_action"
  have "try_fold (sink_distributions maximums lattices budget minimum_action (max limit 1)) [] sinks = Inr u \<Longrightarrow>
      set sinks \<subseteq> {..<length maximums} \<Longrightarrow>
      sorted_wrt (<) u \<and> length u \<le> max limit 1 \<and> set u = (\<Union>sink \<in> set sinks. ?into sink)" for sinks u
  proof (induction sinks arbitrary: u rule: rev_induct)
    case (snoc sink sinks)
    then obtain mid where
      "try_fold (sink_distributions maximums lattices budget minimum_action (max limit 1)) [] sinks = Inr mid"
      and last: "sink_distributions maximums lattices budget minimum_action (max limit 1) mid sink = Inr u"
      by (auto simp: try_fold_append result_simps)
    with snoc have "sorted_wrt (<) mid \<and> length mid \<le> max limit 1 \<and> set mid = (\<Union>sink \<in> set sinks. ?into sink)"
      by simp
    with sink_distributions_set [OF last assms(2,3)] snoc.prems(2) show ?case by auto
  qed simp
  from this [of "[0..<length maximums]" ds] assms(1)
  have "sorted_wrt (<) ds \<and> length ds \<le> max limit 1 \<and> set ds = (\<Union>sink < length maximums. ?into sink)"
    by (simp add: bounded_distributions_def result_simps atLeast0LessThan)
  then show ?thesis by (auto simp: distributions_into_def)
qed

theorem bounded_distributions_exact_witness:
  "\<exists>ds. bounded_distributions [10, 10] [[0, 5, 10], [0, 5, 10]] 12 2 100 = Some ds \<and> [5, 7] \<in> set ds"
proof -
  obtain ds where ds: "bounded_distributions [10, 10] [[0, 5, 10], [0, 5, 10]] 12 2 100 = Some ds"
    by (simp add: bounded_distributions_def sink_distributions_def extend_partials_def extend_one_def
        close_partial_def evaluate_arith upt_rec enumerate_simps)
  show ?thesis
    using bounded_distributions_exact [OF ds] ds by (auto simp: two256_def nth_Cons' less_Suc_eq)
qed

end
