(* ===== verification/CapitalPlanner.thy ===== *)
theory CapitalPlanner
  imports Planner
begin

text \<open>
  Deployment of verified idle capital (\<open>src/planner/capital.rs\<close>): the cap headroom helpers shared
  with the other planners, and the bounded search for the largest deployment. The nested loops of the
  search are folds over the deployment targets and over the distributions of one target; a
  \<open>continue\<close> is the next element and a \<open>break 'search\<close> the flag the inner fold returns.
\<close>

subsection \<open>Cap headroom\<close>

definition projected_cap_headroom ::
  "exact_vault_snapshot \<Rightarrow> projected_vault_view \<Rightarrow> cap_ref \<Rightarrow> u256 option" where
  "projected_cap_headroom snapshot projection reference =
     Option.bind (map_of (sn_caps snapshot) reference) (\<lambda>cap.
     if cs_absolute_cap cap = 0 \<or> cs_relative_cap cap > WAD then Some 0
     else
       let delta = (case map_of (pj_cap_catch_up (vw_vault projection)) reference of
             None \<Rightarrow> 0 | Some d \<Rightarrow> d) in
       Option.bind (Option.bind (Option.bind (i256_of_u256 (cs_recorded_allocation cap))
           (\<lambda>v. checked_sadd v delta)) u256_of_i256) (\<lambda>allocation.
       Option.bind (if cs_relative_cap cap < WAD
           then to_option (mul_div_down (pj_parent_total_assets (vw_vault projection))
             (cs_relative_cap cap) WAD)
           else Some (two256 - 1)) (\<lambda>relative_maximum.
       Some (saturating_sub (min (cs_absolute_cap cap) relative_maximum) allocation))))"

definition cap_limited_allocation ::
  "exact_vault_snapshot \<Rightarrow> projected_vault_view \<Rightarrow> position_key \<Rightarrow> u256 option" where
  "cap_limited_allocation snapshot projection position =
     Option.bind (map_of (sn_positions snapshot) position) (\<lambda>stored.
     to_option (try_fold (\<lambda>headroom reference.
         ok_or (map_option (min headroom) (projected_cap_headroom snapshot projection reference)) ())
       (two256 - 1) (dp_affected_caps stored)))"

definition allocation_cap_boundaries ::
  "exact_vault_snapshot \<Rightarrow> projected_vault_view \<Rightarrow> position_key \<Rightarrow> u256 list option" where
  "allocation_cap_boundaries snapshot projection position =
     Option.bind (map_of (sn_positions snapshot) position) (\<lambda>stored.
     collect_options (map (projected_cap_headroom snapshot projection) (dp_affected_caps stored)))"

definition releasable_assets ::
  "exact_vault_snapshot \<Rightarrow> projected_vault_view \<Rightarrow> validated_vault_config \<Rightarrow> position_key \<Rightarrow> cap_ref \<Rightarrow>
     unit + u256" where
  "releasable_assets snapshot projection vault destination reference =
     try_fold (\<lambda>released configured.
         try_let (ok_or (map_of (pj_position_expected_assets (vw_vault projection))
             (po_position_key configured)) ()) (\<lambda>current.
         ok_or (checked_add released
           (saturating_sub current (po_minimum_position_assets configured))) ())) 0
       (filter (\<lambda>configured. case map_of (sn_positions snapshot) (po_position_key configured) of
            None \<Rightarrow> False | Some position \<Rightarrow> reference \<in> set (dp_affected_caps position))
         (filter (\<lambda>configured. po_mode configured \<in> {Active, SourceOnly, Disabled})
           (filter (\<lambda>configured. po_position_key configured \<noteq> destination) (va_positions vault))))"

definition reallocation_cap_limited_allocation ::
  "exact_vault_snapshot \<Rightarrow> projected_vault_view \<Rightarrow> validated_vault_config \<Rightarrow> position_key \<Rightarrow>
     u256 option" where
  "reallocation_cap_limited_allocation snapshot projection vault destination =
     Option.bind (map_of (sn_positions snapshot) destination) (\<lambda>stored.
     to_option (try_fold (\<lambda>capacity reference.
         try_let (releasable_assets snapshot projection vault destination reference) (\<lambda>released.
         try_let (ok_or (projected_cap_headroom snapshot projection reference) ()) (\<lambda>headroom.
         try_let (ok_or (checked_add headroom released) ()) (\<lambda>available.
         Inr (min capacity available)))))
       (two256 - 1) (dp_affected_caps stored)))"

subsection \<open>Preparation\<close>

text \<open>
  What the solver computes before it searches. \<open>None\<close> is any of its early returns, all of which give
  an empty result with an incomplete certificate.
\<close>

record capital_search =
  cz_idle_available :: u256
  cz_liquidity_available :: u256
  cz_available :: u256
  cz_horizon_timestamp :: u64
  cz_no_plan_terminal :: u256
  cz_destinations :: "(validated_position_config \<times> u256) list"
  cz_maximum_deployable :: u256

definition capital_idle_available :: "exact_vault_snapshot \<Rightarrow> u256 option" where
  "capital_idle_available snapshot =
     (let locked = to_option (try_fold (\<lambda>t lock. ok_or (checked_add t (ls_remaining_assets lock)) ())
            0 (ll_locks (sn_idle_locks snapshot))) in
      if ll_verified (sn_idle_locks snapshot)
      then Option.bind locked (checked_sub (pv_idle_assets (sn_parent snapshot)))
      else Some 0)"

definition capital_liquidity_available ::
  "exact_vault_snapshot \<Rightarrow> validated_vault_config \<Rightarrow> u256 option" where
  "capital_liquidity_available snapshot vault =
     (case (sn_liquidity_adapter snapshot, va_liquidity_adapter vault) of
        (Some state, Some configured) \<Rightarrow>
          let retained = max (va_minimum_liquidity_adapter_assets vault)
                (va_minimum_atomic_exit_coverage_assets vault) in
          Some (min (min (saturating_sub (lq_real_assets state) retained) (lq_max_withdraw state))
            (la_maximum_action_assets configured))
      | (None, None) \<Rightarrow> Some 0
      | _ \<Rightarrow> None)"

definition capital_destination ::
  "exact_vault_snapshot \<Rightarrow> projected_vault_view \<Rightarrow> u256 \<Rightarrow> validated_position_config \<Rightarrow>
     (validated_position_config \<times> u256) option option" where
  "capital_destination snapshot projection maximum destination =
     Option.bind (map_of (pj_position_expected_assets (vw_vault projection))
       (po_position_key destination)) (\<lambda>current.
     let position_maximum = saturating_sub (po_maximum_position_assets destination) current in
     Option.bind (cap_limited_allocation snapshot projection (po_position_key destination)) (\<lambda>caps.
     let action_maximum = min (min (min maximum position_maximum)
           (po_maximum_action_assets destination)) caps in
     Some (if action_maximum \<noteq> 0 then Some (destination, action_maximum) else None)))"

definition prepare_capital ::
  "evm_lib \<Rightarrow> exact_vault_snapshot \<Rightarrow> projected_vault_view \<Rightarrow> validated_vault_config \<Rightarrow> u64 \<Rightarrow>
     capital_search option" where
  "prepare_capital lib snapshot projection vault benefit_horizon_seconds =
     Option.bind (capital_idle_available snapshot) (\<lambda>idle_available.
     Option.bind (capital_liquidity_available snapshot vault) (\<lambda>liquidity_available.
     Option.bind (checked_add idle_available liquidity_available) (\<lambda>available.
     Option.bind (checked_add64 (br_timestamp (vw_head projection)) benefit_horizon_seconds)
       (\<lambda>horizon_timestamp.
     Option.bind (to_option (no_plan_terminal_existing_shareholder_assets lib snapshot vault projection
       horizon_timestamp)) (\<lambda>no_plan_terminal.
     Option.bind (collect_options (map (capital_destination snapshot projection available)
       (filter (\<lambda>position. po_mode position = Active) (va_positions vault)))) (\<lambda>found.
     let destinations = List.map_filter (\<lambda>d. d) found in
     Option.bind (to_option (try_fold (\<lambda>t d. ok_or (checked_add t (snd d)) ()) 0 destinations))
       (\<lambda>deployable.
     Some \<lparr> cz_idle_available = idle_available, cz_liquidity_available = liquidity_available,
       cz_available = available, cz_horizon_timestamp = horizon_timestamp,
       cz_no_plan_terminal = no_plan_terminal, cz_destinations = destinations,
       cz_maximum_deployable = min deployable available \<rparr>)))))))"

subsection \<open>Distributions\<close>

definition single_destination :: "u256 list \<Rightarrow> u256 \<Rightarrow> nat \<Rightarrow> u256 list list" where
  "single_destination maximums budget first =
     (if budget \<le> maximums ! first then [(replicate (length maximums) 0)[first := budget]] else [])"

definition pair_of_destinations ::
  "u256 list \<Rightarrow> u256 list list \<Rightarrow> u256 \<Rightarrow> u256 \<Rightarrow> nat \<Rightarrow> nat \<Rightarrow> u256 list list" where
  "pair_of_destinations maximums lattices budget minimum_action first second =
     (if first = second \<or> first \<ge> length lattices then []
      else List.map_filter (\<lambda>first_amount.
        if first_amount = 0 \<or> first_amount < minimum_action \<or> first_amount > maximums ! first \<or>
           first_amount \<ge> budget
        then None
        else Option.bind (checked_sub budget first_amount) (\<lambda>second_amount.
          if second_amount < minimum_action \<or> second_amount > maximums ! second then None
          else Some ((replicate (length maximums) 0)[first := first_amount, second := second_amount])))
        (lattices ! first))"

definition capital_distributions ::
  "u256 list \<Rightarrow> u256 list list \<Rightarrow> u256 \<Rightarrow> u256 \<Rightarrow> u256 list list" where
  "capital_distributions maximums lattices budget minimum_action =
     foldl (\<lambda>distributions selected. bs_insert selected distributions) []
       (concat (map (\<lambda>first. single_destination maximums budget first
          @ concat (map (pair_of_destinations maximums lattices budget minimum_action first)
              [0..<length maximums])) [0..<length maximums]))"

subsection \<open>Candidates\<close>

definition capital_boundaries ::
  "projected_vault_view \<Rightarrow> validated_vault_config \<Rightarrow> capital_search \<Rightarrow> u256 \<Rightarrow> u256 list" where
  "capital_boundaries projection vault ctx first =
     [first, cz_available ctx, cz_idle_available ctx, cz_liquidity_available ctx,
      saturating_sub (pj_max_executable_deposit_assets (vw_vault projection))
        (va_minimum_deposit_headroom_assets vault),
      saturating_sub (pj_atomic_exit_coverage_assets (vw_vault projection))
        (va_minimum_atomic_exit_coverage_assets vault)]"

definition deployment_lattice ::
  "evm_lib \<Rightarrow> projected_vault_view \<Rightarrow> validated_vault_config \<Rightarrow> solver_config_canonical \<Rightarrow>
     capital_search \<Rightarrow> candidate_lattice" where
  "deployment_lattice lib projection vault solver ctx =
     build_candidate_lattice lib (va_minimum_action_assets vault) (cz_maximum_deployable ctx)
       (capital_boundaries projection vault ctx (cz_available ctx))
       (so_maximum_amount_candidates_per_position solver)"

definition destination_lattices ::
  "evm_lib \<Rightarrow> projected_vault_view \<Rightarrow> validated_vault_config \<Rightarrow> solver_config_canonical \<Rightarrow>
     capital_search \<Rightarrow> candidate_lattice list" where
  "destination_lattices lib projection vault solver ctx =
     map (\<lambda>destination. build_candidate_lattice lib (va_minimum_action_assets vault) (snd destination)
         (capital_boundaries projection vault ctx (cz_maximum_deployable ctx))
         (so_maximum_amount_candidates_per_position solver)) (cz_destinations ctx)"

text \<open>The actions of one distribution, or \<open>None\<close> where the loop continues without counting it.\<close>

definition capital_actions ::
  "evm_lib \<Rightarrow> validated_vault_config \<Rightarrow> capital_search \<Rightarrow> u256 \<Rightarrow> u256 list \<Rightarrow> v2_action list option" where
  "capital_actions lib vault ctx deploy_target selected =
     (let liquidity_withdrawal = saturating_sub deploy_target (cz_idle_available ctx) in
      Option.bind (if liquidity_withdrawal \<noteq> 0
        then Option.bind (va_liquidity_adapter vault) (\<lambda>liquidity.
          if liquidity_withdrawal > cz_liquidity_available ctx then None
          else Some [Deallocate (la_position_key liquidity) (la_address liquidity) []
            liquidity_withdrawal])
        else Some []) (\<lambda>withdrawals.
      let actions = withdrawals
            @ map (\<lambda>(destination, amount). Allocate (po_position_key (fst destination))
                  (po_adapter (fst destination))
                  (encode_adapter_data lib (po_market_params (fst destination))) amount)
                (filter (\<lambda>(destination, amount). amount \<noteq> 0) (zip (cz_destinations ctx) selected)) in
      if actions = [] \<or> length actions > saturating_add64 (length (va_positions vault)) 1 then None
      else Some actions))"

definition capital_spread ::
  "validated_vault_config \<Rightarrow> strategy_objective \<Rightarrow> simulation_state \<Rightarrow> u256 option" where
  "capital_spread vault objective state =
     Option.bind (collect_options (map (\<lambda>position. map_option (\<lambda>market. strategy_value market objective)
           (map_of (ss_markets state) (po_market_id position)))
         (filter (\<lambda>position. strategy_market_mode_included (po_mode position)) (va_positions vault))))
       (\<lambda>rates. if rates \<noteq> [] then Some (rate_spread rates) else None)"

definition terminal_delta :: "u256 \<Rightarrow> u256 \<Rightarrow> i256 option" where
  "terminal_delta plan baseline =
     Option.bind (i256_of_u256 plan) (\<lambda>p. Option.bind (i256_of_u256 baseline) (checked_ssub p))"

definition terminal_sacrificed :: "validated_vault_config \<Rightarrow> u256 \<Rightarrow> u256 \<Rightarrow> bool" where
  "terminal_sacrificed vault plan_terminal no_plan_terminal =
     (case checked_add plan_terminal (va_maximum_terminal_value_sacrifice_assets vault) of
        None \<Rightarrow> True | Some allowed \<Rightarrow> allowed < no_plan_terminal)"

definition capital_outcome ::
  "evm_lib \<Rightarrow> exact_vault_snapshot \<Rightarrow> projected_vault_view \<Rightarrow> validated_vault_config \<Rightarrow>
     strategy_objective \<Rightarrow> capital_search \<Rightarrow> u256 \<Rightarrow> v2_action list \<Rightarrow>
     rejection_reason + simulation_state \<times> objective_metrics" where
  "capital_outcome lib snapshot projection vault objective ctx deploy_target actions =
     try_let (map_err (\<lambda>_. Simulation) (simulate_actions lib snapshot projection vault actions)) (\<lambda>state.
     try_let (map_err (\<lambda>_. Service) (validate_service_constraints lib state snapshot vault)) (\<lambda>_.
     if ss_immediate_loss_assets state > va_maximum_immediate_rebalance_loss_assets vault
     then Inl ImmediateLoss
     else
       try_let (map_err (\<lambda>_. Simulation) (terminal_existing_shareholder_assets state snapshot projection
         (cz_horizon_timestamp ctx))) (\<lambda>plan_terminal.
       if terminal_sacrificed vault plan_terminal (cz_no_plan_terminal ctx) then Inl ImmediateLoss
       else
         try_let (ok_or (terminal_delta plan_terminal (cz_no_plan_terminal ctx)) Simulation) (\<lambda>delta.
         try_let (map_err (\<lambda>_. Service) (unreserved_idle state)) (\<lambda>idle.
         try_let (ok_or (capital_spread vault objective state) Simulation) (\<lambda>spread.
         Inr (state, \<lparr> om_final_unreserved_idle = idle, om_deployed_assets = deploy_target,
           om_applicable_spread = spread, om_secondary_spread = 0, om_terminal_value_delta = delta,
           om_movement_assets = deploy_target, om_action_count = length actions \<rparr>)))))))"

subsection \<open>Search\<close>

type_synonym capital_candidate = "v2_action list \<times> simulation_state \<times> objective_metrics"

record capital_progress =
  cg_certificate :: search_certificate
  cg_best :: "capital_candidate option"
  cg_found :: bool

definition capital_before :: "capital_candidate \<Rightarrow> capital_candidate \<Rightarrow> bool" where
  "capital_before x y \<longleftrightarrow> ranks_before CapitalDeployment (snd (snd x)) (snd (snd y)) 0 False"

definition capital_step ::
  "capital_progress \<Rightarrow> v2_action list \<times> (rejection_reason + simulation_state \<times> objective_metrics) \<Rightarrow>
     capital_progress" where
  "capital_step g candidate =
     (let certificate = count_node (cg_certificate g) in
      case snd candidate of
        Inl reason \<Rightarrow> g \<lparr> cg_certificate := rejected reason certificate \<rparr>
      | Inr solved \<Rightarrow>
          if (case cg_best g of None \<Rightarrow> True
              | Some current \<Rightarrow> capital_before (fst candidate, solved) current)
          then g \<lparr> cg_certificate := certificate, cg_found := True,
            cg_best := Some (fst candidate, solved) \<rparr>
          else g \<lparr> cg_certificate := certificate \<rparr>)"

primrec capital_selections ::
  "(u256 list \<Rightarrow> (v2_action list \<times> (rejection_reason + simulation_state \<times> objective_metrics)) option) \<Rightarrow>
     u256 list list \<Rightarrow> capital_progress \<Rightarrow> capital_progress \<times> bool" where
  "capital_selections evaluate [] g = (g, False)"
| "capital_selections evaluate (selected # rest) g =
     (if sc_nodes_evaluated (cg_certificate g) \<ge> sc_node_limit (cg_certificate g)
      then (g \<lparr> cg_certificate := incomplete (cg_certificate g) \<rparr>, True)
      else case evaluate selected of
          None \<Rightarrow> capital_selections evaluate rest g
        | Some candidate \<Rightarrow> capital_selections evaluate rest (capital_step g candidate))"

primrec capital_targets ::
  "(u256 \<Rightarrow> u256 list \<Rightarrow> (v2_action list \<times> (rejection_reason + simulation_state \<times> objective_metrics)) option) \<Rightarrow>
     (u256 \<Rightarrow> u256 list list) \<Rightarrow> u256 list \<Rightarrow> capital_progress \<Rightarrow> capital_progress" where
  "capital_targets evaluate distributions [] g = g"
| "capital_targets evaluate distributions (deploy_target # rest) g =
     (case capital_selections (evaluate deploy_target) (distributions deploy_target)
           (g \<lparr> cg_found := False \<rparr>) of
        (g', broken) \<Rightarrow> if broken \<or> cg_found g' then g'
          else capital_targets evaluate distributions rest g')"

record pending_deployment =
  pd_remaining_assets :: u256
  pd_origin_snapshot_hash :: b256

record capital_solve_result =
  cr_actions :: "v2_action list"
  cr_state :: "simulation_state option"
  cr_pending :: "pending_deployment option"
  cr_certificate :: search_certificate

definition capital_empty_result :: "search_certificate \<Rightarrow> capital_solve_result" where
  "capital_empty_result certificate =
     \<lparr> cr_actions = [], cr_state = None, cr_pending = None, cr_certificate = certificate \<rparr>"

definition capital_evaluate ::
  "evm_lib \<Rightarrow> exact_vault_snapshot \<Rightarrow> projected_vault_view \<Rightarrow> validated_vault_config \<Rightarrow>
     strategy_objective \<Rightarrow> capital_search \<Rightarrow> u256 \<Rightarrow> u256 list \<Rightarrow>
     (v2_action list \<times> (rejection_reason + simulation_state \<times> objective_metrics)) option" where
  "capital_evaluate lib snapshot projection vault objective ctx deploy_target selected =
     map_option (\<lambda>actions. (actions,
         capital_outcome lib snapshot projection vault objective ctx deploy_target actions))
       (capital_actions lib vault ctx deploy_target selected)"

definition capital_targets_of ::
  "evm_lib \<Rightarrow> projected_vault_view \<Rightarrow> validated_vault_config \<Rightarrow> solver_config_canonical \<Rightarrow>
     capital_search \<Rightarrow> u256 list" where
  "capital_targets_of lib projection vault solver ctx =
     filter (\<lambda>amount. amount \<ge> va_minimum_action_assets vault)
       (rev (cl_amounts (deployment_lattice lib projection vault solver ctx)))"

definition capital_selections_of ::
  "evm_lib \<Rightarrow> projected_vault_view \<Rightarrow> validated_vault_config \<Rightarrow> solver_config_canonical \<Rightarrow>
     capital_search \<Rightarrow> u256 \<Rightarrow> u256 list list" where
  "capital_selections_of lib projection vault solver ctx deploy_target =
     capital_distributions (map snd (cz_destinations ctx))
       (map cl_amounts (destination_lattices lib projection vault solver ctx)) deploy_target
       (va_minimum_action_assets vault)"

definition capital_lattice_hash ::
  "evm_lib \<Rightarrow> projected_vault_view \<Rightarrow> validated_vault_config \<Rightarrow> solver_config_canonical \<Rightarrow>
     capital_search \<Rightarrow> b256" where
  "capital_lattice_hash lib projection vault solver ctx =
     keccak256 lib (be_bytes 32 (cz_maximum_deployable ctx)
       @ b256_bytes (cl_hash (deployment_lattice lib projection vault solver ctx))
       @ concat (map (b256_bytes \<circ> cl_hash) (destination_lattices lib projection vault solver ctx)))"

definition solve_capital_deployment ::
  "evm_lib \<Rightarrow> exact_vault_snapshot \<Rightarrow> projected_vault_view \<Rightarrow> validated_vault_config \<Rightarrow>
     solver_config_canonical \<Rightarrow> u64 \<Rightarrow> strategy_objective \<Rightarrow> capital_solve_result" where
  "solve_capital_deployment lib snapshot projection vault solver benefit_horizon_seconds objective =
     (case prepare_capital lib snapshot projection vault benefit_horizon_seconds of
        None \<Rightarrow> capital_empty_result (incomplete (fresh_certificate solver))
      | Some ctx \<Rightarrow>
          let g = capital_targets (capital_evaluate lib snapshot projection vault objective ctx)
                (capital_selections_of lib projection vault solver ctx)
                (capital_targets_of lib projection vault solver ctx)
                \<lparr> cg_certificate = fresh_certificate solver, cg_best = None, cg_found = False \<rparr>;
              certificate = (cg_certificate g) \<lparr> sc_candidate_lattice_hash :=
                capital_lattice_hash lib projection vault solver ctx \<rparr>;
              (actions, state, deployed) = (case cg_best g of
                  Some (actions, state, metrics) \<Rightarrow> (actions, Some state, om_deployed_assets metrics)
                | None \<Rightarrow> ([], None, 0));
              remaining = saturating_sub (cz_available ctx) deployed in
          \<lparr> cr_actions = actions, cr_state = state,
            cr_pending = (if remaining > va_maximum_rounding_dust_assets vault
              then Some \<lparr> pd_remaining_assets = remaining,
                pd_origin_snapshot_hash = sn_snapshot_hash snapshot \<rparr> else None),
            cr_certificate = certificate \<rparr>)"

subsection \<open>What the search keeps\<close>

definition solved_candidates ::
  "(u256 list \<Rightarrow> (v2_action list \<times> (rejection_reason + simulation_state \<times> objective_metrics)) option) \<Rightarrow>
     u256 list list \<Rightarrow> capital_candidate list" where
  "solved_candidates evaluate sels =
     List.map_filter (\<lambda>selected. case evaluate selected of
         Some (actions, Inr solved) \<Rightarrow> Some (actions, solved) | _ \<Rightarrow> None) sels"

lemma solved_candidates_simps [simp]:
  "solved_candidates evaluate [] = []"
  "solved_candidates evaluate (selected # sels) = (case evaluate selected of
      Some (actions, Inr solved) \<Rightarrow> [(actions, solved)] | _ \<Rightarrow> []) @ solved_candidates evaluate sels"
  unfolding solved_candidates_def List.map_filter_simps
  by (simp_all split: option.split sum.split prod.split)

lemma in_solved_candidates:
  "(actions, solved) \<in> set (solved_candidates evaluate sels) \<longleftrightarrow>
    (\<exists>selected \<in> set sels. evaluate selected = Some (actions, Inr solved))"
proof (induction sels)
  case (Cons selected sels)
  then show ?case
  proof (cases "evaluate selected")
    case (Some candidate)
    obtain a outcome where "candidate = (a, outcome)" by (cases candidate)
    with Some Cons.IH show ?thesis by (cases outcome) auto
  qed simp
qed simp

interpretation capital: ranking capital_before
  unfolding capital_before_def [abs_def] by (rule objective.ranking_axioms)

lemma capital_step_best:
  "cg_best (capital_step g (actions, Inl reason)) = cg_best g"
  "cg_best (capital_step g (actions, Inr solved)) = take_best capital_before (cg_best g) (actions, solved)"
  by (auto simp: capital_step_def Let_def take_best_def split: option.splits)

lemma capital_step_complete:
  "sc_search_complete (cg_certificate (capital_step g candidate)) \<Longrightarrow>
    sc_search_complete (cg_certificate g)"
  by (auto simp: capital_step_def Let_def dest: rejected_complete split: sum.splits if_splits)

text \<open>Either a loop over one target ends early and says so, or it has seen every candidate.\<close>

lemma capital_selections_result:
  assumes "capital_selections evaluate sels g = (g', broken)"
  shows "sc_search_complete (cg_certificate g') \<Longrightarrow> \<not> broken \<and> sc_search_complete (cg_certificate g)"
    and "\<not> broken \<Longrightarrow> cg_best g' = foldl (take_best capital_before) (cg_best g) (solved_candidates evaluate sels)"
    and "cg_best g' = Some c \<Longrightarrow> cg_best g = Some c \<or> c \<in> set (solved_candidates evaluate sels)"
proof -
  have "(sc_search_complete (cg_certificate g') \<longrightarrow> \<not> broken \<and> sc_search_complete (cg_certificate g)) \<and>
    (\<not> broken \<longrightarrow> cg_best g' = foldl (take_best capital_before) (cg_best g) (solved_candidates evaluate sels)) \<and>
    (cg_best g' = Some c \<longrightarrow> cg_best g = Some c \<or> c \<in> set (solved_candidates evaluate sels))"
    using assms
  proof (induction sels arbitrary: g)
    case (Cons selected sels)
    show ?case
    proof (cases "sc_nodes_evaluated (cg_certificate g) \<ge> sc_node_limit (cg_certificate g)")
      case True
      then show ?thesis using Cons.prems by auto
    next
      case more: False
      show ?thesis
      proof (cases "evaluate selected")
        case None
        then show ?thesis using Cons.IH [of g] Cons.prems more by simp
      next
        case (Some candidate)
        obtain actions outcome where candidate: "candidate = (actions, outcome)" by (cases candidate)
        have ih: "capital_selections evaluate sels (capital_step g candidate) = (g', broken)"
          using Cons.prems more Some by simp
        show ?thesis
          using Cons.IH [OF ih] capital_step_complete [of g candidate] Some
          by (cases outcome) (auto simp: candidate capital_step_best take_best_def split: option.splits if_splits)
      qed
    qed
  qed simp
  then show "sc_search_complete (cg_certificate g') \<Longrightarrow> \<not> broken \<and> sc_search_complete (cg_certificate g)"
    "\<not> broken \<Longrightarrow> cg_best g' = foldl (take_best capital_before) (cg_best g) (solved_candidates evaluate sels)"
    "cg_best g' = Some c \<Longrightarrow> cg_best g = Some c \<or> c \<in> set (solved_candidates evaluate sels)"
    by auto
qed

lemma capital_step_found:
  "cg_best g = None \<longleftrightarrow> \<not> cg_found g \<Longrightarrow>
    cg_best (capital_step g candidate) = None \<longleftrightarrow> \<not> cg_found (capital_step g candidate)"
  by (cases "snd candidate"; cases "cg_best g") (simp_all add: capital_step_def Let_def)

lemma capital_selections_found:
  "capital_selections evaluate sels g = (g', broken) \<Longrightarrow> cg_best g = None \<longleftrightarrow> \<not> cg_found g \<Longrightarrow>
    cg_best g' = None \<longleftrightarrow> \<not> cg_found g'"
proof (induction sels arbitrary: g)
  case (Cons selected sels)
  show ?case
  proof (cases "evaluate selected")
    case None
    with Cons show ?thesis by (auto split: if_splits)
  next
    case (Some candidate)
    with Cons capital_step_found [OF Cons.prems(2), of candidate] show ?thesis by (auto split: if_splits)
  qed
qed auto

text \<open>Over all targets the search stops at the first one that has a candidate.\<close>

definition first_target ::
  "(u256 \<Rightarrow> capital_candidate list) \<Rightarrow> u256 list \<Rightarrow> capital_candidate option \<Rightarrow> bool" where
  "first_target solved ts best =
     (case best of
        None \<Rightarrow> \<forall>t \<in> set ts. solved t = []
      | Some c \<Rightarrow> \<exists>before t after. ts = before @ t # after \<and> (\<forall>u \<in> set before. solved u = []) \<and>
          best_of capital_before (solved t) = Some c)"

lemma first_target_Cons:
  "solved t \<noteq> [] \<Longrightarrow> best = best_of capital_before (solved t) \<Longrightarrow> first_target solved (t # ts) best"
  "solved t = [] \<Longrightarrow> first_target solved ts best \<Longrightarrow> first_target solved (t # ts) best"
proof -
  assume "solved t \<noteq> []" and best: "best = best_of capital_before (solved t)"
  then have "best \<noteq> None" by simp
  then obtain c where "best = Some c" by blast
  then show "first_target solved (t # ts) best"
    using best unfolding first_target_def by (auto intro: exI [of _ "[]"])
next
  assume t: "solved t = []" and "first_target solved ts best"
  then show "first_target solved (t # ts) best"
  proof (cases best)
    case (Some c)
    with \<open>first_target solved ts best\<close> obtain before u after where
      "ts = before @ u # after" "\<forall>u \<in> set before. solved u = []" "best_of capital_before (solved u) = Some c"
      by (auto simp: first_target_def)
    then have "t # ts = (t # before) @ u # after \<and> (\<forall>u \<in> set (t # before). solved u = []) \<and>
        best_of capital_before (solved u) = Some c" using t by simp
    then show ?thesis unfolding first_target_def Some option.case by blast
  qed (auto simp: first_target_def)
qed

lemma capital_targets_result:
  fixes evaluate distributions
  defines "solved \<equiv> \<lambda>t. solved_candidates (evaluate t) (distributions t)"
  assumes "cg_best g = None" and g': "g' = capital_targets evaluate distributions ts g"
  shows "(\<forall>c. cg_best g' = Some c \<longrightarrow> (\<exists>t \<in> set ts. c \<in> set (solved t))) \<and>
    (sc_search_complete (cg_certificate g') \<longrightarrow> first_target solved ts (cg_best g'))"
  using assms(2,3)
proof (induction ts arbitrary: g)
  case (Cons t ts)
  obtain h broken where h: "capital_selections (evaluate t) (distributions t) (g \<lparr> cg_found := False \<rparr>)
      = (h, broken)" by fastforce
  note result = capital_selections_result [OF h]
  have found: "cg_best h = None \<longleftrightarrow> \<not> cg_found h"
    by (rule capital_selections_found [OF h]) (simp add: Cons.prems)
  show ?case
  proof (cases "broken \<or> cg_found h")
    case True
    then have g': "g' = h" using Cons.prems(2) h by simp
    have "first_target solved (t # ts) (cg_best h)" if "sc_search_complete (cg_certificate h)"
    proof -
      have best: "cg_best h = best_of capital_before (solved t)"
        using result(1,2) that Cons.prems(1) by (simp add: best_of_def solved_def)
      have "cg_best h \<noteq> None" using result(1) that True found by blast
      then have "solved t \<noteq> []" unfolding best by simp
      then show ?thesis using best by (rule first_target_Cons(1))
    qed
    moreover have "\<exists>t \<in> set (t # ts). c \<in> set (solved t)" if "cg_best h = Some c" for c
      using result(3) [OF that] Cons.prems(1) by (simp add: solved_def)
    ultimately show ?thesis unfolding g' by blast
  next
    case False
    then have g': "g' = capital_targets evaluate distributions ts h" using Cons.prems(2) h by simp
    have none: "cg_best h = None" using False found by blast
    have "cg_best h = best_of capital_before (solved t)"
      using result(2) False Cons.prems(1) by (simp add: best_of_def solved_def)
    then have "solved t = []" using none by (metis best_of_None)
    with Cons.IH [OF none g'] show ?thesis by (auto intro: first_target_Cons(2))
  qed
qed (auto simp: first_target_def)

subsection \<open>Distributions split the target\<close>

lemma set_fold_bs_insert: "set (foldl (\<lambda>acc x. bs_insert x acc) acc xs) = set acc \<union> set xs"
  by (induction xs arbitrary: acc) auto

lemma capital_distribution_cases:
  assumes "d \<in> set (capital_distributions maximums lattices budget minimum_action)"
  obtains (single) first where "first < length maximums" "budget \<le> maximums ! first"
      "d = (replicate (length maximums) 0)[first := budget]"
    | (pair) first second a b where "first < length maximums" "second < length maximums" "first \<noteq> second"
      "a \<le> maximums ! first" "b \<le> maximums ! second" "a + b = budget"
      "d = (replicate (length maximums) 0)[first := a, second := b]"
proof -
  from assms obtain first where first: "first < length maximums"
    and d: "d \<in> set (single_destination maximums budget first) \<or>
      (\<exists>second < length maximums.
         d \<in> set (pair_of_destinations maximums lattices budget minimum_action first second))"
    unfolding capital_distributions_def set_fold_bs_insert by fastforce
  from d show thesis
  proof (elim disjE exE conjE)
    assume "d \<in> set (single_destination maximums budget first)"
    then show thesis
      by (intro single [OF first]) (auto simp: single_destination_def split: if_splits)
  next
    fix second
    assume second: "second < length maximums"
      and "d \<in> set (pair_of_destinations maximums lattices budget minimum_action first second)"
    then obtain a where "first \<noteq> second" "a \<le> maximums ! first" "a < budget" "budget - a \<le> maximums ! second"
      "d = (replicate (length maximums) 0)[first := a, second := budget - a]"
      unfolding pair_of_destinations_def List.map_filter_def
      by (fastforce simp: checked_sub_def not_less split: if_splits)
    then show thesis
      by (intro pair [OF first second]) auto
  qed
qed

lemma capital_distributions_split:
  assumes "d \<in> set (capital_distributions maximums lattices budget minimum_action)"
  shows "length d = length maximums" "sum_list d = budget" "\<forall>i < length maximums. d ! i \<le> maximums ! i"
proof -
  have "length d = length maximums \<and> sum_list d = budget \<and> (\<forall>i < length maximums. d ! i \<le> maximums ! i)"
    using assms
  proof (cases rule: capital_distribution_cases)
    case (single first)
    then show ?thesis
      by (simp add: sum_list_update_zero sum_list_replicate nth_list_update)
  next
    case (pair first second a b)
    then have "sum_list d = sum_list ((replicate (length maximums) 0)[first := a]) + b"
      by (simp add: sum_list_update_zero)
    also have "\<dots> = budget" using pair by (simp add: sum_list_update_zero sum_list_replicate)
    finally show ?thesis using pair by (auto simp: nth_list_update)
  qed
  then show "length d = length maximums" "sum_list d = budget" "\<forall>i < length maximums. d ! i \<le> maximums ! i"
    by auto
qed

lemma allocated_zip:
  "length selected = length ds \<Longrightarrow>
    allocated_assets (map (\<lambda>(destination, amount). Allocate (k destination) (adapter destination) (data destination) amount)
      (filter (\<lambda>(destination, amount). amount \<noteq> 0) (zip ds selected))) = sum_list selected"
proof (induction selected ds rule: list_induct2)
  case (Cons x xs y ys)
  then show ?case by (auto simp: allocated_assets_def is_allocation_def)
qed (simp add: allocated_assets_def)

lemma allocated_append: "allocated_assets (as @ bs) = allocated_assets as + allocated_assets bs"
  and deallocated_append: "deallocated_assets (as @ bs) = deallocated_assets as + deallocated_assets bs"
  by (simp_all add: allocated_assets_def deallocated_assets_def)

lemma capital_actions_moves:
  assumes "capital_actions lib vault ctx t selected = Some actions"
    and "length selected = length (cz_destinations ctx)"
  shows "allocated_assets actions = sum_list selected"
    and "deallocated_assets actions = t - cz_idle_available ctx"
    and "\<forall>a \<in> set actions. \<not> is_allocation a \<longrightarrow>
      (\<exists>liquidity. va_liquidity_adapter vault = Some liquidity \<and> act_position a = la_position_key liquidity)"
    and "t - cz_idle_available ctx \<le> cz_liquidity_available ctx" and "actions \<noteq> []"
proof -
  let ?allocs = "map (\<lambda>(destination, amount). Allocate (po_position_key (fst destination))
      (po_adapter (fst destination)) (encode_adapter_data lib (po_market_params (fst destination))) amount)
    (filter (\<lambda>(destination, amount). amount \<noteq> 0) (zip (cz_destinations ctx) selected))"
  from assms(1) obtain ws where ws: "actions = ws @ ?allocs" "actions \<noteq> []"
    "if t - cz_idle_available ctx \<noteq> 0 then
      \<exists>liquidity. va_liquidity_adapter vault = Some liquidity \<and>
        t - cz_idle_available ctx \<le> cz_liquidity_available ctx \<and>
        ws = [Deallocate (la_position_key liquidity) (la_address liquidity) [] (t - cz_idle_available ctx)]
     else ws = []"
    by (auto simp: capital_actions_def Let_def bind_eq_Some_conv split: if_splits)
  have al: "\<forall>a \<in> set ?allocs. is_allocation a" by (auto simp: is_allocation_def)
  then have d: "deallocated_assets ?allocs = 0"
    by (simp add: deallocated_assets_def)
  have a: "allocated_assets ?allocs = sum_list selected"
    using allocated_zip [OF assms(2), of "\<lambda>d. po_position_key (fst d)" "\<lambda>d. po_adapter (fst d)"
      "\<lambda>d. encode_adapter_data lib (po_market_params (fst d))"] by simp
  have w: "allocated_assets ws = 0" "deallocated_assets ws = t - cz_idle_available ctx"
    using ws(3) by (auto simp: allocated_assets_def deallocated_assets_def is_allocation_def split: if_splits)
  show "allocated_assets actions = sum_list selected" "deallocated_assets actions = t - cz_idle_available ctx"
    "actions \<noteq> []"
    using a d w ws(1,2) by (simp_all add: allocated_append deallocated_append)
  show "\<forall>a \<in> set actions. \<not> is_allocation a \<longrightarrow>
      (\<exists>liquidity. va_liquidity_adapter vault = Some liquidity \<and> act_position a = la_position_key liquidity)"
    using al ws(1,3) by (auto split: if_splits)
  show "t - cz_idle_available ctx \<le> cz_liquidity_available ctx"
    using ws(3) by (auto split: if_splits)
qed

subsection \<open>Properties\<close>

lemma capital_outcome_Inr:
  assumes "capital_outcome lib snapshot projection vault objective ctx t actions = Inr (state, metrics)"
  obtains plan_terminal where "simulate_actions lib snapshot projection vault actions = Inr state"
    "validate_service_constraints lib state snapshot vault = Inr ()"
    "ss_immediate_loss_assets state \<le> va_maximum_immediate_rebalance_loss_assets vault"
    "terminal_existing_shareholder_assets state snapshot projection (cz_horizon_timestamp ctx) = Inr plan_terminal"
    "\<not> terminal_sacrificed vault plan_terminal (cz_no_plan_terminal ctx)"
    "om_deployed_assets metrics = t"
  using assms unfolding capital_outcome_def
  by (auto simp: result_simps not_less)

lemma capital_evaluate_Inr:
  assumes "capital_evaluate lib snapshot projection vault objective ctx t selected = Some (actions, Inr solved)"
  shows "capital_actions lib vault ctx t selected = Some actions"
    "capital_outcome lib snapshot projection vault objective ctx t actions = Inr solved"
  using assms by (auto simp: capital_evaluate_def)

lemma capital_target_bounds:
  assumes "t \<in> set (capital_targets_of lib projection vault solver ctx)"
  shows "va_minimum_action_assets vault \<le> t" "t \<le> cz_maximum_deployable ctx"
  using assms lattice_within by (auto simp: capital_targets_of_def deployment_lattice_def)

lemma capital_targets_decreasing:
  "sorted_wrt (>) (capital_targets_of lib projection vault solver ctx)"
  using lattice_sorted
  by (auto simp: capital_targets_of_def deployment_lattice_def sorted_wrt_rev intro: sorted_wrt_filter)

text \<open>
  What holds of every plan the search returns, and what a complete search knows about the candidates it
  did not return.
\<close>

definition capital_admissible ::
  "evm_lib \<Rightarrow> exact_vault_snapshot \<Rightarrow> projected_vault_view \<Rightarrow> validated_vault_config \<Rightarrow>
     capital_search \<Rightarrow> v2_action list \<Rightarrow> simulation_state \<Rightarrow> u256 \<Rightarrow> bool" where
  "capital_admissible lib snapshot projection vault ctx actions state deployed \<longleftrightarrow>
     simulate_actions lib snapshot projection vault actions = Inr state \<and>
     validate_service_constraints lib state snapshot vault = Inr () \<and>
     ss_immediate_loss_assets state \<le> va_maximum_immediate_rebalance_loss_assets vault \<and>
     (\<exists>plan_terminal. terminal_existing_shareholder_assets state snapshot projection
          (cz_horizon_timestamp ctx) = Inr plan_terminal \<and>
        cz_no_plan_terminal ctx \<le> plan_terminal + va_maximum_terminal_value_sacrifice_assets vault) \<and>
     allocated_assets actions = deployed \<and> deallocated_assets actions = deployed - cz_idle_available ctx \<and>
     va_minimum_action_assets vault \<le> deployed \<and> deployed \<le> cz_available ctx \<and>
     (\<forall>a \<in> set actions. is_allocation a \<or> (\<exists>liquidity. va_liquidity_adapter vault = Some liquidity \<and>
        act_position a = la_position_key liquidity))"

lemma prepare_capital_Some:
  assumes "prepare_capital lib snapshot projection vault horizon = Some ctx"
  shows "cz_maximum_deployable ctx \<le> cz_available ctx"
  using assms by (auto simp: prepare_capital_def bind_eq_Some_conv Let_def)

lemma capital_candidate_admissible:
  assumes "prepare_capital lib snapshot projection vault horizon = Some ctx"
    and "t \<in> set (capital_targets_of lib projection vault solver ctx)"
    and "selected \<in> set (capital_selections_of lib projection vault solver ctx t)"
    and "capital_evaluate lib snapshot projection vault objective ctx t selected
      = Some (actions, Inr (state, metrics))"
  shows "capital_admissible lib snapshot projection vault ctx actions state t \<and> om_deployed_assets metrics = t"
proof -
  note ev = capital_evaluate_Inr [OF assms(4)]
  have len: "length selected = length (cz_destinations ctx)" and total: "sum_list selected = t"
    using capital_distributions_split [OF assms(3) [unfolded capital_selections_of_def]] by simp_all
  note moves = capital_actions_moves [OF ev(1) len]
  obtain plan_terminal where outcome: "simulate_actions lib snapshot projection vault actions = Inr state"
    "validate_service_constraints lib state snapshot vault = Inr ()"
    "ss_immediate_loss_assets state \<le> va_maximum_immediate_rebalance_loss_assets vault"
    "terminal_existing_shareholder_assets state snapshot projection (cz_horizon_timestamp ctx) = Inr plan_terminal"
    "\<not> terminal_sacrificed vault plan_terminal (cz_no_plan_terminal ctx)"
    "om_deployed_assets metrics = t"
    using ev(2) by (rule capital_outcome_Inr)
  have "cz_no_plan_terminal ctx \<le> plan_terminal + va_maximum_terminal_value_sacrifice_assets vault"
    using outcome(5) by (auto simp: terminal_sacrificed_def checked_add_bound_def split: if_splits)
  moreover have "va_minimum_action_assets vault \<le> t" "t \<le> cz_available ctx"
    using capital_target_bounds [OF assms(2)] prepare_capital_Some [OF assms(1)] by simp_all
  ultimately show ?thesis
    using outcome moves total by (auto simp: capital_admissible_def)
qed

lemma capital_first_optimal:
  fixes lib snapshot projection vault solver objective ctx
  defines "evaluate \<equiv> capital_evaluate lib snapshot projection vault objective ctx"
    and "sels \<equiv> capital_selections_of lib projection vault solver ctx"
    and "ts \<equiv> capital_targets_of lib projection vault solver ctx"
  assumes prepared: "prepare_capital lib snapshot projection vault horizon = Some ctx"
    and first: "first_target (\<lambda>t. solved_candidates (evaluate t) (sels t)) ts (Some (actions, state, metrics))"
    and t: "t \<in> set ts" "selected \<in> set (sels t)" "evaluate t selected = Some (actions, Inr (state, metrics))"
    and u: "u \<in> set ts" "selected' \<in> set (sels u)" "evaluate u selected' = Some (actions', Inr (state', metrics'))"
  shows "u \<le> t \<and> (u = t \<longrightarrow> \<not> ranks_before CapitalDeployment metrics' metrics 0 False)"
proof -
  let ?solved = "\<lambda>t. solved_candidates (evaluate t) (sels t)"
  note admissible = capital_candidate_admissible [OF prepared, of _ solver _ objective, folded evaluate_def sels_def ts_def]
  from first obtain before v after where v: "ts = before @ v # after" "\<forall>u \<in> set before. ?solved u = []"
    "best_of capital_before (?solved v) = Some (actions, state, metrics)"
    by (auto simp: first_target_def)
  have in_v: "(actions, state, metrics) \<in> set (?solved v)"
    and best_v: "\<forall>y \<in> set (?solved v). \<not> capital_before y (actions, state, metrics)"
    using capital.best_of_Some [OF v(3)] by blast+
  from in_v obtain s where "s \<in> set (sels v)" "evaluate v s = Some (actions, Inr (state, metrics))"
    by (auto simp: in_solved_candidates)
  then have "v = t"
    using admissible [OF t] admissible [of v s] v(1) by simp
  have in_u: "(actions', state', metrics') \<in> set (?solved u)" using u by (auto simp: in_solved_candidates)
  then have "u \<notin> set before" using v(2) by auto
  then have "u = t \<or> u \<in> set after" using u(1) v(1) \<open>v = t\<close> by auto
  moreover have "u < t" if "u \<in> set after"
    using capital_targets_decreasing [of lib projection vault solver ctx, folded ts_def] v(1) \<open>v = t\<close> that
    by (auto simp: sorted_wrt_append)
  ultimately show ?thesis
    using best_v in_u \<open>v = t\<close> by (auto simp: capital_before_def)
qed


definition witness_solver :: solver_config_canonical where
  "witness_solver = \<lparr> so_maximum_nodes = 10, so_maximum_amount_candidates_per_position = 3,
     so_maximum_source_sets = 8, so_maximum_destination_sets = 8,
     so_allow_incomplete_rate_solver = False \<rparr>"

definition witness_capital :: capital_search where
  "witness_capital = \<lparr> cz_idle_available = 1000000, cz_liquidity_available = 499000,
     cz_available = 1499000, cz_horizon_timestamp = 1000, cz_no_plan_terminal = 500000944445,
     cz_destinations = [(witness_position_config, 1499000)], cz_maximum_deployable = 1499000 \<rparr>"

definition witness_deployment :: "v2_action list" where
  "witness_deployment = [Deallocate 101 30 [] 499000,
     Allocate 100 40 (encode_adapter_data witness_lib witness_params) 1499000]"

lemmas evaluate_capital =
  prepare_capital_def capital_idle_available_def capital_liquidity_available_def capital_destination_def
  cap_limited_allocation_def projected_cap_headroom_def no_plan_terminal_existing_shareholder_assets_def
  horizon_head_def existing_share_value_def

lemmas evaluate_witness_vault =
  evaluate_simulator evaluate_projection evaluate_v1 evaluate_caps virtual_shares_eq
  witness_v1_snapshot_def witness_v1_config_def witness_view_def witness_v1_def witness_capital_def
  witness_projected_def witness_data bt_values_def sgn_if less_cap_ref_def

lemma witness_capital_prepared:
  "prepare_capital witness_lib witness_v1_snapshot witness_view witness_v1_config 0 = Some witness_capital"
  by (simp add: evaluate_capital evaluate_witness_vault)

lemma witness_capital_search:
  "capital_targets_of witness_lib witness_view witness_v1_config witness_solver witness_capital = [1499000, 1]"
  "capital_selections_of witness_lib witness_view witness_v1_config witness_solver witness_capital 1499000
    = [[1499000]]"
  "capital_actions witness_lib witness_v1_config witness_capital 1499000 [1499000] = Some witness_deployment"
  by (simp_all add: capital_targets_of_def deployment_lattice_def build_candidate_lattice_def lattice_of_def
      lattice_priority_def capital_selections_of_def capital_distributions_def single_destination_def
      pair_of_destinations_def capital_actions_def witness_solver_def witness_capital_def
      witness_v1_config_def witness_config_def witness_position_config_def witness_deployment_def
      upt_rec evaluate_arith)

lemma witness_deployment_outcome:
  "is_ok (capital_outcome witness_lib witness_v1_snapshot witness_view witness_v1_config
     SpotBorrowRateSpread witness_capital 1499000 witness_deployment)"
  by (simp add: capital_outcome_def terminal_sacrificed_def terminal_delta_def capital_spread_def
      witness_deployment_def terminal_existing_shareholder_assets_def terminal_adapter_assets_def
      terminal_market_def strategy_market_mode_included_def strategy_value_def rate_spread_def
      evaluate_signed evaluate_service evaluate_capital evaluate_witness_vault)


end
