(* ===== verification/Signing.thy ===== *)
theory Signing
  imports BlueMath Firewall StorageMovement
begin

text \<open>
  Fees and signers: gas and fee policy (\<open>src/transaction/fees.rs\<close>), and the restricted signer with the
  verification of what it returns (\<open>signer.rs\<close>, \<open>local_signer.rs\<close>, \<open>remote_signer.rs\<close>). The EIP-2718
  codec with signature recovery, private keys, the HTTP round trip and the text encodings of the remote
  protocol are libraries and enter as arguments.
\<close>

subsection \<open>Gas and fees\<close>

datatype fee_error = FeeArithmetic | FeeBound | FeeReplacement

definition signed_gas_limit :: "u64 \<Rightarrow> nat \<Rightarrow> u64 \<Rightarrow> fee_error + u64" where
  "signed_gas_limit estimate headroom_bps maximum =
     try_let (ok_or (checked_add64 10000 headroom_bps) FeeArithmetic) (\<lambda>multiplier.
     try_let (map_err (\<lambda>_. FeeArithmetic) (mul_div_up estimate multiplier 10000)) (\<lambda>v.
     if v \<ge> two64 then Inl FeeBound
     else if v = 0 \<or> v > maximum then Inl FeeBound
     else Inr v))"

definition initial_fee_quote :: "u256 \<Rightarrow> u256 \<Rightarrow> u256 \<Rightarrow> fee_error + u128 \<times> u128" where
  "initial_fee_quote quoted_gas_price quoted_priority_fee configured_maximum =
     (if quoted_gas_price = 0 \<or> configured_maximum \<le> 1 \<or> quoted_gas_price \<ge> configured_maximum
      then Inl FeeBound
      else
        try_let (ok_or (checked_sub configured_maximum 1) FeeArithmetic) (\<lambda>maximum_initial.
        try_let (ok_or (checked_mul quoted_gas_price 2) FeeArithmetic) (\<lambda>doubled.
        let maximum_fee = min doubled maximum_initial;
            priority_fee = min quoted_priority_fee maximum_fee in
        if maximum_fee \<ge> two128 \<or> priority_fee \<ge> two128 then Inl FeeBound
        else Inr (maximum_fee, priority_fee))))"

definition validate_replacement_fees ::
  "u128 \<Rightarrow> u128 \<Rightarrow> u128 \<Rightarrow> u128 \<Rightarrow> u256 \<Rightarrow> fee_error + unit" where
  "validate_replacement_fees old_maximum old_priority new_maximum new_priority configured_maximum =
     (if new_maximum \<le> old_maximum \<or> new_priority \<le> old_priority \<or> new_priority > new_maximum
      then Inl FeeReplacement
      else if new_maximum > configured_maximum then Inl FeeBound
      else Inr ())"

text \<open>
  The signed gas limit is the estimate with its headroom rounded up, never zero and never beyond the
  bound; the initial quote stays strictly below the ceiling, so that a replacement can still raise it.
\<close>

lemma signed_gas_limit_Inr:
  "signed_gas_limit estimate headroom_bps maximum = Inr v \<Longrightarrow>
    estimate * (10000 + headroom_bps) \<le> v * 10000 \<and> v * 10000 < estimate * (10000 + headroom_bps) + 10000 \<and>
    0 < v \<and> v \<le> maximum"
  by (auto simp: signed_gas_limit_def mul_div_up_def result_simps checked_ops)

lemma initial_fee_quote_Inr:
  assumes "initial_fee_quote quoted_gas_price quoted_priority_fee configured_maximum = Inr (fee, tip)"
  shows "tip \<le> fee" "quoted_gas_price \<le> fee" "fee < configured_maximum" "fee < two128"
proof -
  define bounded where "bounded = min (quoted_gas_price * 2) (configured_maximum - 1)"
  have "fee = bounded" "tip = min quoted_priority_fee bounded"
    "quoted_gas_price < configured_maximum" "1 < configured_maximum" "bounded < two128"
    using assms unfolding initial_fee_quote_def bounded_def
    by (auto simp: result_simps checked_ops Let_def simp del: min.bounded_iff)
  then show "tip \<le> fee" "quoted_gas_price \<le> fee" "fee < configured_maximum" "fee < two128"
    unfolding bounded_def by linarith+
qed

subsection \<open>Requests\<close>

record signed_envelope =
  se_raw_transaction :: bytes
  se_signer :: address
  se_transaction_hash :: b256

record validated_pending_transaction =
  vq_transaction_id :: transaction_id
  vq_original :: validated_routine_transaction
  vq_current_max_fee_per_gas :: u128
  vq_current_max_priority_fee_per_gas :: u128

datatype signer_error = Policy | Transport | Response | SignerDecode | Mutation

definition from_submitted ::
  "transaction_id \<Rightarrow> validated_routine_transaction \<Rightarrow> validated_pending_transaction" where
  "from_submitted tid original =
     \<lparr> vq_transaction_id = tid, vq_original = original,
       vq_current_max_fee_per_gas = rt_max_fee_per_gas (vr_fields original),
       vq_current_max_priority_fee_per_gas = rt_max_priority_fee_per_gas (vr_fields original) \<rparr>"

definition from_recovered_attempt ::
  "transaction_id \<Rightarrow> validated_routine_transaction \<Rightarrow> u128 \<Rightarrow> u128 \<Rightarrow>
     signer_error + validated_pending_transaction" where
  "from_recovered_attempt tid original current_max_fee current_priority_fee =
     (if current_max_fee < rt_max_fee_per_gas (vr_fields original) \<or>
         current_priority_fee < rt_max_priority_fee_per_gas (vr_fields original) \<or>
         current_priority_fee > current_max_fee
      then Inl Policy
      else Inr \<lparr> vq_transaction_id = tid, vq_original = original,
        vq_current_max_fee_per_gas = current_max_fee,
        vq_current_max_priority_fee_per_gas = current_priority_fee \<rparr>)"

record sign_rebalance_request =
  sq_request_id :: b256
  sq_transaction :: validated_routine_transaction

record sign_replacement_request =
  sp_request_id :: b256
  sp_pending :: validated_pending_transaction
  sp_max_fee_per_gas :: u128
  sp_max_priority_fee_per_gas :: u128

record sign_cancellation_request =
  sx_request_id :: b256
  sx_pending :: validated_pending_transaction
  sx_gas_limit :: u64
  sx_max_fee_per_gas :: u128
  sx_max_priority_fee_per_gas :: u128

record expected_signed_transaction =
  ex_request_id :: b256
  ex_purpose :: string
  ex_expected_signer :: address
  ex_vault :: address
  ex_plan_hash :: b256
  ex_transaction :: tx_eip1559

definition expected_rebalance :: "sign_rebalance_request \<Rightarrow> expected_signed_transaction" where
  "expected_rebalance request =
     (let tx_fields = vr_fields (sq_transaction request) in
      \<lparr> ex_request_id = sq_request_id request, ex_purpose = ''routine_rebalance'',
        ex_expected_signer = rt_from tx_fields, ex_vault = rt_to tx_fields,
        ex_plan_hash = vr_plan_hash (sq_transaction request),
        ex_transaction = eip1559 (sq_transaction request) \<rparr>)"

definition fees_not_higher :: "validated_pending_transaction \<Rightarrow> u128 \<Rightarrow> u128 \<Rightarrow> bool" where
  "fees_not_higher pending max_fee priority_fee \<longleftrightarrow>
     max_fee \<le> vq_current_max_fee_per_gas pending \<or>
     priority_fee \<le> vq_current_max_priority_fee_per_gas pending \<or> priority_fee > max_fee"

definition expected_replacement ::
  "sign_replacement_request \<Rightarrow> signer_error + expected_signed_transaction" where
  "expected_replacement request =
     (let original = vq_original (sp_pending request); tx_fields = vr_fields original in
      if fees_not_higher (sp_pending request) (sp_max_fee_per_gas request)
           (sp_max_priority_fee_per_gas request)
      then Inl Policy
      else Inr \<lparr> ex_request_id = sp_request_id request, ex_purpose = ''same_calldata_replacement'',
        ex_expected_signer = rt_from tx_fields, ex_vault = rt_to tx_fields,
        ex_plan_hash = vr_plan_hash original,
        ex_transaction = (eip1559 original)
          \<lparr> tx_max_fee_per_gas := sp_max_fee_per_gas request,
            tx_max_priority_fee_per_gas := sp_max_priority_fee_per_gas request \<rparr> \<rparr>)"

definition expected_cancellation ::
  "sign_cancellation_request \<Rightarrow> signer_error + expected_signed_transaction" where
  "expected_cancellation request =
     (let original = vq_original (sx_pending request); tx_fields = vr_fields original in
      if sx_gas_limit request = 0 \<or> fees_not_higher (sx_pending request) (sx_max_fee_per_gas request)
           (sx_max_priority_fee_per_gas request)
      then Inl Policy
      else Inr \<lparr> ex_request_id = sx_request_id request, ex_purpose = ''same_nonce_cancellation'',
        ex_expected_signer = rt_from tx_fields, ex_vault = rt_to tx_fields,
        ex_plan_hash = vr_plan_hash original,
        ex_transaction = \<lparr> tx_chain_id = rt_chain_id tx_fields, tx_nonce = rt_nonce tx_fields,
          tx_gas_limit = sx_gas_limit request, tx_max_fee_per_gas = sx_max_fee_per_gas request,
          tx_max_priority_fee_per_gas = sx_max_priority_fee_per_gas request,
          tx_to = rt_from tx_fields, tx_value = 0, tx_access_list = [], tx_input = [] \<rparr> \<rparr>)"

subsection \<open>Returned envelopes\<close>

text \<open>
  The library that decodes EIP-2718 envelopes: a decoded envelope with the bytes left over, and of a
  signed EIP-1559 transaction its fields, its hash and the recovered sender.
\<close>

datatype 's tx_envelope = EnvelopeEip1559 's | EnvelopeOther

record 's envelope_lib =
  decode_2718 :: "bytes \<Rightarrow> ('s tx_envelope \<times> bytes) option"
  signed_tx :: "'s \<Rightarrow> tx_eip1559"
  signed_hash :: "'s \<Rightarrow> b256"
  recover_signer :: "'s \<Rightarrow> address option"

definition verify_signed_response ::
  "evm_lib \<Rightarrow> 's envelope_lib \<Rightarrow> bytes \<Rightarrow> expected_signed_transaction \<Rightarrow> signer_error + signed_envelope"
where
  "verify_signed_response lib env raw expected =
     try_let (ok_or (decode_2718 env raw) SignerDecode) (\<lambda>(envelope, remaining).
     if remaining \<noteq> [] then Inl SignerDecode
     else
       case envelope of
         EnvelopeOther \<Rightarrow> Inl Mutation
       | EnvelopeEip1559 stx \<Rightarrow>
           try_let (ok_or (recover_signer env stx) SignerDecode) (\<lambda>signer.
           if signer \<noteq> ex_expected_signer expected \<or> signed_tx env stx \<noteq> ex_transaction expected
           then Inl Mutation
           else if keccak256 lib raw \<noteq> signed_hash env stx then Inl SignerDecode
           else Inr \<lparr> se_raw_transaction = raw, se_signer = signer,
             se_transaction_hash = keccak256 lib raw \<rparr>))"

definition verify_rebalance_envelope ::
  "evm_lib \<Rightarrow> 's envelope_lib \<Rightarrow> bytes \<Rightarrow> sign_rebalance_request \<Rightarrow> signer_error + signed_envelope" where
  "verify_rebalance_envelope lib env raw request =
     verify_signed_response lib env raw (expected_rebalance request)"

text \<open>What verified bytes are: exactly the expected transaction, signed by the expected account.\<close>

definition signs :: "evm_lib \<Rightarrow> 's envelope_lib \<Rightarrow> signed_envelope \<Rightarrow> expected_signed_transaction \<Rightarrow> bool" where
  "signs lib env e expected \<longleftrightarrow>
     (\<exists>stx. decode_2718 env (se_raw_transaction e) = Some (EnvelopeEip1559 stx, []) \<and>
        signed_tx env stx = ex_transaction expected \<and>
        recover_signer env stx = Some (ex_expected_signer expected)) \<and>
     se_signer e = ex_expected_signer expected \<and>
     se_transaction_hash e = keccak256 lib (se_raw_transaction e)"

lemma verify_signed_response_signs:
  "verify_signed_response lib env raw expected = Inr e \<Longrightarrow>
    signs lib env e expected \<and> se_raw_transaction e = raw"
proof -
  assume verified: "verify_signed_response lib env raw expected = Inr e"
  then obtain envelope where decoded: "decode_2718 env raw = Some (envelope, [])"
    by (auto simp: verify_signed_response_def result_simps split: if_splits)
  with verified obtain stx where stx: "envelope = EnvelopeEip1559 stx"
    by (cases envelope) (auto simp: verify_signed_response_def result_simps)
  from verified show ?thesis
    unfolding verify_signed_response_def decoded stx
    by (auto simp: signs_def decoded stx result_simps split: if_splits)
qed

subsection \<open>Signers\<close>

record routine_signer =
  sign_rebalance :: "sign_rebalance_request \<Rightarrow> signer_error + signed_envelope"
  sign_replacement :: "sign_replacement_request \<Rightarrow> signer_error + signed_envelope"
  sign_cancellation :: "sign_cancellation_request \<Rightarrow> signer_error + signed_envelope"

text \<open>
  The contract of a signer: whatever it returns signs what was asked for. Policies of replacement and
  cancellation are part of the request.
\<close>

locale restricted_signer =
  fixes lib :: evm_lib and env :: "'s envelope_lib" and signer :: routine_signer
  assumes rebalance: "sign_rebalance signer q = Inr e \<Longrightarrow> signs lib env e (expected_rebalance q)"
    and replacement: "sign_replacement signer r = Inr e \<Longrightarrow>
      \<exists>x. expected_replacement r = Inr x \<and> signs lib env e x"
    and cancellation: "sign_cancellation signer c = Inr e \<Longrightarrow>
      \<exists>x. expected_cancellation c = Inr x \<and> signs lib env e x"
begin

lemma rebalance_transaction:
  assumes "sign_rebalance signer q = Inr e"
  shows "se_signer e = rt_from (vr_fields (sq_transaction q))"
    "\<exists>stx. decode_2718 env (se_raw_transaction e) = Some (EnvelopeEip1559 stx, []) \<and>
      signed_tx env stx = eip1559 (sq_transaction q)"
  using rebalance [OF assms] by (auto simp: signs_def expected_rebalance_def Let_def)

text \<open>Every signed attempt of a lane spends the nonce of the original transaction, at a higher price.\<close>

lemma replacement_transaction:
  assumes "sign_replacement signer r = Inr e"
  shows "\<exists>stx. decode_2718 env (se_raw_transaction e) = Some (EnvelopeEip1559 stx, []) \<and>
      tx_nonce (signed_tx env stx) = rt_nonce (vr_fields (vq_original (sp_pending r))) \<and>
      tx_input (signed_tx env stx) = rt_calldata (vr_fields (vq_original (sp_pending r))) \<and>
      tx_to (signed_tx env stx) = rt_to (vr_fields (vq_original (sp_pending r))) \<and>
      vq_current_max_fee_per_gas (sp_pending r) < tx_max_fee_per_gas (signed_tx env stx)"
  using replacement [OF assms]
  by (auto simp: signs_def expected_replacement_def fees_not_higher_def eip1559_def Let_def not_le
      split: if_splits)

lemma cancellation_transaction:
  assumes "sign_cancellation signer c = Inr e"
  shows "\<exists>stx. decode_2718 env (se_raw_transaction e) = Some (EnvelopeEip1559 stx, []) \<and>
      tx_nonce (signed_tx env stx) = rt_nonce (vr_fields (vq_original (sx_pending c))) \<and>
      tx_to (signed_tx env stx) = rt_from (vr_fields (vq_original (sx_pending c))) \<and>
      tx_value (signed_tx env stx) = 0 \<and> tx_input (signed_tx env stx) = [] \<and>
      vq_current_max_fee_per_gas (sx_pending c) < tx_max_fee_per_gas (signed_tx env stx)"
  using cancellation [OF assms]
  by (auto simp: signs_def expected_cancellation_def fees_not_higher_def Let_def not_le split: if_splits)

end

text \<open>
  The development signer: a private key of the library, given by its address and by the bytes of a
  signed envelope of a transaction.
\<close>

record local_key =
  lk_address :: address
  lk_sign :: "tx_eip1559 \<Rightarrow> bytes option"

datatype local_signer_config_error = MissingEnvironment | InvalidKey | AddressMismatch

definition from_private_key ::
  "(string \<Rightarrow> local_key option) \<Rightarrow> string \<Rightarrow> address \<Rightarrow> local_signer_config_error + local_key" where
  "from_private_key parse private_key expected_signer =
     try_let (ok_or (parse private_key) InvalidKey) (\<lambda>key.
     if lk_address key \<noteq> expected_signer then Inl AddressMismatch else Inr key)"

definition from_env ::
  "(string \<Rightarrow> string option) \<Rightarrow> (string \<Rightarrow> local_key option) \<Rightarrow> string \<Rightarrow> address \<Rightarrow>
     local_signer_config_error + local_key" where
  "from_env environment parse private_key_env expected_signer =
     try_let (ok_or (environment private_key_env) MissingEnvironment) (\<lambda>private_key.
     from_private_key parse private_key expected_signer)"

definition sign_expected ::
  "evm_lib \<Rightarrow> 's envelope_lib \<Rightarrow> local_key \<Rightarrow> expected_signed_transaction \<Rightarrow>
     signer_error + signed_envelope" where
  "sign_expected lib env key expected =
     (if lk_address key \<noteq> ex_expected_signer expected then Inl Policy
      else
        try_let (ok_or (lk_sign key (ex_transaction expected)) SignerDecode) (\<lambda>raw.
        verify_signed_response lib env raw expected))"

definition local_development_routine_signer ::
  "evm_lib \<Rightarrow> 's envelope_lib \<Rightarrow> local_key \<Rightarrow> routine_signer" where
  "local_development_routine_signer lib env key =
     \<lparr> sign_rebalance = (\<lambda>request. sign_expected lib env key (expected_rebalance request)),
       sign_replacement = (\<lambda>request. try_let (expected_replacement request) (sign_expected lib env key)),
       sign_cancellation = (\<lambda>request. try_let (expected_cancellation request) (sign_expected lib env key)) \<rparr>"

lemma sign_expected_signs: "sign_expected lib env key expected = Inr e \<Longrightarrow> signs lib env e expected"
  by (auto simp: sign_expected_def result_simps dest: verify_signed_response_signs split: if_splits)

interpretation local_signer: restricted_signer lib env "local_development_routine_signer lib env key"
  for lib env key
  by unfold_locales
    (auto simp: local_development_routine_signer_def result_simps dest: sign_expected_signs)

text \<open>
  The remote signer. The text encodings come from the Alloy and hex crates, the HTTP round trip is the
  argument \<open>post\<close>; \<open>None\<close> is any transport failure. Its policy is checked before anything is sent.
\<close>

record text_lib =
  b256_to_string :: "b256 \<Rightarrow> string"
  address_to_string :: "address \<Rightarrow> string"
  u256_to_hex :: "u256 \<Rightarrow> string"
  hex_encode :: "bytes \<Rightarrow> string"
  hex_decode :: "string \<Rightarrow> bytes option"
  address_from_str :: "string \<Rightarrow> address option"
  b256_from_str :: "string \<Rightarrow> b256 option"

record remote_signer_policy =
  rp_chain_id :: u64
  rp_signer_vaults :: "(address, address list) btree_map"
  rp_maximum_gas_limit :: u64
  rp_maximum_fee_per_gas :: u128

record remote_request =
  rq_request_id :: string
  rq_chain_id :: u64
  rq_expected_signer :: string
  rq_purpose :: string
  rq_vault :: string
  rq_nonce :: u64
  rq_to :: string
  rq_value :: string
  rq_gas_limit :: u64
  rq_max_fee_per_gas :: string
  rq_max_priority_fee_per_gas :: string
  rq_calldata :: string
  rq_calldata_hash :: string
  rq_plan_hash :: string

record remote_response =
  ra_request_id :: string
  ra_signer :: string
  ra_transaction_hash :: string
  ra_raw_transaction :: string

definition remote_request_from_expected ::
  "evm_lib \<Rightarrow> text_lib \<Rightarrow> expected_signed_transaction \<Rightarrow> remote_request" where
  "remote_request_from_expected lib codec expected =
     (let tx = ex_transaction expected in
      \<lparr> rq_request_id = b256_to_string codec (ex_request_id expected), rq_chain_id = tx_chain_id tx,
        rq_expected_signer = address_to_string codec (ex_expected_signer expected),
        rq_purpose = ex_purpose expected, rq_vault = address_to_string codec (ex_vault expected),
        rq_nonce = tx_nonce tx, rq_to = address_to_string codec (tx_to tx),
        rq_value = u256_to_hex codec (tx_value tx), rq_gas_limit = tx_gas_limit tx,
        rq_max_fee_per_gas = u256_to_hex codec (tx_max_fee_per_gas tx),
        rq_max_priority_fee_per_gas = u256_to_hex codec (tx_max_priority_fee_per_gas tx),
        rq_calldata = ''0x'' @ hex_encode codec (tx_input tx),
        rq_calldata_hash = b256_to_string codec (keccak256 lib (tx_input tx)),
        rq_plan_hash = b256_to_string codec (ex_plan_hash expected) \<rparr>)"

definition remote_policy_violated :: "remote_signer_policy \<Rightarrow> address list \<Rightarrow> expected_signed_transaction \<Rightarrow> bool" where
  "remote_policy_violated policy expected_vaults expected =
     (let tx = ex_transaction expected;
          target_valid = (if ex_purpose expected = ''same_nonce_cancellation''
            then tx_to tx = ex_expected_signer expected
            else tx_to tx = ex_vault expected \<and> ex_vault expected \<in> set expected_vaults) in
      tx_chain_id tx \<noteq> rp_chain_id policy \<or> \<not> target_valid \<or> tx_value tx \<noteq> 0 \<or> tx_gas_limit tx = 0 \<or>
      tx_gas_limit tx > rp_maximum_gas_limit policy \<or>
      tx_max_fee_per_gas tx > rp_maximum_fee_per_gas policy \<or>
      tx_max_priority_fee_per_gas tx > tx_max_fee_per_gas tx)"

definition strip_0x :: "string \<Rightarrow> string option" where
  "strip_0x s = (if take 2 s = ''0x'' then Some (drop 2 s) else None)"

definition remote_sign ::
  "evm_lib \<Rightarrow> 's envelope_lib \<Rightarrow> text_lib \<Rightarrow> (remote_request \<Rightarrow> remote_response option) \<Rightarrow>
     remote_signer_policy \<Rightarrow> expected_signed_transaction \<Rightarrow> signer_error + signed_envelope" where
  "remote_sign lib env codec post policy expected =
     try_let (ok_or (map_of (rp_signer_vaults policy) (ex_expected_signer expected)) Policy)
       (\<lambda>expected_vaults.
     if remote_policy_violated policy expected_vaults expected then Inl Policy
     else
       let request = remote_request_from_expected lib codec expected in
       try_let (ok_or (post request) Transport) (\<lambda>response.
       if ra_request_id response \<noteq> rq_request_id request then Inl Mutation
       else
         try_let (ok_or (address_from_str codec (ra_signer response)) Response) (\<lambda>claimed_signer.
         try_let (ok_or (b256_from_str codec (ra_transaction_hash response)) Response) (\<lambda>claimed_hash.
         try_let (ok_or (Option.bind (strip_0x (ra_raw_transaction response)) (hex_decode codec)) Response)
           (\<lambda>raw.
         try_let (verify_signed_response lib env raw expected) (\<lambda>verified.
         if claimed_signer \<noteq> se_signer verified \<or> claimed_hash \<noteq> se_transaction_hash verified
         then Inl Mutation
         else Inr verified))))))"

definition remote_routine_signer ::
  "evm_lib \<Rightarrow> 's envelope_lib \<Rightarrow> text_lib \<Rightarrow> (remote_request \<Rightarrow> remote_response option) \<Rightarrow>
     remote_signer_policy \<Rightarrow> routine_signer" where
  "remote_routine_signer lib env codec post policy =
     \<lparr> sign_rebalance = (\<lambda>request. remote_sign lib env codec post policy (expected_rebalance request)),
       sign_replacement = (\<lambda>request. try_let (expected_replacement request)
         (remote_sign lib env codec post policy)),
       sign_cancellation = (\<lambda>request. try_let (expected_cancellation request)
         (remote_sign lib env codec post policy)) \<rparr>"

lemma remote_sign_signs:
  "remote_sign lib env codec post policy expected = Inr e \<Longrightarrow> signs lib env e expected"
  by (auto simp: remote_sign_def result_simps Let_def dest: verify_signed_response_signs split: if_splits)

text \<open>The remote signer never sees a transaction outside its policy, whatever it would answer.\<close>

lemma remote_sign_policy:
  assumes "remote_sign lib env codec post policy expected = Inr e"
  shows "\<exists>vaults. map_of (rp_signer_vaults policy) (ex_expected_signer expected) = Some vaults \<and>
    \<not> remote_policy_violated policy vaults expected"
  using assms by (auto simp: remote_sign_def result_simps split: if_splits)

interpretation remote_signer: restricted_signer lib env "remote_routine_signer lib env codec post policy"
  for lib env codec post policy
  by unfold_locales (auto simp: remote_routine_signer_def result_simps dest: remote_sign_signs)

end
