(* ===== verification/Lifecycle.thy ===== *)
theory Lifecycle
  imports Signing Config
begin

text \<open>
  Durable signing order and pending policy (\<open>src/transaction/lifecycle.rs\<close>, \<open>pending.rs\<close>): the nonce
  reservation before the signing gate, signed bytes that are durable before they are returned, the
  decision about a pending transaction, and its replacement or cancellation. The signer is a
  \<^const>\<open>restricted_signer\<close> of \<open>Signing\<close>, the provider that accepts signed bytes is an argument. Every
  request to the storage actor carries what the queue and the files did with it, so each operation
  returns the store beside its result.
\<close>

subsection \<open>Requests to the storage actor\<close>

text \<open>
  The command was never enqueued, was answered, or was processed while the caller had stopped waiting.
\<close>

datatype request_outcome =
    NotEnqueued storage_error | Answered journal_outcome | NoReply storage_error journal_outcome

definition storage_request ::
  "evm_lib \<Rightarrow> json_state \<Rightarrow> storage_command \<times> request_outcome \<Rightarrow> json_state \<times> (storage_error + unit)" where
  "storage_request lib s = (\<lambda>(c, outcome).
     case outcome of
       NotEnqueued e \<Rightarrow> (s, Inl e)
     | Answered journal \<Rightarrow> commit lib s (c, journal)
     | NoReply e journal \<Rightarrow> (fst (commit lib s (c, journal)), Inl e))"

subsection \<open>Durable signing order\<close>

datatype signing_boundary_error =
    BoundaryStorage storage_error | BoundarySigner signer_error | BoundaryIdentity

record durable_signing_request =
  dr_transaction_id :: transaction_id
  dr_transaction :: validated_routine_transaction
  dr_created_at :: u64
  dr_movement_reservation :: "rate_movement_reservation_record option"

definition rebalance_reservation ::
  "evm_lib \<Rightarrow> v2_plan \<Rightarrow> validated_routine_transaction \<Rightarrow> transaction_id \<Rightarrow> u64 \<Rightarrow> u64 \<Rightarrow> nonce_reservation"
where
  "rebalance_reservation lib plan tx tid created_block created_at =
     (let tx_fields = vr_fields tx in
      \<lparr> nr_transaction_id = tid, nr_plan_id = Some (pl_plan_id plan), nr_vault = pl_vault plan,
        nr_signer = rt_from tx_fields, nr_nonce = rt_nonce tx_fields,
        nr_calldata = rt_calldata tx_fields, nr_calldata_hash = keccak256 lib (rt_calldata tx_fields),
        nr_max_fee_per_gas = rt_max_fee_per_gas tx_fields,
        nr_max_priority_fee_per_gas = rt_max_priority_fee_per_gas tx_fields,
        nr_gas_limit = rt_gas_limit tx_fields,
        nr_movement_assets = pp_movement_assets (pl_projection plan),
        nr_created_block = created_block, nr_created_at = created_at \<rparr>)"

text \<open>The reply of the actor to a rate reservation is the record its command appended.\<close>

definition reserve_durable_rebalance ::
  "evm_lib \<Rightarrow> json_state \<Rightarrow> request_outcome \<Rightarrow> validated_plan \<Rightarrow> validated_routine_transaction \<Rightarrow>
     transaction_id \<Rightarrow> u64 \<Rightarrow> u64 \<Rightarrow> json_state \<times> (signing_boundary_error + durable_signing_request)" where
  "reserve_durable_rebalance lib s outcome validated_plan tx tid created_block created_at =
     (let plan = vp_plan validated_plan;
          reservation = rebalance_reservation lib plan tx tid created_block created_at;
          request = (\<lambda>movement. \<lparr> dr_transaction_id = tid, dr_transaction = tx,
            dr_created_at = created_at, dr_movement_reservation = movement \<rparr>) in
      if vr_plan_hash tx \<noteq> pl_plan_hash plan then (s, Inl BoundaryIdentity)
      else
        case pl_episode_id plan of
          Some eid \<Rightarrow>
            let movement = pp_movement_assets (pl_projection plan) in
            (case storage_request lib s (ReserveRateMovementAndNonce reservation eid movement, outcome) of
               (s', Inl e) \<Rightarrow> (s', Inl (BoundaryStorage e))
             | (s', Inr _) \<Rightarrow> (s', Inr (request (map_option snd
                 (to_option (reserve_rate_movement_and_nonce lib s reservation eid movement))))))
        | None \<Rightarrow>
            (case storage_request lib s (ReserveNonce reservation, outcome) of
               (s', Inl e) \<Rightarrow> (s', Inl (BoundaryStorage e))
             | (s', Inr _) \<Rightarrow> (s', Inr (request None))))"

definition persist_unsigned_rebalance ::
  "evm_lib \<Rightarrow> json_state \<Rightarrow> request_outcome \<times> request_outcome \<Rightarrow> validated_plan \<Rightarrow>
     validated_routine_transaction \<Rightarrow> transaction_id \<Rightarrow> u64 \<Rightarrow>
     json_state \<times> (signing_boundary_error + durable_signing_request)" where
  "persist_unsigned_rebalance lib s outcomes validated_plan tx tid created_at =
     (let plan = vp_plan validated_plan in
      if vr_plan_hash tx \<noteq> pl_plan_hash plan then (s, Inl BoundaryIdentity)
      else
        case storage_request lib s (PersistPlan plan created_at, fst outcomes) of
          (s', Inl e) \<Rightarrow> (s', Inl (BoundaryStorage e))
        | (s', Inr _) \<Rightarrow> reserve_durable_rebalance lib s' (snd outcomes) validated_plan tx tid
            (br_number (sc_block (pl_snapshot plan))) created_at)"

definition abort_transition :: "transaction_id \<Rightarrow> u64 \<Rightarrow> transaction_transition" where
  "abort_transition tid updated_at =
     \<lparr> tt_transaction_id = tid, tt_expected_state = NonceReserved, tt_next_state = AbortedBeforeSigning,
       tt_transaction_hash = None, tt_submitted_at = None, tt_included_block = None,
       tt_included_block_hash = None, tt_updated_at = updated_at \<rparr>"

definition abort_unsigned_rebalance ::
  "evm_lib \<Rightarrow> json_state \<Rightarrow> request_outcome \<Rightarrow> durable_signing_request \<Rightarrow> u64 \<Rightarrow>
     json_state \<times> (signing_boundary_error + unit)" where
  "abort_unsigned_rebalance lib s outcome request updated_at =
     (case storage_request lib s
        (TransitionTransaction (abort_transition (dr_transaction_id request) updated_at), outcome) of
        (s', Inl e) \<Rightarrow> (s', Inl (BoundaryStorage e))
      | (s', Inr _) \<Rightarrow> (s', Inr ()))"

definition signed_record :: "durable_signing_request \<Rightarrow> signed_envelope \<Rightarrow> signed_transaction_record" where
  "signed_record request stx =
     \<lparr> st_transaction_id = dr_transaction_id request, st_transaction_hash = se_transaction_hash stx,
       st_raw_signed_transaction = se_raw_transaction stx, st_updated_at = dr_created_at request \<rparr>"

definition sign_durable_rebalance ::
  "evm_lib \<Rightarrow> json_state \<Rightarrow> request_outcome \<Rightarrow> routine_signer \<Rightarrow> durable_signing_request \<Rightarrow> b256 \<Rightarrow>
     json_state \<times> (signing_boundary_error + signed_envelope)" where
  "sign_durable_rebalance lib s outcome signer request request_id =
     (case sign_rebalance signer
        \<lparr> sq_request_id = request_id, sq_transaction = dr_transaction request \<rparr> of
        Inl error \<Rightarrow>
          (case storage_request lib s (TransitionTransaction
             (abort_transition (dr_transaction_id request) (dr_created_at request)), outcome) of
             (s', Inl e) \<Rightarrow> (s', Inl (BoundaryStorage e))
           | (s', Inr _) \<Rightarrow> (s', Inl (BoundarySigner error)))
      | Inr stx \<Rightarrow>
          (case storage_request lib s (PersistSignedTransaction (signed_record request stx), outcome) of
             (s', Inl e) \<Rightarrow> (s', Inl (BoundaryStorage e))
           | (s', Inr _) \<Rightarrow> (s', Inr stx)))"

subsection \<open>Recovery classification\<close>

record recovery_facts =
  rf_latest_account_nonce :: u64
  rf_pending_nonce :: u64
  rf_transaction_visible :: bool
  rf_canonical_receipt :: bool
  rf_receipt_orphaned :: bool

datatype recovery_classification =
    CanonicalInclusion | PendingVisible | PendingAbsent | OrphanedInclusion | AmbiguousNonceAdvance
  | InvalidFutureReservation

definition classify_recovery :: "recovery_facts \<Rightarrow> recovery_classification" where
  "classify_recovery facts =
     (if rf_receipt_orphaned facts then OrphanedInclusion
      else if rf_pending_nonce facts > rf_latest_account_nonce facts then InvalidFutureReservation
      else if rf_latest_account_nonce facts > rf_pending_nonce facts then
        if rf_canonical_receipt facts then CanonicalInclusion else AmbiguousNonceAdvance
      else if rf_transaction_visible facts then PendingVisible
      else PendingAbsent)"

text \<open>Identical bytes may be sent again only while their nonce is the next one of the account.\<close>

lemma classify_recovery_rebroadcast:
  "classify_recovery facts \<in> {PendingVisible, PendingAbsent} \<longleftrightarrow>
     \<not> rf_receipt_orphaned facts \<and> rf_latest_account_nonce facts = rf_pending_nonce facts"
  by (auto simp: classify_recovery_def)

subsection \<open>Pending policy\<close>

type_synonym inclusion_opportunity = u64

datatype cancellation_reason =
    MaterialInvalidation | PendingHorizon | DirectionReversed | ServiceConstraint
  | RewardPolicyExpired | SignerRoleLost | ProviderAmbiguity | ExternalIdleLock

record pending_safety_signals =
  ss_material_invalidation :: bool
  ss_direction_reversed :: bool
  ss_service_constraint_failed :: bool
  ss_reward_policy_expired :: bool
  ss_signer_role_lost :: bool
  ss_provider_ambiguous :: bool
  ss_external_idle_lock_created :: bool

record touched_resources =
  tc_vault :: vault_address
  tc_positions :: "position_key list"
  tc_adapters :: "adapter_address list"
  tc_markets :: "market_id list"

record pending_clock =
  pk_reason :: plan_reason
  pk_submitted_at :: inclusion_opportunity
  pk_last_attempt_at :: inclusion_opportunity
  pk_touched :: touched_resources

datatype pending_decision = Wait | Replace | Cancel cancellation_reason

datatype rpc_error_category =
    AlreadyKnown | NonceTooLow | ReplacementUnderpriced | InsufficientFunds | InvalidSenderOrEncoding
  | RateLimited | ServerUnavailable | TransportUnavailable | UnknownCategory

definition is_transient_outage :: "rpc_error_category \<Rightarrow> bool" where
  "is_transient_outage c \<longleftrightarrow> c \<in> {RateLimited, ServerUnavailable, TransportUnavailable}"

datatype pending_attempt_outcome =
    Broadcast b256 | SubmissionIndeterminate b256 rpc_error_category

text \<open>The variant that wraps a provider error is not listed: no function of the file returns it.\<close>

datatype pending_policy_error =
    PendingIdentity | PendingClockInvalid | PendingFee fee_error | PendingSigner signer_error
  | PendingStorage storage_error | SubmissionHash

definition touched_market ::
  "evm_lib \<Rightarrow> validated_vault_config \<Rightarrow> position_key \<Rightarrow> adapter_address \<Rightarrow> pending_policy_error + market_id"
where
  "touched_market lib vault position adapter =
     (if \<exists>configured. va_liquidity_adapter vault = Some configured \<and>
           la_position_key configured = position \<and> la_address configured = adapter
      then Inr (derive_market_id lib \<lparr> mp_loan_token = va_asset vault, mp_collateral_token = 0,
        mp_oracle = 0, mp_irm = 0, mp_lltv = 0 \<rparr>)
      else ok_or (map_option po_market_id (find (\<lambda>configured.
        po_position_key configured = position \<and> po_adapter configured = adapter) (va_positions vault)))
        PendingIdentity)"

definition dedup_sorted :: "'a::linorder list \<Rightarrow> 'a list" where
  "dedup_sorted xs = remdups_adj (sort xs)"

definition touched_from_plan ::
  "evm_lib \<Rightarrow> v2_plan \<Rightarrow> validated_vault_config \<Rightarrow> pending_policy_error + touched_resources" where
  "touched_from_plan lib plan vault =
     (if pl_vault plan \<noteq> va_address vault then Inl PendingIdentity
      else
        try_let (try_fold (\<lambda>(positions, adapters, markets) action.
            try_let (touched_market lib vault (act_position action) (act_adapter action)) (\<lambda>market.
            Inr (positions @ [act_position action], adapters @ [act_adapter action],
              markets @ [market]))) ([], [], []) (pl_actions plan))
          (\<lambda>(positions, adapters, markets).
        Inr \<lparr> tc_vault = va_address vault, tc_positions = dedup_sorted positions,
          tc_adapters = dedup_sorted adapters, tc_markets = dedup_sorted markets \<rparr>))"

definition pending_horizon ::
  "plan_reason \<Rightarrow> validated_execution_config \<Rightarrow> pending_policy_error + u64" where
  "pending_horizon reason execution =
     (case reason of
        RateRebalance \<Rightarrow> Inr (ec_maximum_rate_rebalance_pending_opportunities execution)
      | TopKApyRebalance \<Rightarrow> Inr (ec_maximum_rate_rebalance_pending_opportunities execution)
      | CapitalDeployment \<Rightarrow> Inr (ec_maximum_capital_deployment_pending_opportunities execution)
      | LiquidityMaintenance \<Rightarrow> Inr (ec_maximum_liquidity_maintenance_pending_opportunities execution)
      | PositionSyncRequired \<Rightarrow> Inl PendingIdentity)"

definition assess_pending ::
  "pending_clock \<Rightarrow> inclusion_opportunity \<Rightarrow> pending_safety_signals \<Rightarrow> validated_execution_config \<Rightarrow>
     pending_policy_error + pending_decision" where
  "assess_pending clock current signals execution =
     try_let (ok_or (checked_sub current (pk_submitted_at clock)) PendingClockInvalid) (\<lambda>age.
     try_let (ok_or (checked_sub current (pk_last_attempt_at clock)) PendingClockInvalid) (\<lambda>attempt_age.
     if ss_provider_ambiguous signals then Inr Wait
     else if ss_signer_role_lost signals then Inr (Cancel SignerRoleLost)
     else if ss_external_idle_lock_created signals then Inr (Cancel ExternalIdleLock)
     else if ss_service_constraint_failed signals \<and> pk_reason clock \<noteq> LiquidityMaintenance
     then Inr (Cancel ServiceConstraint)
     else if ss_reward_policy_expired signals then Inr (Cancel RewardPolicyExpired)
     else if ss_direction_reversed signals then Inr (Cancel DirectionReversed)
     else if ss_material_invalidation signals then Inr (Cancel MaterialInvalidation)
     else
       try_let (pending_horizon (pk_reason clock) execution) (\<lambda>horizon.
       let remaining = saturating_sub horizon age in
       if age > 0 \<and> (age \<ge> horizon \<or> remaining \<le> ec_cancel_when_opportunities_remaining execution)
       then Inr (Cancel PendingHorizon)
       else if attempt_age \<ge> ec_replacement_after_opportunities execution then Inr Replace
       else Inr Wait)))"

text \<open>
  A replacement, which keeps the plan alive, is chosen only with no safety signal left and inside the
  horizon of the plan; while the provider is ambiguous nothing is signed.
\<close>

lemma assess_pending_Replace:
  assumes "assess_pending clock current signals execution = Inr Replace"
  shows "\<not> ss_provider_ambiguous signals" "\<not> ss_signer_role_lost signals"
    "\<not> ss_external_idle_lock_created signals" "\<not> ss_reward_policy_expired signals"
    "\<not> ss_direction_reversed signals" "\<not> ss_material_invalidation signals"
    "ss_service_constraint_failed signals \<Longrightarrow> pk_reason clock = LiquidityMaintenance"
    "\<exists>horizon. pending_horizon (pk_reason clock) execution = Inr horizon \<and>
      (current = pk_submitted_at clock \<or> current < pk_submitted_at clock + horizon)"
  using assms
  by (auto simp: assess_pending_def result_simps checked_ops Let_def split: if_splits)

lemma assess_pending_ambiguous:
  "ss_provider_ambiguous signals \<Longrightarrow>
    assess_pending clock current signals execution \<in> {Inr Wait, Inl PendingClockInvalid}"
  by (cases "checked_sub current (pk_submitted_at clock)"; cases "checked_sub current (pk_last_attempt_at clock)")
    (simp_all add: assess_pending_def)

subsection \<open>Replacement and cancellation\<close>

record pending_attempt_request =
  pa_pending :: validated_pending_transaction
  pa_expected_state :: transaction_state
  pa_decision :: pending_decision
  pa_signer_request_id :: b256
  pa_max_fee_per_gas :: u128
  pa_max_priority_fee_per_gas :: u128
  pa_cancellation_gas_limit :: u64
  pa_created_at :: u64
  pa_signed_block :: u64

definition attempt_permitted :: "transaction_state \<Rightarrow> pending_decision \<Rightarrow> bool" where
  "attempt_permitted expected_state decision \<longleftrightarrow>
     expected_state \<in> {Submitted, Replaced} \<or>
     expected_state \<in> {Signed, Orphaned} \<and> (case decision of Cancel _ \<Rightarrow> True | _ \<Rightarrow> False)"

definition sign_pending_attempt ::
  "routine_signer \<Rightarrow> validated_execution_config \<Rightarrow> pending_attempt_request \<Rightarrow>
     pending_policy_error + (transaction_attempt_kind \<times> transaction_state \<times> transaction_state \<times> signed_envelope)"
where
  "sign_pending_attempt signer execution request =
     (case pa_decision request of
        Replace \<Rightarrow>
          try_let (map_err PendingSigner (sign_replacement signer
            \<lparr> sp_request_id = pa_signer_request_id request, sp_pending = pa_pending request,
              sp_max_fee_per_gas = pa_max_fee_per_gas request,
              sp_max_priority_fee_per_gas = pa_max_priority_fee_per_gas request \<rparr>)) (\<lambda>stx.
          Inr (Replacement, ReplacementSigned, Replaced, stx))
      | Cancel _ \<Rightarrow>
          if pa_cancellation_gas_limit request = 0
             \<or> pa_cancellation_gas_limit request > ec_maximum_signed_transaction_gas execution
          then Inl PendingIdentity
          else
          try_let (map_err PendingSigner (sign_cancellation signer
            \<lparr> sx_request_id = pa_signer_request_id request, sx_pending = pa_pending request,
              sx_gas_limit = pa_cancellation_gas_limit request,
              sx_max_fee_per_gas = pa_max_fee_per_gas request,
              sx_max_priority_fee_per_gas = pa_max_priority_fee_per_gas request \<rparr>)) (\<lambda>stx.
          Inr (Cancellation, CancellationSigned, CancellationSubmitted, stx))
      | Wait \<Rightarrow> Inl PendingIdentity)"

definition submission_result ::
  "b256 \<Rightarrow> rpc_error_category + b256 \<Rightarrow> pending_policy_error + pending_attempt_outcome" where
  "submission_result durable_hash submission =
     (case submission of
        Inl category \<Rightarrow>
          if category = AlreadyKnown then Inr (Broadcast durable_hash)
          else Inr (SubmissionIndeterminate durable_hash category)
      | Inr submitted_hash \<Rightarrow>
          if submitted_hash \<noteq> durable_hash then Inl SubmissionHash else Inr (Broadcast submitted_hash))"

definition pending_attempt_record ::
  "pending_attempt_request \<Rightarrow> transaction_attempt_kind \<Rightarrow> signed_envelope \<Rightarrow> signed_attempt_record" where
  "pending_attempt_record request kind stx =
     \<lparr> sa_transaction_id = vq_transaction_id (pa_pending request), sa_kind = kind,
       sa_transaction_hash = se_transaction_hash stx,
       sa_raw_signed_transaction = se_raw_transaction stx,
       sa_max_fee_per_gas = pa_max_fee_per_gas request,
       sa_max_priority_fee_per_gas = pa_max_priority_fee_per_gas request,
       sa_signed_at = pa_created_at request, sa_signed_block = pa_signed_block request,
       sa_broadcast_at = None, sa_last_broadcast_block = None \<rparr>"

definition pending_attempt_transition ::
  "pending_attempt_request \<Rightarrow> transaction_state \<Rightarrow> transaction_state \<Rightarrow> signed_envelope \<Rightarrow>
     transaction_transition" where
  "pending_attempt_transition request signed_state submitted_state stx =
     \<lparr> tt_transaction_id = vq_transaction_id (pa_pending request), tt_expected_state = signed_state,
       tt_next_state = submitted_state, tt_transaction_hash = Some (se_transaction_hash stx),
       tt_submitted_at = Some (pa_created_at request), tt_included_block = None,
       tt_included_block_hash = None, tt_updated_at = pa_created_at request \<rparr>"

text \<open>
  Beside the store and the result, the bytes handed to the provider are recorded with the durable store
  at that moment.
\<close>

definition execute_pending_attempt ::
  "evm_lib \<Rightarrow> json_state \<Rightarrow> request_outcome \<times> request_outcome \<times> request_outcome \<Rightarrow> routine_signer \<Rightarrow>
     (bytes \<Rightarrow> rpc_error_category + b256) \<Rightarrow> validated_execution_config \<Rightarrow> pending_attempt_request \<Rightarrow>
     json_state \<times> (json_state \<times> bytes) list \<times> (pending_policy_error + pending_attempt_outcome)" where
  "execute_pending_attempt lib s outcomes signer submit_signed_bytes execution request =
     (let (persisted, recorded, transitioned) = outcomes;
          pending = pa_pending request;
          tid = vq_transaction_id pending in
      if \<not> attempt_permitted (pa_expected_state request) (pa_decision request)
      then (s, [], Inl PendingIdentity)
      else
      case validate_replacement_fees (vq_current_max_fee_per_gas pending)
          (vq_current_max_priority_fee_per_gas pending) (pa_max_fee_per_gas request)
          (pa_max_priority_fee_per_gas request) (ec_maximum_fee_per_gas_wei execution) of
        Inl e \<Rightarrow> (s, [], Inl (PendingFee e))
      | Inr _ \<Rightarrow>
      case sign_pending_attempt signer execution request of
        Inl e \<Rightarrow> (s, [], Inl e)
      | Inr (kind, signed_state, submitted_state, stx) \<Rightarrow>
      case storage_request lib s
          (PersistSignedAttempt (pending_attempt_record request kind stx), persisted) of
        (s1, Inl e) \<Rightarrow> (s1, [], Inl (PendingStorage e))
      | (s1, Inr _) \<Rightarrow>
      let submissions = [(s1, se_raw_transaction stx)];
          submission = submit_signed_bytes (se_raw_transaction stx) in
      case storage_request lib s1 (RecordAttemptBroadcast tid (se_transaction_hash stx)
          (pa_created_at request) (pa_signed_block request), recorded) of
        (s2, Inl e) \<Rightarrow> (s2, submissions, Inl (PendingStorage e))
      | (s2, Inr _) \<Rightarrow>
      case storage_request lib s2 (TransitionTransaction
          (pending_attempt_transition request signed_state submitted_state stx), transitioned) of
        (s3, Inl e) \<Rightarrow> (s3, submissions, Inl (PendingStorage e))
      | (s3, Inr _) \<Rightarrow> (s3, submissions, submission_result (se_transaction_hash stx) submission))"

subsection \<open>What a request leaves behind\<close>

lemma find_filter_keep: "find p xs = Some x \<Longrightarrow> P x \<Longrightarrow> find p (filter P xs) = Some x"
  by (induction xs) (auto split: if_splits)

lemma find_update_first:
  "find p xs = Some x \<Longrightarrow> (\<And>y. p (f y) = p y) \<Longrightarrow> find p (update_first p f xs) = Some (f x)"
  by (induction xs) (auto split: if_splits)

lemma compaction_attempts:
  "js_transaction_attempts (compact_topology s) = js_transaction_attempts s"
  "js_transaction_attempts (compact_top_k_memory s) = js_transaction_attempts s"
  "js_transaction_attempts (compact_logs_and_receipts s) = js_transaction_attempts s"
  "js_transaction_attempts (compact_blocks plans s) = js_transaction_attempts s"
  "js_transaction_attempts (compact_snapshots_and_plans plans ids s) = js_transaction_attempts s"
  "js_transaction_attempts (compact_lifecycle_history s) = filter (\<lambda>a. sa_transaction_id a
     \<in> row_id ` set (js_transactions (compact_lifecycle_history s))) (js_transaction_attempts s)"
proof -
  show "js_transaction_attempts (compact_topology s) = js_transaction_attempts s"
    by (simp add: compact_topology_def Let_def)
  show "js_transaction_attempts (compact_top_k_memory s) = js_transaction_attempts s"
    by (simp add: compact_top_k_memory_def Let_def)
  show "js_transaction_attempts (compact_logs_and_receipts s) = js_transaction_attempts s"
    by (simp add: compact_logs_and_receipts_def Let_def split: option.split)
  show "js_transaction_attempts (compact_blocks plans s) = js_transaction_attempts s"
    by (simp add: compact_blocks_def Let_def split: option.split)
  show "js_transaction_attempts (compact_snapshots_and_plans plans ids s) = js_transaction_attempts s"
    by (simp add: compact_snapshots_and_plans_def Let_def split: option.split)
  show "js_transaction_attempts (compact_lifecycle_history s) = filter (\<lambda>a. sa_transaction_id a
     \<in> row_id ` set (js_transactions (compact_lifecycle_history s))) (js_transaction_attempts s)"
    unfolding compact_lifecycle_history_def Let_def
    by (simp add: row_id_def [abs_def] image_image comp_def)
qed

lemma compact_hot_state_attempts:
  "js_transaction_attempts (compact_hot_state s) = filter (\<lambda>a. sa_transaction_id a
     \<in> row_id ` set (js_transactions (compact_hot_state s))) (js_transaction_attempts s)"
  by (simp add: compact_hot_state_def Let_def compaction_attempts)

lemma find_row_compact:
  assumes "find_row s tid = Some row" "is_active_lifecycle (tr_state row)"
  shows "find_row (compact_hot_state s) tid = Some row"
  using compaction_rows [of s] assms find_filter_keep by (fastforce simp: find_row_def)

lemma find_row_update_row:
  assumes "find_row s tid = Some row" "\<And>r. tr_reservation (f r) = tr_reservation r"
  shows "find_row (update_row tid f s) tid = Some (f row)"
  using assms find_update_first [of "has_id tid" "js_transactions s" row f]
  by (simp add: find_row_def update_row_def has_id_def)

text \<open>
  A command that was acknowledged is in the store, and a row it left active and the attempts of that row
  survive the compaction that may follow it.
\<close>

lemma next_state_Inr:
  assumes "next_state lib s c = Inr s'"
  obtains m n where "storage_mutation lib s c = Inr m"
    "s' = m\<lparr>js_revision := n\<rparr> \<or> s' = compact_hot_state (m\<lparr>js_revision := n\<rparr>)"
  using assms by (auto simp: next_state_def result_simps Let_def split: if_splits)

lemma storage_request_Inr: "storage_request lib s (c, outcome) = (s', Inr u) \<Longrightarrow> next_state lib s c = Inr s'"
  by (auto simp: storage_request_def commit_def split: request_outcome.splits journal_outcome.splits sum.splits)

lemma storage_request_state:
  "storage_request lib s (c, outcome) = (s', r) \<Longrightarrow> s' = s \<or> next_state lib s c = Inr s'"
  by (auto simp: storage_request_def commit_def split: request_outcome.splits journal_outcome.splits sum.splits)

lemma storage_request_mutation:
  assumes "storage_request lib s (c, outcome) = (s', Inr u)"
  obtains m where "storage_mutation lib s c = Inr m" "next_state lib s c = Inr s'"
  using storage_request_Inr [OF assms] by (auto elim: next_state_Inr)

lemma active_row_survives:
  assumes "next_state lib s c = Inr s'" "storage_mutation lib s c = Inr m"
    and "find_row m tid = Some row" "is_active_lifecycle (tr_state row)"
  shows "find_row s' tid = Some row"
    and "a \<in> set (js_transaction_attempts m) \<Longrightarrow> sa_transaction_id a = tid \<Longrightarrow>
      a \<in> set (js_transaction_attempts s')"
proof -
  from assms(1,2) obtain n where s': "s' = m\<lparr>js_revision := n\<rparr> \<or> s' = compact_hot_state (m\<lparr>js_revision := n\<rparr>)"
    by (elim next_state_Inr) auto
  have "find_row (m\<lparr>js_revision := n\<rparr>) tid = Some row"
    using assms(3) by (simp add: find_row_def)
  with s' assms(4) show row: "find_row s' tid = Some row"
    using find_row_compact by auto
  assume "a \<in> set (js_transaction_attempts m)" "sa_transaction_id a = tid"
  moreover have "tid \<in> row_id ` set (js_transactions s')"
    using find_rowD [OF row] by (metis image_eqI)
  ultimately show "a \<in> set (js_transaction_attempts s')"
    using s' by (auto simp: compact_hot_state_attempts)
qed

lemma persist_signed_row:
  assumes "persist_signed lib s tx = Inr m"
  obtains row row' where "find_row s (st_transaction_id tx) = Some row" "tr_state row = NonceReserved"
    "find_row m (st_transaction_id tx) = Some row'" "tr_state row' = Signed"
    "tr_reservation row' = tr_reservation row"
    "tr_transaction_hash row' = Some (st_transaction_hash tx)"
    "tr_raw_signed_transaction row' = Some (st_raw_signed_transaction tx)"
proof -
  let ?f = "\<lambda>row. row\<lparr>tr_state := Signed, tr_transaction_hash := Some (st_transaction_hash tx),
    tr_raw_signed_transaction := Some (st_raw_signed_transaction tx), tr_updated_at := st_updated_at tx\<rparr>"
  from assms obtain row as where row: "find_row s (st_transaction_id tx) = Some row" "tr_state row = NonceReserved"
      and m: "m = (update_row (st_transaction_id tx) ?f s)\<lparr>js_transaction_attempts := as\<rparr>"
    by (auto simp: persist_signed_def result_simps Let_def split: if_splits)
  have found: "find_row m (st_transaction_id tx) = Some (?f row)"
    using find_row_update_row [OF row(1), of ?f] by (simp add: m find_row_def)
  show ?thesis
    by (rule that [OF row found]) simp_all
qed

lemma persist_signed_attempt_row:
  assumes "persist_signed_attempt lib s a = Inr m"
  obtains row row' where "find_row s (sa_transaction_id a) = Some row"
    "signed_attempt_state (sa_kind a) (tr_state row) = Some (tr_state row')"
    "find_row m (sa_transaction_id a) = Some row'" "tr_reservation row' = tr_reservation row"
    "tr_transaction_hash row' = Some (sa_transaction_hash a)"
    "tr_raw_signed_transaction row' = Some (sa_raw_signed_transaction a)"
    "a \<in> set (js_transaction_attempts m)"
proof -
  let ?f = "\<lambda>st row. row\<lparr>tr_state := st, tr_transaction_hash := Some (sa_transaction_hash a),
    tr_raw_signed_transaction := Some (sa_raw_signed_transaction a), tr_updated_at := sa_signed_at a\<rparr>"
  from assms obtain row st where row: "find_row s (sa_transaction_id a) = Some row"
      and st: "signed_attempt_state (sa_kind a) (tr_state row) = Some st"
      and m: "m = (update_row (sa_transaction_id a) (?f st) s)
        \<lparr>js_transaction_attempts := js_transaction_attempts s @ [a]\<rparr>"
    by (auto simp: persist_signed_attempt_def result_simps Let_def split: if_splits)
  have found: "find_row m (sa_transaction_id a) = Some (?f st row)"
    using find_row_update_row [OF row, of "?f st"] by (simp add: m find_row_def)
  show ?thesis
    by (rule that [OF row _ found]) (simp_all add: m st)
qed

text \<open>A durable reservation is the row of its transaction, with the fields that are going to be signed.\<close>

lemma find_append_None: "find p xs = None \<Longrightarrow> find p (xs @ ys) = find p ys"
  by (induction xs) (auto split: if_splits)

lemma reserve_nonce_row:
  assumes "reserve_nonce lib s r = Inr m"
  shows "\<exists>row. find_row m (nr_transaction_id r) = Some row \<and> tr_state row = NonceReserved \<and> tr_reservation row = r"
proof -
  from assms have "find (has_id (nr_transaction_id r)) (js_transactions s) = None"
      and "\<exists>row. js_transactions m = js_transactions s @ [row] \<and> tr_state row = NonceReserved \<and> tr_reservation row = r"
    by (auto simp: reserve_nonce_def find_None_iff split: if_splits)
  then show ?thesis
    by (auto simp: find_row_def find_append_None has_id_def)
qed

lemma reserve_durable_rebalance_row:
  assumes "reserve_durable_rebalance lib s outcome vp tx tid created_block created_at = (s', Inr request)"
  shows "dr_transaction_id request = tid" "dr_transaction request = tx" "dr_created_at request = created_at"
    and "\<exists>row. find_row s' tid = Some row \<and> tr_state row = NonceReserved \<and>
      tr_reservation row = rebalance_reservation lib (vp_plan vp) tx tid created_block created_at"
proof -
  let ?r = "rebalance_reservation lib (vp_plan vp) tx tid created_block created_at"
  show "dr_transaction_id request = tid" "dr_transaction request = tx" "dr_created_at request = created_at"
    using assms by (auto simp: reserve_durable_rebalance_def Let_def split: if_splits option.splits sum.splits prod.splits)
  from assms obtain c u where request: "storage_request lib s (c, outcome) = (s', Inr u)"
      and c: "c = ReserveNonce ?r \<or> (\<exists>eid movement. c = ReserveRateMovementAndNonce ?r eid movement)"
    by (auto simp: reserve_durable_rebalance_def Let_def split: if_splits option.splits sum.splits prod.splits)
  from request obtain m where m: "storage_mutation lib s c = Inr m" "next_state lib s c = Inr s'"
    by (rule storage_request_mutation)
  have id: "nr_transaction_id ?r = tid"
    by (simp add: rebalance_reservation_def Let_def)
  from c obtain row where row: "find_row m tid = Some row" "tr_state row = NonceReserved" "tr_reservation row = ?r"
  proof (elim disjE exE)
    assume "c = ReserveNonce ?r"
    with m(1) reserve_nonce_row [of lib s ?r m] that show thesis by (auto simp: storage_mutation_def id)
  next
    fix eid movement
    assume "c = ReserveRateMovementAndNonce ?r eid movement"
    with m(1) obtain mv where "reserve_rate_movement_and_nonce lib s ?r eid movement = Inr (m, mv)"
      by (auto simp: storage_mutation_def result_simps)
    then obtain t u where u: "reserve_nonce lib t ?r = Inr u" "js_transactions m = js_transactions u"
      by (rule reserve_rate_movement_Inr) auto
    from reserve_nonce_row [OF u(1)] u(2) that show thesis by (auto simp: id find_row_def)
  qed
  have "find_row s' tid = Some row"
    by (rule active_row_survives(1) [OF m(2,1) row(1)]) (simp add: row(2) is_active_lifecycle_def)
  with row show "\<exists>row. find_row s' tid = Some row \<and> tr_state row = NonceReserved \<and> tr_reservation row = ?r"
    by blast
qed

text \<open>
  Aborting an unsigned reservation closes its row and gives back the movement it held; from a reachable
  store the accounting never refuses it.
\<close>

lemma reachable_distinct: "storage_reachable lib s \<Longrightarrow> distinct (map row_id (js_transactions s))"
proof -
  assume "storage_reachable lib s"
  then have "evidence_inv s"
  proof (induction rule: storage_reachable.induct)
    case Empty
    show ?case by (simp add: evidence_inv_def json_state_default_def)
  next
    case (Commit s x)
    then show ?case
      using commit_state [of lib s x] next_state_keeps_evidence by auto
  qed
  then show ?thesis by (simp add: evidence_inv_def)
qed

lemma abort_Inr:
  assumes "transition_transaction s (abort_transition tid updated_at) = Inr m"
  obtains row where "find_row s tid = Some row" "tr_state row = NonceReserved"
    "js_transactions m = update_first (has_id tid) (transitioned_row (abort_transition tid updated_at))
      (js_transactions s)"
    "\<not> (\<exists>r \<in> set (js_rate_movement_reservations m). owns_pending_movement tid r)"
proof -
  let ?t = "abort_transition tid updated_at"
  from assms obtain row where row: "find_row s tid = Some row" "tr_state row = NonceReserved"
      and released: "release_rate_movement (update_row tid (transitioned_row ?t) s) tid = Inr m"
    by (auto simp: transition_transaction_def abort_transition_def record_transition_broadcast_def
        result_simps Let_def split: if_splits)
  show ?thesis
    using release_rate_movement_Inr [OF released] release_clears [OF released]
    by (intro that [OF row]) (auto simp: update_row_def)
qed

lemma abort_total:
  assumes "movement_inv s" "find_row s tid = Some row" "tr_state row = NonceReserved"
  shows "\<exists>m. transition_transaction s (abort_transition tid updated_at) = Inr m \<and> js_revision m = js_revision s"
proof -
  let ?u = "update_row tid (transitioned_row (abort_transition tid updated_at)) s"
  have "movement_inv ?u"
    by (rule movement_same [OF assms(1)]) (simp_all add: update_row_def)
  then obtain m where m: "release_rate_movement ?u tid = Inr m"
    using release_total by blast
  then have "js_revision m = js_revision s"
    using release_rate_movement_Inr [OF m] by (auto simp: update_row_def)
  with m assms(2,3) show ?thesis
    by (auto simp: transition_transaction_def abort_transition_def record_transition_broadcast_def
        permits_def Let_def)
qed

lemma aborted_rows:
  assumes "distinct (map row_id (js_transactions s))" "find_row s tid = Some row"
    and "x \<in> set (update_first (has_id tid) (transitioned_row t) (js_transactions s))" "row_id x = tid"
  shows "tr_state x = tt_next_state t"
proof -
  obtain ys zs where "js_transactions s = ys @ row # zs" "has_id tid row"
      "update_first (has_id tid) (transitioned_row t) (js_transactions s) = ys @ transitioned_row t row # zs"
    using update_first_split [OF assms(2) [unfolded find_row_def], of "transitioned_row t"] by auto
  with assms(1,3,4) show ?thesis
    by (auto simp: row_id_def has_id_def image_iff)
qed

lemma next_state_subsets:
  assumes "next_state lib s c = Inr s'" "storage_mutation lib s c = Inr m"
  shows "set (js_transactions s') \<subseteq> set (js_transactions m)"
    "set (js_rate_movement_reservations s') \<subseteq> set (js_rate_movement_reservations m)"
proof -
  from assms obtain n where s': "s' = m\<lparr>js_revision := n\<rparr> \<or> s' = compact_hot_state (m\<lparr>js_revision := n\<rparr>)"
    by (elim next_state_Inr) auto
  show "set (js_transactions s') \<subseteq> set (js_transactions m)"
    using s' compaction_rows [of "m\<lparr>js_revision := n\<rparr>"] by auto
  show "set (js_rate_movement_reservations s') \<subseteq> set (js_rate_movement_reservations m)"
    using s' by (auto simp: compact_lifecycle_fields)
qed

lemma request_durable:
  assumes "storage_mutation lib s c = Inr m" "Suc (js_revision m) < two64"
  shows "\<exists>s'. storage_request lib s (c, Answered Durable) = (s', Inr ())"
proof -
  have "checked_add64 (js_revision m) 1 = Some (Suc (js_revision m))"
    using assms(2) by (simp add: checked_add_bound_def)
  with assms(1) show ?thesis
    by (simp add: storage_request_def commit_def next_state_def Let_def)
qed

text \<open>
  What a restricted signer returns for a pending attempt: the nonce and the account of the original
  transaction at the requested fees, with the original call or with none.
\<close>

definition attempt_transaction :: "pending_attempt_request \<Rightarrow> tx_eip1559 \<Rightarrow> bool" where
  "attempt_transaction request tx \<longleftrightarrow>
     (let original = vr_fields (vq_original (pa_pending request)) in
      tx_chain_id tx = rt_chain_id original \<and> tx_nonce tx = rt_nonce original \<and>
      tx_max_fee_per_gas tx = pa_max_fee_per_gas request \<and>
      tx_max_priority_fee_per_gas tx = pa_max_priority_fee_per_gas request \<and>
      (if pa_decision request = Replace
       then tx_to tx = rt_to original \<and> tx_value tx = rt_value original \<and> tx_input tx = rt_calldata original
       else tx_to tx = rt_from original \<and> tx_value tx = 0 \<and> tx_input tx = []))"

context restricted_signer
begin

lemma pending_attempt_signs:
  assumes "sign_pending_attempt signer execution request = Inr (kind, signed_state, submitted_state, e)"
  shows "(kind, signed_state, submitted_state) \<in> {(Replacement, ReplacementSigned, Replaced),
      (Cancellation, CancellationSigned, CancellationSubmitted)}"
    "se_transaction_hash e = keccak256 lib (se_raw_transaction e)"
    "\<exists>stx. decode_2718 env (se_raw_transaction e) = Some (EnvelopeEip1559 stx, []) \<and>
      recover_signer env stx = Some (rt_from (vr_fields (vq_original (pa_pending request)))) \<and>
      attempt_transaction request (signed_tx env stx)"
proof -
  let ?rep = "\<lparr> sp_request_id = pa_signer_request_id request, sp_pending = pa_pending request,
    sp_max_fee_per_gas = pa_max_fee_per_gas request,
    sp_max_priority_fee_per_gas = pa_max_priority_fee_per_gas request \<rparr>"
  let ?can = "\<lparr> sx_request_id = pa_signer_request_id request, sx_pending = pa_pending request,
    sx_gas_limit = pa_cancellation_gas_limit request, sx_max_fee_per_gas = pa_max_fee_per_gas request,
    sx_max_priority_fee_per_gas = pa_max_priority_fee_per_gas request \<rparr>"
  consider "pa_decision request = Replace" "sign_replacement signer ?rep = Inr e"
      "kind = Replacement" "signed_state = ReplacementSigned" "submitted_state = Replaced"
    | reason where "pa_decision request = Cancel reason" "sign_cancellation signer ?can = Inr e"
      "kind = Cancellation" "signed_state = CancellationSigned" "submitted_state = CancellationSubmitted"
    using assms by (auto simp: sign_pending_attempt_def result_simps split: pending_decision.splits if_splits)
  then have "(kind, signed_state, submitted_state) \<in> {(Replacement, ReplacementSigned, Replaced),
      (Cancellation, CancellationSigned, CancellationSubmitted)} \<and>
    se_transaction_hash e = keccak256 lib (se_raw_transaction e) \<and>
    (\<exists>stx. decode_2718 env (se_raw_transaction e) = Some (EnvelopeEip1559 stx, []) \<and>
      recover_signer env stx = Some (rt_from (vr_fields (vq_original (pa_pending request)))) \<and>
      attempt_transaction request (signed_tx env stx))"
  proof cases
    case 1
    from replacement [OF 1(2)] obtain x where "expected_replacement ?rep = Inr x" "signs lib env e x"
      by blast
    with 1 show ?thesis
      by (auto simp: signs_def expected_replacement_def eip1559_def attempt_transaction_def Let_def
          split: if_splits)
  next
    case 2
    from cancellation [OF 2(2)] obtain x where "expected_cancellation ?can = Inr x" "signs lib env e x"
      by blast
    with 2 show ?thesis
      by (auto simp: signs_def expected_cancellation_def attempt_transaction_def Let_def split: if_splits)
  qed
  then show "(kind, signed_state, submitted_state) \<in> {(Replacement, ReplacementSigned, Replaced),
      (Cancellation, CancellationSigned, CancellationSubmitted)}"
    "se_transaction_hash e = keccak256 lib (se_raw_transaction e)"
    "\<exists>stx. decode_2718 env (se_raw_transaction e) = Some (EnvelopeEip1559 stx, []) \<and>
      recover_signer env stx = Some (rt_from (vr_fields (vq_original (pa_pending request)))) \<and>
      attempt_transaction request (signed_tx env stx)"
    by blast+
qed

end

lemma attempt_request_durable:
  assumes "storage_request lib s (PersistSignedAttempt (pending_attempt_record request kind e), outcome) = (t, Inr u)"
    and "kind \<in> {Replacement, Cancellation}"
  defines "tid \<equiv> vq_transaction_id (pa_pending request)"
  shows "\<exists>row row'. find_row s tid = Some row \<and> find_row t tid = Some row' \<and>
      signed_attempt_state kind (tr_state row) = Some (tr_state row') \<and>
      tr_reservation row' = tr_reservation row \<and>
      tr_raw_signed_transaction row' = Some (se_raw_transaction e)"
    "pending_attempt_record request kind e \<in> set (js_transaction_attempts t)"
proof -
  let ?a = "pending_attempt_record request kind e"
  obtain m where m: "storage_mutation lib s (PersistSignedAttempt ?a) = Inr m"
      "next_state lib s (PersistSignedAttempt ?a) = Inr t"
    using assms(1) by (rule storage_request_mutation)
  then have "persist_signed_attempt lib s ?a = Inr m"
    by (simp add: storage_mutation_def)
  then obtain row row' where rows: "find_row s tid = Some row" "find_row m tid = Some row'"
      "signed_attempt_state kind (tr_state row) = Some (tr_state row')"
      "tr_reservation row' = tr_reservation row"
      "tr_raw_signed_transaction row' = Some (se_raw_transaction e)"
      and a: "?a \<in> set (js_transaction_attempts m)"
    by (elim persist_signed_attempt_row) (simp add: pending_attempt_record_def tid_def)
  have active: "is_active_lifecycle (tr_state row')"
    using rows(3) signed_attempt_state_permits [OF rows(3)] by (auto simp: is_active_lifecycle_def)
  note survives = active_row_survives [OF m(2,1) rows(2) active]
  show "\<exists>row row'. find_row s tid = Some row \<and> find_row t tid = Some row' \<and>
      signed_attempt_state kind (tr_state row) = Some (tr_state row') \<and>
      tr_reservation row' = tr_reservation row \<and>
      tr_raw_signed_transaction row' = Some (se_raw_transaction e)"
    using rows survives(1) by blast
  show "?a \<in> set (js_transaction_attempts t)"
    by (rule survives(2) [OF a]) (simp add: pending_attempt_record_def tid_def)
qed

lemma attempt_transition_row:
  assumes "storage_request lib s (TransitionTransaction
      (pending_attempt_transition request signed_state submitted_state e), outcome) = (t, Inr u)"
    and "submitted_state \<in> {Replaced, CancellationSubmitted}"
  defines "tid \<equiv> vq_transaction_id (pa_pending request)"
  shows "\<exists>row. find_row t tid = Some row \<and> tr_state row = submitted_state \<and>
    tr_transaction_hash row = Some (se_transaction_hash e)"
proof -
  let ?t = "pending_attempt_transition request signed_state submitted_state e"
  obtain m where m: "storage_mutation lib s (TransitionTransaction ?t) = Inr m"
      "next_state lib s (TransitionTransaction ?t) = Inr t"
    using assms(1) by (rule storage_request_mutation)
  then obtain row as where row: "find_row s tid = Some row"
      and m': "m = update_row tid (transitioned_row ?t) (s\<lparr>js_transaction_attempts := as\<rparr>)"
    using assms(2) by (auto simp: storage_mutation_def transition_transaction_def tid_def
        pending_attempt_transition_def result_simps Let_def split: if_splits
        dest!: record_transition_broadcast_Inr)
  have "find_row (s\<lparr>js_transaction_attempts := as\<rparr>) tid = Some row"
    using row by (simp add: find_row_def)
  then have found: "find_row m tid = Some (transitioned_row ?t row)"
    unfolding m' by (rule find_row_update_row) simp
  have "find_row t tid = Some (transitioned_row ?t row)"
    by (rule active_row_survives(1) [OF m(2,1) found])
      (use assms(2) in \<open>auto simp: is_active_lifecycle_def pending_attempt_transition_def\<close>)
  then show ?thesis
    by (simp add: pending_attempt_transition_def transitioned_row_def)
qed

subsection \<open>Properties\<close>

lemma sign_durable_Inr:
  assumes "sign_durable_rebalance lib s outcome signer request request_id = (s', Inr e)"
  obtains row row' where
    "sign_rebalance signer \<lparr> sq_request_id = request_id, sq_transaction = dr_transaction request \<rparr> = Inr e"
    "find_row s (dr_transaction_id request) = Some row" "tr_state row = NonceReserved"
    "find_row s' (dr_transaction_id request) = Some row'" "tr_state row' = Signed"
    "tr_reservation row' = tr_reservation row"
    "tr_raw_signed_transaction row' = Some (se_raw_transaction e)"
    "tr_transaction_hash row' = Some (se_transaction_hash e)"
proof -
  let ?c = "PersistSignedTransaction (signed_record request e)"
  from assms have answer: "sign_rebalance signer
      \<lparr> sq_request_id = request_id, sq_transaction = dr_transaction request \<rparr> = Inr e"
    by (auto simp: sign_durable_rebalance_def split: sum.splits prod.splits)
  from assms have "storage_request lib s (?c, outcome) = (s', Inr ())"
    by (auto simp: sign_durable_rebalance_def split: sum.splits prod.splits)
  then obtain m where m: "storage_mutation lib s ?c = Inr m" "next_state lib s ?c = Inr s'"
    by (rule storage_request_mutation)
  then have "persist_signed lib s (signed_record request e) = Inr m"
    by (simp add: storage_mutation_def)
  then obtain row row' where row: "find_row s (dr_transaction_id request) = Some row" "tr_state row = NonceReserved"
    and row': "find_row m (dr_transaction_id request) = Some row'" "tr_state row' = Signed"
      "tr_reservation row' = tr_reservation row"
      "tr_raw_signed_transaction row' = Some (se_raw_transaction e)"
      "tr_transaction_hash row' = Some (se_transaction_hash e)"
    by (elim persist_signed_row) (simp add: signed_record_def)
  have "find_row s' (dr_transaction_id request) = Some row'"
    by (rule active_row_survives(1) [OF m(2,1) row'(1)]) (simp add: row'(2) is_active_lifecycle_def)
  then show ?thesis
    by (rule that [OF answer row _ row'(2-)])
qed

lemma sign_durable_signer_error:
  assumes "sign_durable_rebalance lib s outcome signer request request_id = (s', Inl (BoundarySigner err))"
    and "storage_reachable lib s"
  shows "sign_rebalance signer \<lparr> sq_request_id = request_id, sq_transaction = dr_transaction request \<rparr> = Inl err"
    "\<forall>row \<in> set (js_transactions s'). row_id row = dr_transaction_id request \<longrightarrow>
      tr_state row = AbortedBeforeSigning"
    "\<not> (\<exists>r \<in> set (js_rate_movement_reservations s'). owns_pending_movement (dr_transaction_id request) r)"
proof -
  let ?tid = "dr_transaction_id request"
  let ?t = "abort_transition ?tid (dr_created_at request)"
  from assms(1) show "sign_rebalance signer
      \<lparr> sq_request_id = request_id, sq_transaction = dr_transaction request \<rparr> = Inl err"
    by (auto simp: sign_durable_rebalance_def split: sum.splits prod.splits)
  from assms(1) have "storage_request lib s (TransitionTransaction ?t, outcome) = (s', Inr ())"
    by (auto simp: sign_durable_rebalance_def split: sum.splits prod.splits)
  then obtain m where m: "storage_mutation lib s (TransitionTransaction ?t) = Inr m"
      "next_state lib s (TransitionTransaction ?t) = Inr s'"
    by (rule storage_request_mutation)
  then have "transition_transaction s ?t = Inr m"
    by (simp add: storage_mutation_def)
  then obtain row where row: "find_row s ?tid = Some row"
      and rows: "js_transactions m = update_first (has_id ?tid) (transitioned_row ?t) (js_transactions s)"
      and free: "\<not> (\<exists>r \<in> set (js_rate_movement_reservations m). owns_pending_movement ?tid r)"
    by (rule abort_Inr)
  show "\<forall>row \<in> set (js_transactions s'). row_id row = ?tid \<longrightarrow> tr_state row = AbortedBeforeSigning"
    using next_state_subsets(1) [OF m(2,1)] aborted_rows [OF reachable_distinct [OF assms(2)] row, of _ ?t]
    by (auto simp: rows abort_transition_def)
  show "\<not> (\<exists>r \<in> set (js_rate_movement_reservations s'). owns_pending_movement ?tid r)"
    using next_state_subsets(2) [OF m(2,1)] free by auto
qed

text \<open>
  With durable files and an answered request, signing a reserved row reports exactly what the signer
  said: neither the store nor its accounting adds an error of its own.
\<close>

lemma sign_durable_total:
  assumes "storage_reachable lib s" "Suc (js_revision s) < two64"
    and "find_row s (dr_transaction_id request) = Some row" "tr_state row = NonceReserved"
    and "\<And>e. sign_rebalance signer \<lparr> sq_request_id = request_id, sq_transaction = dr_transaction request \<rparr> = Inr e
      \<Longrightarrow> se_raw_transaction e \<noteq> [] \<and> keccak256 lib (se_raw_transaction e) = se_transaction_hash e"
  shows "snd (sign_durable_rebalance lib s (Answered Durable) signer request request_id)
    = map_err BoundarySigner
        (sign_rebalance signer \<lparr> sq_request_id = request_id, sq_transaction = dr_transaction request \<rparr>)"
proof (cases "sign_rebalance signer \<lparr> sq_request_id = request_id, sq_transaction = dr_transaction request \<rparr>")
  case (Inl err)
  let ?t = "abort_transition (dr_transaction_id request) (dr_created_at request)"
  obtain m where "storage_mutation lib s (TransitionTransaction ?t) = Inr m" "js_revision m = js_revision s"
    using abort_total [OF storage_reachable_balanced [OF assms(1)] assms(3,4), of "dr_created_at request"]
    by (auto simp: storage_mutation_def)
  then obtain s' where "storage_request lib s (TransitionTransaction ?t, Answered Durable) = (s', Inr ())"
    using request_durable [of lib s _ m] assms(2) by auto
  with Inl show ?thesis
    by (simp add: sign_durable_rebalance_def)
next
  case (Inr e)
  let ?c = "PersistSignedTransaction (signed_record request e)"
  obtain m where "storage_mutation lib s ?c = Inr m" "js_revision m = js_revision s"
    using assms(3,4) assms(5) [OF Inr]
    by (auto simp: storage_mutation_def persist_signed_def signed_record_def update_row_def Let_def)
  then obtain s' where "storage_request lib s (?c, Answered Durable) = (s', Inr ())"
    using request_durable [of lib s _ m] assms(2) by auto
  with Inr show ?thesis
    by (simp add: sign_durable_rebalance_def)
qed

lemma sign_durable_storage_error:
  assumes "sign_durable_rebalance lib s outcome signer request request_id = (s', Inl (BoundaryStorage err))"
    and "s' \<noteq> s"
  shows "\<exists>row. find_row s (dr_transaction_id request) = Some row \<and> tr_state row = NonceReserved"
proof -
  from assms(1) obtain c r where request: "storage_request lib s (c, outcome) = (s', r)"
      and c: "c = TransitionTransaction (abort_transition (dr_transaction_id request) (dr_created_at request))
        \<or> (\<exists>e. c = PersistSignedTransaction (signed_record request e))"
    by (auto simp: sign_durable_rebalance_def split: sum.splits prod.splits)
  from storage_request_state [OF request] assms(2) obtain m where m: "storage_mutation lib s c = Inr m"
    by (auto elim: next_state_Inr)
  from c show ?thesis
  proof (elim disjE exE)
    assume "c = TransitionTransaction (abort_transition (dr_transaction_id request) (dr_created_at request))"
    with m have "transition_transaction s
        (abort_transition (dr_transaction_id request) (dr_created_at request)) = Inr m"
      by (simp add: storage_mutation_def)
    then show ?thesis by (rule abort_Inr) blast
  next
    fix e
    assume "c = PersistSignedTransaction (signed_record request e)"
    with m have "persist_signed lib s (signed_record request e) = Inr m"
      by (simp add: storage_mutation_def)
    then show ?thesis by (rule persist_signed_row) (auto simp: signed_record_def)
  qed
qed

text \<open>
  C35. The signing boundary fails closed. Whatever the queue and the files do, signed bytes are returned
  only when they are the durable signed row of the request and sign exactly the validated transaction; an
  error of the signer is returned only when the reservation is durably aborted and the movement it held
  is released; an error of the store returns no bytes and moves at most the reserved row; and when the
  request is answered from durable files, the result is exactly the answer of the signer.
\<close>

theorem signing_boundary:
  assumes "storage_reachable lib s"
    and "sign_durable_rebalance lib s outcome signer request request_id = (s', result)"
    and "signer = local_development_routine_signer lib env key \<or>
      signer = remote_routine_signer lib env codec post policy"
    and "decode_2718 env [] = None"
  shows "(let tid = dr_transaction_id request;
       question = \<lparr> sq_request_id = request_id, sq_transaction = dr_transaction request \<rparr>;
       answer = sign_rebalance signer question in
     (case result of
        Inr e \<Rightarrow> answer = Inr e \<and> signs lib env e (expected_rebalance question) \<and>
          (\<exists>row. find_row s' tid = Some row \<and> tr_state row = Signed \<and>
             tr_raw_signed_transaction row = Some (se_raw_transaction e) \<and>
             tr_transaction_hash row = Some (se_transaction_hash e))
      | Inl (BoundarySigner err) \<Rightarrow> answer = Inl err \<and>
          (\<forall>row \<in> set (js_transactions s'). row_id row = tid \<longrightarrow> tr_state row = AbortedBeforeSigning) \<and>
          \<not> (\<exists>r \<in> set (js_rate_movement_reservations s'). owns_pending_movement tid r)
      | Inl (BoundaryStorage err) \<Rightarrow>
          s' = s \<or> (\<exists>row. find_row s tid = Some row \<and> tr_state row = NonceReserved)
      | Inl BoundaryIdentity \<Rightarrow> False) \<and>
     (\<forall>row. outcome = Answered Durable \<and> Suc (js_revision s) < two64 \<and>
        find_row s tid = Some row \<and> tr_state row = NonceReserved \<longrightarrow>
        result = map_err BoundarySigner answer))"
proof -
  let ?question = "\<lparr> sq_request_id = request_id, sq_transaction = dr_transaction request \<rparr>"
  have signs: "signs lib env e (expected_rebalance ?question)" if "sign_rebalance signer ?question = Inr e" for e
    using assms(3) that local_signer.rebalance remote_signer.rebalance by blast
  then have bytes: "se_raw_transaction e \<noteq> [] \<and> keccak256 lib (se_raw_transaction e) = se_transaction_hash e"
    if "sign_rebalance signer ?question = Inr e" for e
    using that assms(4) by (fastforce simp: signs_def)
  have exact: "result = map_err BoundarySigner (sign_rebalance signer ?question)"
    if "outcome = Answered Durable \<and> Suc (js_revision s) < two64 \<and>
        find_row s (dr_transaction_id request) = Some row \<and> tr_state row = NonceReserved" for row
    using sign_durable_total [OF assms(1), of request row signer request_id] that bytes assms(2) by simp
  have no_identity: "result \<noteq> Inl BoundaryIdentity"
    using assms(2) by (auto simp: sign_durable_rebalance_def split: sum.splits prod.splits)
  show ?thesis
  proof (cases result)
    case (Inr e)
    from assms(2) [unfolded Inr] show ?thesis
      by (rule sign_durable_Inr) (use signs exact Inr in \<open>simp add: Let_def\<close>)
  next
    case (Inl err)
    show ?thesis
    proof (cases err)
      case (BoundarySigner x)
      from sign_durable_signer_error [OF assms(2) [unfolded Inl BoundarySigner] assms(1)] exact Inl BoundarySigner
      show ?thesis by (simp add: Let_def)
    next
      case (BoundaryStorage x)
      from sign_durable_storage_error [OF assms(2) [unfolded Inl BoundaryStorage]] exact Inl BoundaryStorage
      show ?thesis by (simp add: Let_def) blast
    qed (use no_identity Inl in simp)
  qed
qed

definition witness_routine :: validated_routine_transaction where
  "witness_routine = \<lparr> vr_fields = \<lparr> rt_chain_id = 999, rt_from = 7, rt_to = 1, rt_nonce = 1,
     rt_gas_limit = 100000, rt_max_fee_per_gas = 30, rt_max_priority_fee_per_gas = 2, rt_value = 0,
     rt_calldata = [] \<rparr>, vr_plan_hash = 5 \<rparr>"

definition witness_replaced :: tx_eip1559 where
  "witness_replaced = (eip1559 witness_routine)
     \<lparr> tx_max_fee_per_gas := 40, tx_max_priority_fee_per_gas := 3 \<rparr>"

definition witness_envelopes :: "bool envelope_lib" where
  "witness_envelopes =
     \<lparr> decode_2718 = (\<lambda>b. if b = [1] then Some (EnvelopeEip1559 False, [])
         else if b = [1, 1] then Some (EnvelopeEip1559 True, []) else None),
       signed_tx = (\<lambda>replaced. if replaced then witness_replaced else eip1559 witness_routine),
       signed_hash = (\<lambda>replaced. if replaced then 2 else 1), recover_signer = (\<lambda>_. Some 7) \<rparr>"

definition witness_key :: local_key where
  "witness_key = \<lparr> lk_address = 7,
     lk_sign = (\<lambda>tx. if tx = witness_replaced then Some [1, 1] else Some [1]) \<rparr>"

definition witness_unsigned :: json_state where
  "witness_unsigned = storage_run witness_lib json_state_default
     [(ReserveNonce (witness_reservation 1), Durable)]"

definition witness_request :: durable_signing_request where
  "witness_request = \<lparr> dr_transaction_id = 1, dr_transaction = witness_routine, dr_created_at = 110,
     dr_movement_reservation = None \<rparr>"

lemma witness_unsigned_reachable: "storage_reachable witness_lib witness_unsigned"
  unfolding witness_unsigned_def storage_run_simps
  by (rule storage_reachable.Commit [OF storage_reachable.Empty]) (simp add: respects_movement_def)

lemma witness_unsigned_row:
  "js_revision witness_unsigned = 1"
  "\<exists>row. find_row witness_unsigned 1 = Some row \<and> tr_state row = NonceReserved"
  by (simp_all add: witness_unsigned_def evaluate_storage)

lemma witness_signs:
  "sign_rebalance (local_development_routine_signer witness_lib witness_envelopes witness_key)
     \<lparr> sq_request_id = 9, sq_transaction = witness_routine \<rparr>
   = Inr \<lparr> se_raw_transaction = [1], se_signer = 7, se_transaction_hash = 1 \<rparr>"
  by (simp add: local_development_routine_signer_def sign_expected_def expected_rebalance_def
      verify_signed_response_def witness_key_def witness_envelopes_def witness_routine_def
      witness_replaced_def eip1559_def witness_lib_def)

theorem signing_boundary_witness:
  "\<exists>s' row. sign_durable_rebalance witness_lib witness_unsigned (Answered Durable)
       (local_development_routine_signer witness_lib witness_envelopes witness_key) witness_request 9
     = (s', Inr \<lparr> se_raw_transaction = [1], se_signer = 7, se_transaction_hash = 1 \<rparr>)
   \<and> find_row s' 1 = Some row \<and> tr_raw_signed_transaction row = Some [1]"
proof -
  let ?signer = "local_development_routine_signer witness_lib witness_envelopes witness_key"
  obtain s' result where r: "sign_durable_rebalance witness_lib witness_unsigned (Answered Durable)
      ?signer witness_request 9 = (s', result)"
    by fastforce
  have "decode_2718 witness_envelopes [] = None"
    by (simp add: witness_envelopes_def)
  note boundary = signing_boundary [OF witness_unsigned_reachable r disjI1 [OF refl] this]
  from boundary witness_unsigned_row have "result
      = Inr \<lparr> se_raw_transaction = [1], se_signer = 7, se_transaction_hash = 1 \<rparr>"
    by (auto simp: witness_request_def witness_signs two64_def Let_def)
  with boundary r show ?thesis
    by (auto simp: witness_request_def Let_def)
qed

lemma execute_pending_attempt_submits:
  assumes "execute_pending_attempt lib s outcomes signer submit execution request = (s', submissions, result)"
    and "submissions \<noteq> []"
  obtains kind signed_state submitted_state e t where
    "validate_replacement_fees (vq_current_max_fee_per_gas (pa_pending request))
      (vq_current_max_priority_fee_per_gas (pa_pending request)) (pa_max_fee_per_gas request)
      (pa_max_priority_fee_per_gas request) (ec_maximum_fee_per_gas_wei execution) = Inr ()"
    "sign_pending_attempt signer execution request = Inr (kind, signed_state, submitted_state, e)"
    "storage_request lib s (PersistSignedAttempt (pending_attempt_record request kind e), fst outcomes) = (t, Inr ())"
    "submissions = [(t, se_raw_transaction e)]"
    "\<And>h. result = Inr (Broadcast h) \<Longrightarrow> h = se_transaction_hash e \<and>
      (\<exists>s2. storage_request lib s2 (TransitionTransaction
        (pending_attempt_transition request signed_state submitted_state e), snd (snd outcomes)) = (s', Inr ()))"
proof -
  obtain persisted recorded transitioned where o: "outcomes = (persisted, recorded, transitioned)"
    by (cases outcomes)
  note run = assms(1) [unfolded execute_pending_attempt_def o Let_def prod.case]
  from run assms(2) have fees: "validate_replacement_fees (vq_current_max_fee_per_gas (pa_pending request))
      (vq_current_max_priority_fee_per_gas (pa_pending request)) (pa_max_fee_per_gas request)
      (pa_max_priority_fee_per_gas request) (ec_maximum_fee_per_gas_wei execution) = Inr ()"
    by (auto split: if_splits sum.splits)
  from run assms(2) fees obtain kind signed_state submitted_state e where
    signed: "sign_pending_attempt signer execution request = Inr (kind, signed_state, submitted_state, e)"
    by (auto split: if_splits sum.splits)
  from run assms(2) fees signed obtain t where
    persist: "storage_request lib s (PersistSignedAttempt (pending_attempt_record request kind e), persisted) = (t, Inr ())"
    by (auto split: if_splits sum.splits prod.splits)
  have rest: "submissions = [(t, se_raw_transaction e)]"
    using run assms(2) fees signed persist by (auto split: if_splits sum.splits prod.splits)
  have "h = se_transaction_hash e \<and> (\<exists>s2. storage_request lib s2 (TransitionTransaction
      (pending_attempt_transition request signed_state submitted_state e), transitioned) = (s', Inr ()))"
    if "result = Inr (Broadcast h)" for h
  proof -
    from run assms(2) fees signed persist that obtain s2 where
      "storage_request lib s2 (TransitionTransaction
        (pending_attempt_transition request signed_state submitted_state e), transitioned) = (s', Inr ())"
      "submission_result (se_transaction_hash e) (submit (se_raw_transaction e)) = Inr (Broadcast h)"
      by (auto split: if_splits sum.splits prod.splits)
    then show ?thesis
      by (auto simp: submission_result_def split: sum.splits if_splits)
  qed
  with fees signed persist rest show ?thesis
    by (intro that) (simp_all add: o)
qed

lemma execute_pending_attempt_single:
  assumes "execute_pending_attempt lib s outcomes signer submit execution request = (s', submissions, result)"
  shows "length submissions \<le> 1"
proof (cases "submissions = []")
  case False
  with assms show ?thesis by (rule execute_pending_attempt_submits) simp
qed simp

definition broadcast_ready ::
  "evm_lib \<Rightarrow> 's envelope_lib \<Rightarrow> validated_execution_config \<Rightarrow> pending_attempt_request \<Rightarrow> json_state \<Rightarrow>
     json_state \<Rightarrow> bytes \<Rightarrow> bool" where
  "broadcast_ready lib env execution request s t raw \<longleftrightarrow>
     (let tid = vq_transaction_id (pa_pending request) in
      (\<exists>row row'. find_row s tid = Some row \<and> find_row t tid = Some row' \<and>
         permits (tr_state row) (tr_state row') \<and> tr_reservation row' = tr_reservation row \<and>
         tr_state row' \<in> {ReplacementSigned, CancellationSigned} \<and>
         tr_raw_signed_transaction row' = Some raw) \<and>
      (\<exists>a \<in> set (js_transaction_attempts t). sa_raw_signed_transaction a = raw \<and>
         attempt_matches tid (keccak256 lib raw) a) \<and>
      (\<exists>stx. decode_2718 env raw = Some (EnvelopeEip1559 stx, []) \<and>
         recover_signer env stx = Some (rt_from (vr_fields (vq_original (pa_pending request)))) \<and>
         attempt_transaction request (signed_tx env stx) \<and>
         vq_current_max_fee_per_gas (pa_pending request) < tx_max_fee_per_gas (signed_tx env stx) \<and>
         vq_current_max_priority_fee_per_gas (pa_pending request)
           < tx_max_priority_fee_per_gas (signed_tx env stx) \<and>
         tx_max_fee_per_gas (signed_tx env stx) \<le> ec_maximum_fee_per_gas_wei execution))"

lemma persisted_attempt_ready:
  assumes "validate_replacement_fees (vq_current_max_fee_per_gas (pa_pending request))
      (vq_current_max_priority_fee_per_gas (pa_pending request)) (pa_max_fee_per_gas request)
      (pa_max_priority_fee_per_gas request) (ec_maximum_fee_per_gas_wei execution) = Inr ()"
    and "storage_request lib s (PersistSignedAttempt (pending_attempt_record request kind e), outcome) = (t, Inr ())"
    and "kind \<in> {Replacement, Cancellation}" "se_transaction_hash e = keccak256 lib (se_raw_transaction e)"
    and "decode_2718 env (se_raw_transaction e) = Some (EnvelopeEip1559 stx, [])"
      "recover_signer env stx = Some (rt_from (vr_fields (vq_original (pa_pending request))))"
      "attempt_transaction request (signed_tx env stx)"
  shows "broadcast_ready lib env execution request s t (se_raw_transaction e)"
proof -
  obtain row row' where rows: "find_row s (vq_transaction_id (pa_pending request)) = Some row"
      "find_row t (vq_transaction_id (pa_pending request)) = Some row'"
      "signed_attempt_state kind (tr_state row) = Some (tr_state row')"
      "tr_reservation row' = tr_reservation row"
      "tr_raw_signed_transaction row' = Some (se_raw_transaction e)"
    using attempt_request_durable(1) [OF assms(2,3)] by blast
  have attempt: "\<exists>a \<in> set (js_transaction_attempts t). sa_raw_signed_transaction a = se_raw_transaction e \<and>
      attempt_matches (vq_transaction_id (pa_pending request)) (keccak256 lib (se_raw_transaction e)) a"
    by (rule bexI [OF _ attempt_request_durable(2) [OF assms(2,3)]])
      (simp add: attempt_matches_def pending_attempt_record_def assms(4))
  have fees: "vq_current_max_fee_per_gas (pa_pending request) < tx_max_fee_per_gas (signed_tx env stx)"
    "vq_current_max_priority_fee_per_gas (pa_pending request) < tx_max_priority_fee_per_gas (signed_tx env stx)"
    "tx_max_fee_per_gas (signed_tx env stx) \<le> ec_maximum_fee_per_gas_wei execution"
    using assms(1,7) by (auto simp: validate_replacement_fees_def attempt_transaction_def Let_def split: if_splits)
  show ?thesis
    unfolding broadcast_ready_def Let_def
    using rows signed_attempt_state_permits [OF rows(3)] attempt assms(5-7) fees by blast
qed

text \<open>
  C36. A replacement or cancellation reaches the provider at most once per attempt, and only bytes that
  are durable at that moment: as the signed row of the transaction and as one of its recorded attempts,
  reached by a permitted step of the same reservation. The bytes decode to a transaction of the original
  account and nonce, with the original call or with none, at fees strictly above the previous attempt and
  within the configured ceiling. A reported broadcast leaves the row submitted under the hash of those
  bytes.
\<close>

theorem pending_attempt_durable_first:
  assumes "execute_pending_attempt lib s outcomes signer submit execution request = (s', submissions, result)"
    and "signer = local_development_routine_signer lib env key \<or>
      signer = remote_routine_signer lib env codec post policy"
  shows "length submissions \<le> 1 \<and>
    (\<forall>(t, raw) \<in> set submissions. broadcast_ready lib env execution request s t raw \<and>
       (\<forall>h. result = Inr (Broadcast h) \<longrightarrow> h = keccak256 lib raw \<and>
          (\<exists>row. find_row s' (vq_transaction_id (pa_pending request)) = Some row \<and>
             tr_state row \<in> {Replaced, CancellationSubmitted} \<and> tr_transaction_hash row = Some h)))"
proof (cases "submissions = []")
  case False
  from assms(1) False show ?thesis
  proof (rule execute_pending_attempt_submits)
    fix kind signed_state submitted_state e t
    assume fees: "validate_replacement_fees (vq_current_max_fee_per_gas (pa_pending request))
        (vq_current_max_priority_fee_per_gas (pa_pending request)) (pa_max_fee_per_gas request)
        (pa_max_priority_fee_per_gas request) (ec_maximum_fee_per_gas_wei execution) = Inr ()"
      and signed: "sign_pending_attempt signer execution request = Inr (kind, signed_state, submitted_state, e)"
      and persist: "storage_request lib s (PersistSignedAttempt (pending_attempt_record request kind e), fst outcomes)
        = (t, Inr ())"
      and submissions: "submissions = [(t, se_raw_transaction e)]"
      and finished: "\<And>h. result = Inr (Broadcast h) \<Longrightarrow> h = se_transaction_hash e \<and>
        (\<exists>s2. storage_request lib s2 (TransitionTransaction
          (pending_attempt_transition request signed_state submitted_state e), snd (snd outcomes)) = (s', Inr ()))"
    have "restricted_signer lib env signer"
      using assms(2) local_signer.restricted_signer_axioms remote_signer.restricted_signer_axioms by blast
    note verified = restricted_signer.pending_attempt_signs [OF this signed]
    have states: "kind \<in> {Replacement, Cancellation}" "submitted_state \<in> {Replaced, CancellationSubmitted}"
      using verified(1) by auto
    obtain stx where stx: "decode_2718 env (se_raw_transaction e) = Some (EnvelopeEip1559 stx, [])"
        "recover_signer env stx = Some (rt_from (vr_fields (vq_original (pa_pending request))))"
        "attempt_transaction request (signed_tx env stx)"
      using verified(3) by (elim exE conjE)
    have ready: "broadcast_ready lib env execution request s t (se_raw_transaction e)"
      by (rule persisted_attempt_ready [OF fees persist states(1) verified(2) stx])
    have submitted: "h = keccak256 lib (se_raw_transaction e) \<and>
        (\<exists>row. find_row s' (vq_transaction_id (pa_pending request)) = Some row \<and>
          tr_state row \<in> {Replaced, CancellationSubmitted} \<and> tr_transaction_hash row = Some h)"
      if "result = Inr (Broadcast h)" for h
    proof -
      from finished [OF that] obtain s2 where h: "h = se_transaction_hash e"
          and moved: "storage_request lib s2 (TransitionTransaction
            (pending_attempt_transition request signed_state submitted_state e), snd (snd outcomes)) = (s', Inr ())"
        by (elim conjE exE)
      from attempt_transition_row [OF moved states(2)] show ?thesis
        using states(2) verified(2) by (elim exE) (simp add: h)
    qed
    show ?thesis
      unfolding submissions using ready submitted by simp
  qed
qed simp

definition witness_execution :: validated_execution_config where
  "witness_execution =
     \<lparr> ec_expected_inclusion_opportunities = 1, ec_maximum_inclusion_opportunities = 8,
       ec_maximum_rate_rebalance_pending_opportunities = 6,
       ec_maximum_capital_deployment_pending_opportunities = 6,
       ec_maximum_liquidity_maintenance_pending_opportunities = 6,
       ec_identical_rebroadcast_after_opportunities = 1, ec_replacement_after_opportunities = 2,
       ec_cancel_when_opportunities_remaining = 1, ec_receipt_confirmation_evm_blocks = 1,
       ec_maximum_actions = 4, ec_maximum_signed_transaction_gas = 200000, ec_gas_headroom_bps = 1000,
       ec_maximum_fee_per_gas_wei = 50, ec_maximum_daily_gas_spend_wei = 1000000 \<rparr>"

definition witness_attempt :: pending_attempt_request where
  "witness_attempt = \<lparr> pa_pending = from_submitted 1 witness_routine, pa_expected_state = Submitted,
     pa_decision = Replace, pa_signer_request_id = 9, pa_max_fee_per_gas = 40,
     pa_max_priority_fee_per_gas = 3, pa_cancellation_gas_limit = 0, pa_created_at = 120,
     pa_signed_block = 11 \<rparr>"

lemma witness_attempt_signs:
  "sign_pending_attempt (local_development_routine_signer witness_lib witness_envelopes witness_key)
     witness_execution witness_attempt
   = Inr (Replacement, ReplacementSigned, Replaced,
       \<lparr> se_raw_transaction = [1, 1], se_signer = 7, se_transaction_hash = 2 \<rparr>)"
  by (simp add: sign_pending_attempt_def witness_attempt_def from_submitted_def
      local_development_routine_signer_def sign_expected_def expected_replacement_def fees_not_higher_def
      verify_signed_response_def witness_key_def witness_envelopes_def witness_routine_def
      witness_replaced_def eip1559_def witness_lib_def)

lemma witness_attempt_run:
  "\<exists>s' t. execute_pending_attempt witness_lib witness_lane
       (Answered Durable, Answered Durable, Answered Durable)
       (local_development_routine_signer witness_lib witness_envelopes witness_key) (\<lambda>_. Inr 2)
       witness_execution witness_attempt = (s', [(t, [1, 1])], Inr (Broadcast 2))"
  unfolding execute_pending_attempt_def Let_def prod.case witness_attempt_signs
  by (simp add: validate_replacement_fees_def witness_attempt_def from_submitted_def attempt_permitted_def
      witness_routine_def witness_execution_def submission_result_def storage_request_def
      pending_attempt_record_def pending_attempt_transition_def persist_signed_attempt_def
      signed_attempt_state_def record_attempt_broadcast_def witness_lane_def evaluate_storage)

theorem pending_attempt_durable_first_witness:
  "\<exists>s' t. execute_pending_attempt witness_lib witness_lane
       (Answered Durable, Answered Durable, Answered Durable)
       (local_development_routine_signer witness_lib witness_envelopes witness_key) (\<lambda>_. Inr 2)
       witness_execution witness_attempt = (s', [(t, [1, 1])], Inr (Broadcast 2)) \<and>
     broadcast_ready witness_lib witness_envelopes witness_execution witness_attempt witness_lane t [1, 1]"
proof -
  obtain s' t where run: "execute_pending_attempt witness_lib witness_lane
       (Answered Durable, Answered Durable, Answered Durable)
       (local_development_routine_signer witness_lib witness_envelopes witness_key) (\<lambda>_. Inr 2)
       witness_execution witness_attempt = (s', [(t, [1, 1])], Inr (Broadcast 2))"
    using witness_attempt_run by blast
  with pending_attempt_durable_first [OF run disjI1 [OF refl]] show ?thesis
    by auto
qed

end
