(* ===== verification/Spec2Isabelle.thy ===== *)
theory Spec2Isabelle
  imports Firewall IdleLocks Simulator StorageMovement CapitalPlanner Lifecycle
begin

text \<open>
  A verification of RBot, the reallocation service of a Morpho Vault V2 (Rust, \<open>src/\<close>). The
  service reads an exact snapshot of the vault, projects it to a head, plans and simulates
  movements between idle, a liquidity adapter and direct market positions, validates a plan
  independently, and keeps durable records of every transaction it signs.

  \<^bold>\<open>How the parts interact.\<close> A snapshot (\<open>domain.rs\<close>) of the vault and its markets is accrued to the
  head by the protocol arithmetic (\<open>morpho/\<close>) and becomes a projection (\<open>state/projection.rs\<close>). The
  planners (\<open>planner/\<close>) enumerate candidate action lists over bounded lattices; the simulator
  (\<open>planner/simulator.rs\<close>) executes each of them and checks caps, losses and service floors. The best
  candidate becomes a plan, which the firewall (\<open>transaction/firewall.rs\<close>) validates again from the
  configuration alone, down to the bytes of the calldata. The storage actor (\<open>storage/\<close>) is the only
  writer of durable state: plans, nonce lanes, signed bytes, conformance and reconciliation records,
  episodes and their reserved movement.

  \<^bold>\<open>Theories.\<close>
  \<^item> \<open>Prelude\<close>: results, checked integer operations of each width, machines whose commands may
    fail and their refinement. \<open>OrderedMap\<close>: \<open>BTreeMap\<close> and \<open>BTreeSet\<close> as sorted lists behind an
    interface. \<open>Search\<close>: the monotone binary search of the simulator and the projection.
  \<^item> \<open>Domain\<close> (\<open>domain.rs\<close>), \<open>Config\<close> (validated structures of \<open>config.rs\<close> and
    \<open>config/top_k.rs\<close>): the data as records and datatypes with the fields of the source.
  \<^item> \<open>BlueMath\<close>, \<open>AdaptiveCurve\<close>, \<open>MarketAdapter\<close>, \<open>VaultV2\<close>, \<open>VaultV1Adapter\<close>, \<open>Caps\<close>: the protocol
    arithmetic of \<open>morpho/\<close> and \<open>state/caps.rs\<close>, at 256 bits. The lemmas bound rounding, show that
    accrual and adapter actions never dilute other shares, keep markets solvent, and that the rate
    model is total, monotone and banded.
  \<^item> \<open>IdleLocks\<close> (\<open>state/attribution.rs\<close>, \<open>state/idle_locks.rs\<close>): attribution of flows and the lock
    ledger, with the effect of every transaction on the locks.
  \<^item> \<open>Projection\<close> (\<open>state/projection.rs\<close>), \<open>Simulator\<close> (\<open>planner/simulator.rs\<close>): projection of a
    snapshot and sequential simulation of a plan; conservation of assets, caps, plan grammar, service
    floors.
  \<^item> \<open>Planner\<close> (\<open>planner/objective.rs\<close>, \<open>candidates.rs\<close>, \<open>certificate.rs\<close>, \<open>scheduler.rs\<close>),
    \<open>CapitalPlanner\<close> (\<open>planner/capital.rs\<close>): objectives as strict weak orders, lattices and exact
    enumeration of distributions, the bounded search for the largest deployment.
  \<^item> \<open>Episodes\<close> (\<open>planner/episodes.rs\<close>): the rate-signal episode as a state machine and its refinement
    of an account of budget, pending and confirmed movement.
  \<^item> \<open>Codec\<close> (\<open>transaction/encoder.rs\<close>, \<open>decoder.rs\<close>, \<open>contracts/selectors.rs\<close>), \<open>Firewall\<close>
    (\<open>transaction/firewall.rs\<close>): calldata round trips, canonical acceptance, and the declarative
    meaning of the plan check.
  \<^item> \<open>StorageModel\<close> (\<open>storage/models.rs\<close>), \<open>Storage\<close> (\<open>storage/actor.rs\<close>): the durable state with every
    mutation, rewind, compaction, migration, commit and query. \<open>StorageLane\<close>, \<open>StorageEvidence\<close>,
    \<open>StorageMovement\<close>: one unresolved transaction per signer, lifecycle edges, evidence behind final
    states, and the balance of reserved movement, over arbitrary command histories.
  \<^item> This theory: properties that span components.

  \<^bold>\<open>Locales.\<close> \<open>ordered_map\<close> (interpreted on sorted association lists), \<open>fallible_machine\<close> and its
  refinement extension (lock ledger, simulation, episodes, storage), \<open>threshold_search\<close> (exit
  capacity), \<open>ranking\<close> (objectives, scheduling keys, capital candidates).

  \<^bold>\<open>Conventions and bounds.\<close> Unsigned integers are naturals with the bound of their type in every
  checked operation, \<open>I256\<close> is \<open>int\<close> with its range checked; identifiers are words. Errors are the left
  side of a sum with the source's error constructors. Every definition is total: loops over
  collections are folds, the binary search terminates by a measure, the exponent series of the rate
  model is a fixed polynomial, so no fuel is needed. Keccak, the ABI codec, JSON serialization and the
  signer are arguments, with documented behaviour as named hypotheses of the theorems that need it;
  the concrete libraries \<open>witness_lib\<close> and \<open>codec_lib\<close> show that they can hold. Every theorem with a
  hypothesis is followed by a witness that applies it to a concrete configuration and snapshot.

  \<^bold>\<open>Not modelled.\<close> The asynchronous runtime and its services, RPC access and log decoding, snapshot
  acquisition, HTTP, telemetry, the command line, key handling and the loading of configuration files
  perform input and output or call libraries whose code is not part of the repository; what they
  deliver enters the model as arguments. Files and fsync of the storage journal appear only as the
  outcome a commit receives.
\<close>

subsection \<open>Properties that span components\<close>

text \<open>The simulator reads the library only through the adapter data.\<close>

lemma simulate_actions_codec: "simulate_actions codec_lib = simulate_actions witness_lib"
proof -
  have p: "configured_position codec_lib = configured_position witness_lib"
    by (intro ext) (unfold configured_position_def witness_codec_data, rule refl)
  have d: "direct_deallocation codec_lib = direct_deallocation witness_lib"
    by (intro ext) (unfold direct_deallocation_def p, rule refl)
  have a: "direct_allocation codec_lib = direct_allocation witness_lib"
    by (intro ext) (unfold direct_allocation_def p, rule refl)
  have sd: "simulate_deallocation codec_lib = simulate_deallocation witness_lib"
    by (intro ext) (unfold simulate_deallocation_def d, rule refl)
  have sa: "simulate_allocation codec_lib = simulate_allocation witness_lib"
    by (intro ext) (unfold simulate_allocation_def a, rule refl)
  have st: "simulate_step codec_lib = simulate_step witness_lib"
    by (intro ext) (unfold simulate_step_def sd sa, rule refl)
  show ?thesis by (intro ext) (unfold simulate_actions_def st, rule refl)
qed

text \<open>
  C1. What the firewall releases and the simulator accepts never piles up idle: simulated on any
  snapshot, a validated plan leaves at most the idle balance it found, exactly that balance for rate
  and top-k rebalances, still covers every idle lock, and moves what its projection declares.
\<close>

theorem released_plan_idle:
  assumes "validate_plan lib to_vec plan config = Inr validated"
    and "simulate_actions lib snapshot projection vault (pl_actions plan) = Inr t"
  shows "ss_vault_idle t \<le> pv_idle_assets (sn_parent snapshot) \<and>
    (pl_reason plan \<in> {RateRebalance, TopKApyRebalance} \<longrightarrow>
       ss_vault_idle t = pv_idle_assets (sn_parent snapshot)) \<and>
    ss_locked_idle t \<le> ss_vault_idle t \<and>
    pp_movement_assets (pl_projection plan)
      = max (allocated_assets (pl_actions plan)) (deallocated_assets (pl_actions plan))"
proof -
  from assms(1) obtain v n where "validate_plan_integrity lib to_vec plan v n = Inr validated"
    by (auto simp: validate_plan_def result_simps split: if_splits)
  then have v: "validate_actions lib plan v n = Inr ()" by (simp add: validate_plan_integrity_Inr)
  obtain s r where s: "from_projection snapshot projection = Inr s" and t: "sr_state r = t"
    and b: "run_balance s (pl_actions plan) r"
    using assms(2) by (rule simulate_actions_run)
  from from_projection_Inr [OF s] b
  have "ss_vault_idle t + allocated_assets (pl_actions plan)
      = pv_idle_assets (sn_parent snapshot) + deallocated_assets (pl_actions plan)"
    and "ss_locked_idle t \<le> ss_vault_idle t"
    by (auto simp: run_balance_def Let_def t)
  with v show ?thesis
    by (auto simp: validate_actions_iff movement_permitted_def Let_def)
qed

theorem released_plan_idle_witness:
  "\<exists>t. simulate_actions codec_lib witness_v1_snapshot witness_view witness_v1_config witness_actions
      = Inr t \<and> ss_vault_idle t \<le> 1000000"
proof -
  have "is_ok (simulate_actions codec_lib witness_v1_snapshot witness_view witness_v1_config witness_actions)"
    using witness_plan_simulates by (simp add: simulate_actions_codec)
  then obtain t where t: "simulate_actions codec_lib witness_v1_snapshot witness_view witness_v1_config
      (pl_actions (witness_plan witness_actions)) = Inr t"
    by (auto simp: is_ok_iff witness_plan_def)
  show ?thesis
    using released_plan_idle [OF witness_plan_validates(1) t] t
    by (auto simp: witness_plan_def witness_v1_snapshot_def witness_data)
qed

end
